(* ===== verification/Prelude.thy ===== *)
theory Prelude
  imports Complex_Main
begin

text \<open>
  The shared base of the gateway development: the collections of facts that
  the component proofs use by name, the result type every fallible operation
  of the model returns, and the generic lemmas on results, options and
  association lists that more than one component needs.
\<close>

section \<open>Collections of facts\<close>

text \<open>
  \<open>str_simps\<close> holds the equations of the Rust string library,
  \<open>result_simps\<close> the laws of \<open>?\<close>-style sequencing, \<open>mw_defs\<close> the
  definitions of the request middleware and \<open>inv_intros\<close> the preservation
  lemmas of the invariants.
\<close>

named_theorems str_simps
named_theorems result_simps
named_theorems mw_defs
named_theorems inv_intros

section \<open>Results\<close>

text \<open>
  Rust's \<^verbatim>\<open>Result<T, E>\<close> is the sum \<open>'e + 'a\<close>: \<open>Inl\<close> is \<^verbatim>\<open>Err\<close>
  and \<open>Inr\<close> is \<^verbatim>\<open>Ok\<close>.
\<close>

type_synonym ('e, 'a) result = "'e + 'a"

abbreviation Err :: "'e \<Rightarrow> ('e, 'a) result" where
  "Err \<equiv> Inl"

abbreviation Ok :: "'a \<Rightarrow> ('e, 'a) result" where
  "Ok \<equiv> Inr"

definition is_ok :: "('e, 'a) result \<Rightarrow> bool" where
  "is_ok r = (case r of Inl _ \<Rightarrow> False | Inr _ \<Rightarrow> True)"

text \<open>The \<^verbatim>\<open>?\<close> operator: go on with the value, or return the error early.\<close>

definition try_result :: "('e, 'a) result \<Rightarrow> ('a \<Rightarrow> ('e, 'b) result) \<Rightarrow> ('e, 'b) result" where
  "try_result r f = (case r of Inl e \<Rightarrow> Inl e | Inr a \<Rightarrow> f a)"

definition map_err :: "('e \<Rightarrow> 'f) \<Rightarrow> ('e, 'a) result \<Rightarrow> ('f, 'a) result" where
  "map_err f r = (case r of Inl e \<Rightarrow> Inl (f e) | Inr a \<Rightarrow> Inr a)"

definition ok_or :: "'e \<Rightarrow> 'a option \<Rightarrow> ('e, 'a) result" where
  "ok_or e x = (case x of None \<Rightarrow> Inl e | Some a \<Rightarrow> Inr a)"

definition result_ok :: "('e, 'a) result \<Rightarrow> 'a option" where
  "result_ok r = (case r of Inl _ \<Rightarrow> None | Inr a \<Rightarrow> Some a)"

lemma is_ok_simps [simp]: "\<not> is_ok (Inl e)" "is_ok (Inr a)"
  by (simp_all add: is_ok_def)

lemma try_result_simps [simp, result_simps]:
  "try_result (Inl e) f = Inl e"
  "try_result (Inr a) f = f a"
  by (simp_all add: try_result_def)

lemma try_result_Ok [result_simps]:
  "try_result r f = Inr b \<longleftrightarrow> (\<exists>a. r = Inr a \<and> f a = Inr b)"
  by (auto simp: try_result_def split: sum.splits)

lemma try_result_Err [result_simps]:
  "try_result r f = Inl e \<longleftrightarrow> r = Inl e \<or> (\<exists>a. r = Inr a \<and> f a = Inl e)"
  by (auto simp: try_result_def split: sum.splits)

lemma map_err_simps [simp, result_simps]:
  "map_err f (Inl e) = Inl (f e)"
  "map_err f (Inr a) = Inr a"
  by (simp_all add: map_err_def)

lemma map_err_eq [result_simps]:
  "map_err f r = Inr a \<longleftrightarrow> r = Inr a"
  "map_err f r = Inl e \<longleftrightarrow> (\<exists>x. r = Inl x \<and> e = f x)"
  by (auto simp: map_err_def split: sum.splits)

lemma ok_or_simps [simp, result_simps]:
  "ok_or e None = Inl e"
  "ok_or e (Some a) = Inr a"
  by (simp_all add: ok_or_def)

lemma result_ok_simps [simp, result_simps]:
  "result_ok (Inl e) = None"
  "result_ok (Inr a) = Some a"
  by (simp_all add: result_ok_def)

lemma result_ok_Some [simp]: "result_ok r = Some a \<longleftrightarrow> r = Inr a"
  by (cases r) simp_all

section \<open>Options\<close>

text \<open>\<^verbatim>\<open>Option::filter\<close>, \<^verbatim>\<open>Option::or\<close>, \<^verbatim>\<open>Option::zip\<close> and \<^verbatim>\<open>unwrap_or\<close>.\<close>

definition opt_filter :: "('a \<Rightarrow> bool) \<Rightarrow> 'a option \<Rightarrow> 'a option" where
  "opt_filter p x = (case x of None \<Rightarrow> None | Some a \<Rightarrow> if p a then Some a else None)"

definition opt_or :: "'a option \<Rightarrow> 'a option \<Rightarrow> 'a option" where
  "opt_or x y = (case x of None \<Rightarrow> y | Some a \<Rightarrow> Some a)"

definition unwrap_or :: "'a \<Rightarrow> 'a option \<Rightarrow> 'a" where
  "unwrap_or d x = (case x of None \<Rightarrow> d | Some a \<Rightarrow> a)"

definition opt_zip :: "'a option \<Rightarrow> 'b option \<Rightarrow> ('a \<times> 'b) option" where
  "opt_zip x y = (case x of None \<Rightarrow> None | Some a \<Rightarrow> map_option (Pair a) y)"

lemma opt_filter_simps [simp]:
  "opt_filter p None = None"
  "opt_filter p (Some a) = (if p a then Some a else None)"
  by (simp_all add: opt_filter_def)

lemma opt_filter_Some [simp]: "opt_filter p x = Some a \<longleftrightarrow> x = Some a \<and> p a"
  by (cases x) auto

lemma opt_or_simps [simp]:
  "opt_or None y = y"
  "opt_or (Some a) y = Some a"
  by (simp_all add: opt_or_def)

lemma unwrap_or_simps [simp]:
  "unwrap_or d None = d"
  "unwrap_or d (Some a) = a"
  by (simp_all add: unwrap_or_def)

lemma opt_zip_simps [simp]:
  "opt_zip None y = None"
  "opt_zip x None = None"
  "opt_zip (Some a) (Some b) = Some (a, b)"
  by (simp_all add: opt_zip_def split: option.splits)

lemma opt_zip_Some [simp]: "opt_zip x y = Some (a, b) \<longleftrightarrow> x = Some a \<and> y = Some b"
  by (cases x; cases y) auto

section \<open>First matches and association lists\<close>

text \<open>
  \<^verbatim>\<open>Iterator::find_map\<close>: the first element for which the function has an
  answer.
\<close>

fun find_map :: "('a \<Rightarrow> 'b option) \<Rightarrow> 'a list \<Rightarrow> 'b option" where
  "find_map f [] = None"
| "find_map f (x # xs) = (case f x of None \<Rightarrow> find_map f xs | Some y \<Rightarrow> Some y)"

definition filter_map :: "('a \<Rightarrow> 'b option) \<Rightarrow> 'a list \<Rightarrow> 'b list" where
  "filter_map f xs = concat (map (\<lambda>x. case f x of None \<Rightarrow> [] | Some y \<Rightarrow> [y]) xs)"

definition head_opt :: "'a list \<Rightarrow> 'a option" where
  "head_opt xs = (case xs of [] \<Rightarrow> None | x # _ \<Rightarrow> Some x)"

text \<open>Insertion into an ordered association list: replace in place, or append.\<close>

fun alist_set :: "'k \<Rightarrow> 'v \<Rightarrow> ('k \<times> 'v) list \<Rightarrow> ('k \<times> 'v) list" where
  "alist_set k v [] = [(k, v)]"
| "alist_set k v ((a, b) # ps) = (if a = k then (k, v) # ps else (a, b) # alist_set k v ps)"

lemma find_map_Some:
  "find_map f xs = Some y \<Longrightarrow> \<exists>x\<in>set xs. f x = Some y"
  by (induction xs) (auto split: option.splits)

lemma find_map_None: "find_map f xs = None \<longleftrightarrow> (\<forall>x\<in>set xs. f x = None)"
  by (induction xs) (auto split: option.splits)

lemma filter_map_simps [simp]:
  "filter_map f [] = []"
  "filter_map f (x # xs) = (case f x of None \<Rightarrow> filter_map f xs | Some y \<Rightarrow> y # filter_map f xs)"
  by (simp_all add: filter_map_def split: option.splits)

lemma set_filter_map [simp]: "set (filter_map f xs) = {y. \<exists>x\<in>set xs. f x = Some y}"
  by (induction xs) (auto split: option.splits)

lemma head_opt_simps [simp]:
  "head_opt [] = None"
  "head_opt (x # xs) = Some x"
  by (simp_all add: head_opt_def)

lemma head_opt_None [simp]: "head_opt xs = None \<longleftrightarrow> xs = []"
  by (cases xs) simp_all

lemma head_opt_mem: "head_opt xs = Some x \<Longrightarrow> x \<in> set xs"
  by (cases xs) auto

lemma map_of_alist_set [simp]: "map_of (alist_set k v ps) = (map_of ps)(k \<mapsto> v)"
  by (induction k v ps rule: alist_set.induct) (auto simp: fun_eq_iff)

lemma keys_alist_set: "set (map fst (alist_set k v ps)) = insert k (set (map fst ps))"
  by (induction k v ps rule: alist_set.induct) auto

lemma alist_set_mem: "x \<in> set (alist_set k v ps) \<Longrightarrow> x = (k, v) \<or> x \<in> set ps"
  by (induction k v ps rule: alist_set.induct) (auto split: if_splits)

lemma distinct_alist_set:
  "distinct (map fst ps) \<Longrightarrow> distinct (map fst (alist_set k v ps))"
proof (induction k v ps rule: alist_set.induct)
  case (2 k v a b ps)
  then show ?case using keys_alist_set [of k v ps] by auto
qed simp

end
