(* ===== verification/Rust_Str.thy ===== *)
theory Rust_Str
  imports Prelude
begin

text \<open>
  The part of Rust's string library that the gateway uses, on byte strings: a
  Rust \<^verbatim>\<open>str\<close> is the sequence of its UTF-8 bytes, each an Isabelle
  \<^typ>\<open>char\<close>, so that \<^verbatim>\<open>len()\<close> is \<^const>\<open>length\<close>.
\<close>

section \<open>Unicode white space on UTF-8 bytes\<close>

text \<open>
  The length in bytes of the white-space character at the front of a string,
  0 if there is none: U+0009..U+000D, U+0020, U+0085, U+00A0, U+1680,
  U+2000..U+200A, U+2028, U+2029, U+202F, U+205F and U+3000, as
  \<^verbatim>\<open>char::is_whitespace\<close>.
\<close>

definition ws1 :: "char \<Rightarrow> bool" where
  "ws1 a = (let x = (of_char a :: nat) in (9 \<le> x \<and> x \<le> 13) \<or> x = 32)"

definition ws2 :: "char \<Rightarrow> char \<Rightarrow> bool" where
  "ws2 a b = (a = CHR 0xC2 \<and> (b = CHR 0x85 \<or> b = CHR 0xA0))"

definition ws3 :: "char \<Rightarrow> char \<Rightarrow> char \<Rightarrow> bool" where
  "ws3 a b c = (let z = (of_char c :: nat) in
     (a = CHR 0xE1 \<and> b = CHR 0x9A \<and> z = 0x80)
   \<or> (a = CHR 0xE2 \<and> b = CHR 0x80 \<and>
        ((0x80 \<le> z \<and> z \<le> 0x8A) \<or> z = 0xA8 \<or> z = 0xA9 \<or> z = 0xAF))
   \<or> (a = CHR 0xE2 \<and> b = CHR 0x81 \<and> z = 0x9F)
   \<or> (a = CHR 0xE3 \<and> b = CHR 0x80 \<and> z = 0x80))"

fun ws_len :: "string \<Rightarrow> nat" where
  "ws_len [] = 0"
| "ws_len [a] = (if ws1 a then 1 else 0)"
| "ws_len [a, b] = (if ws1 a then 1 else if ws2 a b then 2 else 0)"
| "ws_len (a # b # c # s) =
     (if ws1 a then 1 else if ws2 a b then 2 else if ws3 a b c then 3 else 0)"

text \<open>The same at the end of a string, read from the reversed bytes.\<close>

fun ws_len_rev :: "string \<Rightarrow> nat" where
  "ws_len_rev [] = 0"
| "ws_len_rev [a] = (if ws1 a then 1 else 0)"
| "ws_len_rev [b, a] = (if ws1 b then 1 else if ws2 a b then 2 else 0)"
| "ws_len_rev (c # b # a # s) =
     (if ws1 c then 1 else if ws2 b c then 2 else if ws3 a b c then 3 else 0)"

lemma ws_len_le: "ws_len s \<le> length s"
  by (cases s rule: ws_len.cases) auto

lemma ws_len_rev_le: "ws_len_rev s \<le> length s"
  by (cases s rule: ws_len_rev.cases) auto

section \<open>Trimming\<close>

function trim_start :: "string \<Rightarrow> string" where
  "trim_start s = (if ws_len s = 0 then s else trim_start (drop (ws_len s) s))"
  by pat_completeness auto
termination
proof (relation "measure length")
  fix s :: string
  assume "ws_len s \<noteq> 0"
  then show "(drop (ws_len s) s, s) \<in> measure length"
    using ws_len_le [of s] by simp
qed simp

text \<open>\<open>trim_rev\<close> strips the trailing white space of a reversed string.\<close>

function trim_rev :: "string \<Rightarrow> string" where
  "trim_rev s = (if ws_len_rev s = 0 then s else trim_rev (drop (ws_len_rev s) s))"
  by pat_completeness auto
termination
proof (relation "measure length")
  fix s :: string
  assume "ws_len_rev s \<noteq> 0"
  then show "(drop (ws_len_rev s) s, s) \<in> measure length"
    using ws_len_rev_le [of s] by simp
qed simp

declare trim_start.simps [simp del] trim_rev.simps [simp del]

definition trim_end :: "string \<Rightarrow> string" where
  "trim_end s = rev (trim_rev (rev s))"

definition trim :: "string \<Rightarrow> string" where
  "trim s = trim_end (trim_start s)"

lemma ws_len_trim_start [simp]: "ws_len (trim_start s) = 0"
  by (induction s rule: trim_start.induct) (subst trim_start.simps, simp)

lemma ws_len_trim_rev [simp]: "ws_len_rev (trim_rev s) = 0"
  by (induction s rule: trim_rev.induct) (subst trim_rev.simps, simp)

lemma trim_start_id: "ws_len s = 0 \<Longrightarrow> trim_start s = s"
  by (simp add: trim_start.simps)

lemma trim_rev_id: "ws_len_rev s = 0 \<Longrightarrow> trim_rev s = s"
  by (simp add: trim_rev.simps)

lemma trim_rev_suffix: "\<exists>p. s = p @ trim_rev s"
proof (induction s rule: trim_rev.induct)
  case (1 s)
  show ?case
  proof (cases "ws_len_rev s = 0")
    case True
    then show ?thesis by (simp add: trim_rev_id)
  next
    case False
    with 1 obtain p where p: "drop (ws_len_rev s) s = p @ trim_rev (drop (ws_len_rev s) s)"
      by blast
    have "s = take (ws_len_rev s) s @ drop (ws_len_rev s) s" by simp
    also have "\<dots> = (take (ws_len_rev s) s @ p) @ trim_rev (drop (ws_len_rev s) s)"
      using p by simp
    also have "trim_rev (drop (ws_len_rev s) s) = trim_rev s"
      using False by (subst (2) trim_rev.simps) simp
    finally show ?thesis by blast
  qed
qed

lemma trim_end_prefix: "\<exists>q. s = trim_end s @ q"
proof -
  obtain p where "rev s = p @ trim_rev (rev s)" using trim_rev_suffix by blast
  then have "rev (rev s) = rev (trim_rev (rev s)) @ rev p" by (metis rev_append)
  then show ?thesis by (auto simp: trim_end_def)
qed

text \<open>
  White space at the front of a string is white space at the front of every
  extension of it, so cutting the end never uncovers white space at the front.
\<close>

lemma ws_len_append: "ws_len s \<noteq> 0 \<Longrightarrow> ws_len (s @ q) \<noteq> 0"
  by (cases s rule: ws_len.cases; cases q rule: ws_len.cases) (auto split: if_splits)

lemma ws_len_trim [simp]: "ws_len (trim s) = 0"
proof (rule ccontr)
  assume "ws_len (trim s) \<noteq> 0"
  moreover obtain q where "trim_start s = trim s @ q"
    using trim_end_prefix [of "trim_start s"] by (auto simp: trim_def)
  ultimately show False
    using ws_len_append [of "trim s" q] ws_len_trim_start [of s] by simp
qed

lemma trim_trim [simp, str_simps]: "trim (trim s) = trim s"
proof -
  have "trim (trim s) = trim_end (trim s)"
    by (simp add: trim_def [of "trim s"] trim_start_id)
  also have "\<dots> = trim s"
    by (simp add: trim_def trim_end_def trim_rev_id)
  finally show ?thesis .
qed

lemma trim_Nil [simp, str_simps]: "trim [] = []"
  by (simp add: trim_def trim_end_def trim_start.simps trim_rev.simps)

section \<open>Splitting and prefixes\<close>

text \<open>\<^verbatim>\<open>str::split\<close> on a character: always at least one piece.\<close>

fun split_on :: "char \<Rightarrow> string \<Rightarrow> string list" where
  "split_on d [] = [[]]"
| "split_on d (c # s) =
     (if c = d then [] # split_on d s
      else case split_on d s of [] \<Rightarrow> [[c]] | p # ps \<Rightarrow> (c # p) # ps)"

definition split_once :: "char \<Rightarrow> string \<Rightarrow> (string \<times> string) option" where
  "split_once d s =
     (if d \<in> set s then Some (takeWhile (\<lambda>c. c \<noteq> d) s, tl (dropWhile (\<lambda>c. c \<noteq> d) s)) else None)"

definition starts_with :: "string \<Rightarrow> string \<Rightarrow> bool" where
  "starts_with p s = (take (length p) s = p)"

definition strip_prefix :: "string \<Rightarrow> string \<Rightarrow> string option" where
  "strip_prefix p s = (if starts_with p s then Some (drop (length p) s) else None)"

definition trim_end_matches :: "char \<Rightarrow> string \<Rightarrow> string" where
  "trim_end_matches d s = rev (dropWhile (\<lambda>c. c = d) (rev s))"

text \<open>\<^verbatim>\<open>str::contains\<close> on a string pattern.\<close>

fun str_contains :: "string \<Rightarrow> string \<Rightarrow> bool" where
  "str_contains p [] = (p = [])"
| "str_contains p (c # s) = (starts_with p (c # s) \<or> str_contains p s)"

text \<open>\<^verbatim>\<open>slice::join\<close>.\<close>

fun str_join :: "string \<Rightarrow> string list \<Rightarrow> string" where
  "str_join sep [] = []"
| "str_join sep [x] = x"
| "str_join sep (x # y # ys) = x @ sep @ str_join sep (y # ys)"

text \<open>\<^verbatim>\<open>str::split_whitespace\<close>: the maximal runs without white space.\<close>

fun word_span :: "string \<Rightarrow> string \<times> string" where
  "word_span [] = ([], [])"
| "word_span (c # s) =
     (if ws_len (c # s) \<noteq> 0 then ([], c # s)
      else let (w, r) = word_span s in (c # w, r))"

lemma word_span_le: "length (snd (word_span s)) \<le> length s"
  by (induction s) (auto simp: split_beta Let_def)

lemma trim_start_le: "length (trim_start s) \<le> length s"
proof (induction s rule: trim_start.induct)
  case (1 s)
  then show ?case by (cases "ws_len s = 0") (auto simp: trim_start.simps [of s])
qed

function split_whitespace :: "string \<Rightarrow> string list" where
  "split_whitespace s =
     (case trim_start s of [] \<Rightarrow> []
      | c # r \<Rightarrow> (c # fst (word_span r)) # split_whitespace (snd (word_span r)))"
  by pat_completeness auto
termination
proof (relation "measure length")
  fix s c r
  assume "trim_start s = c # r"
  then have "Suc (length r) \<le> length s" using trim_start_le [of s] by simp
  then show "(snd (word_span r), s) \<in> measure length"
    using word_span_le [of r] by simp
qed simp

declare split_whitespace.simps [simp del]

lemma split_on_ne [simp]: "split_on d s \<noteq> []"
  by (cases s) (auto split: list.splits)

lemma split_on_join: "str_join [d] (split_on d s) = s"
proof (induction s)
  case (Cons c s)
  obtain p ps where "split_on d s = p # ps"
    using split_on_ne [of d s] by (meson neq_Nil_conv)
  with Cons show ?case by (cases ps) auto
qed simp

lemma split_on_pieces: "p \<in> set (split_on d s) \<Longrightarrow> d \<notin> set p"
  by (induction d s arbitrary: p rule: split_on.induct) (auto split: if_splits list.splits)

lemma starts_with_append [simp, str_simps]: "starts_with p (p @ s)"
  by (simp add: starts_with_def)

lemma starts_with_iff: "starts_with p s \<longleftrightarrow> (\<exists>r. s = p @ r)"
  by (metis append_eq_conv_conj append_take_drop_id starts_with_def)

lemma strip_prefix_Some: "strip_prefix p s = Some r \<longleftrightarrow> s = p @ r"
  by (auto simp: strip_prefix_def starts_with_iff split: if_splits)

lemma starts_with_trans: "starts_with p q \<Longrightarrow> starts_with q s \<Longrightarrow> starts_with p s"
  by (auto simp: starts_with_iff)

section \<open>ASCII case\<close>

definition ascii_lower :: "char \<Rightarrow> char" where
  "ascii_lower c = (let n = (of_char c :: nat) in
     if 65 \<le> n \<and> n \<le> 90 then char_of (n + 32) else c)"

definition to_ascii_lowercase :: "string \<Rightarrow> string" where
  "to_ascii_lowercase s = map ascii_lower s"

definition ascii_upper :: "char \<Rightarrow> char" where
  "ascii_upper c = (let n = (of_char c :: nat) in if 97 \<le> n \<and> n \<le> 122 then char_of (n - 32) else c)"

definition to_ascii_uppercase :: "string \<Rightarrow> string" where
  "to_ascii_uppercase s = map ascii_upper s"

definition is_ascii_alphabetic :: "char \<Rightarrow> bool" where
  "is_ascii_alphabetic c = (let n = (of_char c :: nat) in 65 \<le> n \<and> n \<le> 90 \<or> 97 \<le> n \<and> n \<le> 122)"

definition eq_ignore_ascii_case :: "string \<Rightarrow> string \<Rightarrow> bool" where
  "eq_ignore_ascii_case s t = (to_ascii_lowercase s = to_ascii_lowercase t)"

lemma ascii_lower_idem [simp]: "ascii_lower (ascii_lower c) = ascii_lower c"
  by (auto simp: ascii_lower_def Let_def of_char_of)

lemma to_ascii_lowercase_idem [simp, str_simps]:
  "to_ascii_lowercase (to_ascii_lowercase s) = to_ascii_lowercase s"
  by (simp add: to_ascii_lowercase_def)

lemma to_ascii_lowercase_Nil [simp]: "to_ascii_lowercase s = [] \<longleftrightarrow> s = []"
  by (simp add: to_ascii_lowercase_def)

section \<open>Numbers as text\<close>

definition digit_char :: "nat \<Rightarrow> char" where
  "digit_char n = char_of (48 + n)"

fun dec_str :: "nat \<Rightarrow> string" where
  "dec_str n = (if n < 10 then [digit_char n] else dec_str (n div 10) @ [digit_char (n mod 10)])"

declare dec_str.simps [simp del]

definition int_str :: "int \<Rightarrow> string" where
  "int_str i = (if i < 0 then CHR ''-'' # dec_str (nat (- i)) else dec_str (nat i))"

text \<open>Zero padding to a width, as \<^verbatim>\<open>{n:02}\<close>.\<close>

definition pad_left :: "nat \<Rightarrow> string \<Rightarrow> string" where
  "pad_left w s = replicate (w - length s) CHR ''0'' @ s"

text \<open>
  \<^verbatim>\<open>str::parse\<close> at an unsigned integer type of the given width: an optional
  plus sign, at least one digit, no overflow.
\<close>

definition is_digit :: "char \<Rightarrow> bool" where
  "is_digit c = (let n = (of_char c :: nat) in 48 \<le> n \<and> n \<le> 57)"

definition digits_val :: "string \<Rightarrow> nat" where
  "digits_val s = foldl (\<lambda>a c. 10 * a + (of_char c - 48)) 0 s"

definition parse_uint :: "nat \<Rightarrow> string \<Rightarrow> nat option" where
  "parse_uint w s =
     (let ds = (if take 1 s = ''+'' then tl s else s)
      in if ds \<noteq> [] \<and> list_all is_digit ds \<and> digits_val ds < 2 ^ w
         then Some (digits_val ds) else None)"

text \<open>\<^verbatim>\<open>str::parse::<i64>\<close>.\<close>

definition parse_i64 :: "string \<Rightarrow> int option" where
  "parse_i64 s =
     (let neg = (take 1 s = ''-'');
          ds = (if take 1 s = ''-'' \<or> take 1 s = ''+'' then tl s else s);
          i = (if neg then - int (digits_val ds) else int (digits_val ds))
      in if ds \<noteq> [] \<and> list_all is_digit ds \<and> - (2 ^ 63) \<le> i \<and> i < 2 ^ 63 then Some i else None)"

text \<open>\<^verbatim>\<open>str::parse::<bool>\<close>.\<close>

definition parse_bool :: "string \<Rightarrow> bool option" where
  "parse_bool s = (if s = ''true'' then Some True else if s = ''false'' then Some False else None)"

lemma of_char_digit_char [simp]: "n < 10 \<Longrightarrow> of_char (digit_char n) = (48 + n :: nat)"
  by (simp add: digit_char_def of_char_of)

lemma dec_str_ne [simp]: "dec_str n \<noteq> []"
  by (subst dec_str.simps) simp

lemma dec_str_digits: "list_all is_digit (dec_str n)"
proof (induction n rule: dec_str.induct)
  case (1 n)
  then show ?case
    by (cases "n < 10") (simp_all add: dec_str.simps [of n] is_digit_def)
qed

lemma digits_val_dec_str: "digits_val (dec_str n) = n"
proof (induction n rule: dec_str.induct)
  case (1 n)
  then show ?case
    by (cases "n < 10") (simp_all add: dec_str.simps [of n] digits_val_def)
qed

lemma dec_str_inj [simp]: "dec_str m = dec_str n \<longleftrightarrow> m = n"
  by (metis digits_val_dec_str)

text \<open>Printing and parsing an integer is the identity within the width.\<close>

lemma parse_uint_dec_str:
  assumes "n < 2 ^ w"
  shows "parse_uint w (dec_str n) = Some n"
proof -
  obtain c r where cr: "dec_str n = c # r" by (meson dec_str_ne neq_Nil_conv)
  then have "is_digit c" using dec_str_digits [of n] by simp
  then have "take 1 (dec_str n) \<noteq> ''+''" using cr by (auto simp: is_digit_def)
  then show ?thesis
    using assms by (simp add: parse_uint_def dec_str_digits digits_val_dec_str)
qed

lemma parse_uint_bound: "parse_uint w s = Some n \<Longrightarrow> n < 2 ^ w"
  by (auto simp: parse_uint_def Let_def split: if_splits)

text \<open>A text between single quotes, as many messages have it.\<close>

definition quoted :: "string \<Rightarrow> string" where
  "quoted s = CHR 0x27 # s @ [CHR 0x27]"

section \<open>Printable ASCII\<close>

definition graphic :: "string \<Rightarrow> bool" where
  "graphic s = list_all (\<lambda>c. 33 \<le> (of_char c :: nat) \<and> of_char c \<le> (126 :: nat)) s"

lemma graphic_simps [simp]:
  "graphic []" "graphic (c # s) \<longleftrightarrow> 33 \<le> (of_char c :: nat) \<and> of_char c \<le> (126 :: nat) \<and> graphic s"
  "graphic (s @ t) \<longleftrightarrow> graphic s \<and> graphic t"
  by (auto simp: graphic_def)

lemma graphic_rev [simp]: "graphic (rev s) = graphic s"
  by (simp add: graphic_def list_all_iff)

lemma ws_graphic:
  assumes "33 \<le> (of_char a :: nat)" "of_char a \<le> (126 :: nat)"
  shows "\<not> ws1 a" "\<not> ws2 a b" "\<not> ws3 a b c" "\<not> ws2 b a" "\<not> ws3 b c a"
  using assms by (auto simp: ws1_def ws2_def ws3_def Let_def)

lemma ws_len_graphic: "graphic s \<Longrightarrow> ws_len s = 0"
  by (cases s rule: ws_len.cases) (auto simp: ws_graphic)

lemma ws_len_rev_graphic: "graphic s \<Longrightarrow> ws_len_rev s = 0"
  by (cases s rule: ws_len_rev.cases) (auto simp: ws_graphic)

lemma trim_graphic: "graphic s \<Longrightarrow> trim s = s"
  by (simp add: trim_def trim_end_def trim_start_id trim_rev_id ws_len_graphic ws_len_rev_graphic)

lemma split_on_free: "d \<notin> set s \<Longrightarrow> split_on d s = [s]"
  by (induction s) auto

lemma split_once_at: "d \<notin> set p \<Longrightarrow> split_once d (p @ d # s) = Some (p, s)"
  by (simp add: split_once_def takeWhile_append dropWhile_append)

lemma split_once_parts: "split_once d s = Some (p, q) \<Longrightarrow> s = p @ d # q \<and> d \<notin> set p"
proof -
  assume h: "split_once d s = Some (p, q)"
  then have d: "d \<in> set s" by (auto simp: split_once_def split: if_splits)
  then have "dropWhile (\<lambda>c. c \<noteq> d) s \<noteq> []" by (simp add: dropWhile_eq_Nil_conv)
  then have "dropWhile (\<lambda>c. c \<noteq> d) s = d # tl (dropWhile (\<lambda>c. c \<noteq> d) s)"
    using hd_dropWhile [of "\<lambda>c. c \<noteq> d" s] by (metis list.collapse)
  then show ?thesis using h d takeWhile_dropWhile_id [of "\<lambda>c. c \<noteq> d" s]
    by (auto simp: split_once_def dest: set_takeWhileD)
qed

section \<open>Characters beyond ASCII\<close>

text \<open>In UTF-8 a continuation byte belongs to the character before it.\<close>

definition continuation_byte :: "char \<Rightarrow> bool" where
  "continuation_byte c = (let b = (of_char c :: nat) in 128 \<le> b \<and> b < 192)"

section \<open>The process environment\<close>

text \<open>\<^verbatim>\<open>std::env::var(k).ok()\<close>: \<open>None\<close> for a variable that is not set (or not Unicode).\<close>

type_synonym environment = "string \<Rightarrow> string option"

text \<open>\<^verbatim>\<open>parse_env\<close>: the parsed value of a variable, or the default.\<close>

definition parse_env :: "environment \<Rightarrow> (string \<Rightarrow> 'a option) \<Rightarrow> string \<Rightarrow> 'a \<Rightarrow> 'a" where
  "parse_env env parse key d = unwrap_or d (Option.bind (env key) parse)"

end
