(* ===== verification/F64.thy ===== *)
theory F64
  imports Complex_Main "HOL-Library.Log_Nat"
begin

text \<open>
  Binary64 arithmetic as the rate limiter uses it: the exact rational result
  of an operation, rounded to the nearest number with 53 significant bits, ties
  to even. The exponent is unbounded: the limiter's values (at most
  \<open>2 ^ 32\<close> tokens, at most \<open>10000\<close> tokens a second) stay far from overflow, and
  a subnormal product of an elapsed time and a rate would need a time below a
  nanosecond.
\<close>

section \<open>Rounding to the nearest even integer\<close>

definition rne :: "rat \<Rightarrow> int" where
  "rne x = (let f = \<lfloor>x\<rfloor>; d = x - of_int f in
     if d < 1 / 2 then f else if d > 1 / 2 then f + 1 else if even f then f else f + 1)"

lemma rne_bounds: "\<lfloor>x\<rfloor> \<le> rne x" "rne x \<le> \<lfloor>x\<rfloor> + 1"
  by (simp_all add: rne_def Let_def)

lemma rne_of_int [simp]: "rne (of_int i) = i"
  by (simp add: rne_def)

lemma rne_mono:
  assumes "x \<le> y"
  shows "rne x \<le> rne y"
proof (cases "\<lfloor>x\<rfloor> = \<lfloor>y\<rfloor>")
  case True
  then show ?thesis using assms by (auto simp: rne_def Let_def)
next
  case False
  then have "\<lfloor>x\<rfloor> + 1 \<le> \<lfloor>y\<rfloor>" using assms floor_mono [of x y] by linarith
  then show ?thesis using rne_bounds(2) [of x] rne_bounds(1) [of y] by linarith
qed

section \<open>The binary exponent of a positive rational\<close>

definition ilog2 :: "rat \<Rightarrow> int" where
  "ilog2 x = (case quotient_of x of (n, d) \<Rightarrow>
     let k = bitlen n - bitlen d in if 2 powi k \<le> x then k else k - 1)"

lemma pow2_add: "(2::rat) powi (a + b) = 2 powi a * 2 powi b"
  by (simp add: power_int_add)

lemma bitlen_powi:
  assumes "0 < n"
  shows "(2::rat) powi (bitlen n - 1) \<le> of_int n" "of_int n < (2::rat) powi bitlen n"
proof -
  have p: "0 < bitlen n" using assms by (simp add: bitlen_eq_zero_iff bitlen_nonneg less_le)
  have b: "2 ^ nat (bitlen n - 1) \<le> n \<and> n < 2 ^ nat (bitlen n)"
    using bitlen_bounds [OF assms] .
  have "of_int (2 ^ nat (bitlen n - 1)) \<le> (of_int n :: rat)" using b of_int_le_iff by blast
  moreover have "(2::rat) powi (bitlen n - 1) = of_int (2 ^ nat (bitlen n - 1))"
    using p by (simp add: power_int_def)
  ultimately show "(2::rat) powi (bitlen n - 1) \<le> of_int n" by simp
  have "(of_int n :: rat) < of_int (2 ^ nat (bitlen n))" using b of_int_less_iff by blast
  moreover have "(2::rat) powi bitlen n = of_int (2 ^ nat (bitlen n))"
    using p by (simp add: power_int_def)
  ultimately show "of_int n < (2::rat) powi bitlen n" by simp
qed

lemma ilog2_bounds:
  assumes "0 < x"
  shows "2 powi ilog2 x \<le> x" "x < 2 powi (ilog2 x + 1)"
proof -
  obtain n d where q: "quotient_of x = (n, d)" by fastforce
  have d: "0 < d" using quotient_of_denom_pos [OF q] .
  have x: "x = of_int n / of_int d" using quotient_of_div [OF q] .
  have n: "0 < n" using assms d by (simp add: x zero_less_divide_iff)
  let ?k = "bitlen n - bitlen d"
  have up: "x < 2 powi (?k + 1)"
  proof -
    have "of_int n < (2::rat) powi bitlen n" using bitlen_powi(2) [OF n] .
    also have "\<dots> = 2 powi (?k + 1) * 2 powi (bitlen d - 1)"
      by (simp add: pow2_add [symmetric])
    also have "\<dots> \<le> 2 powi (?k + 1) * of_int d"
      using bitlen_powi(1) [OF d] by (intro mult_left_mono) simp_all
    finally show ?thesis using d by (simp add: x divide_less_eq)
  qed
  have lo: "2 powi (?k - 1) \<le> x"
  proof -
    have "2 powi (?k - 1) * of_int d \<le> 2 powi (?k - 1) * (2::rat) powi bitlen d"
      using bitlen_powi(2) [OF d] by (intro mult_left_mono) simp_all
    also have "\<dots> = 2 powi (bitlen n - 1)" by (simp add: pow2_add [symmetric])
    also have "\<dots> \<le> of_int n" using bitlen_powi(1) [OF n] .
    finally show ?thesis using d by (simp add: x le_divide_eq)
  qed
  show "2 powi ilog2 x \<le> x" using lo by (simp add: ilog2_def q Let_def)
  show "x < 2 powi (ilog2 x + 1)" using up by (auto simp: ilog2_def q Let_def not_le)
qed

lemma ilog2_mono:
  assumes "0 < x" "x \<le> y"
  shows "ilog2 x \<le> ilog2 y"
proof -
  have "(2::rat) powi ilog2 x < 2 powi (ilog2 y + 1)"
    using ilog2_bounds(1) [OF assms(1)] ilog2_bounds(2) [of y] assms by linarith
  then have "\<not> ilog2 y + 1 \<le> ilog2 x"
    using power_int_increasing [of "ilog2 y + 1" "ilog2 x" "2::rat"] by auto
  then show ?thesis by simp
qed

section \<open>Rounding to 53 significant bits\<close>

definition b64_pos :: "rat \<Rightarrow> rat" where
  "b64_pos x = (let e = ilog2 x - 52 in of_int (rne (x / 2 powi e)) * 2 powi e)"

definition b64_round :: "rat \<Rightarrow> rat" where
  "b64_round x = (if x = 0 then 0 else if 0 < x then b64_pos x else - b64_pos (- x))"

lemma b64_pos_bounds:
  assumes "0 < x"
  shows "2 powi ilog2 x \<le> b64_pos x" "b64_pos x \<le> 2 powi (ilog2 x + 1)"
proof -
  let ?e = "ilog2 x - 52"
  have p: "(0::rat) < 2 powi ?e" by simp
  have lo: "(2::rat) powi ilog2 x = of_int (2 ^ 52) * 2 powi ?e"
    using pow2_add [of 52 ?e] by simp
  have hi: "(2::rat) powi (ilog2 x + 1) = of_int (2 ^ 53) * 2 powi ?e"
    using pow2_add [of 53 ?e] by (simp add: add.commute)
  have "of_int (2 ^ 52) \<le> x / 2 powi ?e" "x / 2 powi ?e \<le> of_int (2 ^ 53)"
    using ilog2_bounds [OF assms] p unfolding lo hi by (simp_all add: le_divide_eq divide_le_eq)
  then have "2 ^ 52 \<le> rne (x / 2 powi ?e)" "rne (x / 2 powi ?e) \<le> 2 ^ 53"
    using rne_mono rne_of_int by metis+
  then have "of_int (2 ^ 52) \<le> (of_int (rne (x / 2 powi ?e)) :: rat)"
    "(of_int (rne (x / 2 powi ?e)) :: rat) \<le> of_int (2 ^ 53)"
    using of_int_le_iff by blast+
  then show "2 powi ilog2 x \<le> b64_pos x" "b64_pos x \<le> 2 powi (ilog2 x + 1)"
    unfolding b64_pos_def Let_def lo hi using p by (auto intro!: mult_right_mono)
qed

lemma b64_pos_mono:
  assumes "0 < x" "x \<le> y"
  shows "b64_pos x \<le> b64_pos y"
proof (cases "ilog2 x = ilog2 y")
  case True
  have "x / 2 powi (ilog2 y - 52) \<le> y / 2 powi (ilog2 y - 52)"
    using assms(2) by (simp add: divide_right_mono)
  then have "rne (x / 2 powi (ilog2 y - 52)) \<le> rne (y / 2 powi (ilog2 y - 52))" by (rule rne_mono)
  then show ?thesis
    unfolding b64_pos_def Let_def True by (intro mult_right_mono) simp_all
next
  case False
  then have "ilog2 x + 1 \<le> ilog2 y" using ilog2_mono [OF assms] by simp
  then have "(2::rat) powi (ilog2 x + 1) \<le> 2 powi ilog2 y"
    by (intro power_int_increasing) simp_all
  then show ?thesis
    using b64_pos_bounds(2) [OF assms(1)] b64_pos_bounds(1) [of y] assms by linarith
qed

lemma b64_pos_positive: "0 < x \<Longrightarrow> 0 < b64_pos x"
  using b64_pos_bounds(1) [of x] by (meson less_le_trans zero_less_numeral zero_less_power_int)

lemma b64_round_mono: "x \<le> y \<Longrightarrow> b64_round x \<le> b64_round y"
  using b64_pos_positive [of x] b64_pos_positive [of y] b64_pos_positive [of "- x"]
    b64_pos_positive [of "- y"] b64_pos_mono [of x y] b64_pos_mono [of "- y" "- x"]
  by (cases "0 < x"; cases "x = 0"; cases "0 < y"; cases "y = 0") (auto simp: b64_round_def)

lemma b64_pos_int:
  assumes "0 < i" "i \<le> 2 ^ 53"
  shows "b64_pos (of_int i) = of_int i"
proof -
  let ?x = "of_int i :: rat" let ?e = "ilog2 ?x - 52"
  have x: "0 < ?x" using assms by simp
  have "\<exists>m::int. ?x / 2 powi ?e = of_int m"
  proof (cases "?e \<le> 0")
    case True
    then have "?x / 2 powi ?e = of_int (i * 2 ^ nat (- ?e))"
      by (simp add: power_int_def field_simps)
    then show ?thesis by blast
  next
    case False
    then have "(2::rat) powi 53 \<le> 2 powi ilog2 ?x" by (intro power_int_increasing) simp_all
    then have "2 ^ 53 \<le> ?x" using ilog2_bounds(1) [OF x] by simp
    then have "of_int (2 ^ 53) \<le> ?x" by simp
    then have i: "i = 2 ^ 53" using assms(2) by (simp only: of_int_le_iff) 
    have "(2::rat) powi ilog2 ?x < 2 powi 54" using ilog2_bounds(1) [OF x] i by simp
    then have "\<not> 54 \<le> ilog2 ?x"
      using power_int_increasing [of 54 "ilog2 ?x" "2::rat"] by auto
    then have "?e = 1" using False by simp
    then have "?x / 2 powi ?e = of_int (2 ^ 52)" using i by simp
    then show ?thesis by blast
  qed
  then obtain m where m: "?x / 2 powi ?e = of_int m" by blast
  then have "of_int m * 2 powi ?e = ?x" by (simp add: divide_eq_eq)
  then show ?thesis by (simp add: b64_pos_def Let_def m)
qed

lemma b64_round_int:
  assumes "\<bar>i\<bar> \<le> 2 ^ 53"
  shows "b64_round (of_int i) = of_int i"
  using assms b64_pos_int [of i] b64_pos_int [of "- i"]
  by (cases "0 < i"; cases "i = 0") (auto simp: b64_round_def)

section \<open>What the rate limiter relies on\<close>

text \<open>
  Rounding is monotone and exact on the integers up to \<open>2 ^ 53\<close>. Both hold of
  \<^const>\<open>b64_round\<close>, which the code runs on, and of the identity, the ideal
  arithmetic against which the long-run rate is stated.
\<close>

locale f64_rounding =
  fixes fl :: "rat \<Rightarrow> rat"
  assumes fl_mono: "x \<le> y \<Longrightarrow> fl x \<le> fl y"
    and fl_int: "\<bar>i\<bar> \<le> 2 ^ 53 \<Longrightarrow> fl (of_int i) = of_int i"
begin

lemma fl_nat: "n \<le> 2 ^ 53 \<Longrightarrow> fl (of_nat n) = of_nat n"
  using fl_int [of "int n"] by simp

lemma fl_0: "fl 0 = 0" and fl_1: "fl 1 = 1"
  using fl_int [of 0] fl_int [of 1] by simp_all

lemma fl_nonneg: "0 \<le> x \<Longrightarrow> 0 \<le> fl x"
  using fl_mono [of 0 x] by (simp add: fl_0)

lemma fl_le_nat: "x \<le> of_nat n \<Longrightarrow> n \<le> 2 ^ 53 \<Longrightarrow> fl x \<le> of_nat n"
  using fl_mono [of x "of_nat n"] fl_nat [of n] by simp

lemma fl_ge_1: "1 \<le> x \<Longrightarrow> 1 \<le> fl x"
  using fl_mono [of 1 x] by (simp add: fl_1)

end

interpretation b64: f64_rounding b64_round
  by unfold_locales (auto intro: b64_round_mono b64_round_int)

interpretation exact: f64_rounding "\<lambda>x. x"
  by unfold_locales simp_all

text \<open>The float nearest to a tenth, and a number that is a float already.\<close>

lemma b64_round_tenth: "b64_round (1 / 10) = 3602879701896397 / 36028797018963968"
  by code_simp

end
