(* ===== verification/Json_Value.thy ===== *)
theory Json_Value
  imports Rust_Str F64
begin

text \<open>
  JSON values as \<^verbatim>\<open>serde_json::Value\<close> has them. An object is the list of its
  members; the accessors look at the members by name only, so the order of the
  list carries no meaning.
\<close>

section \<open>Values\<close>

text \<open>A number is an unsigned or a negative 64-bit integer, or a finite float.\<close>

datatype jnumber = PosInt nat | NegInt int | Float rat

datatype json =
    JNull
  | JBool bool
  | JNum jnumber
  | JStr string
  | JArr "json list"
  | JObj "(string \<times> json) list"

section \<open>Accessors\<close>

definition jget :: "string \<Rightarrow> json \<Rightarrow> json option" where
  "jget k v = (case v of JObj ms \<Rightarrow> map_of ms k | _ \<Rightarrow> None)"

definition as_str :: "json \<Rightarrow> string option" where
  "as_str v = (case v of JStr s \<Rightarrow> Some s | _ \<Rightarrow> None)"

definition as_bool :: "json \<Rightarrow> bool option" where
  "as_bool v = (case v of JBool b \<Rightarrow> Some b | _ \<Rightarrow> None)"

definition as_u64 :: "json \<Rightarrow> nat option" where
  "as_u64 v = (case v of JNum (PosInt n) \<Rightarrow> Some n | _ \<Rightarrow> None)"

definition as_i64 :: "json \<Rightarrow> int option" where
  "as_i64 v = (case v of
     JNum (PosInt n) \<Rightarrow> if n < 2 ^ 63 then Some (int n) else None
   | JNum (NegInt i) \<Rightarrow> Some i
   | _ \<Rightarrow> None)"

definition as_object :: "json \<Rightarrow> (string \<times> json) list option" where
  "as_object v = (case v of JObj ms \<Rightarrow> Some ms | _ \<Rightarrow> None)"

definition as_array :: "json \<Rightarrow> json list option" where
  "as_array v = (case v of JArr vs \<Rightarrow> Some vs | _ \<Rightarrow> None)"

definition as_f64 :: "json \<Rightarrow> rat option" where
  "as_f64 v = (case v of
     JNum (PosInt n) \<Rightarrow> Some (b64_round (of_nat n))
   | JNum (NegInt i) \<Rightarrow> Some (b64_round (of_int i))
   | JNum (Float x) \<Rightarrow> Some x
   | _ \<Rightarrow> None)"

text \<open>\<^verbatim>\<open>params.get(k).and_then(|v| v.as_str())\<close> and its kin.\<close>

definition get_str :: "string \<Rightarrow> json \<Rightarrow> string option" where
  "get_str k v = Option.bind (jget k v) as_str"

definition get_bool :: "string \<Rightarrow> json \<Rightarrow> bool option" where
  "get_bool k v = Option.bind (jget k v) as_bool"

definition get_u64 :: "string \<Rightarrow> json \<Rightarrow> nat option" where
  "get_u64 k v = Option.bind (jget k v) as_u64"

definition get_i64 :: "string \<Rightarrow> json \<Rightarrow> int option" where
  "get_i64 k v = Option.bind (jget k v) as_i64"

definition get_f64 :: "string \<Rightarrow> json \<Rightarrow> rat option" where
  "get_f64 k v = Option.bind (jget k v) as_f64"

section \<open>Building values\<close>

definition jset :: "string \<Rightarrow> json \<Rightarrow> json \<Rightarrow> json" where
  "jset k x v = (case v of JObj ms \<Rightarrow> JObj (alist_set k x ms) | _ \<Rightarrow> v)"

definition jnat :: "nat \<Rightarrow> json" where
  "jnat n = JNum (PosInt n)"

definition jint :: "int \<Rightarrow> json" where
  "jint i = JNum (if i < 0 then NegInt i else PosInt (nat i))"

definition jopt_str :: "string option \<Rightarrow> json" where
  "jopt_str x = (case x of None \<Rightarrow> JNull | Some s \<Rightarrow> JStr s)"

lemma jget_JObj [simp]: "jget k (JObj ms) = map_of ms k"
  by (simp add: jget_def)

lemma jget_other [simp]:
  "jget k JNull = None" "jget k (JBool b) = None" "jget k (JNum n) = None"
  "jget k (JStr s) = None" "jget k (JArr xs) = None"
  by (simp_all add: jget_def)

lemma as_str_JStr [simp]: "as_str (JStr s) = Some s"
  by (simp add: as_str_def)

lemma as_str_Some: "as_str v = Some s \<longleftrightarrow> v = JStr s"
  by (auto simp: as_str_def split: json.splits)

lemma jget_jset [simp]: "jget k (jset j x (JObj ms)) = (if k = j then Some x else map_of ms k)"
  by (simp add: jset_def)

lemma get_str_jset [simp]:
  "get_str k (jset j x (JObj ms)) = (if k = j then as_str x else get_str k (JObj ms))"
  by (simp add: get_str_def)

lemma as_i64_jint [simp]: "- (2 ^ 63) \<le> i \<Longrightarrow> i < 2 ^ 63 \<Longrightarrow> as_i64 (jint i) = Some i"
  by (simp add: as_i64_def jint_def nat_less_iff)

end
