(* ===== verification/Http.thy ===== *)
theory Http
  imports Json_Value
begin

text \<open>
  What the gateway's components share: the record of third-party functions the
  sources call, HTTP messages, the authenticated principal
  (\<^verbatim>\<open>auth/principal.rs\<close>) and the structured API error (\<^verbatim>\<open>error.rs\<close>).
\<close>

section \<open>Third-party functions\<close>

text \<open>
  A parsed \<^verbatim>\<open>url::Url\<close>, as far as the gateway looks at it: the scheme, the
  host, the port or the scheme's known default, the text it was parsed from and
  the query pairs appended to it since. \<open>u_query\<close> is \<open>None\<close> until
  \<^verbatim>\<open>query_pairs_mut\<close> is called, which alone already adds a question mark.
\<close>

record url =
  u_scheme :: string
  u_host :: "string option"
  u_port :: "nat option"
  u_text :: string
  u_query :: "(string \<times> string) list option"

definition query_pairs_mut :: "url \<Rightarrow> url" where
  "query_pairs_mut u = u\<lparr>u_query := Some (unwrap_or [] (u_query u))\<rparr>"

definition append_pair :: "string \<Rightarrow> string \<Rightarrow> url \<Rightarrow> url" where
  "append_pair k v u = u\<lparr>u_query := Some (unwrap_or [] (u_query u) @ [(k, v)])\<rparr>"

text \<open>
  The functions of other crates (and the tables of the Unicode standard) that
  the sources call. They are an argument of every definition that uses one:
  \<^verbatim>\<open>HeaderValue::to_str\<close> and \<^verbatim>\<open>from_str\<close>, \<^verbatim>\<open>Url::parse\<close> and
  \<^verbatim>\<open>Url::to_string\<close>, \<^verbatim>\<open>serde_json::from_str\<close> and \<^verbatim>\<open>to_string\<close>,
  \<^verbatim>\<open>str::to_lowercase\<close>, \<^verbatim>\<open>form_urlencoded::parse\<close>, the shortest decimal text
  of a float, \<^verbatim>\<open>String::from_utf8_lossy\<close>, the hash of
  \<^verbatim>\<open>DefaultHasher\<close> and the order in which a \<^verbatim>\<open>HashMap\<close> yields its keys.
\<close>

record ext =
  hv_to_str :: "string \<Rightarrow> string option"
  hv_from_str :: "string \<Rightarrow> string option"
  url_parse :: "string \<Rightarrow> (string, url) result"
  url_string :: "url \<Rightarrow> string"
  json_from_str :: "string \<Rightarrow> (string, json) result"
  json_to_string :: "json \<Rightarrow> string"
  to_lowercase :: "string \<Rightarrow> string"
  form_parse :: "string \<Rightarrow> (string \<times> string) list"
  default_hash :: "string \<Rightarrow> nat"
  hash_order :: "string list \<Rightarrow> string list"
  f64_string :: "rat \<Rightarrow> string"
  utf8_lossy :: "string \<Rightarrow> string"

section \<open>The authenticated principal\<close>

datatype auth_method = Cookie | Bearer

record principal =
  user_id :: string
  email :: "string option"
  org_id :: "string option"
  roles :: "string list"
  session_id :: string
  auth_method :: auth_method

section \<open>Header maps\<close>

text \<open>
  A \<^verbatim>\<open>HeaderMap\<close> gives each lower-case name the list of its values; a name
  with no value is absent.
\<close>

type_synonym header_map = "string \<Rightarrow> string list"

abbreviation no_headers :: header_map where
  "no_headers \<equiv> (\<lambda>_. [])"

definition hm_get :: "header_map \<Rightarrow> string \<Rightarrow> string option" where
  "hm_get h n = head_opt (h n)"

definition hm_insert :: "string \<Rightarrow> string \<Rightarrow> header_map \<Rightarrow> header_map" where
  "hm_insert n v h = h(n := [v])"

definition hm_append :: "string \<Rightarrow> string \<Rightarrow> header_map \<Rightarrow> header_map" where
  "hm_append n v h = h(n := h n @ [v])"

definition hm_remove :: "string \<Rightarrow> header_map \<Rightarrow> header_map" where
  "hm_remove n h = h(n := [])"

definition hm_or_insert :: "string \<Rightarrow> string \<Rightarrow> header_map \<Rightarrow> header_map" where
  "hm_or_insert n v h = (if h n = [] then h(n := [v]) else h)"

text \<open>\<^verbatim>\<open>headers().get(n).and_then(|v| v.to_str().ok())\<close>.\<close>

definition header_str :: "ext \<Rightarrow> header_map \<Rightarrow> string \<Rightarrow> string option" where
  "header_str X h n = Option.bind (hm_get h n) (hv_to_str X)"

lemma hm_get_insert [simp]: "hm_get (hm_insert n v h) k = (if k = n then Some v else hm_get h k)"
  by (simp add: hm_get_def hm_insert_def)

lemma hm_get_remove [simp]: "hm_get (hm_remove n h) k = (if k = n then None else hm_get h k)"
  by (simp add: hm_get_def hm_remove_def)

lemma hm_get_or_insert [simp]:
  "hm_get (hm_or_insert n v h) k =
     (if k = n \<and> hm_get h n = None then Some v else hm_get h k)"
  by (auto simp: hm_get_def hm_or_insert_def)

lemma hm_get_append [simp]:
  "hm_get (hm_append n v h) k = (if k = n \<and> hm_get h n = None then Some v else hm_get h k)"
  by (auto simp: hm_get_def hm_append_def head_opt_def split: list.splits)

section \<open>Requests and responses\<close>

text \<open>
  \<open>rq_body\<close> is \<open>None\<close> when reading the body stream fails. \<open>rq_request_id\<close>,
  \<open>rq_peer\<close>, \<open>rq_principal\<close> and \<open>rq_matched\<close> are the request extensions
  \<^verbatim>\<open>RequestId\<close>, \<^verbatim>\<open>ConnectInfo\<close>, \<^verbatim>\<open>Principal\<close> and \<^verbatim>\<open>MatchedPath\<close>.
\<close>

record request =
  rq_method :: string
  rq_path :: string
  rq_query :: "string option"
  rq_headers :: header_map
  rq_body :: "string option"
  rq_request_id :: "string option"
  rq_peer :: "string option"
  rq_principal :: "principal option"
  rq_matched :: "string option"

record request_actor =
  ra_user_id :: string
  ra_roles :: "string list"

record upstream_trace =
  ut_status :: "nat option"
  ut_latency_ms :: "nat option"
  ut_timeout_hit :: bool
  ut_error_kind :: "string option"

datatype resp_body = Raw string | JsonBody json

record response =
  rs_status :: nat
  rs_headers :: header_map
  rs_body :: resp_body
  rs_actor :: "request_actor option"
  rs_upstream :: "upstream_trace option"

definition json_response :: "nat \<Rightarrow> json \<Rightarrow> response" where
  "json_response st v = \<lparr>rs_status = st, rs_headers = no_headers, rs_body = JsonBody v,
     rs_actor = None, rs_upstream = None\<rparr>"

section \<open>The structured API error\<close>

datatype error_kind =
    BadRequest string
  | Unauthorized string
  | Forbidden string
  | NotFound string
  | PayloadTooLarge nat
  | UnsupportedMediaType string
  | UnprocessableEntity string
  | RateLimited
  | ServiceUnavailable string
  | Internal string

record app_error =
  ae_kind :: error_kind
  ae_request_id :: "string option"

definition app_err :: "error_kind \<Rightarrow> app_error" where
  "app_err k = \<lparr>ae_kind = k, ae_request_id = None\<rparr>"

definition with_request_id :: "string \<Rightarrow> app_error \<Rightarrow> app_error" where
  "with_request_id rid e = e\<lparr>ae_request_id := Some rid\<rparr>"

text \<open>The status code, the wire name and the message of each kind.\<close>

fun error_parts :: "error_kind \<Rightarrow> nat \<times> string \<times> string" where
  "error_parts (BadRequest m) = (400, ''bad_request'', m)"
| "error_parts (Unauthorized m) = (401, ''unauthorized'', m)"
| "error_parts (Forbidden m) = (403, ''forbidden'', m)"
| "error_parts (NotFound m) = (404, ''not_found'', m)"
| "error_parts (PayloadTooLarge n) =
     (413, ''payload_too_large'',
      ''request body exceeds maximum size of '' @ dec_str n @ '' bytes'')"
| "error_parts (UnsupportedMediaType m) = (415, ''unsupported_media_type'', m)"
| "error_parts (UnprocessableEntity m) = (422, ''unprocessable_entity'', m)"
| "error_parts RateLimited =
     (429, ''rate_limited'',
      ''rate limit exceeded '' @ [CHR 0xE2, CHR 0x80, CHR 0x94] @ '' try again later'')"
| "error_parts (ServiceUnavailable m) = (503, ''service_unavailable'', m)"
| "error_parts (Internal m) = (500, ''internal'', ''internal error'')"

definition error_body :: "app_error \<Rightarrow> json" where
  "error_body e = (case error_parts (ae_kind e) of (status, kind, message) \<Rightarrow>
     JObj [(''error'', JObj (
       [(''code'', jnat status), (''kind'', JStr kind), (''message'', JStr message)]
       @ (case ae_request_id e of None \<Rightarrow> [] | Some rid \<Rightarrow> [(''request_id'', JStr rid)])))])"

definition into_response :: "app_error \<Rightarrow> response" where
  "into_response e = json_response (fst (error_parts (ae_kind e))) (error_body e)"

lemma error_parts_status: "fst (error_parts k) \<in> {400..599}"
  by (cases k) auto

lemma into_response_actor [simp]: "rs_actor (into_response e) = None"
  by (simp add: into_response_def json_response_def)

lemma rs_status_into_response [simp]:
  "rs_status (into_response e) = fst (error_parts (ae_kind e))"
  by (simp add: into_response_def json_response_def)

lemma ae_kind_simps [simp]:
  "ae_kind (app_err k) = k" "ae_kind (with_request_id rid e) = ae_kind e"
  "ae_request_id (with_request_id rid e) = Some rid"
  "ae_request_id (app_err k) = None"
  by (simp_all add: app_err_def with_request_id_def)

text \<open>
  The text of an internal error never reaches the client: the response to
  an \<^const>\<open>Internal\<close> error, with the same request id, does not depend on the
  message it carries.
\<close>

theorem internal_message_hidden:
  "into_response \<lparr>ae_kind = Internal m, ae_request_id = rid\<rparr> =
   into_response \<lparr>ae_kind = Internal m', ae_request_id = rid\<rparr>
   \<and> rs_status (into_response \<lparr>ae_kind = Internal m, ae_request_id = rid\<rparr>) = 500"
  by (simp add: into_response_def error_body_def json_response_def)

end
