(* ===== verification/Calendar.thy ===== *)
theory Calendar
  imports Rust_Str "HOL-Library.Signed_Division"
begin

text \<open>
  The civil date and the RFC 3339 timestamp of \<^verbatim>\<open>audit/event.rs\<close>, against the
  Gregorian calendar: successive day numbers give successive dates, and no
  unsigned subtraction of the algorithm underflows.
\<close>

section \<open>The code\<close>

text \<open>The three \<^verbatim>\<open>u32\<close> quantities: year of the era, day of the year, month index from March.\<close>

definition year_of_era :: "int \<Rightarrow> int" where
  "year_of_era doe = (doe - doe div 1460 + doe div 36524 - doe div 146096) div 365"

definition day_of_year :: "int \<Rightarrow> int" where
  "day_of_year doe =
     (let yoe = year_of_era doe in doe - (365 * yoe + yoe div 4 - yoe div 100))"

definition month_index :: "int \<Rightarrow> int" where
  "month_index doy = (5 * doy + 2) div 153"

definition civil_from_days :: "int \<Rightarrow> int \<times> int \<times> int" where
  "civil_from_days z0 =
     (let z = z0 + 719468;
          era = (if z \<ge> 0 then z else z - 146096) sdiv 146097;
          doe = z - era * 146097;
          y = year_of_era doe + era * 400;
          doy = day_of_year doe;
          mp = month_index doy;
          d = doy - (153 * mp + 2) div 5 + 1;
          mo = (if mp < 10 then mp + 3 else mp - 9);
          y = (if mo \<le> 2 then y + 1 else y)
      in (y, mo, d))"

text \<open>The clock is a number of milliseconds since the epoch.\<close>

definition rfc3339 :: "nat \<Rightarrow> string" where
  "rfc3339 unix_ms =
     (let secs = unix_ms div 1000;
          millis = unix_ms mod 1000;
          days = secs div 86400;
          day_secs = secs mod 86400;
          h = day_secs div 3600;
          m = (day_secs mod 3600) div 60;
          s = day_secs mod 60
      in case civil_from_days (int days) of (y, mo, d) \<Rightarrow>
        pad_left 4 (int_str y) @ ''-'' @ pad_left 2 (int_str mo) @ ''-''
        @ pad_left 2 (int_str d) @ ''T'' @ pad_left 2 (dec_str h) @ '':''
        @ pad_left 2 (dec_str m) @ '':'' @ pad_left 2 (dec_str s) @ ''.''
        @ pad_left 3 (dec_str millis) @ ''Z'')"

section \<open>The calendar\<close>

definition leap :: "int \<Rightarrow> bool" where
  "leap y \<longleftrightarrow> 4 dvd y \<and> \<not> 100 dvd y \<or> 400 dvd y"

definition days_in_month :: "int \<Rightarrow> int \<Rightarrow> int" where
  "days_in_month y m =
     (if m = 2 then if leap y then 29 else 28
      else if m \<in> {4, 6, 9, 11} then 30 else 31)"

definition next_day :: "int \<times> int \<times> int \<Rightarrow> int \<times> int \<times> int" where
  "next_day = (\<lambda>(y, m, d).
     if d < days_in_month y m then (y, m, d + 1)
     else if m < 12 then (y, m + 1, 1) else (y + 1, 1, 1))"

definition valid_date :: "int \<times> int \<times> int \<Rightarrow> bool" where
  "valid_date = (\<lambda>(y, m, d). 1 \<le> m \<and> m \<le> 12 \<and> 1 \<le> d \<and> d \<le> days_in_month y m)"

section \<open>The year of the era\<close>

text \<open>The first day of each year of an era that starts on 1 March.\<close>

definition year_start :: "int \<Rightarrow> int" where
  "year_start k = 365 * k + k div 4 - k div 100 + k div 400"

definition era_table :: "int list" where
  "era_table = [0..399]"

lemma year_of_era_mono:
  assumes "0 \<le> a" "a \<le> b" "b < 146097"
  shows "year_of_era a \<le> year_of_era b"
proof -
  have "a - a div 1460 \<le> b - b div 1460" using assms by linarith
  moreover have "x div 36524 - x div 146096 = min (x div 36524) 3" if "0 \<le> x" "x < 146097" for x :: int
    using that by (cases "x = 146096") (auto simp: min_def)
  then have "a div 36524 - a div 146096 \<le> b div 36524 - b div 146096"
    using assms by (simp add: min.coboundedI1 zdiv_mono1)
  ultimately show ?thesis unfolding year_of_era_def by (intro zdiv_mono1) simp_all
qed

lemma era_table_ok:
  "list_all (\<lambda>k. year_of_era (year_start k) = k \<and> year_of_era (year_start (k + 1) - 1) = k
     \<and> 0 \<le> year_start k \<and> year_start (k + 1) \<le> 146097) era_table"
  by code_simp

lemma year_start_le: "0 \<le> k \<Longrightarrow> k < 400 \<Longrightarrow> year_start (k + 1) \<le> 146097"
  using era_table_ok by (auto simp: list_all_iff era_table_def)

lemma year_of_era_eq:
  assumes "0 \<le> k" "k < 400" "year_start k \<le> doe" "doe < year_start (k + 1)"
  shows "year_of_era doe = k"
proof -
  have t: "year_of_era (year_start k) = k" "year_of_era (year_start (k + 1) - 1) = k"
      "0 \<le> year_start k" "year_start (k + 1) \<le> 146097"
    using era_table_ok assms(1,2) by (auto simp: list_all_iff era_table_def)
  have "year_of_era (year_start k) \<le> year_of_era doe"
    using assms t by (intro year_of_era_mono) auto
  moreover have "year_of_era doe \<le> year_of_era (year_start (k + 1) - 1)"
    using assms t by (intro year_of_era_mono) auto
  ultimately show ?thesis using t by simp
qed

lemma year_exists:
  assumes "0 \<le> doe" "doe < 146097"
  shows "\<exists>k. 0 \<le> k \<and> k < 400 \<and> year_start k \<le> doe \<and> doe < year_start (k + 1)"
proof -
  have "\<exists>k. 0 \<le> k \<and> k < int n \<and> year_start k \<le> doe \<and> doe < year_start (k + 1)"
    if "doe < year_start (int n)" for n
    using that
  proof (induction n)
    case 0
    then show ?case using assms by (simp add: year_start_def)
  next
    case (Suc n)
    show ?case
    proof (cases "doe < year_start (int n)")
      case True
      then show ?thesis using Suc.IH by force
    next
      case False
      then show ?thesis using Suc.prems by (intro exI [of _ "int n"]) (auto simp: add.commute)
    qed
  qed
  from this [of 400] show ?thesis using assms by (simp add: year_start_def)
qed

lemma div_succ:
  fixes n k :: int
  assumes "0 < n"
  shows "(k + 1) div n = k div n + (if n dvd k + 1 then 1 else 0)"
proof -
  let ?q = "k div n" and ?r = "k mod n"
  have k: "k = n * ?q + ?r" and r: "0 \<le> ?r" "?r < n" using assms by simp_all
  show ?thesis
  proof (cases "?r + 1 = n")
    case True
    moreover have "n * (?q + 1) = n * ?q + n" by (simp add: distrib_left)
    ultimately have e: "k + 1 = n * (?q + 1)" using k by linarith
    then have "n dvd k + 1" by (metis dvd_triv_left)
    moreover have "(k + 1) div n = ?q + 1" using e assms by simp
    ultimately show ?thesis by simp
  next
    case False
    have e: "k + 1 = n * ?q + (?r + 1)" using k by simp
    have "(k + 1) div n = ?q" using False r by (intro int_div_pos_eq [OF e]) auto
    moreover have "(k + 1) mod n = ?r + 1" using False r by (intro int_mod_pos_eq [OF e]) auto
    ultimately have "(k + 1) div n = ?q" "(k + 1) mod n = ?r + 1" .
    then show ?thesis using r(1) by (auto simp: dvd_eq_mod_eq_0)
  qed
qed

lemma year_length: "year_start (k + 1) - year_start k = (if leap (k + 1) then 366 else 365)"
proof -
  show ?thesis unfolding year_start_def leap_def 
    using div_succ [of 4 k] div_succ [of 100 k] div_succ [of 400 k] by auto
qed

section \<open>The day of the year\<close>

text \<open>
  A day of the year that starts on 1 March, as an offset of the year, a month
  and a day: what the code makes of it.
\<close>

definition month_day :: "int \<Rightarrow> int \<times> int \<times> int" where
  "month_day doy =
     (let mp = month_index doy;
          d = doy - (153 * mp + 2) div 5 + 1;
          mo = (if mp < 10 then mp + 3 else mp - 9)
      in (if mo \<le> 2 then 1 else 0, mo, d))"

definition shift_year :: "int \<Rightarrow> int \<times> int \<times> int \<Rightarrow> int \<times> int \<times> int" where
  "shift_year y = (\<lambda>(a, m, d). (y + a, m, d))"

definition doy_table :: "int list" where
  "doy_table = [0..365]"

definition doy_row_ok :: "int \<Rightarrow> bool" where
  "doy_row_ok doy = (case month_day doy of (a, m, d) \<Rightarrow>
     0 \<le> month_index doy \<and> month_index doy \<le> 11 \<and> (153 * month_index doy + 2) div 5 \<le> doy
     \<and> 1 \<le> m \<and> m \<le> 12 \<and> 1 \<le> d \<and> (doy < 364 \<longrightarrow>
        (m \<noteq> 2 \<or> d < 28) \<and> d \<le> (if m \<in> {4, 6, 9, 11} then 30 else 31)
        \<and> month_day (doy + 1) =
            (if d < (if m = 2 then 28 else if m \<in> {4, 6, 9, 11} then 30 else 31) then (a, m, d + 1)
             else if m < 12 then (a, m + 1, 1) else (a + 1, 1, 1))))"

lemma doy_table_ok: "list_all doy_row_ok doy_table"
  by code_simp

lemma doy_row: "0 \<le> doy \<Longrightarrow> doy \<le> 365 \<Longrightarrow> doy_row_ok doy"
  using doy_table_ok by (auto simp: list_all_iff doy_table_def)

lemma month_day_ends:
  "month_day 0 = (0, 3, 1)" "month_day 364 = (1, 2, 28)" "month_day 365 = (1, 2, 29)"
  by (simp_all add: month_day_def month_index_def)

lemma month_day_next:
  assumes "0 \<le> doy" "doy < 364"
  shows "shift_year y (month_day (doy + 1)) = next_day (shift_year y (month_day doy))"
proof -
  obtain a m d where md: "month_day doy = (a, m, d)" by (cases "month_day doy")
  show ?thesis using doy_row [of doy] assms
    by (auto simp: doy_row_ok_def md shift_year_def next_day_def days_in_month_def)
qed

lemma month_day_valid:
  assumes "0 \<le> doy" "doy < (if leap (y + 1) then 366 else 365)"
  shows "valid_date (shift_year y (month_day doy))"
proof -
  obtain a m d where md: "month_day doy = (a, m, d)" by (cases "month_day doy")
  consider "doy < 364" | "doy = 364" | "doy = 365" "leap (y + 1)" using assms
    by (cases "leap (y + 1)"; cases "doy = 365"; cases "doy = 364") auto
  then show ?thesis
  proof cases
    case 1
    then show ?thesis using doy_row [of doy] assms(1)
      by (auto simp: doy_row_ok_def md shift_year_def valid_date_def days_in_month_def split: if_splits)
  qed (auto simp: month_day_ends shift_year_def valid_date_def days_in_month_def)
qed

section \<open>The whole algorithm\<close>

lemma era_div: "(if z \<ge> 0 then z else z - 146096) sdiv 146097 = (z :: int) div 146097"
proof (cases "z \<ge> 0")
  case False
  have "(z - 146096) sdiv 146097 = - ((146096 - z) div 146097)"
    using False by (simp add: signed_divide_int_def)
  also have "\<dots> = z div 146097" by linarith
  finally show ?thesis using False by simp
qed (simp add: signed_divide_int_def sgn_if)

lemma year_of_era_range:
  assumes "0 \<le> doe" "doe < 146097"
  shows "0 \<le> year_of_era doe" "year_of_era doe < 400"
    "year_start (year_of_era doe) \<le> doe" "doe < year_start (year_of_era doe + 1)"
  using year_exists [OF assms] year_of_era_eq by auto

lemma day_of_year_eq:
  assumes "0 \<le> doe" "doe < 146097"
  shows "day_of_year doe = doe - year_start (year_of_era doe)"
  using year_of_era_range [OF assms] by (simp add: day_of_year_def year_start_def Let_def)

lemma civil_split:
  "civil_from_days z =
     (let e = (z + 719468) div 146097; doe = (z + 719468) mod 146097
      in shift_year (year_of_era doe + 400 * e) (month_day (day_of_year doe)))"
proof -
  have "(z + 719468) - (z + 719468) div 146097 * 146097 = (z + 719468) mod 146097"
    by (simp add: minus_div_mult_eq_mod)
  then show ?thesis
    unfolding civil_from_days_def Let_def era_div
    by (simp add: month_day_def shift_year_def Let_def mult.commute)
qed

lemma leap_shift [simp]: "leap (y + 400 * e) = leap y"
proof -
  have "4 dvd y + 400 * e \<longleftrightarrow> 4 dvd y" "100 dvd y + 400 * e \<longleftrightarrow> 100 dvd y" "400 dvd y + 400 * e \<longleftrightarrow> 400 dvd y"
    by (simp_all add: dvd_add_left_iff dvd_mult2)
  then show ?thesis by (simp add: leap_def)
qed

lemma civil_at:
  assumes "0 \<le> doe" "doe < 146097"
  shows "civil_from_days (146097 * e + doe - 719468) =
    shift_year (year_of_era doe + 400 * e) (month_day (doe - year_start (year_of_era doe)))"
  using assms by (simp add: civil_split Let_def day_of_year_eq)

lemma era_split:
  obtains e doe :: int where "0 \<le> doe" "doe < 146097" "z = 146097 * e + doe - 719468"
proof
  show "z = 146097 * ((z + 719468) div 146097) + (z + 719468) mod 146097 - 719468" by simp
qed simp_all

lemma year_end_next:
  "next_day (shift_year y (month_day ((if leap (y + 1) then 366 else 365) - 1))) =
   shift_year (y + 1) (month_day 0)"
  by (simp add: month_day_ends shift_year_def next_day_def days_in_month_def)

lemma civil_next:
  "civil_from_days (z + 1) = next_day (civil_from_days z)"
proof -
  obtain e doe where d: "0 \<le> doe" "doe < 146097" and z: "z = 146097 * e + doe - 719468"
    by (rule era_split)
  define k where "k = year_of_era doe"
  note r = year_of_era_range [OF d, folded k_def]
  let ?y = "k + 400 * e" and ?len = "if leap (k + 1) then 366 else 365 :: int"
  let ?doy = "doe - year_start k"
  have leap: "leap (?y + 1) = leap (k + 1)" using leap_shift [of "k + 1" e] by (simp add: algebra_simps)
  have z1: "z + 1 = 146097 * e + (doe + 1) - 719468" using z by simp
  have cz: "civil_from_days z = shift_year ?y (month_day ?doy)"
    unfolding z k_def by (rule civil_at [OF d])
  have len: "year_start (k + 1) = year_start k + ?len" using year_length [of k] by simp
  consider "?doy + 1 < ?len" | "?doy + 1 = ?len" "k < 399" | "?doy + 1 = ?len" "k = 399"
    using r len by linarith
  then show ?thesis
  proof cases
    case 1
    have "year_of_era (doe + 1) = k" using r 1 len by (intro year_of_era_eq) auto
    moreover have "doe + 1 < 146097"
      using 1 len r year_start_le [of k] by linarith
    ultimately have c1: "civil_from_days (z + 1) = shift_year ?y (month_day (?doy + 1))"
      unfolding z1 using civil_at [of "doe + 1" e] d by (simp add: add_diff_eq add.commute)
    show ?thesis
    proof (cases "?doy < 364")
      case True
      then show ?thesis using c1 cz month_day_next [of ?doy ?y] r by simp
    next
      case False
      then have "?doy = 364" "leap (k + 1)" using 1 by (auto split: if_splits)
      then show ?thesis using c1 cz leap
        by (simp add: month_day_ends shift_year_def next_day_def days_in_month_def)
    qed
  next
    case 2
    then have d1: "doe + 1 = year_start (k + 1)" using len by linarith
    have p1: "0 \<le> year_start (k + 1)" using d(1) d1 by linarith
    have l1: "year_start (k + 1) < year_start (k + 1 + 1)" using year_length [of "k + 1"]
      by (auto split: if_splits)
    have "year_of_era (doe + 1) = k + 1" using r(1) 2(2) d1 l1 by (intro year_of_era_eq) auto
    moreover have "doe + 1 < 146097" using d1 l1 year_start_le [of "k + 1"] r(1) 2(2) by linarith
    ultimately have "civil_from_days (z + 1) = shift_year (?y + 1) (month_day 0)"
      unfolding z1 d1 using civil_at [of "year_start (k + 1)" e] p1 by (simp add: d1 ac_simps)
    moreover have "?doy = ?len - 1" using 2 by simp
    ultimately show ?thesis using cz year_end_next [of ?y] by (simp only: leap)
  next
    case 3
    then have "doe + 1 = 146097" using len by (simp add: year_start_def leap_def)
    then have z2: "z + 1 = 146097 * (e + 1) + 0 - 719468" using z by simp
    have "civil_from_days (z + 1) = shift_year (?y + 1) (month_day 0)"
      unfolding z2 using civil_at [of 0 "e + 1"] 3
      by (simp add: year_of_era_def year_start_def algebra_simps)
    moreover have "?doy = ?len - 1" using 3 by simp
    ultimately show ?thesis using cz year_end_next [of ?y] by (simp only: leap)
  qed
qed

lemma civil_valid: "valid_date (civil_from_days z)"
proof -
  obtain e doe where d: "0 \<le> doe" "doe < 146097" and z: "z = 146097 * e + doe - 719468"
    by (rule era_split)
  define k where "k = year_of_era doe"
  note r = year_of_era_range [OF d, folded k_def]
  have "leap (k + 400 * e + 1) = leap (k + 1)" using leap_shift [of "k + 1" e] by (simp add: algebra_simps)
  moreover have "doe - year_start k < (if leap (k + 1) then 366 else 365)"
    using r year_length [of k] by linarith
  ultimately have "valid_date (shift_year (k + 400 * e) (month_day (doe - year_start k)))"
    using r by (intro month_day_valid) simp_all
  then show ?thesis unfolding z using civil_at [OF d, of e] by (simp add: k_def)
qed

section \<open>What the timestamps promise\<close>

text \<open>
  The date in a timestamp is right. Day 0 is 1 January 1970 and the date of
  the next day number is always the next day of the Gregorian calendar, through
  every month, year, century and era boundary, so every day number gets the
  date the calendar gives it.
\<close>

theorem civil_from_days_calendar:
  "civil_from_days 0 = (1970, 1, 1)
   \<and> civil_from_days (z + 1) = next_day (civil_from_days z)
   \<and> valid_date (civil_from_days z)"
proof -
  have "civil_from_days 0 = (1970, 1, 1)" by code_simp
  then show ?thesis using civil_next civil_valid by blast
qed

text \<open>
  The unsigned arithmetic of the date never underflows: for a day of the
  era, the year of the era, the day of the year and the month index are all
  non-negative and each subtraction takes a number no larger than what it is
  taken from.
\<close>

theorem civil_no_underflow:
  assumes "0 \<le> doe" "doe < 146097"
  shows "doe div 1460 \<le> doe \<and> doe div 146096 \<le> doe - doe div 1460 + doe div 36524
    \<and> 0 \<le> year_of_era doe \<and> year_of_era doe < 400
    \<and> 0 \<le> day_of_year doe \<and> day_of_year doe \<le> 365
    \<and> 0 \<le> month_index (day_of_year doe) \<and> month_index (day_of_year doe) \<le> 11
    \<and> (153 * month_index (day_of_year doe) + 2) div 5 \<le> day_of_year doe"
proof -
  note r = year_of_era_range [OF assms] and y = day_of_year_eq [OF assms]
  have "0 \<le> day_of_year doe" "day_of_year doe \<le> 365"
    using r y year_length [of "year_of_era doe"] by (auto split: if_splits)
  moreover from doy_row [OF this] have "0 \<le> month_index (day_of_year doe)"
      "month_index (day_of_year doe) \<le> 11"
      "(153 * month_index (day_of_year doe) + 2) div 5 \<le> day_of_year doe"
    by (auto simp: doy_row_ok_def split: prod.splits)
  moreover have "doe div 1460 \<le> doe" "doe div 146096 \<le> doe - doe div 1460 + doe div 36524"
    using assms by linarith+
  ultimately show ?thesis using r by blast
qed

theorem civil_no_underflow_witness:
  "0 \<le> day_of_year 146096 \<and> day_of_year 146096 \<le> 365"
  using civil_no_underflow [of 146096] by simp

end
