(* ===== verification/Audit_Log.thy ===== *)
theory Audit_Log
  imports Http Calendar "HOL-Library.Word" "HOL-Library.Sublist"
begin

text \<open>
  The audit pipeline of \<^verbatim>\<open>audit/\<close>: the event envelope and its JSON form
  (\<^verbatim>\<open>event.rs\<close>), the fingerprints and redaction of \<^verbatim>\<open>redact.rs\<close> and the
  sinks of \<^verbatim>\<open>sink.rs\<close> with the failures their I/O can have.
\<close>

unbundle bit_operations_syntax

section \<open>Events\<close>

record actor =
  a_user_id :: string
  a_roles :: "string list option"
  a_auth_mode :: string

record audit_event =
  event_id :: string
  event_type :: string
  timestamp :: string
  schema_version :: string
  request_id :: string
  source_ip :: string
  user_agent :: "string option"
  ev_actor :: "actor option"
  payload :: json

definition SCHEMA_VERSION :: string where
  "SCHEMA_VERSION = ''0.1.0''"

text \<open>\<^verbatim>\<open>AuditEvent::new\<close>, given the fresh UUID and the clock.\<close>

definition audit_event_new ::
  "string \<Rightarrow> nat \<Rightarrow> string \<Rightarrow> string \<Rightarrow> string \<Rightarrow> actor option \<Rightarrow> json \<Rightarrow> audit_event" where
  "audit_event_new uuid unix_ms ty rid ip act p =
     \<lparr>event_id = uuid, event_type = ty, timestamp = rfc3339 unix_ms,
      schema_version = SCHEMA_VERSION, request_id = rid, source_ip = ip,
      user_agent = None, ev_actor = act, payload = p\<rparr>"

definition with_user_agent :: "string \<Rightarrow> audit_event \<Rightarrow> audit_event" where
  "with_user_agent ua e = e\<lparr>user_agent := Some ua\<rparr>"

definition auth_mode_str :: "auth_method \<Rightarrow> string" where
  "auth_mode_str m = (case m of Cookie \<Rightarrow> ''session_cookie'' | Bearer \<Rightarrow> ''bearer_jwt'')"

definition actor_from_principal :: "principal \<Rightarrow> actor" where
  "actor_from_principal p =
     \<lparr>a_user_id = user_id p,
      a_roles = (if roles p = [] then None else Some (roles p)),
      a_auth_mode = auth_mode_str (auth_method p)\<rparr>"

text \<open>The derived serialisation: fields in order, absent options skipped or null.\<close>

definition actor_json :: "actor \<Rightarrow> json" where
  "actor_json a = JObj (
     [(''user_id'', JStr (a_user_id a))]
     @ (case a_roles a of None \<Rightarrow> [] | Some rs \<Rightarrow> [(''roles'', JArr (map JStr rs))])
     @ [(''auth_mode'', JStr (a_auth_mode a))])"

definition event_json :: "audit_event \<Rightarrow> json" where
  "event_json e = JObj (
     [(''event_id'', JStr (event_id e)), (''event_type'', JStr (event_type e)),
      (''timestamp'', JStr (timestamp e)), (''schema_version'', JStr (schema_version e)),
      (''request_id'', JStr (request_id e)), (''source_ip'', JStr (source_ip e))]
     @ (case user_agent e of None \<Rightarrow> [] | Some ua \<Rightarrow> [(''user_agent'', JStr ua)])
     @ [(''actor'', case ev_actor e of None \<Rightarrow> JNull | Some a \<Rightarrow> actor_json a),
        (''payload'', payload e)])"

section \<open>Fingerprints and redaction\<close>

definition FNV1A_128_OFFSET :: "128 word" where
  "FNV1A_128_OFFSET = 0x6c62272e07bb014262b821756295c58d"

definition FNV1A_128_PRIME :: "128 word" where
  "FNV1A_128_PRIME = 0x0000000001000000000000000000013b"

definition fnv_step :: "128 word \<Rightarrow> char \<Rightarrow> 128 word" where
  "fnv_step hash byte = (hash XOR of_nat (of_char byte)) * FNV1A_128_PRIME"

definition fnv1a_128 :: "string \<Rightarrow> 128 word" where
  "fnv1a_128 data = foldl fnv_step FNV1A_128_OFFSET data"

definition hex_digit :: "nat \<Rightarrow> char" where
  "hex_digit d = (if d < 10 then char_of (48 + d) else char_of (87 + d))"

fun hex_str :: "nat \<Rightarrow> string" where
  "hex_str n = (if n < 16 then [hex_digit n] else hex_str (n div 16) @ [hex_digit (n mod 16)])"

declare hex_str.simps [simp del]

definition sha256_hex :: "string \<Rightarrow> string" where
  "sha256_hex input =
     (let hash = fnv1a_128 input;
          hi = (ucast (drop_bit 64 hash) :: 64 word);
          lo = (ucast hash :: 64 word)
      in ''fnv1a:'' @ pad_left 16 (hex_str (unat hi)) @ pad_left 16 (hex_str (unat lo)))"

definition hash_credential :: "string \<Rightarrow> string" where
  "hash_credential token = sha256_hex token"

text \<open>Serialising a \<^verbatim>\<open>serde_json::Value\<close> does not fail.\<close>

definition hash_args :: "ext \<Rightarrow> json \<Rightarrow> string" where
  "hash_args X args = sha256_hex (json_to_string X args)"

text \<open>
  \<^verbatim>\<open>str::is_char_boundary\<close> on the UTF-8 bytes; slicing elsewhere panics, which
  is \<open>None\<close>.
\<close>

definition is_char_boundary :: "string \<Rightarrow> nat \<Rightarrow> bool" where
  "is_char_boundary s i \<longleftrightarrow> i = 0 \<or> i = length s \<or>
     i < length s \<and> (let b = (of_char (s ! i) :: nat) in b < 128 \<or> 192 \<le> b)"

definition redact_string :: "string \<Rightarrow> nat \<Rightarrow> nat \<Rightarrow> string option" where
  "redact_string s keep_start keep_end =
     (let len = length s
      in if len \<le> keep_start + keep_end then Some ''[REDACTED]''
         else if \<not> is_char_boundary s keep_start \<or> \<not> is_char_boundary s (len - keep_end) then None
         else Some (take keep_start s @ ''***'' @ drop (len - keep_end) s))"

section \<open>Sinks\<close>

text \<open>
  A write either succeeds or fails after some bytes reached the file. A path
  that opens yields the file it names at that moment; the handle keeps naming
  that file when the path is moved.
\<close>

type_synonym file_id = nat

datatype write_outcome = Written | Failed nat

record io_env =
  io_stdout :: write_outcome
  io_open1 :: "file_id option"
  io_write1 :: write_outcome
  io_open2 :: "file_id option"
  io_write2 :: write_outcome

type_synonym disk = "file_id \<Rightarrow> string"

definition append_bytes :: "write_outcome \<Rightarrow> string \<Rightarrow> string \<Rightarrow> string" where
  "append_bytes w bytes old = old @ (case w of Written \<Rightarrow> bytes | Failed n \<Rightarrow> take n bytes)"

definition write_file :: "write_outcome \<Rightarrow> file_id \<Rightarrow> string \<Rightarrow> disk \<Rightarrow> disk" where
  "write_file w f bytes d = d(f := append_bytes w bytes (d f))"

record sink_state =
  ss_stdout :: string
  ss_writer :: "file_id option"
  ss_disk :: disk

datatype audit_sink = StdoutSink | FileSink string | CompositeSink "audit_sink list"

definition jsonl :: "ext \<Rightarrow> audit_event \<Rightarrow> string" where
  "jsonl X e = json_to_string X (event_json e) @ [CHR 0x0A]"

definition stdout_emit :: "ext \<Rightarrow> io_env \<Rightarrow> audit_event \<Rightarrow> sink_state \<Rightarrow> sink_state" where
  "stdout_emit X io e st =
     st\<lparr>ss_stdout := append_bytes (io_stdout io) (jsonl X e) (ss_stdout st)\<rparr>"

definition file_emit :: "ext \<Rightarrow> io_env \<Rightarrow> audit_event \<Rightarrow> sink_state \<Rightarrow> sink_state" where
  "file_emit X io e st =
     (case (case ss_writer st of None \<Rightarrow> io_open1 io | Some f \<Rightarrow> Some f) of
        None \<Rightarrow> st
      | Some f \<Rightarrow>
          let st1 = st\<lparr>ss_writer := Some f,
                       ss_disk := write_file (io_write1 io) f (jsonl X e) (ss_disk st)\<rparr>
          in if io_write1 io = Written then st1
             else (case io_open2 io of
                None \<Rightarrow> st1
              | Some f2 \<Rightarrow>
                  st1\<lparr>ss_writer := Some f2,
                      ss_disk := write_file (io_write2 io) f2 (jsonl X e) (ss_disk st1)\<rparr>))"

fun sink_emit :: "audit_sink \<Rightarrow> ext \<Rightarrow> io_env \<Rightarrow> audit_event \<Rightarrow> sink_state \<Rightarrow> sink_state" where
  "sink_emit StdoutSink X io e st = stdout_emit X io e st"
| "sink_emit (FileSink _) X io e st = file_emit X io e st"
| "sink_emit (CompositeSink sinks) X io e st = fold (\<lambda>s. sink_emit s X io e) sinks st"

definition build_sink_from_env :: "string option \<Rightarrow> audit_sink" where
  "build_sink_from_env audit_log_file =
     (let sinks = StdoutSink #
        (case audit_log_file of
           None \<Rightarrow> []
         | Some path0 \<Rightarrow> let path = trim path0 in if path \<noteq> [] then [FileSink path] else [])
      in if length sinks = 1 then hd sinks else CompositeSink sinks)"

text \<open>A history of events, each with the I/O outcomes it met.\<close>

fun emit_all ::
  "audit_sink \<Rightarrow> ext \<Rightarrow> (io_env \<times> audit_event) list \<Rightarrow> sink_state \<Rightarrow> sink_state" where
  "emit_all s X [] st = st"
| "emit_all s X ((io, e) # es) st = emit_all s X es (sink_emit s X io e st)"

section \<open>Fingerprints tell inputs apart\<close>

definition fnv_inverse :: "128 word" where
  "fnv_inverse = 235294668448601749631651150104872562675"

lemma fnv_prime_inverse: "FNV1A_128_PRIME * fnv_inverse = 1"
  by (simp add: FNV1A_128_PRIME_def fnv_inverse_def)

lemma fnv_mult_inj: "x * FNV1A_128_PRIME = y * FNV1A_128_PRIME \<Longrightarrow> x = y"
proof -
  assume "x * FNV1A_128_PRIME = y * FNV1A_128_PRIME"
  then have "x * (FNV1A_128_PRIME * fnv_inverse) = y * (FNV1A_128_PRIME * fnv_inverse)"
    by (simp only: mult.assoc [symmetric])
  then show "x = y" by (simp add: fnv_prime_inverse)
qed

lemma xor_left_inj: "(b :: 128 word) XOR x = b XOR y \<Longrightarrow> x = y"
proof -
  assume "b XOR x = b XOR y"
  then have "b XOR (b XOR x) = b XOR (b XOR y)" by (rule arg_cong)
  then show "x = y" by (simp only: xor.assoc [symmetric] xor_self_eq xor.left_neutral)
qed

lemma xor_right_inj: "(x :: 128 word) XOR b = y XOR b \<Longrightarrow> x = y"
  by (rule xor_left_inj [of b]) (simp only: xor.commute)

lemma fnv_step_inj_hash: "fnv_step h c = fnv_step h' c \<Longrightarrow> h = h'"
  unfolding fnv_step_def by (drule fnv_mult_inj) (rule xor_right_inj)

lemma byte_word_inj:
  assumes "(of_nat (of_char c) :: 128 word) = of_nat (of_char d)"
  shows "c = d"
proof -
  have lt: "(of_char x :: nat) < 2 ^ LENGTH(128)" for x
    by (rule less_trans [OF nat_of_char_less_256]) simp
  have "(of_char c :: nat) = of_char d"
    using arg_cong [OF assms, of unat] lt [of c] lt [of d]
    by (simp add: unsigned_of_nat take_bit_nat_eq_self)
  then show ?thesis by simp
qed

lemma fnv_step_inj_byte: "fnv_step h c = fnv_step h d \<Longrightarrow> c = d"
  unfolding fnv_step_def by (drule fnv_mult_inj) (intro byte_word_inj, rule xor_left_inj)

lemma fnv_fold_inj: "foldl fnv_step h post = foldl fnv_step h' post \<Longrightarrow> h = h'"
  by (induction post arbitrary: h h') (auto dest: fnv_step_inj_hash)

lemma fnv_one_byte:
  "a \<noteq> b \<Longrightarrow> fnv1a_128 (pre @ a # post) \<noteq> fnv1a_128 (pre @ b # post)"
  by (auto simp: fnv1a_128_def dest!: fnv_fold_inj fnv_step_inj_byte)

subsection \<open>The hexadecimal form is injective\<close>

definition hex_val :: "string \<Rightarrow> nat" where
  "hex_val s = foldl (\<lambda>n c. 16 * n +
     (let k = (of_char c :: nat) in if k < 58 then k - 48 else k - 87)) 0 s"

lemma hex_val_snoc [simp]:
  "hex_val (s @ [c]) = 16 * hex_val s +
     (let k = (of_char c :: nat) in if k < 58 then k - 48 else k - 87)"
  by (simp add: hex_val_def)

lemma hex_digit_val:
  "d < 16 \<Longrightarrow> (let k = (of_char (hex_digit d) :: nat) in if k < 58 then k - 48 else k - 87) = d"
  by (auto simp: hex_digit_def Let_def)

lemma hex_val_hex_str [simp]: "hex_val (hex_str n) = n"
proof (induction n rule: hex_str.induct)
  case (1 n)
  show ?case
  proof (cases "n < 16")
    case True
    then show ?thesis using hex_val_snoc [of "[]" "hex_digit n"]
      by (simp add: hex_str.simps [of n] hex_digit_val hex_val_def [of "[]"])
  next
    case False
    then show ?thesis using 1 by (simp add: hex_str.simps [of n] hex_digit_val)
  qed
qed

lemma hex_val_zeros: "hex_val (replicate k CHR ''0'' @ s) = hex_val s"
  by (induction k) (simp_all add: hex_val_def)

lemma hex_val_pad [simp]: "hex_val (pad_left w (hex_str n)) = n"
  by (simp add: pad_left_def hex_val_zeros)

lemma hex_str_length: "n < 16 ^ Suc w \<Longrightarrow> length (hex_str n) \<le> Suc w"
proof (induction w arbitrary: n)
  case 0
  then show ?case by (simp add: hex_str.simps [of n])
next
  case (Suc w)
  have "n div 16 < 16 ^ Suc w" using Suc.prems by (simp add: less_mult_imp_div_less)
  from Suc.IH [OF this] show ?case by (simp add: hex_str.simps [of n])
qed

lemma pad_hex_length: "length (pad_left 16 (hex_str (unat (x :: 64 word)))) = 16"
proof -
  have "unat x < 16 ^ Suc 15" using unsigned_less [of x] by simp
  from hex_str_length [OF this] show ?thesis by (simp add: pad_left_def)
qed

lemma word_halves:
  fixes x y :: "128 word"
  assumes "(ucast (drop_bit 64 x) :: 64 word) = ucast (drop_bit 64 y)" "(ucast x :: 64 word) = ucast y"
  shows "x = y"
proof (rule bit_word_eqI)
  fix n assume n: "n < LENGTH(128)"
  show "bit x n = bit y n"
  proof (cases "n < 64")
    case True
    then show ?thesis using arg_cong [OF assms(2), of "\<lambda>w. bit w n"] by (simp add: bit_ucast_iff)
  next
    case False
    moreover have "n - 64 < 64" using n False by simp
    ultimately show ?thesis using n arg_cong [OF assms(1), of "\<lambda>w. bit w (n - 64)"]
      by (simp add: bit_ucast_iff bit_drop_bit_eq)
  qed
qed

lemma sha256_hex_inj_hash: "sha256_hex a = sha256_hex b \<Longrightarrow> fnv1a_128 a = fnv1a_128 b"
proof -
  assume "sha256_hex a = sha256_hex b"
  then have "pad_left 16 (hex_str (unat (ucast (drop_bit 64 (fnv1a_128 a)) :: 64 word))) =
      pad_left 16 (hex_str (unat (ucast (drop_bit 64 (fnv1a_128 b)) :: 64 word)))"
    "pad_left 16 (hex_str (unat (ucast (fnv1a_128 a) :: 64 word))) =
      pad_left 16 (hex_str (unat (ucast (fnv1a_128 b) :: 64 word)))"
    by (simp_all add: sha256_hex_def Let_def pad_hex_length append_eq_append_conv)
  then have "unat (ucast (drop_bit 64 (fnv1a_128 a)) :: 64 word) =
      unat (ucast (drop_bit 64 (fnv1a_128 b)) :: 64 word)"
    "unat (ucast (fnv1a_128 a) :: 64 word) = unat (ucast (fnv1a_128 b) :: 64 word)"
    by (metis hex_val_pad)+
  then show "fnv1a_128 a = fnv1a_128 b" by (intro word_halves word_unat_eq_iff [THEN iffD2])
qed

section \<open>Sinks only append\<close>

text \<open>What a destination promises: it never takes back a byte it has.\<close>

definition extends :: "sink_state \<Rightarrow> sink_state \<Rightarrow> bool" where
  "extends st st' \<longleftrightarrow> prefix (ss_stdout st) (ss_stdout st') \<and>
     (\<forall>f. prefix (ss_disk st f) (ss_disk st' f))"

locale append_only =
  fixes emit :: "io_env \<Rightarrow> audit_event \<Rightarrow> sink_state \<Rightarrow> sink_state"
  assumes emit_extends: "extends st (emit io e st)"
begin

lemma fold_extends: "extends st (fold (\<lambda>(io, e). emit io e) es st)"
proof (induction es arbitrary: st)
  case (Cons x es)
  obtain io e where x: "x = (io, e)" by fastforce
  show ?case using emit_extends [of st io e] Cons.IH [of "emit io e st"]
    by (auto simp: x extends_def intro: prefix_order.trans)
qed (simp add: extends_def)

end

lemma extends_refl [simp, intro]: "extends st st"
  by (simp add: extends_def)

lemma extends_trans: "extends a b \<Longrightarrow> extends b c \<Longrightarrow> extends a c"
  by (auto simp: extends_def intro: prefix_order.trans)

lemma write_file_prefix: "prefix (d f) (write_file w g bytes d f)"
  by (simp add: write_file_def append_bytes_def)

lemma stdout_emit_extends: "extends st (stdout_emit X io e st)"
  by (simp add: extends_def stdout_emit_def append_bytes_def)

lemma file_emit_extends: "extends st (file_emit X io e st)"
  by (auto simp: extends_def file_emit_def Let_def write_file_prefix
      intro: prefix_order.trans write_file_prefix split: option.splits)

lemma sink_emit_extends: "extends st (sink_emit s X io e st)"
proof (induction s arbitrary: st)
  case (CompositeSink sinks)
  have "extends st (fold (\<lambda>s. sink_emit s X io e) ss st)" if "set ss \<subseteq> set sinks" for ss st
    using that
  proof (induction ss arbitrary: st)
    case (Cons s ss)
    then show ?case
      using CompositeSink.IH [of s st] by (auto intro: extends_trans)
  qed simp
  then show ?case by simp
qed (simp_all add: stdout_emit_extends file_emit_extends)

interpretation audit: append_only "sink_emit s X" for s X
  by unfold_locales (rule sink_emit_extends)

lemma emit_all_fold: "emit_all s X es st = fold (\<lambda>(io, e). sink_emit s X io e) es st"
  by (induction s X es st rule: emit_all.induct) auto

lemma stdout_complete:
  assumes "\<forall>(io, e) \<in> set es. io_stdout io = Written"
  shows "ss_stdout (emit_all StdoutSink X es st) = ss_stdout st @ concat (map (jsonl X \<circ> snd) es)"
  using assms
  by (induction es arbitrary: st) (auto simp: stdout_emit_def append_bytes_def)

section \<open>What the audit log promises\<close>


text \<open>
  With an audit file configured, an event whose first write to the file
  fails is still in the trail when the path can be reopened: one full line is
  at the end of the reopened file, later events go there, and stdout has its
  own copy.
\<close>

theorem audit_file_retry:
  assumes "trim path \<noteq> []" "ss_writer st = Some f" "io_write1 io = Failed n"
    and "io_open2 io = Some f2" "io_write2 io = Written" "io_stdout io = Written"
  shows "let st' = sink_emit (build_sink_from_env (Some path)) X io e st in
    suffix (jsonl X e) (ss_disk st' f2) \<and> ss_writer st' = Some f2
    \<and> ss_stdout st' = ss_stdout st @ jsonl X e
    \<and> (\<forall>g. g \<noteq> f \<and> g \<noteq> f2 \<longrightarrow> ss_disk st' g = ss_disk st g)"
  using assms
  by (auto simp: build_sink_from_env_def Let_def file_emit_def stdout_emit_def write_file_def
      append_bytes_def suffix_def)

definition wit_event :: audit_event where
  "wit_event = audit_event_new ''id'' 0 ''t'' ''r'' ''ip'' None JNull"

definition wit_io :: io_env where
  "wit_io = \<lparr>io_stdout = Written, io_open1 = None, io_write1 = Failed 0, io_open2 = Some 2,
     io_write2 = Written\<rparr>"

definition wit_ext :: ext where
  "wit_ext = \<lparr>hv_to_str = Some, hv_from_str = Some, url_parse = (\<lambda>_. Inl ''bad url''),
     url_string = u_text, json_from_str = (\<lambda>_. Inl ''bad json''), json_to_string = (\<lambda>_. ''{}''),
     to_lowercase = (\<lambda>s. s), form_parse = (\<lambda>_. []), default_hash = length, hash_order = (\<lambda>ks. ks),
     f64_string = (\<lambda>_. ''0''), utf8_lossy = (\<lambda>s. s)\<rparr>"

theorem audit_file_retry_witness:
  "suffix (jsonl wit_ext wit_event)
     (ss_disk (sink_emit (build_sink_from_env (Some ''a'')) wit_ext wit_io wit_event
        \<lparr>ss_stdout = [], ss_writer = Some 1, ss_disk = (\<lambda>_. [])\<rparr>) 2)"
proof -
  have t: "trim ''a'' \<noteq> []" by code_simp
  show ?thesis
    using audit_file_retry [of "''a''" "\<lparr>ss_stdout = [], ss_writer = Some 1, ss_disk = (\<lambda>_. [])\<rparr>"
        1 wit_io 0 2 wit_ext wit_event, OF t]
    by (simp add: wit_io_def Let_def)
qed

text \<open>
  A fingerprint changes with every byte. Two inputs that differ in one byte
  never have the same credential fingerprint, wherever the byte is and whatever
  surrounds it: each step of the hash is a bijection and the printed form keeps
  all 128 bits.
\<close>

theorem fingerprint_one_byte:
  assumes "a \<noteq> b"
  shows "hash_credential (pre @ a # post) \<noteq> hash_credential (pre @ b # post)"
  unfolding hash_credential_def
  by (rule notI, drule sha256_hex_inj_hash) (use fnv_one_byte [OF assms] in blast)

theorem fingerprint_one_byte_witness:
  "hash_credential ''to1en'' \<noteq> hash_credential ''to2en''"
  using fingerprint_one_byte [of "CHR ''1''" "CHR ''2''" "''to''" "''en''"] by simp

end
