(* ===== verification/Rate_Limiter.thy ===== *)
theory Rate_Limiter
  imports F64 Rust_Str
begin

text \<open>
  The token-bucket rate limiter of \<^verbatim>\<open>middleware/rate_limit.rs\<close>: one bucket per
  key, refilled by elapsed time when it is looked at. Every definition takes
  the rounding \<open>fl\<close> of the float type; the code runs with
  \<^const>\<open>b64_round\<close>.
\<close>

section \<open>State\<close>

record token_bucket =
  tokens :: rat
  last_refill :: nat

record rate_limiter =
  rl_rps :: rat
  rl_burst :: nat

type_synonym buckets = "string \<rightharpoonup> token_bucket"

text \<open>\<^verbatim>\<open>RateLimiter::new\<close>: no bucket exists before its first request.\<close>

definition rl_new :: "rat \<Rightarrow> nat \<Rightarrow> rate_limiter \<times> buckets" where
  "rl_new rps burst = (\<lparr>rl_rps = rps, rl_burst = burst\<rparr>, Map.empty)"

section \<open>The check\<close>

text \<open>
  \<^verbatim>\<open>Duration::as_secs_f64\<close> on a number of nanoseconds: whole seconds plus the
  fraction, each operation rounded.
\<close>

definition as_secs_f64 :: "(rat \<Rightarrow> rat) \<Rightarrow> nat \<Rightarrow> rat" where
  "as_secs_f64 fl ns =
     fl (fl (of_nat (ns div 10 ^ 9)) + fl (fl (of_nat (ns mod 10 ^ 9)) / fl (10 ^ 9)))"

definition bucket_at :: "rate_limiter \<Rightarrow> nat \<Rightarrow> string \<Rightarrow> buckets \<Rightarrow> token_bucket" where
  "bucket_at rl now key m =
     (case m key of None \<Rightarrow> \<lparr>tokens = of_nat (rl_burst rl), last_refill = now\<rparr> | Some b \<Rightarrow> b)"

definition refilled :: "(rat \<Rightarrow> rat) \<Rightarrow> rate_limiter \<Rightarrow> nat \<Rightarrow> token_bucket \<Rightarrow> rat" where
  "refilled fl rl now b =
     (let elapsed = as_secs_f64 fl (now - last_refill b)
      in min (fl (tokens b + fl (elapsed * rl_rps rl))) (of_nat (rl_burst rl)))"

definition check ::
  "(rat \<Rightarrow> rat) \<Rightarrow> rate_limiter \<Rightarrow> nat \<Rightarrow> string \<Rightarrow> buckets \<Rightarrow> bool \<times> buckets" where
  "check fl rl now key m =
     (let t = refilled fl rl now (bucket_at rl now key m)
      in if 1 \<le> t then (True, m(key \<mapsto> \<lparr>tokens = fl (t - 1), last_refill = now\<rparr>))
         else (False, m(key \<mapsto> \<lparr>tokens = t, last_refill = now\<rparr>)))"

text \<open>A run of requests, each a time and a key, with the verdict on each.\<close>

fun run_checks ::
  "(rat \<Rightarrow> rat) \<Rightarrow> rate_limiter \<Rightarrow> (nat \<times> string) list \<Rightarrow> buckets \<Rightarrow> (string \<times> bool) list \<times> buckets" where
  "run_checks fl rl [] m = ([], m)"
| "run_checks fl rl ((now, key) # rs) m =
     (let (a, m1) = check fl rl now key m; (vs, m2) = run_checks fl rl rs m1
      in ((key, a) # vs, m2))"

definition admitted :: "string \<Rightarrow> (string \<times> bool) list \<Rightarrow> nat" where
  "admitted key vs = length (filter (\<lambda>(k, a). k = key \<and> a) vs)"

section \<open>The invariant\<close>

definition bucket_ok :: "rate_limiter \<Rightarrow> token_bucket \<Rightarrow> bool" where
  "bucket_ok rl b \<longleftrightarrow> 0 \<le> tokens b \<and> tokens b \<le> of_nat (rl_burst rl)"

definition buckets_ok :: "rate_limiter \<Rightarrow> buckets \<Rightarrow> bool" where
  "buckets_ok rl m \<longleftrightarrow> (\<forall>k b. m k = Some b \<longrightarrow> bucket_ok rl b)"

text \<open>The limits a validated configuration gives the limiter.\<close>

definition limiter_ok :: "rate_limiter \<Rightarrow> bool" where
  "limiter_ok rl \<longleftrightarrow> 0 \<le> rl_rps rl \<and> rl_burst rl < 2 ^ 32"

lemma admitted_simps [simp]:
  "admitted key [] = 0"
  "admitted key ((k, a) # vs) = (if k = key \<and> a then 1 else 0) + admitted key vs"
  by (simp_all add: admitted_def)

lemma check_other [simp]: "k \<noteq> key \<Longrightarrow> snd (check fl rl now key m) k = m k"
  by (simp add: check_def Let_def)

lemma run_checks_hit:
  "check fl rl now k m = (a, m1) \<Longrightarrow>
     admitted k (fst (run_checks fl rl ((now, k) # rs) m)) =
       (if a then 1 else 0) + admitted k (fst (run_checks fl rl rs m1))"
  by (simp add: split_beta Let_def)

lemma check_local:
  "m key = m' key \<Longrightarrow> fst (check fl rl now key m) = fst (check fl rl now key m')"
  by (simp add: check_def bucket_at_def Let_def)

lemma run_checks_fold:
  "snd (run_checks fl rl rs m) = fold (\<lambda>(t, k) m. snd (check fl rl t k m)) rs m"
  by (induction fl rl rs m rule: run_checks.induct) (auto simp: Let_def split: prod.splits)

lemma check_last_refill:
  "snd (check fl rl now key m) key = Some b \<Longrightarrow> last_refill b = now"
  by (auto simp: check_def Let_def split: if_splits)

context f64_rounding
begin

lemma secs_nonneg: "0 \<le> as_secs_f64 fl ns"
  unfolding as_secs_f64_def by (intro fl_nonneg add_nonneg_nonneg divide_nonneg_nonneg) simp_all

lemma secs_0: "as_secs_f64 fl 0 = 0"
  by (simp add: as_secs_f64_def fl_0)

lemma refilled_bounds:
  assumes "limiter_ok rl" "bucket_ok rl b"
  shows "0 \<le> refilled fl rl now b" "refilled fl rl now b \<le> of_nat (rl_burst rl)"
proof -
  have "0 \<le> fl (tokens b + fl (as_secs_f64 fl (now - last_refill b) * rl_rps rl))"
    using assms secs_nonneg
    by (intro fl_nonneg add_nonneg_nonneg mult_nonneg_nonneg)
       (auto simp: bucket_ok_def limiter_ok_def)
  then show "0 \<le> refilled fl rl now b" by (simp add: refilled_def Let_def)
  show "refilled fl rl now b \<le> of_nat (rl_burst rl)" by (simp add: refilled_def Let_def)
qed

lemma bucket_at_ok: "buckets_ok rl m \<Longrightarrow> bucket_ok rl (bucket_at rl now key m)"
  by (auto simp: bucket_at_def buckets_ok_def bucket_ok_def split: option.splits)

lemma check_ok [inv_intros]:
  assumes "limiter_ok rl" "buckets_ok rl m"
  shows "buckets_ok rl (snd (check fl rl now key m))"
proof -
  let ?t = "refilled fl rl now (bucket_at rl now key m)"
  have t: "0 \<le> ?t" "?t \<le> of_nat (rl_burst rl)"
    using refilled_bounds [OF assms(1) bucket_at_ok [OF assms(2)]] by auto
  have "1 \<le> ?t \<Longrightarrow> 0 \<le> fl (?t - 1)" by (intro fl_nonneg) simp
  moreover have "fl (?t - 1) \<le> of_nat (rl_burst rl)"
    using t assms(1) by (intro fl_le_nat) (auto simp: limiter_ok_def)
  ultimately show ?thesis
    using assms(2) t by (auto simp: check_def Let_def buckets_ok_def bucket_ok_def)
qed

lemma run_checks_ok:
  "limiter_ok rl \<Longrightarrow> buckets_ok rl m \<Longrightarrow> buckets_ok rl (snd (run_checks fl rl rs m))"
proof (induction rs arbitrary: m)
  case (Cons r rs)
  obtain now key where r: "r = (now, key)" by fastforce
  have "buckets_ok rl (snd (check fl rl now key m))" using Cons.prems by (rule check_ok)
  from Cons.IH [OF Cons.prems(1) this] show ?case
    by (simp add: r Let_def split_beta)
qed simp

text \<open>
  Tokens bounded by an integer stay so while no time passes, and an admitted
  request lowers the bound by one: subtraction cannot round past the integer.
\<close>

lemma check_instant_level:
  assumes "limiter_ok rl" "m key = Some b" "last_refill b = now"
    "tokens b \<le> of_nat n" "n \<le> rl_burst rl"
  shows "\<exists>b'. snd (check fl rl now key m) key = Some b' \<and> last_refill b' = now \<and>
    tokens b' \<le> of_nat (n - (if fst (check fl rl now key m) then 1 else 0)) \<and>
    (fst (check fl rl now key m) \<longrightarrow> 0 < n)"
proof -
  have n: "n \<le> 2 ^ 53" using assms(1,5) by (simp add: limiter_ok_def)
  let ?t = "refilled fl rl now (bucket_at rl now key m)"
  have "?t \<le> fl (tokens b)"
    using assms(2,3) by (simp add: refilled_def bucket_at_def secs_0 fl_0)
  also have "\<dots> \<le> of_nat n" using assms(4) n by (intro fl_le_nat)
  finally have t: "?t \<le> of_nat n" .
  have "fl (?t - 1) \<le> of_nat (n - 1)" if "1 \<le> ?t"
    using that t n by (intro fl_le_nat) (auto simp: of_nat_diff)
  moreover have "0 < n" if "1 \<le> ?t"
    using that t by (cases n) auto
  ultimately show ?thesis using t by (auto simp: check_def Let_def)
qed

lemma run_instant_bound:
  assumes "limiter_ok rl" "\<forall>(t, k) \<in> set rs. t = now"
    and "m key = Some b" "last_refill b = now" "tokens b \<le> of_nat n" "n \<le> rl_burst rl"
  shows "admitted key (fst (run_checks fl rl rs m)) \<le> n"
  using assms(2-)
proof (induction rs arbitrary: m b n)
  case (Cons r rs)
  obtain k where r: "r = (now, k)" using Cons.prems(1) by (cases r) auto
  obtain a m1 where c: "check fl rl now k m = (a, m1)" by fastforce
  have rs: "\<forall>(t, k) \<in> set rs. t = now" using Cons.prems(1) by auto
  show ?case
  proof (cases "k = key")
    case False
    then have "m1 key = Some b" using Cons.prems(2) c check_other [of key k fl rl now m] by auto
    from Cons.IH [of m1 b n, OF rs this Cons.prems(3) Cons.prems(4) Cons.prems(5)] False show ?thesis by (simp add: r c split_beta Let_def)
  next
    case True
    from check_instant_level [of rl m key b now n, OF assms(1) Cons.prems(2-)] obtain b' where
      b': "m1 key = Some b'" "last_refill b' = now"
        "tokens b' \<le> of_nat (n - (if a then 1 else 0))" "a \<longrightarrow> 0 < n"
      using c True by auto
    have "n - (if a then 1 else 0) \<le> rl_burst rl" using Cons.prems(5) by simp
    from Cons.IH [of m1 b' "n - (if a then 1 else 0)", OF rs b'(1) b'(2) b'(3) this] b'(4)
    show ?thesis using run_checks_hit [OF c, of rs] r True by (cases a) auto
  qed
qed simp

text \<open>
  From any good state the first request for the key sees at most a full bucket,
  so a burst at one instant admits no more than the burst capacity.
\<close>

lemma check_level:
  assumes "limiter_ok rl" "buckets_ok rl m"
  shows "\<exists>b'. snd (check fl rl now key m) key = Some b' \<and> last_refill b' = now \<and>
    tokens b' \<le> of_nat (rl_burst rl - (if fst (check fl rl now key m) then 1 else 0)) \<and>
    (fst (check fl rl now key m) \<longrightarrow> 0 < rl_burst rl)"
proof -
  let ?t = "refilled fl rl now (bucket_at rl now key m)" and ?n = "rl_burst rl"
  have n: "?n \<le> 2 ^ 53" using assms(1) by (simp add: limiter_ok_def)
  have t: "?t \<le> of_nat ?n" using refilled_bounds(2) [OF assms(1) bucket_at_ok [OF assms(2)]] .
  have "fl (?t - 1) \<le> of_nat (?n - 1)" if "1 \<le> ?t"
    using that t n by (intro fl_le_nat) (auto simp: of_nat_diff)
  moreover have "0 < ?n" if "1 \<le> ?t" using that t by (cases ?n) auto
  ultimately show ?thesis using t by (auto simp: check_def Let_def)
qed

lemma run_burst_bound:
  assumes "limiter_ok rl" "\<forall>(t, k) \<in> set rs. t = now" "buckets_ok rl m"
  shows "admitted key (fst (run_checks fl rl rs m)) \<le> rl_burst rl"
  using assms(2-)
proof (induction rs arbitrary: m)
  case (Cons r rs)
  obtain k where r: "r = (now, k)" using Cons.prems(1) by (cases r) auto
  obtain a m1 where c: "check fl rl now k m = (a, m1)" by fastforce
  have rs: "\<forall>(t, k) \<in> set rs. t = now" using Cons.prems(1) by auto
  show ?case
  proof (cases "k = key")
    case False
    have "buckets_ok rl m1" using check_ok [OF assms(1) Cons.prems(2), of now k] c by simp
    from Cons.IH [OF rs this] False show ?thesis by (simp add: r c split_beta Let_def)
  next
    case True
    from check_level [OF assms(1) Cons.prems(2), of now key] obtain b' where
      b': "m1 key = Some b'" "last_refill b' = now"
        "tokens b' \<le> of_nat (rl_burst rl - (if a then 1 else 0))" "a \<longrightarrow> 0 < rl_burst rl"
      using c True by auto
    have "admitted key (fst (run_checks fl rl rs m1)) \<le> rl_burst rl - (if a then 1 else 0)"
      by (rule run_instant_bound [of rl rs now m1 key b', OF assms(1) rs b'(1) b'(2) b'(3)]) simp
    with b'(4) show ?thesis using run_checks_hit [OF c, of rs] r True by (cases a) auto
  qed
qed simp

lemma refill_admits:
  assumes "limiter_ok rl" "buckets_ok rl m" "1 \<le> rl_burst rl" "m key = Some b"
    and "1 \<le> as_secs_f64 fl (now - last_refill b) * rl_rps rl"
  shows "fst (check fl rl now key m)"
proof -
  have "1 \<le> fl (as_secs_f64 fl (now - last_refill b) * rl_rps rl)" using assms(5) by (rule fl_ge_1)
  moreover have "0 \<le> tokens b" using assms(2,4) by (auto simp: buckets_ok_def bucket_ok_def)
  ultimately have "1 \<le> fl (tokens b + fl (as_secs_f64 fl (now - last_refill b) * rl_rps rl))"
    by (intro fl_ge_1) simp
  then have "1 \<le> refilled fl rl now b" using assms(3) by (simp add: refilled_def Let_def)
  then show ?thesis using assms(4) by (simp add: check_def bucket_at_def Let_def)
qed

end

text \<open>The interface the request middleware relies on.\<close>

locale limiter =
  fixes chk :: "nat \<Rightarrow> string \<Rightarrow> 'b \<Rightarrow> bool \<times> 'b"
    and view :: "'b \<Rightarrow> string \<Rightarrow> 'c option"
    and invar :: "'b \<Rightarrow> bool"
  assumes chk_invar: "invar m \<Longrightarrow> invar (snd (chk now key m))"
    and chk_frame: "k \<noteq> key \<Longrightarrow> view (snd (chk now key m)) k = view m k"
    and chk_local: "view m key = view m' key \<Longrightarrow> fst (chk now key m) = fst (chk now key m')"
begin

text \<open>Requests for other keys leave a key's bucket alone, whatever their order.\<close>

lemma fold_frame:
  "\<forall>(t, k') \<in> set rs. k' \<noteq> k \<Longrightarrow>
     view (fold (\<lambda>(t, k') m. snd (chk t k' m)) rs m) k = view m k"
proof (induction rs arbitrary: m)
  case (Cons r rs)
  obtain t k' where r: "r = (t, k')" by fastforce
  have "view (fold (\<lambda>(t, k') m. snd (chk t k' m)) rs (snd (chk t k' m))) k =
      view (snd (chk t k' m)) k"
    using Cons.prems by (intro Cons.IH) auto
  also have "\<dots> = view m k" using Cons.prems r by (intro chk_frame) auto
  finally show ?case by (simp add: r)
qed simp

lemma isolation:
  "\<forall>(t, k') \<in> set rs. k' \<noteq> k \<Longrightarrow>
     fst (chk now k (fold (\<lambda>(t, k') m. snd (chk t k' m)) rs m)) = fst (chk now k m)"
  by (intro chk_local fold_frame)

lemma fold_invar: "invar m \<Longrightarrow> invar (fold (\<lambda>(t, k') m. snd (chk t k' m)) rs m)"
  by (induction rs arbitrary: m) (auto intro: chk_invar)

end

interpretation b64_limiter: limiter "check b64_round rl" "\<lambda>m. m"
    "\<lambda>m. limiter_ok rl \<and> buckets_ok rl m" for rl
  by unfold_locales (auto intro: b64.check_ok check_local [THEN iffD1] check_local [THEN iffD2])

section \<open>The long-run rate in exact arithmetic\<close>

text \<open>
  With exact arithmetic a request either takes a token or leaves the bucket, so
  tokens and admissions together never outgrow the refill.
\<close>

lemma secs_exact: "as_secs_f64 (\<lambda>x. x) ns = of_nat ns / 10 ^ 9"
proof -
  have "(of_nat ns :: rat) = of_nat (10 ^ 9 * (ns div 10 ^ 9) + ns mod 10 ^ 9)"
    by (simp only: mult_div_mod_eq)
  also have "\<dots> = 10 ^ 9 * of_nat (ns div 10 ^ 9) + of_nat (ns mod 10 ^ 9)"
    by (simp only: of_nat_add of_nat_mult of_nat_power of_nat_numeral)
  finally have e: "(of_nat ns :: rat) = 10 ^ 9 * of_nat (ns div 10 ^ 9) + of_nat (ns mod 10 ^ 9)" .
  show ?thesis unfolding as_secs_f64_def by (subst e) (simp add: add_divide_distrib)
qed

lemma check_exact_balance:
  assumes "m key = Some b" "last_refill b \<le> now"
  shows "\<exists>b'. snd (check (\<lambda>x. x) rl now key m) key = Some b' \<and> last_refill b' = now \<and>
    (if fst (check (\<lambda>x. x) rl now key m) then 1 else 0) + tokens b' \<le>
      tokens b + rl_rps rl * (of_nat now - of_nat (last_refill b)) / 10 ^ 9"
proof -
  have "refilled (\<lambda>x. x) rl now b \<le>
      tokens b + rl_rps rl * (of_nat now - of_nat (last_refill b)) / 10 ^ 9"
    using assms(2) by (simp add: refilled_def secs_exact Let_def of_nat_diff mult.commute)
  then show ?thesis using assms(1) by (auto simp: check_def bucket_at_def Let_def)
qed

lemma run_exact_balance:
  assumes "limiter_ok rl" "sorted (map fst rs)" "\<forall>(t, k) \<in> set rs. t0 \<le> t \<and> t \<le> t1"
    and "m key = Some b" "bucket_ok rl b" "last_refill b \<le> t0" "t0 \<le> t1"
    and "buckets_ok rl m"
  shows "of_nat (admitted key (fst (run_checks (\<lambda>x. x) rl rs m))) \<le>
    tokens b + rl_rps rl * (of_nat t1 - of_nat (last_refill b)) / 10 ^ 9"
  using assms(2-)
proof (induction rs arbitrary: m b t0)
  case Nil
  have "0 \<le> rl_rps rl * (of_nat t1 - of_nat (last_refill b)) / 10 ^ 9"
    using assms(1) Nil.prems by (intro divide_nonneg_nonneg mult_nonneg_nonneg) (auto simp: limiter_ok_def)
  then show ?case using Nil.prems(4) by (simp add: bucket_ok_def)
next
  case (Cons r rs)
  obtain now k where r: "r = (now, k)" by fastforce
  obtain a m1 where c: "check (\<lambda>x. x) rl now k m = (a, m1)" by fastforce
  have ok1: "buckets_ok rl m1" using exact.check_ok [OF assms(1) Cons.prems(7), of now k] c by simp
  have now: "t0 \<le> now" "now \<le> t1" using Cons.prems(2) r by auto
  have rs: "sorted (map fst rs)" "\<forall>(t, k) \<in> set rs. now \<le> t \<and> t \<le> t1"
    using Cons.prems(1,2) r by auto
  show ?case
  proof (cases "k = key")
    case False
    then have m1: "m1 key = Some b"
      using Cons.prems(3) c check_other [of key k "\<lambda>x. x" rl now m] by auto
    have "last_refill b \<le> now" using Cons.prems(5) now by simp
    from Cons.IH [of now m1 b, OF rs m1 Cons.prems(4) this now(2) ok1] False
    show ?thesis by (simp add: r c split_beta Let_def)
  next
    case True
    have "last_refill b \<le> now" using Cons.prems(5) now by simp
    from check_exact_balance [of m key b now rl, OF Cons.prems(3) this] obtain b' where
      b': "m1 key = Some b'" "last_refill b' = now"
        "(if a then 1 else 0) + tokens b' \<le>
           tokens b + rl_rps rl * (of_nat now - of_nat (last_refill b)) / 10 ^ 9"
      using c True by auto
    have "bucket_ok rl b'" using ok1 b'(1) by (simp add: buckets_ok_def)
    then have "of_nat (admitted key (fst (run_checks (\<lambda>x. x) rl rs m1))) \<le>
        tokens b' + rl_rps rl * (of_nat t1 - of_nat now) / 10 ^ 9"
      using Cons.IH [of now m1 b', OF rs b'(1)] b'(2) now(2) ok1 by simp
    moreover have "rl_rps rl * (of_nat now - of_nat (last_refill b)) / 10 ^ 9 +
        rl_rps rl * (of_nat t1 - of_nat now) / 10 ^ 9 =
        rl_rps rl * (of_nat t1 - of_nat (last_refill b)) / 10 ^ 9"
      by (simp add: field_simps)
    moreover have "of_nat (admitted key (fst (run_checks (\<lambda>x. x) rl (r # rs) m))) =
        (if a then 1 else 0) + (of_nat (admitted key (fst (run_checks (\<lambda>x. x) rl rs m1))) :: rat)"
      using run_checks_hit [OF c, of rs] r True by simp
    ultimately show ?thesis using b'(3) by linarith
  qed
qed

lemma run_window_bound:
  assumes "limiter_ok rl" "sorted (map fst rs)" "\<forall>(t, k) \<in> set rs. t0 \<le> t \<and> t \<le> t1"
    and "t0 \<le> t1" "buckets_ok rl m"
  shows "of_nat (admitted key (fst (run_checks (\<lambda>x. x) rl rs m))) \<le>
    of_nat (rl_burst rl) + rl_rps rl * (of_nat t1 - of_nat t0) / 10 ^ 9"
  using assms(2-)
proof (induction rs arbitrary: m t0)
  case Nil
  have "0 \<le> rl_rps rl * (of_nat t1 - of_nat t0) / 10 ^ 9"
    using assms(1) Nil.prems by (intro divide_nonneg_nonneg mult_nonneg_nonneg) (auto simp: limiter_ok_def)
  then show ?case by simp
next
  case (Cons r rs)
  obtain now k where r: "r = (now, k)" by fastforce
  obtain a m1 where c: "check (\<lambda>x. x) rl now k m = (a, m1)" by fastforce
  have ok1: "buckets_ok rl m1" using exact.check_ok [OF assms(1) Cons.prems(4), of now k] c by simp
  have now: "t0 \<le> now" "now \<le> t1" using Cons.prems(2) r by auto
  have rs: "sorted (map fst rs)" "\<forall>(t, k) \<in> set rs. now \<le> t \<and> t \<le> t1"
    using Cons.prems(1,2) r by auto
  have mono: "rl_rps rl * (of_nat t1 - of_nat now) / 10 ^ 9 \<le> rl_rps rl * (of_nat t1 - of_nat t0) / 10 ^ 9"
    using assms(1) now by (intro divide_right_mono mult_left_mono) (auto simp: limiter_ok_def)
  show ?case
  proof (cases "k = key")
    case False
    from Cons.IH [OF rs now(2) ok1] mono False show ?thesis
      by (simp add: r c split_beta Let_def)
  next
    case True
    from exact.check_level [OF assms(1) Cons.prems(4), of now key] obtain b' where
      b': "m1 key = Some b'" "last_refill b' = now"
        "tokens b' \<le> of_nat (rl_burst rl - (if a then 1 else 0))" "a \<longrightarrow> 0 < rl_burst rl"
      using c True by auto
    have "of_nat (admitted key (fst (run_checks (\<lambda>x. x) rl rs m1))) \<le>
        tokens b' + rl_rps rl * (of_nat t1 - of_nat now) / 10 ^ 9"
      using run_exact_balance [of rl rs now t1 m1 key b', OF assms(1) rs b'(1)] ok1 b'(1,2) now(2)
      by (auto simp: buckets_ok_def)
    moreover have "(if a then 1 else 0) + tokens b' \<le> of_nat (rl_burst rl)"
      using b'(3,4) by (cases a) (auto simp: of_nat_diff)
    moreover have "of_nat (admitted key (fst (run_checks (\<lambda>x. x) rl (r # rs) m))) =
        (if a then 1 else 0) + (of_nat (admitted key (fst (run_checks (\<lambda>x. x) rl rs m1))) :: rat)"
      using run_checks_hit [OF c, of rs] r True by simp
    ultimately show ?thesis using mono by linarith
  qed
qed

lemma buckets_ok_empty [simp, intro]: "buckets_ok rl Map.empty"
  by (simp add: buckets_ok_def)

section \<open>What the limiter guarantees\<close>

text \<open>
  C32: no burst beyond the configured capacity. Whatever requests came before,
  at whatever times, the binary64 limiter admits at most \<open>burst\<close> requests of
  one key at one instant: neither the refill nor rounding adds a token.
\<close>

theorem limiter_burst_bound:
  assumes "limiter_ok rl" "\<forall>(t, k) \<in> set rs. t = now"
  shows "admitted key (fst (run_checks b64_round rl rs
           (snd (run_checks b64_round rl history Map.empty)))) \<le> rl_burst rl"
  using assms b64.run_checks_ok [OF assms(1), of Map.empty history]
  by (intro b64.run_burst_bound) auto

theorem limiter_burst_bound_witness:
  "admitted ''a'' (fst (run_checks b64_round \<lparr>rl_rps = 5, rl_burst = 2\<rparr>
      [(7, ''a''), (7, ''a''), (7, ''a'')]
      (snd (run_checks b64_round \<lparr>rl_rps = 5, rl_burst = 2\<rparr> [(3, ''a'')] Map.empty)))) \<le> 2"
  using limiter_burst_bound [of "\<lparr>rl_rps = 5, rl_burst = 2\<rparr>"
      "[(7, ''a''), (7, ''a''), (7, ''a'')]" 7 "''a''" "[(3, ''a'')]"]
  by (simp add: limiter_ok_def)

text \<open>
  The long-run rate. Computed without rounding error, any run of requests
  inside a window of time admits at most \<open>burst\<close> requests of a key plus
  \<open>rps\<close> per second of the window, from every good state of the buckets.
\<close>

theorem limiter_window_rate:
  assumes "limiter_ok rl" "buckets_ok rl m" "sorted (map fst rs)"
    and "\<forall>(t, k) \<in> set rs. t0 \<le> t \<and> t \<le> t1" "t0 \<le> t1"
  shows "of_nat (admitted key (fst (run_checks (\<lambda>x. x) rl rs m))) \<le>
    of_nat (rl_burst rl) + rl_rps rl * ((of_nat t1 - of_nat t0) / 10 ^ 9)"
  using run_window_bound [OF assms(1,3,4,5,2), of key] by simp

theorem limiter_window_rate_witness:
  "of_nat (admitted ''a'' (fst (run_checks (\<lambda>x. x) \<lparr>rl_rps = 1, rl_burst = 1\<rparr>
      [(0, ''a''), (10 ^ 9, ''a'')] Map.empty))) \<le> (2 :: rat)"
  using limiter_window_rate [of "\<lparr>rl_rps = 1, rl_burst = 1\<rparr>" Map.empty
      "[(0, ''a''), (10 ^ 9, ''a'')]" 0 "10 ^ 9" "''a''"]
  by (simp add: limiter_ok_def)

text \<open>
  A throttled client recovers. Once enough time has passed since a bucket
  was last looked at to earn one token at the configured rate, the next
  request of that key is admitted.
\<close>

theorem limiter_recovers:
  assumes "limiter_ok rl" "buckets_ok rl m" "1 \<le> rl_burst rl" "m key = Some b"
    and "1 \<le> as_secs_f64 b64_round (now - last_refill b) * rl_rps rl"
  shows "fst (check b64_round rl now key m)"
  using b64.refill_admits [of rl m key b now] assms by blast

theorem limiter_recovers_witness:
  "fst (check b64_round \<lparr>rl_rps = 2, rl_burst = 3\<rparr> (10 ^ 9) ''a''
     [''a'' \<mapsto> \<lparr>tokens = 0, last_refill = 0\<rparr>])"
  using limiter_recovers [of "\<lparr>rl_rps = 2, rl_burst = 3\<rparr>"
      "[''a'' \<mapsto> \<lparr>tokens = 0, last_refill = 0\<rparr>]" "''a''"
      "\<lparr>tokens = 0, last_refill = 0\<rparr>" "10 ^ 9"]
  by (simp add: limiter_ok_def buckets_ok_def bucket_ok_def as_secs_f64_def b64.fl_0 b64.fl_1)

text \<open>
  Clients do not share buckets. The verdict on a request depends on the
  earlier requests of its own key only: any traffic of other keys in between
  leaves it unchanged.
\<close>

theorem limiter_isolation:
  assumes "\<forall>(t, k) \<in> set rs. k \<noteq> key"
  shows "fst (check b64_round rl now key (snd (run_checks b64_round rl rs m))) =
         fst (check b64_round rl now key m)"
  using b64_limiter.isolation [OF assms, of rl now m] by (simp add: run_checks_fold)

theorem limiter_isolation_witness:
  "fst (check b64_round \<lparr>rl_rps = 2, rl_burst = 3\<rparr> 4 ''a''
     (snd (run_checks b64_round \<lparr>rl_rps = 2, rl_burst = 3\<rparr> [(1, ''b''), (2, ''c'')] Map.empty)))
   = fst (check b64_round \<lparr>rl_rps = 2, rl_burst = 3\<rparr> 4 ''a'' Map.empty)"
  using limiter_isolation [of "[(1, ''b''), (2, ''c'')]" "''a''" "\<lparr>rl_rps = 2, rl_burst = 3\<rparr>" 4 Map.empty]
  by simp

end
