(* ===== verification/World.thy ===== *)
theory World
  imports Audit_Log Rate_Limiter
begin

text \<open>
  The state the request path works on, and what a middleware is: a function of
  the rest of the stack (\<^verbatim>\<open>Next\<close>), the request and the state, that answers
  itself or hands the request on. The locale \<open>gate\<close> is the contract every
  guarding middleware of the gateway meets; its lemmas are proved once here.
\<close>

section \<open>The state\<close>

text \<open>The structured log line of \<^verbatim>\<open>observability.rs\<close>.\<close>

record request_log =
  lg_service :: string
  lg_route :: string
  lg_method :: string
  lg_status :: nat
  lg_x_request_id :: string
  lg_latency_ms :: nat
  lg_user_id :: "string option"
  lg_roles :: "string list option"
  lg_upstream_status :: "nat option"
  lg_upstream_latency_ms :: "nat option"
  lg_timeout_hit :: bool
  lg_error_kind :: "string option"

text \<open>
  \<open>w_now\<close> is the monotonic clock in nanoseconds, \<open>w_unix_ms\<close> the wall clock,
  \<open>w_uuid\<close> the supply of random UUIDs and \<open>w_ctr\<close> how many were drawn.
  \<open>w_read\<close> and \<open>w_write\<close> are the buckets of the two rate limiters,
  \<open>w_auth\<close> is the state of the session validator and \<open>w_app\<close> everything
  the handlers and the services behind them own.
\<close>

record ('v, 's) world =
  w_audit :: "audit_event list"
  w_logs :: "request_log list"
  w_now :: nat
  w_unix_ms :: nat
  w_uuid :: "nat \<Rightarrow> string"
  w_ctr :: nat
  w_read :: buckets
  w_write :: buckets
  w_auth :: 'v
  w_app :: 's

type_synonym ('v, 's) handler = "request \<Rightarrow> ('v, 's) world \<Rightarrow> response \<times> ('v, 's) world"
type_synonym ('v, 's) middleware =
  "('v, 's) handler \<Rightarrow> request \<Rightarrow> ('v, 's) world \<Rightarrow> (app_error, response) result \<times> ('v, 's) world"

section \<open>Effects\<close>

definition new_uuid :: "('v, 's) world \<Rightarrow> string \<times> ('v, 's) world" where
  "new_uuid w = (w_uuid w (w_ctr w), w\<lparr>w_ctr := Suc (w_ctr w)\<rparr>)"

text \<open>\<^verbatim>\<open>AuditLog::emit(AuditEvent::new(..))\<close>, with the User-Agent where the caller adds one.\<close>

definition event_of ::
  "string \<Rightarrow> string \<Rightarrow> string \<Rightarrow> actor option \<Rightarrow> json \<Rightarrow> string option
     \<Rightarrow> ('v, 's) world \<Rightarrow> audit_event" where
  "event_of ty rid ip act p ua w =
     (let evt = audit_event_new (fst (new_uuid w)) (w_unix_ms w) ty rid ip act p
      in case ua of None \<Rightarrow> evt | Some a \<Rightarrow> with_user_agent a evt)"

definition emit_event ::
  "string \<Rightarrow> string \<Rightarrow> string \<Rightarrow> actor option \<Rightarrow> json \<Rightarrow> string option
     \<Rightarrow> ('v, 's) world \<Rightarrow> ('v, 's) world" where
  "emit_event ty rid ip act p ua w =
     (snd (new_uuid w))\<lparr>w_audit := w_audit w @ [event_of ty rid ip act p ua w]\<rparr>"

text \<open>\<^verbatim>\<open>Ok(next.run(req).await)\<close>, and the axum adapter that turns an error into a response.\<close>

definition run_next :: "('v, 's) middleware" where
  "run_next next rq w = (case next rq w of (r, w') \<Rightarrow> (Ok r, w'))"

definition layer :: "('v, 's) middleware \<Rightarrow> ('v, 's) handler \<Rightarrow> ('v, 's) handler" where
  "layer mw next rq w = (case mw next rq w of
     (Inl e, w') \<Rightarrow> (into_response e, w')
   | (Inr r, w') \<Rightarrow> (r, w'))"

section \<open>Request context\<close>

definition extract_request_id :: "ext \<Rightarrow> request \<Rightarrow> string" where
  "extract_request_id X rq = unwrap_or ''unknown'' (Option.bind (rq_request_id rq) (hv_to_str X))"

text \<open>The first non-empty proxy header, if any.\<close>

definition proxy_ip :: "ext \<Rightarrow> request \<Rightarrow> string option" where
  "proxy_ip X rq =
     opt_or
       (opt_filter (\<lambda>t. t \<noteq> [])
          (map_option (\<lambda>v. trim (hd (split_on (CHR '','') v)))
             (header_str X (rq_headers rq) ''x-forwarded-for'')))
       (opt_filter (\<lambda>t. t \<noteq> [])
          (map_option trim (header_str X (rq_headers rq) ''x-real-ip'')))"

definition extract_source_ip :: "ext \<Rightarrow> request \<Rightarrow> string" where
  "extract_source_ip X rq = unwrap_or ''unknown'' (proxy_ip X rq)"

definition extract_client_ip :: "ext \<Rightarrow> request \<Rightarrow> string" where
  "extract_client_ip X rq = unwrap_or ''unknown'' (opt_or (proxy_ip X rq) (rq_peer rq))"

definition is_state_changing :: "string \<Rightarrow> bool" where
  "is_state_changing m = (m \<in> set [''POST'', ''PUT'', ''PATCH'', ''DELETE''])"

definition is_mutating :: "string \<Rightarrow> bool" where
  "is_mutating m = (m \<in> set [''POST'', ''PUT'', ''PATCH''])"

section \<open>Facts about effects\<close>

lemma emit_event_frame [simp]:
  "w_app (emit_event ty rid ip act p ua w) = w_app w"
  "w_auth (emit_event ty rid ip act p ua w) = w_auth w"
  "w_now (emit_event ty rid ip act p ua w) = w_now w"
  "w_read (emit_event ty rid ip act p ua w) = w_read w"
  "w_write (emit_event ty rid ip act p ua w) = w_write w"
  "w_logs (emit_event ty rid ip act p ua w) = w_logs w"
  "w_uuid (emit_event ty rid ip act p ua w) = w_uuid w"
  by (simp_all add: emit_event_def new_uuid_def Let_def)

lemma emit_event_audit [simp]:
  "w_audit (emit_event ty rid ip act p ua w) = w_audit w @ [event_of ty rid ip act p ua w]"
  by (simp add: emit_event_def)

lemma event_of_simps [simp]:
  "event_type (event_of ty rid ip act p ua w) = ty"
  "request_id (event_of ty rid ip act p ua w) = rid"
  "source_ip (event_of ty rid ip act p ua w) = ip"
  "ev_actor (event_of ty rid ip act p ua w) = act"
  "payload (event_of ty rid ip act p ua w) = p"
  "user_agent (event_of ty rid ip act p ua w) = ua"
  by (auto simp: event_of_def Let_def audit_event_new_def with_user_agent_def split: option.splits)

lemma new_uuid_frame [simp]:
  "w_app (snd (new_uuid w)) = w_app w" "w_audit (snd (new_uuid w)) = w_audit w"
  "w_auth (snd (new_uuid w)) = w_auth w" "w_logs (snd (new_uuid w)) = w_logs w"
  by (simp_all add: new_uuid_def)

lemma run_next_eq [simp]: "run_next next rq w = (Ok (fst (next rq w)), snd (next rq w))"
  by (simp add: run_next_def split_beta)

lemma layer_Err: "mw next rq w = (Inl e, w') \<Longrightarrow> layer mw next rq w = (into_response e, w')"
  by (simp add: layer_def)

lemma layer_Ok: "mw next rq w = (Inr r, w') \<Longrightarrow> layer mw next rq w = (r, w')"
  by (simp add: layer_def)

section \<open>Gates\<close>

text \<open>
  A gate turns away exactly the requests it calls bad, before anything behind
  it runs, without touching the application state and with one answer whatever
  is behind it. Any other request it hands on exactly once, with the same
  method and path, and then at most decorates the response.
\<close>

locale gate =
  fixes mw :: "('v, 's) middleware"
    and bad :: "request \<Rightarrow> ('v, 's) world \<Rightarrow> bool"
  assumes bad_rejects:
      "bad rq w \<Longrightarrow> \<exists>e w'. w_app w' = w_app w \<and> (\<forall>next. mw next rq w = (Inl e, w'))"
    and good_runs:
      "\<not> bad rq w \<Longrightarrow> \<exists>rq' w' post. w_app w' = w_app w \<and> rq_method rq' = rq_method rq
         \<and> rq_path rq' = rq_path rq \<and> (\<forall>r v. w_app (snd (post r v)) = w_app v)
         \<and> (\<forall>next. mw next rq w = (case next rq' w' of (r, v) \<Rightarrow> (Inr (fst (post r v)), snd (post r v))))"
begin

lemma reject_status:
  assumes "bad rq w"
  shows "rs_status (fst (layer mw next rq w)) \<in> {400..599}"
  using bad_rejects [OF assms] error_parts_status by (auto simp: layer_def)

lemma reject_no_effect:
  assumes "bad rq w"
  shows "w_app (snd (layer mw next rq w)) = w_app w"
  using bad_rejects [OF assms] by (auto simp: layer_def)

lemma reject_blind:
  assumes "bad rq w"
  shows "layer mw next rq w = layer mw next' rq w"
  using bad_rejects [OF assms] by (auto simp: layer_def)

lemma pass_runs:
  assumes "\<not> bad rq w"
  shows "\<exists>rq' w' post. w_app w' = w_app w \<and> rq_method rq' = rq_method rq \<and> rq_path rq' = rq_path rq
    \<and> (\<forall>r v. w_app (snd (post r v)) = w_app v)
    \<and> (\<forall>next. layer mw next rq w = (case next rq' w' of (r, v) \<Rightarrow> post r v))"
proof -
  from good_runs [OF assms] obtain rq' w' and post :: "response \<Rightarrow> ('v, 's) world \<Rightarrow> response \<times> ('v, 's) world"
    where g: "w_app w' = w_app w" "rq_method rq' = rq_method rq" "rq_path rq' = rq_path rq"
      "\<forall>r v. w_app (snd (post r v)) = w_app v"
      "\<forall>next. mw next rq w = (case next rq' w' of (r, v) \<Rightarrow> (Inr (fst (post r v)), snd (post r v)))"
    by auto
  have "layer mw next rq w = (case next rq' w' of (r, v) \<Rightarrow> post r v)" for "next"
    using g(5) by (simp add: layer_def split_beta)
  with g(1-4) show ?thesis by blast
qed

text \<open>A handler without effects stays so behind a gate.\<close>

lemma quiet_behind_gate:
  assumes "\<And>rq w. w_app (snd (next rq w)) = w_app w"
  shows "w_app (snd (layer mw next rq w)) = w_app w"
proof (cases "bad rq w")
  case False
  from pass_runs [OF this] assms show ?thesis by (auto simp: split_beta)
qed (rule reject_no_effect)

end

section \<open>A concrete state\<close>

text \<open>A state, a request and its body to instantiate the properties with.\<close>

definition wit_world :: "(unit, nat) world" where
  "wit_world = \<lparr>w_audit = [], w_logs = [], w_now = 0, w_unix_ms = 0,
     w_uuid = (\<lambda>n. ''uuid-'' @ dec_str n), w_ctr = 0, w_read = Map.empty, w_write = Map.empty,
     w_auth = (), w_app = 0\<rparr>"

definition wit_request :: "string \<Rightarrow> header_map \<Rightarrow> request" where
  "wit_request m h = \<lparr>rq_method = m, rq_path = ''/v1/items'', rq_query = None, rq_headers = h,
     rq_body = Some [], rq_request_id = Some ''rid'', rq_peer = None, rq_principal = None,
     rq_matched = None\<rparr>"

definition wit_handler :: "(unit, nat) handler" where
  "wit_handler rq w = (json_response 200 JNull, w\<lparr>w_app := Suc (w_app w)\<rparr>)"

end
