(* ===== verification/Edge_Middleware.thy ===== *)
theory Edge_Middleware
  imports World
begin

text \<open>
  The outer layers of the request path: header hardening
  (\<^verbatim>\<open>middleware/headers.rs\<close>), rate limiting (\<^verbatim>\<open>middleware/rate_limit.rs\<close>),
  request validation (\<^verbatim>\<open>middleware/validate.rs\<close>), the double-submit CSRF check
  (\<^verbatim>\<open>middleware/csrf.rs\<close>) and the request log (\<^verbatim>\<open>observability.rs\<close>).
\<close>

section \<open>Header hardening\<close>

definition SPOOFABLE_REQUEST_HEADERS :: "string list" where
  "SPOOFABLE_REQUEST_HEADERS =
     [''x-user-id'', ''x-user'', ''x-user-email'', ''x-email'', ''x-org-id'', ''x-org'', ''x-roles'',
      ''x-role'', ''x-permissions'', ''x-session-id'', ''x-auth-user'', ''x-auth-email'',
      ''x-auth-roles'', ''x-forwarded-user'', ''x-forwarded-email'', ''x-forwarded-roles'',
      ''x-gotrue-claims'', ''x-supabase-role'', ''proxy-authorization'']"

definition strip_spoofable :: "header_map \<Rightarrow> header_map" where
  "strip_spoofable h = fold hm_remove SPOOFABLE_REQUEST_HEADERS h"

text \<open>The baseline response headers, each set only when absent.\<close>

definition security_headers :: "(string \<times> string) list" where
  "security_headers =
     [(''x-content-type-options'', ''nosniff''),
      (''x-frame-options'', ''DENY''),
      (''referrer-policy'', ''no-referrer''),
      (''permissions-policy'', ''accelerometer=(), autoplay=(), camera=(), clipboard-read=(), clipboard-write=(), geolocation=(), gyroscope=(), magnetometer=(), microphone=(), payment=(), usb=()''),
      (''cross-origin-resource-policy'', ''same-site''),
      (''content-security-policy'', ''default-src '' @ quoted ''none'' @ ''; frame-ancestors ''
          @ quoted ''none'' @ ''; base-uri '' @ quoted ''none'')]"

definition header_hardening_middleware :: "('v, 's) handler \<Rightarrow> ('v, 's) handler" where
  "header_hardening_middleware next rq w =
     (case next (rq\<lparr>rq_headers := strip_spoofable (rq_headers rq)\<rparr>) w of (res, w') \<Rightarrow>
        (res\<lparr>rs_headers := fold (\<lambda>(n, v). hm_or_insert n v) security_headers (rs_headers res)\<rparr>, w'))"

section \<open>Rate limiting\<close>

definition extract_session_cookie :: "string \<Rightarrow> string option" where
  "extract_session_cookie cookie_header =
     find_map (\<lambda>part. case split_once (CHR ''='') part of
         None \<Rightarrow> None
       | Some (name, value) \<Rightarrow>
           if name = ''better-auth.session_token'' \<or> name = ''__Secure-better-auth.session_token''
           then Some value else None)
       (map trim (split_on (CHR '';'') cookie_header))"

definition hash_str :: "ext \<Rightarrow> string \<Rightarrow> string" where
  "hash_str X input = ''u:'' @ hex_str (default_hash X input)"

definition route_bucket :: "string \<Rightarrow> string" where
  "route_bucket path =
     (if starts_with ''/api/exponential/tasks'' path then ''/api/exponential/tasks''
      else if starts_with ''/api/exponential/projects'' path then ''/api/exponential/projects''
      else if starts_with ''/api/exponential/teams'' path then ''/api/exponential/teams''
      else ''other'')"

definition extract_principal_key :: "ext \<Rightarrow> request \<Rightarrow> string \<Rightarrow> string \<Rightarrow> string" where
  "extract_principal_key X rq ip path =
     (let session_fingerprint =
        (case Option.bind (header_str X (rq_headers rq) ''cookie'') extract_session_cookie of
           Some c \<Rightarrow> hash_str X c
         | None \<Rightarrow> ''ip:'' @ ip)
      in session_fingerprint @ '':'' @ route_bucket path)"

record rate_limit_state =
  read_limiter :: rate_limiter
  write_limiter :: rate_limiter

text \<open>
  Reads and writes are counted apart; the check takes a token from the buckets
  of the limiter in charge.
\<close>

definition is_read :: "request \<Rightarrow> bool" where
  "is_read rq \<longleftrightarrow> rq_method rq = ''GET'' \<or> rq_method rq = ''HEAD''"

definition rate_check ::
  "rate_limit_state \<Rightarrow> request \<Rightarrow> string \<Rightarrow> ('v, 's) world \<Rightarrow> bool \<times> ('v, 's) world" where
  "rate_check state rq key w =
     (if is_read rq
      then case check b64_round (read_limiter state) (w_now w) key (w_read w) of
             (a, m) \<Rightarrow> (a, w\<lparr>w_read := m\<rparr>)
      else case check b64_round (write_limiter state) (w_now w) key (w_write w) of
             (a, m) \<Rightarrow> (a, w\<lparr>w_write := m\<rparr>))"

definition rate_limit_middleware :: "ext \<Rightarrow> rate_limit_state \<Rightarrow> ('v, 's) middleware" where
  "rate_limit_middleware X state next rq w =
     (let ip = extract_client_ip X rq;
          path = rq_path rq;
          key = extract_principal_key X rq ip path;
          limiter = (if is_read rq then read_limiter state else write_limiter state);
          layer = (if is_read rq then ''read'' else ''write'')
      in case rate_check state rq key w of (allowed, w1) \<Rightarrow>
         if \<not> allowed then
           (Err (app_err RateLimited),
            emit_event ''policy.rate_limit_hit'' (extract_request_id X rq) ip None
              (JObj [(''layer'', JStr layer), (''key'', JStr key),
                     (''limit_rps'', JNum (Float (rl_rps limiter))), (''path'', JStr path)]) None w1)
         else run_next next rq w1)"

section \<open>Request validation\<close>

definition validate_request :: "ext \<Rightarrow> nat \<Rightarrow> ('v, 's) middleware" where
  "validate_request X max_body_size next rq w =
     (let request_id = extract_request_id X rq;
          source_ip = extract_source_ip X rq;
          path = rq_path rq;
          declared = Option.bind (header_str X (rq_headers rq) ''content-length'') (parse_uint 64);
          content_type = unwrap_or [] (header_str X (rq_headers rq) ''content-type'');
          allows_multipart = (path = ''/api/greenbooks/import/quickbooks'' \<and> rq_method rq = ''POST''
            \<and> starts_with ''multipart/form-data'' content_type)
      in case opt_filter (\<lambda>n. max_body_size < n) declared of
        Some content_length \<Rightarrow>
          (Err (app_err (PayloadTooLarge max_body_size)),
           emit_event ''tool.invoke_rejected'' request_id source_ip None
             (JObj [(''reason'', JStr ''payload_too_large''), (''content_length'', jnat content_length),
                    (''max_body_size'', jnat max_body_size), (''path'', JStr path)]) None w)
      | None \<Rightarrow>
          if is_mutating (rq_method rq) \<and> \<not> allows_multipart
             \<and> \<not> starts_with ''application/json'' content_type
          then (Err (app_err (UnsupportedMediaType
                  ''Content-Type must be application/json (or multipart/form-data for QuickBooks import)'')),
                emit_event ''tool.invoke_rejected'' request_id source_ip None
                  (JObj [(''reason'', JStr ''unsupported_media_type''),
                         (''content_type'', JStr content_type), (''path'', JStr path)]) None w)
          else run_next next rq w)"

section \<open>The double-submit CSRF check\<close>

record csrf_config =
  cs_enabled :: bool
  cs_cookie_name :: string
  cs_cookie_domain :: "string option"
  cs_header_name :: string
  cs_exempt_paths :: "string list"

definition csrf_default :: csrf_config where
  "csrf_default = \<lparr>cs_enabled = True, cs_cookie_name = ''csrf_token'', cs_cookie_domain = None,
     cs_header_name = ''x-csrf-token'', cs_exempt_paths = [''/health'', ''/version'', ''/metrics'']\<rparr>"

definition is_bearer_authorization :: "string \<Rightarrow> bool" where
  "is_bearer_authorization raw =
     (case split_whitespace (trim raw) of
        scheme # token # _ \<Rightarrow> eq_ignore_ascii_case scheme ''bearer'' \<and> token \<noteq> []
      | _ \<Rightarrow> False)"

definition extract_cookie_values :: "ext \<Rightarrow> request \<Rightarrow> string \<Rightarrow> string list" where
  "extract_cookie_values X rq name =
     filter_map (\<lambda>pair. case split_once (CHR ''='') pair of
         None \<Rightarrow> None
       | Some (k, v) \<Rightarrow> if trim k = name then Some (trim v) else None)
       (concat (map (\<lambda>cookies. map trim (split_on (CHR '';'') cookies))
          (filter_map (hv_to_str X) (rq_headers rq ''cookie''))))"

definition extract_cookie_value :: "ext \<Rightarrow> request \<Rightarrow> string \<Rightarrow> string option" where
  "extract_cookie_value X rq name = head_opt (extract_cookie_values X rq name)"

text \<open>Header lookup by a configured name folds the name's case.\<close>

definition csrf_header :: "ext \<Rightarrow> csrf_config \<Rightarrow> request \<Rightarrow> string option" where
  "csrf_header X config rq = header_str X (rq_headers rq) (to_ascii_lowercase (cs_header_name config))"

definition csrf_ok :: "string list \<Rightarrow> string option \<Rightarrow> bool" where
  "csrf_ok cookie_tokens header_token = (case header_token of
     Some h \<Rightarrow> h \<noteq> [] \<and> list_ex (\<lambda>c. c \<noteq> [] \<and> c = h) cookie_tokens
   | None \<Rightarrow> False)"

definition csrf_reason :: "string list \<Rightarrow> string option \<Rightarrow> string" where
  "csrf_reason cookie_tokens header_token =
     (if cookie_tokens = [] then ''missing_csrf_cookie''
      else case header_token of
        None \<Rightarrow> ''missing_csrf_header''
      | Some h \<Rightarrow> if h = [] then ''missing_csrf_header'' else ''csrf_token_mismatch'')"

text \<open>The cookie issued with the answer to a safe request that has none.\<close>

definition issue_csrf_cookie ::
  "ext \<Rightarrow> csrf_config \<Rightarrow> response \<Rightarrow> ('v, 's) world \<Rightarrow> response \<times> ('v, 's) world" where
  "issue_csrf_cookie X config response w =
     (case new_uuid w of (token, w') \<Rightarrow>
        let cookie = cs_cookie_name config @ ''='' @ token @ ''; Path=/; SameSite=Lax'';
            cookie = (case cs_cookie_domain config of
                None \<Rightarrow> cookie | Some domain \<Rightarrow> cookie @ ''; Domain='' @ domain);
            cookie = cookie @ ''; Secure''
        in case hv_from_str X cookie of
             Some hv \<Rightarrow> (response\<lparr>rs_headers := hm_append ''set-cookie'' hv (rs_headers response)\<rparr>, w')
           | None \<Rightarrow> (response, w'))"

definition csrf_middleware :: "ext \<Rightarrow> csrf_config \<Rightarrow> ('v, 's) middleware" where
  "csrf_middleware X config next rq w =
     (let path = rq_path rq; method = rq_method rq;
          cookie_tokens = extract_cookie_values X rq (cs_cookie_name config);
          header_token = csrf_header X config rq
      in if \<not> cs_enabled config then run_next next rq w
         else if path \<in> set (cs_exempt_paths config) then run_next next rq w
         else if is_state_changing method
                 \<and> (case header_str X (rq_headers rq) ''authorization'' of
                      Some v \<Rightarrow> is_bearer_authorization v | None \<Rightarrow> False)
         then run_next next rq w
         else if is_state_changing method \<and> \<not> csrf_ok cookie_tokens header_token
         then (Err (app_err (Forbidden ''CSRF token missing or invalid'')),
               emit_event ''auth.csrf_reject'' (extract_request_id X rq) (extract_source_ip X rq) None
                 (JObj [(''method'', JStr method), (''path'', JStr path),
                        (''reason'', JStr (csrf_reason cookie_tokens header_token))]) None w)
         else (case next rq w of (response, w') \<Rightarrow>
                 if \<not> is_state_changing method
                    \<and> extract_cookie_value X rq (cs_cookie_name config) = None
                 then (case issue_csrf_cookie X config response w' of (r, w'') \<Rightarrow> (Ok r, w''))
                 else (Ok response, w')))"

section \<open>The request log\<close>

definition classify_http_error :: "nat \<Rightarrow> string option" where
  "classify_http_error status =
     (if 400 \<le> status \<and> status \<le> 499 then Some ''client_error''
      else if 500 \<le> status \<and> status \<le> 599 then Some ''server_error'' else None)"

definition upstream_default :: upstream_trace where
  "upstream_default = \<lparr>ut_status = None, ut_latency_ms = None, ut_timeout_hit = False, ut_error_kind = None\<rparr>"

definition request_log_middleware :: "ext \<Rightarrow> string \<Rightarrow> ('v, 's) handler \<Rightarrow> ('v, 's) handler" where
  "request_log_middleware X service next rq w =
     (let start = w_now w;
          route = unwrap_or (rq_path rq) (rq_matched rq);
          rid = unwrap_or ''unknown'' (header_str X (rq_headers rq) ''x-request-id'');
          header_user_id = header_str X (rq_headers rq) ''x-auth-user-id'';
          header_roles = opt_filter (\<lambda>v. v \<noteq> [])
            (map_option (\<lambda>s. filter (\<lambda>v. v \<noteq> []) (map trim (split_on (CHR '','') s)))
               (header_str X (rq_headers rq) ''x-auth-roles''));
          (response, w') = next rq w;
          status = rs_status response;
          upstream = unwrap_or upstream_default (rs_upstream response);
          actor = rs_actor response
      in (response, w'\<lparr>w_logs := w_logs w' @
           [\<lparr>lg_service = service, lg_route = route, lg_method = rq_method rq, lg_status = status,
             lg_x_request_id = rid, lg_latency_ms = ((w_now w' - start) div 10 ^ 6) mod 2 ^ 64,
             lg_user_id = opt_or (map_option ra_user_id actor) header_user_id,
             lg_roles = opt_or (map_option ra_roles actor) header_roles,
             lg_upstream_status = ut_status upstream,
             lg_upstream_latency_ms = ut_latency_ms upstream,
             lg_timeout_hit = ut_timeout_hit upstream,
             lg_error_kind = opt_or (ut_error_kind upstream) (classify_http_error status)\<rparr>]\<rparr>))"

section \<open>Which requests each layer turns away\<close>

definition rate_over :: "ext \<Rightarrow> rate_limit_state \<Rightarrow> request \<Rightarrow> ('v, 's) world \<Rightarrow> bool" where
  "rate_over X state rq w \<longleftrightarrow>
     \<not> fst (rate_check state rq (extract_principal_key X rq (extract_client_ip X rq) (rq_path rq)) w)"

definition oversized :: "ext \<Rightarrow> nat \<Rightarrow> request \<Rightarrow> bool" where
  "oversized X max_body_size rq \<longleftrightarrow>
     (case Option.bind (header_str X (rq_headers rq) ''content-length'') (parse_uint 64) of
        Some n \<Rightarrow> max_body_size < n | None \<Rightarrow> False)"

definition wrong_media :: "ext \<Rightarrow> request \<Rightarrow> bool" where
  "wrong_media X rq \<longleftrightarrow> is_mutating (rq_method rq) \<and>
     (let ct = unwrap_or [] (header_str X (rq_headers rq) ''content-type'')
      in \<not> starts_with ''application/json'' ct
         \<and> \<not> (rq_path rq = ''/api/greenbooks/import/quickbooks'' \<and> rq_method rq = ''POST''
              \<and> starts_with ''multipart/form-data'' ct))"

definition claims_bearer :: "ext \<Rightarrow> request \<Rightarrow> bool" where
  "claims_bearer X rq = (case header_str X (rq_headers rq) ''authorization'' of
     Some v \<Rightarrow> is_bearer_authorization v | None \<Rightarrow> False)"

definition csrf_violation :: "ext \<Rightarrow> csrf_config \<Rightarrow> request \<Rightarrow> bool" where
  "csrf_violation X config rq \<longleftrightarrow> cs_enabled config \<and> rq_path rq \<notin> set (cs_exempt_paths config)
     \<and> is_state_changing (rq_method rq) \<and> \<not> claims_bearer X rq
     \<and> \<not> csrf_ok (extract_cookie_values X rq (cs_cookie_name config)) (csrf_header X config rq)"

lemma issue_csrf_cookie_app [simp]: "w_app (snd (issue_csrf_cookie X config r w)) = w_app w"
  by (simp add: issue_csrf_cookie_def new_uuid_def Let_def split: option.splits)

lemma gate_simpleI:
  assumes "\<And>rq w. bad rq w \<Longrightarrow> \<exists>e w'. w_app w' = w_app w \<and> (\<forall>next. mw next rq w = (Inl e, w'))"
    and "\<And>rq w. \<not> bad rq w \<Longrightarrow> \<exists>w'. w_app w' = w_app w \<and> (\<forall>next. mw next rq w = run_next next rq w')"
  shows "gate mw bad"
proof
  fix rq :: request and w :: "('a, 'b) world"
  assume "\<not> bad rq w"
  from assms(2) [OF this] obtain w' where
    "w_app w' = w_app w" "\<forall>next. mw next rq w = run_next next rq w'" by blast
  then show "\<exists>rq' w' post. w_app w' = w_app w \<and> rq_method rq' = rq_method rq
      \<and> rq_path rq' = rq_path rq \<and> (\<forall>r v. w_app (snd (post r v)) = w_app v)
      \<and> (\<forall>next. mw next rq w = (case next rq' w' of (r, v) \<Rightarrow> (Inr (fst (post r v)), snd (post r v))))"
    by (intro exI [of _ rq] exI [of _ w'] exI [of _ Pair]) (simp add: split_beta)
qed (rule assms(1))

lemma rate_check_app [simp]: "w_app (snd (rate_check state rq key w)) = w_app w"
  by (simp add: rate_check_def split_beta)

interpretation rate: gate "rate_limit_middleware X state" "rate_over X state" for X state
proof (rule gate_simpleI)
  fix rq and w :: "('a, 'b) world"
  let ?w1 = "snd (rate_check state rq (extract_principal_key X rq (extract_client_ip X rq) (rq_path rq)) w)"
  assume "\<not> rate_over X state rq w"
  then show "\<exists>w'. w_app w' = w_app w \<and> (\<forall>next. rate_limit_middleware X state next rq w = run_next next rq w')"
    by (intro exI [of _ ?w1]) (simp add: rate_over_def rate_limit_middleware_def Let_def split_beta)
qed (auto simp: rate_over_def rate_limit_middleware_def Let_def split_beta)

lemma validate_oversized:
  assumes "oversized X n rq"
  shows "\<exists>w'. w_app w' = w_app w
    \<and> (\<forall>next. validate_request X n next rq w = (Inl (app_err (PayloadTooLarge n)), w'))"
proof -
  obtain k where "Option.bind (header_str X (rq_headers rq) ''content-length'') (parse_uint 64) = Some k"
      "n < k"
    using assms by (auto simp: oversized_def split: option.splits)
  then show ?thesis unfolding validate_request_def Let_def by (auto simp del: run_next_eq)
qed

lemma validate_wrong_media:
  assumes "\<not> oversized X n rq" "wrong_media X rq"
  shows "\<exists>w' m. w_app w' = w_app w
    \<and> (\<forall>next. validate_request X n next rq w = (Inl (app_err (UnsupportedMediaType m)), w'))"
proof -
  have "opt_filter (\<lambda>k. n < k) (Option.bind (header_str X (rq_headers rq) ''content-length'') (parse_uint 64))
      = None"
    using assms(1) by (auto simp: oversized_def split: option.splits)
  then show ?thesis using assms(2)
    unfolding validate_request_def Let_def wrong_media_def by (auto simp del: run_next_eq)
qed

lemma validate_pass:
  assumes "\<not> oversized X n rq" "\<not> wrong_media X rq"
  shows "validate_request X n next rq w = run_next next rq w"
proof -
  have "opt_filter (\<lambda>k. n < k) (Option.bind (header_str X (rq_headers rq) ''content-length'') (parse_uint 64))
      = None"
    using assms(1) by (auto simp: oversized_def split: option.splits)
  then show ?thesis using assms(2)
    unfolding validate_request_def Let_def wrong_media_def by (auto simp del: run_next_eq)
qed

interpretation valid: gate "validate_request X n" "\<lambda>rq w. oversized X n rq \<or> wrong_media X rq" for X n
proof (rule gate_simpleI)
  fix rq and w :: "('a, 'b) world"
  assume "oversized X n rq \<or> wrong_media X rq"
  then show "\<exists>e w'. w_app w' = w_app w \<and> (\<forall>next. validate_request X n next rq w = (Inl e, w'))"
    using validate_oversized validate_wrong_media by metis
qed (use validate_pass in blast)

text \<open>What the CSRF layer does to the response of a request it lets through.\<close>

definition csrf_post ::
  "ext \<Rightarrow> csrf_config \<Rightarrow> request \<Rightarrow> response \<Rightarrow> ('v, 's) world \<Rightarrow> response \<times> ('v, 's) world" where
  "csrf_post X config rq r v =
     (if cs_enabled config \<and> rq_path rq \<notin> set (cs_exempt_paths config)
         \<and> \<not> is_state_changing (rq_method rq) \<and> extract_cookie_value X rq (cs_cookie_name config) = None
      then issue_csrf_cookie X config r v else (r, v))"

lemma csrf_post_app [simp]: "w_app (snd (csrf_post X config rq r v)) = w_app v"
  by (simp add: csrf_post_def)

lemma csrf_pass:
  assumes "\<not> csrf_violation X config rq"
  shows "csrf_middleware X config next rq w = (case next rq w of (r, v) \<Rightarrow>
    (Inr (fst (csrf_post X config rq r v)), snd (csrf_post X config rq r v)))"
  using assms
  by (auto simp: csrf_violation_def claims_bearer_def csrf_middleware_def csrf_post_def Let_def split_beta
      split: option.splits)

interpretation csrf: gate "csrf_middleware X config" "\<lambda>rq w. csrf_violation X config rq" for X config
proof
  fix rq and w :: "('a, 'b) world"
  assume "csrf_violation X config rq"
  then show "\<exists>e w'. w_app w' = w_app w \<and> (\<forall>next. csrf_middleware X config next rq w = (Inl e, w'))"
    by (auto simp: csrf_violation_def claims_bearer_def csrf_middleware_def Let_def split: option.splits)
next
  fix rq and w :: "('a, 'b) world"
  assume "\<not> csrf_violation X config rq"
  then show "\<exists>rq' w' post. w_app w' = w_app w \<and> rq_method rq' = rq_method rq
      \<and> rq_path rq' = rq_path rq \<and> (\<forall>r v. w_app (snd (post r v)) = w_app v)
      \<and> (\<forall>next. csrf_middleware X config next rq w =
            (case next rq' w' of (r, v) \<Rightarrow> (Inr (fst (post r v)), snd (post r v))))"
    by (intro exI [of _ rq] exI [of _ w] exI [of _ "csrf_post X config rq"]) (simp add: csrf_pass)
qed

section \<open>What the edge promises\<close>

subsection \<open>Header hardening\<close>

lemma fold_hm_remove: "hm_get (fold hm_remove ns h) k = (if k \<in> set ns then None else hm_get h k)"
  by (induction ns arbitrary: h) auto

lemma fold_hm_or_insert:
  assumes "distinct (map fst hs)"
  shows "hm_get (fold (\<lambda>(n, v). hm_or_insert n v) hs h) k =
    opt_or (hm_get h k) (map_of hs k)"
  using assms
proof (induction hs arbitrary: h)
  case Nil
  then show ?case by (cases "hm_get h k") simp_all
next
  case (Cons x hs)
  obtain n v where x: "x = (n, v)" by fastforce
  have IH: "hm_get (fold (\<lambda>(n, v). hm_or_insert n v) hs (hm_or_insert n v h)) k =
      opt_or (hm_get (hm_or_insert n v h) k) (map_of hs k)"
    using Cons.prems by (intro Cons.IH) simp
  show ?case using IH by (cases "hm_get h k") (auto simp: x)
qed

lemma strip_spoofable_get:
  "hm_get (strip_spoofable h) k = (if k \<in> set SPOOFABLE_REQUEST_HEADERS then None else hm_get h k)"
  by (simp add: strip_spoofable_def fold_hm_remove)

text \<open>
  Identity headers sent by a client never reach the layers behind the
  edge, every other header does unchanged, and every response leaves with the
  six baseline security headers, those the handler set itself kept.
\<close>

theorem header_hardening_contract:
  "\<exists>rq' h. rq_method rq' = rq_method rq \<and> rq_path rq' = rq_path rq \<and> rq_body rq' = rq_body rq
     \<and> (\<forall>k. hm_get (rq_headers rq') k =
           (if k \<in> set SPOOFABLE_REQUEST_HEADERS then None else hm_get (rq_headers rq) k))
     \<and> (\<forall>k. hm_get h k = opt_or (hm_get (rs_headers (fst (next rq' w))) k) (map_of security_headers k))
     \<and> header_hardening_middleware next rq w =
         ((fst (next rq' w))\<lparr>rs_headers := h\<rparr>, snd (next rq' w))"
proof -
  have d: "distinct (map fst security_headers)" by (simp add: security_headers_def)
  let ?rq = "rq\<lparr>rq_headers := strip_spoofable (rq_headers rq)\<rparr>"
  show ?thesis
    by (intro exI [of _ ?rq] exI [of _ "fold (\<lambda>(n, v). hm_or_insert n v) security_headers
          (rs_headers (fst (next ?rq w)))"])
       (simp add: header_hardening_middleware_def split_beta strip_spoofable_get fold_hm_or_insert [OF d])
qed

subsection \<open>Cross-site request forgery\<close>

text \<open>
  C8: a state-changing request that claims no bearer token is answered 403
  unless it carries a non-empty token in the configured header that equals the
  token of a cookie of the configured name. The refusal runs nothing behind the
  check, leaves the application state alone and appends one
  \<^verbatim>\<open>auth.csrf_reject\<close> event to the audit trail.
\<close>

theorem csrf_enforced:
  assumes "cs_enabled config" "rq_path rq \<notin> set (cs_exempt_paths config)"
    and "is_state_changing (rq_method rq)" "\<not> claims_bearer X rq"
    and "\<not> (\<exists>t. t \<noteq> [] \<and> csrf_header X config rq = Some t
              \<and> t \<in> set (extract_cookie_values X rq (cs_cookie_name config)))"
  shows "rs_status (fst (layer (csrf_middleware X config) next rq w)) = 403
    \<and> w_app (snd (layer (csrf_middleware X config) next rq w)) = w_app w
    \<and> layer (csrf_middleware X config) next rq w = layer (csrf_middleware X config) next' rq w
    \<and> (\<exists>evt. w_audit (snd (layer (csrf_middleware X config) next rq w)) = w_audit w @ [evt]
          \<and> event_type evt = ''auth.csrf_reject'')"
proof -
  have bad: "csrf_violation X config rq"
    using assms by (auto simp: csrf_violation_def csrf_ok_def list_ex_iff split: option.splits)
  obtain p where mw: "csrf_middleware X config next rq w =
      (Inl (app_err (Forbidden ''CSRF token missing or invalid'')),
       emit_event ''auth.csrf_reject'' (extract_request_id X rq) (extract_source_ip X rq) None p None w)"
    using bad by (auto simp: csrf_violation_def claims_bearer_def csrf_middleware_def Let_def
        split: option.splits)
  have l: "layer (csrf_middleware X config) next rq w =
      (into_response (app_err (Forbidden ''CSRF token missing or invalid'')),
       emit_event ''auth.csrf_reject'' (extract_request_id X rq) (extract_source_ip X rq) None p None w)"
    by (simp add: layer_def mw)
  show ?thesis
    by (intro conjI) (rule csrf.reject_blind [OF bad] | simp add: l)+
qed

theorem csrf_enforced_witness:
  "rs_status (fst (layer (csrf_middleware wit_ext csrf_default)
     wit_handler (wit_request ''POST'' no_headers) wit_world)) = 403"
  using csrf_enforced [of csrf_default "wit_request ''POST'' no_headers" wit_ext
      wit_handler wit_world]
  by (simp add: csrf_default_def wit_request_def is_state_changing_def claims_bearer_def header_str_def
      hm_get_def csrf_header_def)

lemma issued_cookie_read:
  assumes "graphic name" "CHR ''='' \<notin> set name" "CHR '';'' \<notin> set name"
    and "graphic token" "CHR '';'' \<notin> set token"
    and "filter_map (hv_to_str X) (rq_headers rq ''cookie'') = [name @ ''='' @ token]"
  shows "extract_cookie_values X rq name = [token]"
proof -
  let ?c = "name @ CHR ''='' # token"
  have "graphic ?c" "CHR '';'' \<notin> set ?c" using assms by auto
  then have "map trim (split_on (CHR '';'') ?c) = [?c]" by (simp add: split_on_free trim_graphic)
  then show ?thesis using assms by (simp add: extract_cookie_values_def split_once_at trim_graphic)
qed

text \<open>
  The token the gateway issues is accepted back. When a client returns the
  issued cookie and echoes its value in the configured header, the check lets a
  state-changing request through to the handler.
\<close>

theorem csrf_round_trip:
  assumes "graphic (cs_cookie_name config)" "CHR ''='' \<notin> set (cs_cookie_name config)"
    and "CHR '';'' \<notin> set (cs_cookie_name config)"
    and "graphic token" "CHR '';'' \<notin> set token" "token \<noteq> []"
    and "filter_map (hv_to_str X) (rq_headers rq ''cookie'') = [cs_cookie_name config @ ''='' @ token]"
    and "csrf_header X config rq = Some token" "is_state_changing (rq_method rq)"
  shows "layer (csrf_middleware X config) next rq w = next rq w"
  using assms issued_cookie_read [OF assms(1-5,7)]
  by (auto simp: layer_def csrf_middleware_def Let_def csrf_ok_def split_beta)

theorem csrf_round_trip_witness:
  "layer (csrf_middleware wit_ext csrf_default) wit_handler
     (wit_request ''POST'' (no_headers(''cookie'' := [''csrf_token=uuid-0''], ''x-csrf-token'' := [''uuid-0'']))) wit_world
   = wit_handler
     (wit_request ''POST'' (no_headers(''cookie'' := [''csrf_token=uuid-0''], ''x-csrf-token'' := [''uuid-0'']))) wit_world"
proof (rule csrf_round_trip)
  show "csrf_header wit_ext csrf_default (wit_request ''POST''
      (no_headers(''cookie'' := [''csrf_token=uuid-0''], ''x-csrf-token'' := [''uuid-0'']))) = Some ''uuid-0''"
    by (simp add: csrf_header_def csrf_default_def header_str_def hm_get_def wit_request_def wit_ext_def
        to_ascii_lowercase_def ascii_lower_def)
qed (simp_all add: csrf_default_def wit_request_def wit_ext_def is_state_changing_def)

subsection \<open>Rate limiting and validation\<close>

text \<open>
  A request over the limit of its key is answered 429 and runs nothing: the
  answer does not depend on the layers behind, the application state is
  untouched and one \<^verbatim>\<open>policy.rate_limit_hit\<close> event is appended.
\<close>

theorem rate_limit_enforced:
  assumes "rate_over X state rq w"
  shows "rs_status (fst (layer (rate_limit_middleware X state) next rq w)) = 429
    \<and> w_app (snd (layer (rate_limit_middleware X state) next rq w)) = w_app w
    \<and> layer (rate_limit_middleware X state) next rq w = layer (rate_limit_middleware X state) next' rq w
    \<and> (\<exists>evt. event_type evt = ''policy.rate_limit_hit''
        \<and> w_audit (snd (layer (rate_limit_middleware X state) next rq w)) = w_audit w @ [evt])"
proof -
  let ?key = "extract_principal_key X rq (extract_client_ip X rq) (rq_path rq)"
  obtain p where l: "layer (rate_limit_middleware X state) next rq w =
      (into_response (app_err RateLimited),
       emit_event ''policy.rate_limit_hit'' (extract_request_id X rq) (extract_client_ip X rq) None p None
         (snd (rate_check state rq ?key w)))"
    using assms by (auto simp: rate_over_def rate_limit_middleware_def layer_def Let_def split_beta)
  have "w_audit (snd (rate_check state rq ?key w)) = w_audit w"
    by (simp add: rate_check_def split_beta)
  then show ?thesis
    by (intro conjI) (rule rate.reject_blind [OF assms] | simp add: l)+
qed

theorem rate_limit_enforced_witness:
  "rs_status (fst (layer (rate_limit_middleware wit_ext
      \<lparr>read_limiter = \<lparr>rl_rps = 1, rl_burst = 0\<rparr>, write_limiter = \<lparr>rl_rps = 1, rl_burst = 0\<rparr>\<rparr>)
      wit_handler (wit_request ''POST'' no_headers) wit_world)) = 429"
  using rate_limit_enforced [of wit_ext
      "\<lparr>read_limiter = \<lparr>rl_rps = 1, rl_burst = 0\<rparr>, write_limiter = \<lparr>rl_rps = 1, rl_burst = 0\<rparr>\<rparr>"
      "wit_request ''POST'' no_headers" wit_world wit_handler]
  by (simp add: rate_over_def rate_check_def is_read_def wit_request_def check_def refilled_def bucket_at_def
      wit_world_def b64.secs_0 b64.fl_0 Let_def split_beta)

text \<open>
  A declared body over the limit is answered 413 and a POST, PUT or PATCH
  that is not JSON (nor the one multipart upload) 415, both before anything
  else runs; every other request passes unchanged.
\<close>

theorem validation_enforced:
  "rs_status (fst (layer (validate_request X n) next rq w)) =
     (if oversized X n rq then 413 else if wrong_media X rq then 415 else rs_status (fst (next rq w)))
   \<and> w_app (snd (layer (validate_request X n) next rq w)) =
     (if oversized X n rq \<or> wrong_media X rq then w_app w else w_app (snd (next rq w)))"
proof -
  consider "oversized X n rq" | "\<not> oversized X n rq" "wrong_media X rq"
    | "\<not> oversized X n rq" "\<not> wrong_media X rq" by blast
  then show ?thesis
  proof cases
    case 1
    from validate_oversized [OF 1, of w] show ?thesis using 1 by (auto simp: layer_def)
  next
    case 2
    from validate_wrong_media [OF 2, of w] show ?thesis using 2 by (auto simp: layer_def)
  next
    case 3
    then show ?thesis by (simp add: layer_def validate_pass)
  qed
qed

subsection \<open>The request log\<close>

text \<open>
  Every request that reaches the request log gets exactly one line, with
  the status of the response that was sent and the actor the response carries,
  and the response itself is passed on unchanged.
\<close>

theorem request_log_complete:
  "\<exists>line. request_log_middleware X service next rq w =
      (fst (next rq w), (snd (next rq w))\<lparr>w_logs := w_logs (snd (next rq w)) @ [line]\<rparr>)
    \<and> lg_status line = rs_status (fst (next rq w))
    \<and> (\<forall>a. rs_actor (fst (next rq w)) = Some a \<longrightarrow>
          lg_user_id line = Some (ra_user_id a) \<and> lg_roles line = Some (ra_roles a))
    \<and> (lg_error_kind line = None \<longrightarrow> lg_status line \<notin> {400..599})"
  by (auto simp: request_log_middleware_def Let_def split_beta classify_http_error_def opt_or_def
      split: option.splits if_splits)

theorem request_log_complete_witness:
  "\<exists>line. request_log_middleware wit_ext ''gw'' wit_handler (wit_request ''GET'' no_headers) wit_world =
      (json_response 200 JNull, wit_world\<lparr>w_app := 1, w_logs := [line]\<rparr>) \<and> lg_status line = 200"
  using request_log_complete [of wit_ext "''gw''" wit_handler "wit_request ''GET'' no_headers" wit_world]
  by (auto simp: wit_handler_def wit_world_def json_response_def)

end
