(* ===== verification/Session.thy ===== *)
theory Session
  imports Http
begin

text \<open>
  Session validation, \<^verbatim>\<open>auth/session.rs\<close>: the validator interface, the
  BetterAuth client with its cache of recent answers, and the composite that
  sends cookies and bearer tokens to different validators.
\<close>

section \<open>Credentials and validators\<close>

datatype session_credential = CookieCred string | BearerCred string

datatype auth_error = InvalidSession string | Upstream string

text \<open>
  A validator answers a credential at a time, given its own state; the answer
  comes with the time it was ready.
\<close>

record 'v validator =
  supports_cookie :: bool
  supports_bearer :: bool
  validate_session :: "session_credential \<Rightarrow> nat \<Rightarrow> 'v \<Rightarrow> ((auth_error, principal) result \<times> nat) \<times> 'v"

definition cred_method :: "session_credential \<Rightarrow> auth_method" where
  "cred_method c = (case c of CookieCred _ \<Rightarrow> Cookie | BearerCred _ \<Rightarrow> Bearer)"

section \<open>The BetterAuth client\<close>

record ba_session_response =
  bs_id :: string
  bs_user_id :: string
  bu_id :: string
  bu_email :: "string option"
  bu_role :: "string option"
  bu_organization_id :: "string option"

text \<open>
  What the HTTP client reports: no answer, or a status and a body that may not
  be readable. \<open>ba_send\<close> is the BetterAuth server seen through the client,
  \<open>ba_parse\<close> the JSON decoder at the response type and \<open>status_display\<close> the
  status text: all outside this code base.
\<close>

datatype ba_reply = SendFailed string | Reply nat "(string, string) result"

record ba_env =
  ba_send :: "string \<Rightarrow> string \<times> string \<Rightarrow> nat \<Rightarrow> ba_reply \<times> nat"
  ba_parse :: "string \<Rightarrow> (string, ba_session_response option) result"
  status_display :: "nat \<Rightarrow> string"

type_synonym session_cache = "(string \<times> nat \<times> principal) list"

record ba_config =
  ba_base_url :: string
  ba_cookie_name :: string

definition ba_new :: "string \<Rightarrow> string \<Rightarrow> ba_config \<times> session_cache" where
  "ba_new base_url cookie_name =
     (\<lparr>ba_base_url = trim_end_matches (CHR ''/'') base_url, ba_cookie_name = cookie_name\<rparr>, [])"

definition canonical_user_id :: "string \<Rightarrow> string \<Rightarrow> string" where
  "canonical_user_id session_user_id uid =
     (let s = trim session_user_id; u = trim uid in if s \<noteq> [] then s else u)"

definition normalize_email :: "string option \<Rightarrow> string option" where
  "normalize_email e = opt_filter (\<lambda>v. v \<noteq> []) (map_option (\<lambda>v. to_ascii_lowercase (trim v)) e)"

definition principal_from_session_data :: "ba_session_response \<Rightarrow> auth_method \<Rightarrow> principal" where
  "principal_from_session_data d m =
     \<lparr>user_id = canonical_user_id (bs_user_id d) (bu_id d),
      email = normalize_email (bu_email d),
      org_id = bu_organization_id d,
      roles = (case bu_role d of None \<Rightarrow> [] | Some r \<Rightarrow> [r]),
      session_id = bs_id d,
      auth_method = m\<rparr>"

definition cache_get :: "string \<Rightarrow> session_cache \<Rightarrow> (nat \<times> principal) option" where
  "cache_get k c = map_of c k"

definition MAX_CACHE :: nat where
  "MAX_CACHE = 10000"

definition cache_insert :: "string \<Rightarrow> nat \<Rightarrow> principal \<Rightarrow> session_cache \<Rightarrow> session_cache" where
  "cache_insert k now p c =
     alist_set k (now, p) (if MAX_CACHE < length c then [] else c)"

text \<open>Seconds on the nanosecond clock, and the two ages the cache knows.\<close>

definition FRESH_NS :: nat where
  "FRESH_NS = 20 * 10 ^ 9"

definition STALE_NS :: nat where
  "STALE_NS = 600 * 10 ^ 9"

text \<open>The session cookies forwarded upstream, and the value of the first.\<close>

definition session_pairs :: "ba_config \<Rightarrow> string \<Rightarrow> (string \<times> string) list" where
  "session_pairs cfg raw =
     (let candidates = [ba_cookie_name cfg, ''__Secure-'' @ ba_cookie_name cfg,
            ''better-auth.session_token'', ''__Secure-better-auth.session_token'']
      in filter_map (\<lambda>pair. case split_once (CHR ''='') (trim pair) of
             None \<Rightarrow> None
           | Some (k, v) \<Rightarrow> if trim k \<in> set candidates then Some (trim k, trim v) else None)
           (split_on (CHR '';'') raw))"

text \<open>The cache key of a credential and the header it is sent upstream with.\<close>

definition ba_request :: "ba_config \<Rightarrow> session_credential \<Rightarrow> (string \<times> string \<times> string) option" where
  "ba_request cfg cred = (case cred of
     CookieCred raw \<Rightarrow>
       (case session_pairs cfg raw of
          [] \<Rightarrow> None
        | (k, v) # _ \<Rightarrow> Some (''cookie:'' @ v, ''cookie'',
            str_join ''; '' (map (\<lambda>(k, v). k @ ''='' @ v) (session_pairs cfg raw))))
   | BearerCred token \<Rightarrow> Some (''bearer:'' @ token, ''authorization'', ''Bearer '' @ token))"

definition is_success :: "nat \<Rightarrow> bool" where
  "is_success st \<longleftrightarrow> 200 \<le> st \<and> st < 300"

definition is_server_error :: "nat \<Rightarrow> bool" where
  "is_server_error st \<longleftrightarrow> 500 \<le> st \<and> st < 600"

text \<open>What the client makes of an upstream reply, given the stale principal if any.\<close>

definition ba_reply_result ::
  "ba_env \<Rightarrow> auth_method \<Rightarrow> principal option \<Rightarrow> ba_reply \<Rightarrow> (auth_error, principal) result \<times> bool" where
  "ba_reply_result E m stale r = (case r of
     SendFailed e \<Rightarrow> (case stale of Some p \<Rightarrow> (Ok p, False) | None \<Rightarrow> (Err (Upstream e), False))
   | Reply st body \<Rightarrow>
       if \<not> is_success st then
         (if is_server_error st then
            (case stale of
               Some p \<Rightarrow> (Ok p, False)
             | None \<Rightarrow> (Err (Upstream (''BetterAuth returned status '' @ status_display E st)), False))
          else (Err (InvalidSession (''BetterAuth returned status '' @ status_display E st)), False))
       else (case try_result body (ba_parse E) of
               Inl e \<Rightarrow> (Err (Upstream e), False)
             | Inr None \<Rightarrow> (Err (InvalidSession ''no active session''), False)
             | Inr (Some d) \<Rightarrow> (Ok (principal_from_session_data d m), True)))"

definition ba_validate ::
  "ba_env \<Rightarrow> ba_config \<Rightarrow> session_credential \<Rightarrow> nat \<Rightarrow> session_cache
     \<Rightarrow> ((auth_error, principal) result \<times> nat) \<times> session_cache" where
  "ba_validate E cfg cred now cache =
     (case ba_request cfg cred of
        None \<Rightarrow> ((Err (InvalidSession ''missing session cookie''), now), cache)
      | Some (cache_key, header, val) \<Rightarrow>
          (case opt_filter (\<lambda>(ts, p). now - ts < FRESH_NS) (cache_get cache_key cache) of
             Some (ts, p) \<Rightarrow> ((Ok p, now), cache)
           | None \<Rightarrow>
               let stale = map_option snd
                     (opt_filter (\<lambda>(ts, p). now - ts < STALE_NS) (cache_get cache_key cache));
                   (reply, t) = ba_send E (ba_base_url cfg @ ''/api/auth/get-session'') (header, val) now
               in case ba_reply_result E (cred_method cred) stale reply of
                    (Inr p, True) \<Rightarrow> ((Ok p, t), cache_insert cache_key t p cache)
                  | (res, _) \<Rightarrow> ((res, t), cache)))"

definition ba_validator :: "ba_env \<Rightarrow> ba_config \<Rightarrow> session_cache validator" where
  "ba_validator E cfg =
     \<lparr>supports_cookie = True, supports_bearer = True, validate_session = ba_validate E cfg\<rparr>"

section \<open>Composite and test validators\<close>

definition split_validator :: "'a validator \<Rightarrow> 'b validator \<Rightarrow> ('a \<times> 'b) validator" where
  "split_validator c b =
     \<lparr>supports_cookie = supports_cookie c, supports_bearer = supports_bearer b,
      validate_session = (\<lambda>cred now (sc, sb). case cred of
          CookieCred _ \<Rightarrow> (case validate_session c cred now sc of (r, sc') \<Rightarrow> (r, (sc', sb)))
        | BearerCred _ \<Rightarrow> (case validate_session b cred now sb of (r, sb') \<Rightarrow> (r, (sc, sb'))))\<rparr>"

definition noop_validator :: "'v validator" where
  "noop_validator =
     \<lparr>supports_cookie = True, supports_bearer = True,
      validate_session = (\<lambda>cred now s. ((Ok
        \<lparr>user_id = ''test-user'', email = None, org_id = None, roles = [],
         session_id = ''test-session'', auth_method = cred_method cred\<rparr>, now), s))\<rparr>"

definition always_invalid_validator :: "'v validator" where
  "always_invalid_validator =
     \<lparr>supports_cookie = True, supports_bearer = True,
      validate_session = (\<lambda>cred now s. ((Err (InvalidSession ''mock: always invalid''), now), s))\<rparr>"

section \<open>The contract of a validator\<close>

text \<open>
  What the authentication layer relies on: the validator keeps its invariant
  and labels a principal with the kind of credential that was presented.
\<close>

locale session_validator =
  fixes V :: "'v validator" and inv :: "'v \<Rightarrow> bool"
  assumes validate_inv: "inv s \<Longrightarrow> inv (snd (validate_session V cred now s))"
    and validate_method:
      "inv s \<Longrightarrow> fst (fst (validate_session V cred now s)) = Inr p \<Longrightarrow> auth_method p = cred_method cred"
begin

lemma fold_inv: "inv s \<Longrightarrow> inv (fold (\<lambda>(c, n) s. snd (validate_session V c n s)) calls s)"
  by (induction calls arbitrary: s) (auto intro: validate_inv)

lemma method_after_calls:
  assumes "inv s"
    and "fst (fst (validate_session V cred now (fold (\<lambda>(c, n) s. snd (validate_session V c n s)) calls s))) = Inr p"
  shows "auth_method p = cred_method cred"
  using validate_method [OF fold_inv [OF assms(1)] assms(2)] .

end

locale split_pair =
  c: session_validator vc ic + b: session_validator vb ib
  for vc :: "'a validator" and ic and vb :: "'b validator" and ib
begin

lemma split_inv:
  "case s of (sc, sb) \<Rightarrow> ic sc \<and> ib sb \<Longrightarrow>
   case snd (validate_session (split_validator vc vb) cred now s) of (sc, sb) \<Rightarrow> ic sc \<and> ib sb"
  using c.validate_inv [of "fst s" cred now] b.validate_inv [of "snd s" cred now]
  by (auto simp: split_validator_def split_beta split: session_credential.splits)

lemma split_method:
  assumes "case s of (sc, sb) \<Rightarrow> ic sc \<and> ib sb"
    and "fst (fst (validate_session (split_validator vc vb) cred now s)) = Inr p"
  shows "auth_method p = cred_method cred"
  using assms c.validate_method [of "fst s" cred now p] b.validate_method [of "snd s" cred now p]
  by (auto simp: split_validator_def split_beta split: session_credential.splits)

end

sublocale split_pair \<subseteq> session_validator "split_validator vc vb" "\<lambda>(sc, sb). ic sc \<and> ib sb"
  by unfold_locales (fact split_inv, fact split_method)

interpretation noop: session_validator noop_validator "\<lambda>_. True"
  by unfold_locales (auto simp: noop_validator_def)

interpretation invalid: session_validator always_invalid_validator "\<lambda>_. True"
  by unfold_locales (auto simp: always_invalid_validator_def)

section \<open>The cache holds upstream answers\<close>

text \<open>
  The answer BetterAuth gives about a credential at a time, if it is a valid
  session: the cache key, when the answer arrived, and the principal.
\<close>

definition ba_answer ::
  "ba_env \<Rightarrow> ba_config \<Rightarrow> session_credential \<Rightarrow> nat \<Rightarrow> (string \<times> nat \<times> principal) option" where
  "ba_answer E cfg cred now = (case ba_request cfg cred of
     None \<Rightarrow> None
   | Some (key, header, val) \<Rightarrow>
       (case ba_send E (ba_base_url cfg @ ''/api/auth/get-session'') (header, val) now of (reply, t) \<Rightarrow>
          (case ba_reply_result E (cred_method cred) None reply of
             (Inr p, True) \<Rightarrow> Some (key, t, p)
           | _ \<Rightarrow> None)))"

definition answered :: "ba_env \<Rightarrow> ba_config \<Rightarrow> (session_credential \<times> nat) list \<Rightarrow> session_cache \<Rightarrow> bool" where
  "answered E cfg calls cache \<longleftrightarrow> distinct (map fst cache) \<and>
     (\<forall>(k, t, p) \<in> set cache. \<exists>(c, n) \<in> set calls. ba_answer E cfg c n = Some (k, t, p))"

lemma length_alist_set: "length (alist_set k v ps) \<le> Suc (length ps)"
  by (induction k v ps rule: alist_set.induct) auto

lemma cache_insert_mem: "x \<in> set (cache_insert k t p c) \<Longrightarrow> x = (k, t, p) \<or> x \<in> set c"
  by (auto simp: cache_insert_def dest: alist_set_mem split: if_splits)

lemma cache_insert_bound: "length c \<le> Suc MAX_CACHE \<Longrightarrow> length (cache_insert k t p c) \<le> Suc MAX_CACHE"
  using length_alist_set [of k "(t, p)" c] length_alist_set [of k "(t, p)" "[]"]
  by (auto simp: cache_insert_def MAX_CACHE_def)

lemma reply_fresh_indep:
  "ba_reply_result E m stale r = (Inr p, True) \<Longrightarrow> ba_reply_result E m None r = (Inr p, True)"
  by (auto simp: ba_reply_result_def split: ba_reply.splits option.splits if_splits sum.splits)

lemma reply_stale:
  "ba_reply_result E m stale r = (Inr p, False) \<Longrightarrow> stale = Some p \<and>
     ((\<exists>e. r = SendFailed e) \<or> (\<exists>st b. r = Reply st b \<and> is_server_error st))"
  by (auto simp: ba_reply_result_def split: ba_reply.splits option.splits if_splits sum.splits)

text \<open>The four ways a call can end.\<close>

lemma ba_validate_cases:
  obtains (rejected) e t where "ba_validate E cfg cred now cache = ((Inl e, t), cache)"
  | (fresh) key h v ts p where "ba_request cfg cred = Some (key, h, v)" "cache_get key cache = Some (ts, p)"
      "now - ts < FRESH_NS" "ba_validate E cfg cred now cache = ((Inr p, now), cache)"
  | (stale) key h v ts p r t where "ba_request cfg cred = Some (key, h, v)"
      "cache_get key cache = Some (ts, p)" "now - ts < STALE_NS"
      "ba_send E (ba_base_url cfg @ ''/api/auth/get-session'') (h, v) now = (r, t)"
      "(\<exists>e. r = SendFailed e) \<or> (\<exists>st b. r = Reply st b \<and> is_server_error st)"
      "ba_validate E cfg cred now cache = ((Inr p, t), cache)"
  | (answer) key t p where "ba_answer E cfg cred now = Some (key, t, p)"
      "ba_validate E cfg cred now cache = ((Inr p, t), cache_insert key t p cache)"
proof (cases "ba_request cfg cred")
  case None
  then show ?thesis using rejected by (simp add: ba_validate_def)
next
  case (Some kh)
  obtain key h v where kh: "ba_request cfg cred = Some (key, h, v)" using Some by (cases kh) auto
  obtain r t where s: "ba_send E (ba_base_url cfg @ ''/api/auth/get-session'') (h, v) now = (r, t)"
    by fastforce
  let ?st = "map_option snd (opt_filter (\<lambda>(ts, p). now - ts < STALE_NS) (cache_get key cache))"
  show ?thesis
  proof (cases "opt_filter (\<lambda>(ts, p). now - ts < FRESH_NS) (cache_get key cache)")
    case (Some tp)
    then show ?thesis using fresh [of key h v "fst tp" "snd tp"] kh
      by (cases tp) (auto simp: ba_validate_def)
  next
    case None
    then have v: "ba_validate E cfg cred now cache =
        (case ba_reply_result E (cred_method cred) ?st r of
           (Inr p, True) \<Rightarrow> ((Ok p, t), cache_insert key t p cache)
         | (res, _) \<Rightarrow> ((res, t), cache))"
      using kh s by (simp add: ba_validate_def)
    obtain res b where rr: "ba_reply_result E (cred_method cred) ?st r = (res, b)" by fastforce
    show ?thesis
    proof (cases res)
      case (Inl e)
      then show ?thesis using rejected [of e t] v rr by (cases b) simp_all
    next
      case (Inr p)
      show ?thesis
      proof (cases b)
        case True
        with rr Inr have "ba_answer E cfg cred now = Some (key, t, p)"
          using kh s reply_fresh_indep [of E "cred_method cred" ?st r p] by (simp add: ba_answer_def)
        then show ?thesis using answer v rr Inr True by simp
      next
        case False
        with rr Inr have "?st = Some p" "(\<exists>e. r = SendFailed e) \<or> (\<exists>st b. r = Reply st b \<and> is_server_error st)"
          using reply_stale [of E "cred_method cred" ?st r p] by auto
        then show ?thesis using stale [of key h v _ p r t] kh s v rr Inr False by fastforce
      qed
    qed
  qed
qed

lemma cache_get_mem: "cache_get k c = Some (t, p) \<Longrightarrow> (k, t, p) \<in> set c"
  by (simp add: cache_get_def map_of_SomeD)

lemma answered_step:
  assumes "answered E cfg calls cache"
  shows "answered E cfg (calls @ [(cred, now)]) (snd (ba_validate E cfg cred now cache))"
proof (cases E cfg cred now cache rule: ba_validate_cases)
  case (answer key t p)
  have "distinct (map fst (cache_insert key t p cache))"
    using assms by (simp add: answered_def cache_insert_def distinct_alist_set)
  moreover have "\<exists>(c, n) \<in> set (calls @ [(cred, now)]). ba_answer E cfg c n = Some x"
    if "x \<in> set (cache_insert key t p cache)" for x
    using cache_insert_mem [OF that] answer(1) assms by (fastforce simp: answered_def)
  ultimately show ?thesis using answer(2) by (force simp: answered_def)
qed (use assms in \<open>fastforce simp: answered_def\<close>)+

definition ba_run ::
  "ba_env \<Rightarrow> ba_config \<Rightarrow> (session_credential \<times> nat) list \<Rightarrow> session_cache \<Rightarrow> session_cache" where
  "ba_run E cfg calls cache = fold (\<lambda>(c, n) s. snd (ba_validate E cfg c n s)) calls cache"

lemma ba_run_answered: "answered E cfg calls (ba_run E cfg calls [])"
proof (induction calls rule: rev_induct)
  case (snoc x calls)
  obtain c n where x: "x = (c, n)" by fastforce
  show ?case using answered_step [OF snoc.IH, of c n] by (simp add: ba_run_def x)
qed (simp add: ba_run_def answered_def)

lemma ba_run_bound: "length cache \<le> Suc MAX_CACHE \<Longrightarrow> length (ba_run E cfg calls cache) \<le> Suc MAX_CACHE"
proof (induction calls arbitrary: cache)
  case (Cons x calls)
  obtain c n where x: "x = (c, n)" by fastforce
  have "length (snd (ba_validate E cfg c n cache)) \<le> Suc MAX_CACHE"
    using Cons.prems cache_insert_bound by (cases E cfg c n cache rule: ba_validate_cases) simp_all
  from Cons.IH [OF this] show ?case by (simp add: ba_run_def x)
qed (simp add: ba_run_def)

subsection \<open>Cookies and bearer tokens do not mix\<close>

definition key_method :: "string \<Rightarrow> auth_method" where
  "key_method k = (if take 7 k = ''cookie:'' then Cookie else Bearer)"

definition cache_typed :: "session_cache \<Rightarrow> bool" where
  "cache_typed c \<longleftrightarrow> (\<forall>(k, t, p) \<in> set c. auth_method p = key_method k)"

lemma ba_request_method: "ba_request cfg cred = Some (key, h, v) \<Longrightarrow> key_method key = cred_method cred"
  by (auto simp: ba_request_def key_method_def cred_method_def split: session_credential.splits list.splits)

lemma ba_answer_method:
  "ba_answer E cfg cred now = Some (key, t, p) \<Longrightarrow>
     auth_method p = cred_method cred \<and> key_method key = cred_method cred
     \<and> (\<exists>h v. ba_request cfg cred = Some (key, h, v))"
  using ba_request_method [of cfg cred]
  by (auto simp: ba_answer_def ba_reply_result_def principal_from_session_data_def
      split: option.splits prod.splits sum.splits bool.splits ba_reply.splits if_splits)

interpretation betterauth: session_validator "ba_validator E cfg" cache_typed for E cfg
proof
  fix s cred now
  assume s: "cache_typed s"
  show "cache_typed (snd (validate_session (ba_validator E cfg) cred now s))"
  proof (cases E cfg cred now s rule: ba_validate_cases)
    case (answer key t p)
    then show ?thesis using s ba_answer_method [OF answer(1)]
      by (auto simp: cache_typed_def ba_validator_def dest!: cache_insert_mem)
  qed (use s in \<open>simp_all add: ba_validator_def\<close>)
next
  fix s cred now p
  assume s: "cache_typed s" and p: "fst (fst (validate_session (ba_validator E cfg) cred now s)) = Inr p"
  show "auth_method p = cred_method cred"
  proof (cases E cfg cred now s rule: ba_validate_cases)
    case (fresh key h v ts q)
    then show ?thesis using s p ba_request_method [OF fresh(1)] cache_get_mem [OF fresh(2)]
      by (auto simp: cache_typed_def ba_validator_def)
  next
    case (stale key h v ts q r t)
    then show ?thesis using s p ba_request_method [OF stale(1)] cache_get_mem [OF stale(2)]
      by (auto simp: cache_typed_def ba_validator_def)
  next
    case (answer key t q)
    then show ?thesis using p ba_answer_method [OF answer(1)] by (simp add: ba_validator_def)
  qed (use p in \<open>simp add: ba_validator_def\<close>)
qed

section \<open>What session validation promises\<close>

text \<open>
  C6: no session without BetterAuth. After any sequence of validations from an
  empty cache, a principal is accepted for a credential only if BetterAuth
  itself answered, for the same cache key, with exactly that principal: either
  now, or less than 20 seconds ago, or less than 600 seconds ago while it is
  unreachable or failing with a server error now. The cache never holds more
  than 10001 entries.
\<close>

theorem session_justified:
  assumes "fst (fst (ba_validate E cfg cred now (ba_run E cfg calls []))) = Inr p"
  shows "length (ba_run E cfg calls []) \<le> 10001 \<and>
    (\<exists>key h v c n t. ba_request cfg cred = Some (key, h, v) \<and> ba_answer E cfg c n = Some (key, t, p) \<and>
      ((c, n) = (cred, now)
       \<or> (c, n) \<in> set calls \<and> now - t < 20 * 10 ^ 9
       \<or> (c, n) \<in> set calls \<and> now - t < 600 * 10 ^ 9 \<and>
         (case fst (ba_send E (ba_base_url cfg @ ''/api/auth/get-session'') (h, v) now) of
            SendFailed e \<Rightarrow> True | Reply st b \<Rightarrow> is_server_error st)))"
proof -
  let ?c = "ba_run E cfg calls []"
  have b: "length ?c \<le> 10001" using ba_run_bound [of "[]" E cfg calls] by (simp add: MAX_CACHE_def)
  have a: "\<exists>(c, n) \<in> set calls. ba_answer E cfg c n = Some (k, t, q)"
    if "cache_get k ?c = Some (t, q)" for k t q
    using cache_get_mem [OF that] ba_run_answered [of E cfg calls] by (fastforce simp: answered_def)
  show ?thesis
  proof (cases E cfg cred now ?c rule: ba_validate_cases)
    case (fresh key h v ts q)
    then show ?thesis using assms a [OF fresh(2)] b by (fastforce simp: FRESH_NS_def)
  next
    case (stale key h v ts q r t)
    from a [OF stale(2)] obtain c n where "(c, n) \<in> set calls" "ba_answer E cfg c n = Some (key, ts, q)"
      by blast
    moreover have "case fst (ba_send E (ba_base_url cfg @ ''/api/auth/get-session'') (h, v) now) of
        SendFailed e \<Rightarrow> True | Reply st b \<Rightarrow> is_server_error st"
      using stale(4,5) by auto
    moreover have "q = p" "now - ts < 600 * 10 ^ 9" using stale(3,6) assms by (simp_all add: STALE_NS_def)
    ultimately show ?thesis using stale(1) b by blast
  next
    case (answer key t q)
    then show ?thesis using assms b ba_answer_method [OF answer(1)] by fastforce
  qed (use assms in simp)
qed

text \<open>A BetterAuth server that knows one session until a given time and then is down.\<close>

definition wit_session :: ba_session_response where
  "wit_session = \<lparr>bs_id = ''s1'', bs_user_id = ''u1'', bu_id = ''u1'', bu_email = None,
     bu_role = Some ''member'', bu_organization_id = None\<rparr>"

definition wit_ba :: ba_env where
  "wit_ba = \<lparr>ba_send = (\<lambda>url hv now. if now = 0 then (Reply 200 (Inr ''ok''), 0)
       else if now = 30 * 10 ^ 9 then (Reply 401 (Inr ''no''), now) else (SendFailed ''down'', now)),
     ba_parse = (\<lambda>b. Inr (Some wit_session)), status_display = dec_str\<rparr>"

definition wit_ba_cfg :: ba_config where
  "wit_ba_cfg = \<lparr>ba_base_url = ''http://auth'', ba_cookie_name = ''sid''\<rparr>"

lemma wit_ba_first:
  "ba_validate wit_ba wit_ba_cfg (BearerCred ''t'') 0 [] =
     ((Inr (principal_from_session_data wit_session Bearer), 0),
      [(''bearer:t'', 0, principal_from_session_data wit_session Bearer)])"
  by (simp add: ba_validate_def ba_request_def wit_ba_def wit_ba_cfg_def cache_get_def ba_reply_result_def
      is_success_def cred_method_def cache_insert_def MAX_CACHE_def)

theorem session_justified_witness:
  "\<exists>c n t. ba_answer wit_ba wit_ba_cfg c n =
     Some (''bearer:t'', t, principal_from_session_data wit_session Bearer)"
proof -
  have "fst (fst (ba_validate wit_ba wit_ba_cfg (BearerCred ''t'') (10 ^ 9)
      (ba_run wit_ba wit_ba_cfg [(BearerCred ''t'', 0)] []))) =
      Inr (principal_from_session_data wit_session Bearer)"
    by (simp add: ba_run_def wit_ba_first)
       (simp add: ba_validate_def ba_request_def cache_get_def FRESH_NS_def)
  from session_justified [OF this] show ?thesis by (auto simp: ba_request_def)
qed

text \<open>
  A rejection is not remembered. BetterAuth's refusal of a session leaves
  the cached entry in place, so if BetterAuth becomes unreachable before the
  entry is 600 seconds old the refused session is accepted again.
\<close>

theorem rejected_session_returns:
  assumes "ba_request cfg cred = Some (key, h, v)" "cache_get key cache = Some (ts, p)"
    and "20 * 10 ^ 9 \<le> now1 - ts" "now1 \<le> now2" "now2 - ts < 600 * 10 ^ 9"
    and "ba_send E (ba_base_url cfg @ ''/api/auth/get-session'') (h, v) now1 = (Reply 401 b, t1)"
    and "ba_send E (ba_base_url cfg @ ''/api/auth/get-session'') (h, v) now2 = (SendFailed e, t2)"
  shows "\<exists>why. ba_validate E cfg cred now1 cache = ((Err (InvalidSession why), t1), cache)
    \<and> ba_validate E cfg cred now2 cache = ((Ok p, t2), cache)"
proof -
  have f: "\<not> now1 - ts < FRESH_NS" "\<not> now2 - ts < FRESH_NS" "now2 - ts < STALE_NS"
    using assms(3-5) by (auto simp: FRESH_NS_def STALE_NS_def)
  show ?thesis
    using assms(1,2,6,7) f
    by (simp add: ba_validate_def ba_reply_result_def is_success_def is_server_error_def)
qed

theorem rejected_session_returns_witness:
  "\<exists>why cache. ba_validate wit_ba wit_ba_cfg (BearerCred ''t'') (30 * 10 ^ 9) cache =
      ((Err (InvalidSession why), 30 * 10 ^ 9), cache)
    \<and> ba_validate wit_ba wit_ba_cfg (BearerCred ''t'') (60 * 10 ^ 9) cache =
      ((Ok (principal_from_session_data wit_session Bearer), 60 * 10 ^ 9), cache)"
  using rejected_session_returns [of wit_ba_cfg "BearerCred ''t''" "''bearer:t''" "''authorization''"
      "''Bearer t''" "[(''bearer:t'', 0, principal_from_session_data wit_session Bearer)]" 0
      "principal_from_session_data wit_session Bearer" "30 * 10 ^ 9" "60 * 10 ^ 9" wit_ba "Inr ''no''"
      "30 * 10 ^ 9" "''down''" "60 * 10 ^ 9"]
  by (auto simp: ba_request_def cache_get_def wit_ba_def)

end
