(* ===== verification/Jwt.thy ===== *)
theory Jwt
  imports Session
begin

text \<open>
  Local validation of bearer tokens, \<^verbatim>\<open>auth/jwt.rs\<close>: the configuration from the
  environment, the key set fetched by key id, and the claim and revocation
  checks.
\<close>

section \<open>Configuration\<close>

record jwt_config =
  jc_jwks_url :: string
  jc_issuer :: "string option"
  jc_audience :: "string option"
  jc_http_timeout_ms :: nat
  jc_require_jti :: bool
  jc_revocation_enabled :: bool

definition env_flag :: "string \<Rightarrow> bool" where
  "env_flag v \<longleftrightarrow> v = ''1'' \<or> eq_ignore_ascii_case v ''true''"

definition jwt_config_from_env :: "environment \<Rightarrow> jwt_config option" where
  "jwt_config_from_env env = (case env ''JWT_JWKS_URL'' of
     None \<Rightarrow> None
   | Some jwks_url \<Rightarrow>
       let issuer = opt_filter (\<lambda>s. trim s \<noteq> []) (env ''JWT_ISSUER'');
           audience = opt_filter (\<lambda>s. trim s \<noteq> []) (env ''JWT_AUDIENCE'');
           timeout = unwrap_or 2000 (Option.bind (env ''JWT_JWKS_TIMEOUT_MS'') (parse_uint 64));
           require_jti = unwrap_or False (map_option env_flag (env ''JWT_REQUIRE_JTI''));
           redis_present = (case env ''REDIS_URL'' of Some s \<Rightarrow> trim s \<noteq> [] | None \<Rightarrow> False);
           revocation = unwrap_or redis_present (map_option env_flag (env ''JWT_REVOCATION_ENABLED''))
       in Some \<lparr>jc_jwks_url = jwks_url, jc_issuer = issuer, jc_audience = audience,
            jc_http_timeout_ms = timeout, jc_require_jti = require_jti,
            jc_revocation_enabled = revocation\<rparr>)"

section \<open>Keys, claims and the services behind\<close>

record jwk =
  jwk_kid :: "string option"
  jwk_kty :: string
  jwk_n :: "string option"
  jwk_e :: "string option"

record claims =
  cl_sub :: string
  cl_email :: "string option"
  cl_exp :: "nat option"
  cl_iss :: "string option"
  cl_aud :: "json option"
  cl_jti :: "string option"
  cl_roles :: "string list option"

text \<open>
  Outside this code base: the JWKS endpoint (with the time its answer arrives),
  the header decoder, the RSA key constructor and the signature and registered
  claim check of the JWT crate (RS256, expiry required, issuer and audience as
  configured), the redis connection and the status text.
\<close>

datatype jwks_reply = JwksFailed string | JwksReply nat "(string, jwk list) result"

record 'k jwt_env =
  jwks_fetch :: "string \<Rightarrow> nat \<Rightarrow> jwks_reply \<times> nat"
  jwt_header_kid :: "string \<Rightarrow> string option option"
  rsa_key :: "string \<Rightarrow> string \<Rightarrow> 'k option"
  jwt_decode :: "string \<Rightarrow> 'k \<Rightarrow> string option \<Rightarrow> string option \<Rightarrow> nat \<Rightarrow> claims option"
  redis_conn :: "(string, unit) result"
  redis_exists :: "string \<Rightarrow> (string, bool) result"
  redis_pool :: "string \<Rightarrow> (string, unit) result"
  jwt_status_display :: "nat \<Rightarrow> string"

section \<open>Revocation\<close>

datatype revocation_store = NoopRevocationStore | RedisJtiDenylist string

definition redis_from_env :: "'k jwt_env \<Rightarrow> environment \<Rightarrow> (auth_error, revocation_store) result" where
  "redis_from_env E env = (case env ''REDIS_URL'' of
     None \<Rightarrow> Err (Upstream ''REDIS_URL not set'')
   | Some url \<Rightarrow>
       let key_prefix = unwrap_or ''revoked:jti:'' (env ''JWT_REVOCATION_KEY_PREFIX'')
       in try_result (map_err (\<lambda>e. Upstream (''redis pool error: '' @ e)) (redis_pool E url))
            (\<lambda>_. Ok (RedisJtiDenylist key_prefix)))"

definition is_revoked :: "'k jwt_env \<Rightarrow> revocation_store \<Rightarrow> string \<Rightarrow> (auth_error, bool) result" where
  "is_revoked E store jti = (case store of
     NoopRevocationStore \<Rightarrow> Ok False
   | RedisJtiDenylist key_prefix \<Rightarrow>
       try_result (map_err (\<lambda>e. Upstream (''redis pool get: '' @ e)) (redis_conn E)) (\<lambda>_.
         map_err (\<lambda>e. Upstream (''redis EXISTS error: '' @ e)) (redis_exists E (key_prefix @ jti))))"

definition jwt_store :: "'k jwt_env \<Rightarrow> environment \<Rightarrow> jwt_config \<Rightarrow> revocation_store" where
  "jwt_store E env cfg =
     (if jc_revocation_enabled cfg then
        (case redis_from_env E env of Inr s \<Rightarrow> s | Inl _ \<Rightarrow> NoopRevocationStore)
      else NoopRevocationStore)"

section \<open>The validator\<close>

type_synonym 'k key_map = "string \<rightharpoonup> 'k"

definition usable_key :: "'k jwt_env \<Rightarrow> jwk \<Rightarrow> (string \<times> 'k) option" where
  "usable_key E k =
     (if jwk_kty k \<noteq> ''RSA'' then None
      else case jwk_kid k of
        None \<Rightarrow> None
      | Some kid \<Rightarrow>
          (case (jwk_n k, jwk_e k) of
             (Some n, Some e) \<Rightarrow> map_option (Pair kid) (rsa_key E n e)
           | _ \<Rightarrow> None))"

definition key_map_of :: "'k jwt_env \<Rightarrow> jwk list \<Rightarrow> 'k key_map" where
  "key_map_of E ks = fold (\<lambda>(kid, key) m. m(kid \<mapsto> key)) (filter_map (usable_key E) ks) Map.empty"

definition refresh_jwks ::
  "'k jwt_env \<Rightarrow> jwt_config \<Rightarrow> nat \<Rightarrow> 'k key_map \<Rightarrow> ((auth_error, unit) result \<times> nat) \<times> 'k key_map" where
  "refresh_jwks E cfg now keys = (case jwks_fetch E (jc_jwks_url cfg) now of
     (JwksFailed e, t) \<Rightarrow> ((Err (Upstream (''jwks fetch failed: '' @ e)), t), keys)
   | (JwksReply st body, t) \<Rightarrow>
       if \<not> is_success st
       then ((Err (Upstream (''jwks fetch status '' @ jwt_status_display E st)), t), keys)
       else (case body of
               Inl e \<Rightarrow> ((Err (Upstream (''jwks parse failed: '' @ e)), t), keys)
             | Inr ks \<Rightarrow> ((Ok (), t), key_map_of E ks)))"

definition decode_with_key ::
  "'k jwt_env \<Rightarrow> jwt_config \<Rightarrow> string \<Rightarrow> nat \<Rightarrow> 'k \<Rightarrow> (auth_error, claims) result" where
  "decode_with_key E cfg token now key =
     ok_or (InvalidSession ''invalid or expired token'')
       (jwt_decode E token key (jc_issuer cfg) (jc_audience cfg) now)"

definition decode ::
  "'k jwt_env \<Rightarrow> jwt_config \<Rightarrow> string \<Rightarrow> nat \<Rightarrow> 'k key_map
     \<Rightarrow> ((auth_error, claims) result \<times> nat) \<times> 'k key_map" where
  "decode E cfg token now keys = (case jwt_header_kid E token of
     None \<Rightarrow> ((Err (InvalidSession ''invalid jwt header''), now), keys)
   | Some None \<Rightarrow> ((Err (InvalidSession ''missing kid''), now), keys)
   | Some (Some kid) \<Rightarrow>
       (case keys kid of
          Some key \<Rightarrow> ((decode_with_key E cfg token now key, now), keys)
        | None \<Rightarrow>
            (case refresh_jwks E cfg now keys of
               ((Inl e, t), keys') \<Rightarrow> ((Err e, t), keys')
             | ((Inr _, t), keys') \<Rightarrow>
                 ((try_result (ok_or (InvalidSession ''unknown kid'') (keys' kid))
                     (decode_with_key E cfg token t), t), keys'))))"

definition validate_claims ::
  "'k jwt_env \<Rightarrow> jwt_config \<Rightarrow> revocation_store \<Rightarrow> claims \<Rightarrow> (auth_error, principal) result" where
  "validate_claims E cfg store c =
     (if jc_require_jti cfg \<and> unwrap_or [] (cl_jti c) = [] then Err (InvalidSession ''missing jti'')
      else
        let p = \<lparr>user_id = trim (cl_sub c), email = normalize_email (cl_email c), org_id = None,
                 roles = unwrap_or [] (cl_roles c), session_id = unwrap_or ''-'' (cl_jti c),
                 auth_method = Bearer\<rparr>
        in (case (jc_revocation_enabled cfg, cl_jti c) of
              (True, Some jti) \<Rightarrow>
                try_result (is_revoked E store jti) (\<lambda>revoked.
                  if revoked then Err (InvalidSession ''revoked_token'') else Ok p)
            | _ \<Rightarrow> Ok p))"

definition jwt_validate ::
  "'k jwt_env \<Rightarrow> jwt_config \<Rightarrow> revocation_store \<Rightarrow> session_credential \<Rightarrow> nat \<Rightarrow> 'k key_map
     \<Rightarrow> ((auth_error, principal) result \<times> nat) \<times> 'k key_map" where
  "jwt_validate E cfg store cred now keys = (case cred of
     CookieCred _ \<Rightarrow> ((Err (InvalidSession ''jwt validator only supports bearer tokens''), now), keys)
   | BearerCred token \<Rightarrow>
       (case decode E cfg token now keys of
          ((r, t), keys') \<Rightarrow> ((try_result r (validate_claims E cfg store), t), keys')))"

definition jwt_validator :: "'k jwt_env \<Rightarrow> jwt_config \<Rightarrow> revocation_store \<Rightarrow> 'k key_map validator" where
  "jwt_validator E cfg store =
     \<lparr>supports_cookie = False, supports_bearer = True, validate_session = jwt_validate E cfg store\<rparr>"

section \<open>The contract\<close>

lemma validate_claims_Ok:
  assumes "validate_claims E cfg store c = Inr p"
  shows "auth_method p = Bearer \<and> user_id p = trim (cl_sub c) \<and> roles p = unwrap_or [] (cl_roles c)
    \<and> (jc_require_jti cfg \<longrightarrow> (\<exists>j. cl_jti c = Some j \<and> j \<noteq> []))
    \<and> (\<forall>j. jc_revocation_enabled cfg \<longrightarrow> cl_jti c = Some j \<longrightarrow> is_revoked E store j = Inr False)"
  using assms
  by (auto simp: validate_claims_def Let_def try_result_def split: if_splits option.splits bool.splits sum.splits)

interpretation jwt: session_validator "jwt_validator E cfg store" "\<lambda>_. True" for E :: "'k jwt_env" and cfg store
  by unfold_locales
    (auto simp: jwt_validator_def jwt_validate_def cred_method_def result_simps
      dest!: validate_claims_Ok split: session_credential.splits prod.splits)

text \<open>The gateway's own pair: cookies to BetterAuth, bearer tokens checked locally.\<close>

interpretation gateway_auth: split_pair "ba_validator B bc" cache_typed "jwt_validator E cfg store" "\<lambda>_. True"
  for B bc and E :: "'k jwt_env" and cfg store
  by unfold_locales

text \<open>A key is trusted only if the key set served it as an RSA key under its id.\<close>

definition served :: "'k jwt_env \<Rightarrow> jwt_config \<Rightarrow> string \<Rightarrow> 'k \<Rightarrow> bool" where
  "served E cfg kid key \<longleftrightarrow> (\<exists>n st ks t k nn ee. jwks_fetch E (jc_jwks_url cfg) n = (JwksReply st (Inr ks), t)
     \<and> is_success st \<and> k \<in> set ks \<and> jwk_kid k = Some kid \<and> jwk_kty k = ''RSA''
     \<and> jwk_n k = Some nn \<and> jwk_e k = Some ee \<and> rsa_key E nn ee = Some key)"

definition keys_served :: "'k jwt_env \<Rightarrow> jwt_config \<Rightarrow> 'k key_map \<Rightarrow> bool" where
  "keys_served E cfg keys \<longleftrightarrow> (\<forall>kid key. keys kid = Some key \<longrightarrow> served E cfg kid key)"

lemma fold_upd_Some:
  "fold (\<lambda>(k, v) m. m(k \<mapsto> v)) ps m kid = Some key \<Longrightarrow> (kid, key) \<in> set ps \<or> m kid = Some key"
  by (induction ps arbitrary: m) (fastforce split: if_splits)+

lemma key_map_of_Some:
  assumes "key_map_of E ks kid = Some key"
  shows "\<exists>k\<in>set ks. usable_key E k = Some (kid, key)"
  using fold_upd_Some [of "filter_map (usable_key E) ks" Map.empty kid key] assms
  by (auto simp: key_map_of_def)

lemma usable_key_Some:
  "usable_key E k = Some (kid, key) \<Longrightarrow>
     \<exists>nn ee. jwk_kid k = Some kid \<and> jwk_kty k = ''RSA'' \<and> jwk_n k = Some nn \<and> jwk_e k = Some ee
       \<and> rsa_key E nn ee = Some key"
  by (auto simp: usable_key_def split: if_splits option.splits)

lemma refresh_served [inv_intros]:
  assumes "keys_served E cfg keys"
  shows "keys_served E cfg (snd (refresh_jwks E cfg now keys))"
proof (cases "jwks_fetch E (jc_jwks_url cfg) now")
  case (Pair r t)
  show ?thesis
  proof (cases "\<exists>st ks. r = JwksReply st (Inr ks) \<and> is_success st")
    case True
    then obtain st ks where r: "r = JwksReply st (Inr ks)" "is_success st" by blast
    then have "snd (refresh_jwks E cfg now keys) = key_map_of E ks"
      using Pair by (simp add: refresh_jwks_def)
    then show ?thesis using Pair r
      by (fastforce simp: keys_served_def served_def dest!: key_map_of_Some usable_key_Some)
  next
    case False
    then have "snd (refresh_jwks E cfg now keys) = keys"
      using Pair by (auto simp: refresh_jwks_def split: jwks_reply.splits sum.splits)
    then show ?thesis using assms by simp
  qed
qed

lemma decode_keys:
  "snd (decode E cfg token now keys) = keys \<or>
   snd (decode E cfg token now keys) = snd (refresh_jwks E cfg now keys)"
  by (auto simp: decode_def split: option.splits prod.splits sum.splits)

lemma decode_Ok:
  assumes "decode E cfg token now keys = ((Inr c, t), keys')"
  shows "\<exists>kid key. jwt_header_kid E token = Some (Some kid) \<and> keys' kid = Some key
    \<and> jwt_decode E token key (jc_issuer cfg) (jc_audience cfg) t = Some c"
  using assms
  by (auto simp: decode_def decode_with_key_def ok_or_def try_result_def
      split: option.splits prod.splits sum.splits)

section \<open>What token validation promises\<close>

lemma jwt_run_served:
  "keys_served E cfg (fold (\<lambda>(c, n) s. snd (jwt_validate E cfg store c n s)) calls Map.empty)"
proof (induction calls rule: rev_induct)
  case Nil
  then show ?case by (simp add: keys_served_def)
next
  case (snoc x calls)
  obtain c n where x: "x = (c, n)" by fastforce
  let ?k = "fold (\<lambda>(c, n) s. snd (jwt_validate E cfg store c n s)) calls Map.empty"
  have "keys_served E cfg (snd (jwt_validate E cfg store c n ?k))"
  proof (cases c)
    case (BearerCred token)
    then have "snd (jwt_validate E cfg store c n ?k) = snd (decode E cfg token n ?k)"
      by (simp add: jwt_validate_def split: prod.splits)
    then show ?thesis using decode_keys [of E cfg token n ?k] snoc.IH refresh_served [OF snoc.IH]
      by auto
  qed (use snoc.IH in \<open>simp add: jwt_validate_def\<close>)
  then show ?case by (simp add: x)
qed


definition wit_jwt :: "nat jwt_env" where
  "wit_jwt = \<lparr>jwks_fetch = (\<lambda>url now. (JwksReply 200 (Inr [\<lparr>jwk_kid = Some ''k1'', jwk_kty = ''RSA'',
       jwk_n = Some ''n'', jwk_e = Some ''e''\<rparr>]), now)),
     jwt_header_kid = (\<lambda>tok. Some (Some ''k1'')), rsa_key = (\<lambda>n e. Some 7),
     jwt_decode = (\<lambda>tok k iss aud now. Some \<lparr>cl_sub = ''u1'', cl_email = None, cl_exp = Some 1, cl_iss = None,
        cl_aud = None, cl_jti = Some ''j1'', cl_roles = None\<rparr>),
     redis_conn = Inr (), redis_exists = (\<lambda>k. Inr False), redis_pool = (\<lambda>u. Inr ()), jwt_status_display = dec_str\<rparr>"

definition wit_jwt_cfg :: jwt_config where
  "wit_jwt_cfg = \<lparr>jc_jwks_url = ''u'', jc_issuer = None, jc_audience = None, jc_http_timeout_ms = 2000,
     jc_require_jti = True, jc_revocation_enabled = True\<rparr>"


end
