(* ===== verification/Rbac.thy ===== *)
theory Rbac
  imports Http
begin

text \<open>
  The role-based access control of \<^verbatim>\<open>rbac/\<close>: scopes (\<^verbatim>\<open>types.rs\<close>), the policy
  document and its validation (\<^verbatim>\<open>policy.rs\<close>) and the policy engine
  (\<^verbatim>\<open>engine.rs\<close>), with a specification of what a principal is granted.
\<close>

section \<open>Types\<close>

record scope =
  sc_org :: "string option"
  sc_team :: "string option"
  sc_project :: "string option"

fun field_encompasses :: "string option \<Rightarrow> string option \<Rightarrow> bool" where
  "field_encompasses None _ = True"
| "field_encompasses (Some _) None = True"
| "field_encompasses (Some p) (Some c) = (p = c)"

definition encompasses :: "scope \<Rightarrow> scope \<Rightarrow> bool" where
  "encompasses a b =
     (if \<not> field_encompasses (sc_org a) (sc_org b) then False
      else if \<not> field_encompasses (sc_team a) (sc_team b) then False
      else if \<not> field_encompasses (sc_project a) (sc_project b) then False
      else True)"

datatype action = ToolCall string | RouteAccess string string

datatype decision = Allow | Deny string

definition is_allowed :: "decision \<Rightarrow> bool" where
  "is_allowed d = (case d of Allow \<Rightarrow> True | Deny _ \<Rightarrow> False)"

section \<open>The policy document\<close>

datatype default_policy = DefaultDeny | DefaultAllow

record tool_entry =
  te_enabled :: bool
  te_timeout_ms :: nat
  te_max_concurrent :: nat
  te_allowed_roles :: "string list"
  te_args_schema :: "string option"

record tools_policy =
  tp_default_policy :: default_policy
  tp_max_concurrent_global :: "nat option"
  tp_allowlist :: "string \<rightharpoonup> tool_entry"

record role_entry =
  re_permissions :: "string list"
  re_description :: "string option"

record policy =
  p_schema_version :: string
  p_id :: "string option"
  p_tools :: "tools_policy option"
  p_roles :: "(string \<rightharpoonup> role_entry) option"

datatype policy_load_error = PolicyIo string | PolicyParse string | UnsupportedVersion string

definition policy_validate :: "policy \<Rightarrow> (policy_load_error, unit) result" where
  "policy_validate p =
     (if \<not> starts_with ''0.'' (p_schema_version p)
      then Err (UnsupportedVersion (p_schema_version p)) else Ok ())"

text \<open>The JSON parser at type \<^verbatim>\<open>Policy\<close> and the file system are parameters.\<close>

definition load_from_str ::
  "(string \<Rightarrow> (string, policy) result) \<Rightarrow> string \<Rightarrow> (policy_load_error, policy) result" where
  "load_from_str parse js =
     try_result (map_err PolicyParse (parse js)) (\<lambda>policy.
       try_result (policy_validate policy) (\<lambda>_. Ok policy))"

definition load_from_file ::
  "(string \<Rightarrow> (string, string) result) \<Rightarrow> (string \<Rightarrow> (string, policy) result) \<Rightarrow> string
     \<Rightarrow> (policy_load_error, policy) result" where
  "load_from_file read_file parse path =
     try_result (map_err (\<lambda>e. PolicyIo (path @ '': '' @ e)) (read_file path)) (load_from_str parse)"

section \<open>The engine\<close>

definition principal_has_permission :: "policy \<Rightarrow> principal \<Rightarrow> string \<Rightarrow> bool" where
  "principal_has_permission pol p permission =
     (case p_roles pol of
        None \<Rightarrow> False
      | Some roles_map \<Rightarrow>
          list_ex (\<lambda>role_name. case roles_map role_name of
              None \<Rightarrow> False
            | Some entry \<Rightarrow> list_ex (\<lambda>q. q = ''*'' \<or> q = permission) (re_permissions entry))
            (roles p))"

definition evaluate_tool_call :: "policy \<Rightarrow> principal \<Rightarrow> string \<Rightarrow> decision" where
  "evaluate_tool_call pol p tool =
     (if principal_has_permission pol p ''*'' then Allow
      else case p_tools pol of
        None \<Rightarrow> Deny ''no tools policy configured''
      | Some tp \<Rightarrow>
          (case tp_allowlist tp tool of
             None \<Rightarrow> (case tp_default_policy tp of
                 DefaultAllow \<Rightarrow> Allow
               | DefaultDeny \<Rightarrow> Deny (''tool '' @ quoted tool @ '' not in allowlist''))
           | Some entry \<Rightarrow>
               if \<not> te_enabled entry then Deny (''tool '' @ quoted tool @ '' is disabled'')
               else if te_allowed_roles entry = []
                 then Deny (''tool '' @ quoted tool @ '' has no allowed roles configured'')
               else if list_ex (\<lambda>role. role \<in> set (te_allowed_roles entry)) (roles p) then Allow
               else Deny (''principal lacks required role for tool '' @ quoted tool)))"

definition route_to_permission :: "string \<Rightarrow> string \<Rightarrow> string option" where
  "route_to_permission method path =
     (if path \<in> set [''/health'', ''/version'', ''/metrics''] then None
      else if starts_with ''/v1/tools/call'' path then Some ''tools:invoke''
      else if starts_with ''/v1/tools'' path \<and> method = ''GET'' then Some ''tools:list''
      else if starts_with ''/v1/admin/policy'' path then Some ''admin:policy''
      else if starts_with ''/v1/admin/audit'' path then Some ''admin:audit''
      else if starts_with ''/api/exponential'' path then
        (if method \<in> set [''GET'', ''HEAD'', ''OPTIONS''] then Some ''data:read''
         else if method \<in> set [''POST'', ''PUT'', ''PATCH'', ''DELETE''] then Some ''data:write''
         else None)
      else if method \<in> set [''GET'', ''HEAD'', ''OPTIONS''] \<and> starts_with ''/v1/'' path
        then Some ''data:read''
      else if method \<in> set [''POST'', ''PUT'', ''PATCH'', ''DELETE''] \<and> starts_with ''/v1/'' path
        then Some ''data:write''
      else None)"

definition evaluate_route_access :: "policy \<Rightarrow> principal \<Rightarrow> string \<Rightarrow> string \<Rightarrow> decision" where
  "evaluate_route_access pol p method path =
     (if principal_has_permission pol p ''*'' then Allow
      else case route_to_permission method path of
        Some perm \<Rightarrow>
          if principal_has_permission pol p perm then Allow
          else Deny (''missing permission '' @ quoted perm @ '' for '' @ method @ '' '' @ path)
      | None \<Rightarrow> Allow)"

definition evaluate :: "policy \<Rightarrow> principal \<Rightarrow> action \<Rightarrow> decision" where
  "evaluate pol p act = (case act of
     ToolCall tool \<Rightarrow> evaluate_tool_call pol p tool
   | RouteAccess method path \<Rightarrow> evaluate_route_access pol p method path)"

section \<open>Specification\<close>

text \<open>The permissions a principal's roles are granted by the policy.\<close>

definition grants :: "policy \<Rightarrow> principal \<Rightarrow> string set" where
  "grants pol p = {q. \<exists>m r e. p_roles pol = Some m \<and> r \<in> set (roles p) \<and> m r = Some e
     \<and> q \<in> set (re_permissions e)}"

text \<open>What a tool call needs.\<close>

definition tool_open :: "policy \<Rightarrow> string set \<Rightarrow> string \<Rightarrow> bool" where
  "tool_open pol rs tool \<longleftrightarrow> (\<exists>tp. p_tools pol = Some tp \<and>
     (case tp_allowlist tp tool of
        None \<Rightarrow> tp_default_policy tp = DefaultAllow
      | Some e \<Rightarrow> te_enabled e \<and> rs \<inter> set (te_allowed_roles e) \<noteq> {}))"

lemma is_allowed_simps [simp]: "is_allowed Allow" "\<not> is_allowed (Deny m)"
  by (simp_all add: is_allowed_def)

lemma is_allowed_iff: "is_allowed d \<longleftrightarrow> d = Allow"
  by (cases d) simp_all

lemma has_permission_grants:
  "principal_has_permission pol p q \<longleftrightarrow> ''*'' \<in> grants pol p \<or> q \<in> grants pol p"
  by (fastforce simp: principal_has_permission_def grants_def list_ex_iff split: option.splits)

lemma tool_call_iff:
  "is_allowed (evaluate_tool_call pol p tool) \<longleftrightarrow>
     ''*'' \<in> grants pol p \<or> tool_open pol (set (roles p)) tool"
  by (auto simp: evaluate_tool_call_def tool_open_def has_permission_grants list_ex_iff
      split: option.splits default_policy.splits if_splits)

lemma route_access_iff:
  "is_allowed (evaluate_route_access pol p method path) \<longleftrightarrow>
     ''*'' \<in> grants pol p \<or>
     (\<forall>q. route_to_permission method path = Some q \<longrightarrow> q \<in> grants pol p)"
  by (auto simp: evaluate_route_access_def has_permission_grants split: option.splits)

lemma grants_mono: "set (roles p) \<subseteq> set (roles p') \<Longrightarrow> grants pol p \<subseteq> grants pol p'"
  by (auto simp: grants_def)

lemma tool_open_mono: "rs \<subseteq> rs' \<Longrightarrow> tool_open pol rs tool \<Longrightarrow> tool_open pol rs' tool"
  by (cases "p_tools pol") (auto simp: tool_open_def split: option.splits)

text \<open>
  What the request middleware needs of a decision procedure: an answer that
  depends on the roles only and that more roles never turn into a refusal.
\<close>

locale policy_decision =
  fixes decide :: "principal \<Rightarrow> action \<Rightarrow> decision"
  assumes decide_mono:
    "set (roles p) \<subseteq> set (roles p') \<Longrightarrow> is_allowed (decide p a) \<Longrightarrow> is_allowed (decide p' a)"
begin

lemma decide_roles_only: "set (roles p) = set (roles p') \<Longrightarrow> is_allowed (decide p a) = is_allowed (decide p' a)"
  using decide_mono [of p p'] decide_mono [of p' p] by auto

lemma decide_denied: "set (roles p) \<subseteq> set (roles p') \<Longrightarrow> \<not> is_allowed (decide p' a) \<Longrightarrow> \<not> is_allowed (decide p a)"
  using decide_mono by blast

end

interpretation engine: policy_decision "evaluate pol" for pol
proof
  fix p p' :: principal and a :: action
  assume s: "set (roles p) \<subseteq> set (roles p')" and a: "is_allowed (evaluate pol p a)"
  show "is_allowed (evaluate pol p' a)"
    using a grants_mono [OF s, of pol] tool_open_mono [OF s, of pol]
    by (cases a) (auto simp: evaluate_def tool_call_iff route_access_iff)
qed

section \<open>What the engine promises\<close>

text \<open>A policy and principals to instantiate the properties with.\<close>

definition wit_policy :: policy where
  "wit_policy = \<lparr>p_schema_version = ''0.1.0'', p_id = None,
     p_tools = Some \<lparr>tp_default_policy = DefaultDeny, tp_max_concurrent_global = None,
       tp_allowlist = [''web_search'' \<mapsto> \<lparr>te_enabled = True, te_timeout_ms = 30000,
         te_max_concurrent = 8, te_allowed_roles = [''analyst''], te_args_schema = None\<rparr>]\<rparr>,
     p_roles = Some [''admin'' \<mapsto> \<lparr>re_permissions = [''*''], re_description = None\<rparr>,
       ''viewer'' \<mapsto> \<lparr>re_permissions = [''data:read''], re_description = None\<rparr>]\<rparr>"

definition wit_principal :: "string list \<Rightarrow> principal" where
  "wit_principal rs = \<lparr>user_id = ''u-1'', email = None, org_id = None, roles = rs,
     session_id = ''s-1'', auth_method = Bearer\<rparr>"


text \<open>
  The versioned API is closed by default. A GET, HEAD, OPTIONS, POST, PUT,
  PATCH or DELETE of any path under /v1/ or /api/exponential is refused to a
  principal whose roles grant no permission, and so is every method on a tool
  call or admin route.
\<close>

theorem api_denied_without_permission:
  assumes "grants pol p = {}"
    and "(starts_with ''/v1/'' path \<or> starts_with ''/api/exponential'' path)
          \<and> method \<in> {''GET'', ''HEAD'', ''OPTIONS'', ''POST'', ''PUT'', ''PATCH'', ''DELETE''}
        \<or> starts_with ''/v1/tools/call'' path \<or> starts_with ''/v1/admin/policy'' path
        \<or> starts_with ''/v1/admin/audit'' path"
  shows "\<exists>why. evaluate pol p (RouteAccess method path) = Deny why"
proof -
  have "path \<noteq> ''/health''" "path \<noteq> ''/version''" "path \<noteq> ''/metrics''"
    using assms(2) by (auto simp: starts_with_def)
  then have "\<exists>q. route_to_permission method path = Some q"
    using assms(2) by (auto simp: route_to_permission_def)
  then obtain q where "route_to_permission method path = Some q" ..
  then have "\<not> is_allowed (evaluate pol p (RouteAccess method path))"
    using assms(1) by (simp add: evaluate_def route_access_iff)
  then show ?thesis by (cases "evaluate pol p (RouteAccess method path)") auto
qed

theorem api_denied_without_permission_witness:
  "\<exists>why. evaluate wit_policy (wit_principal [''guest'']) (RouteAccess ''GET'' ''/v1/x'') = Deny why"
  by (rule api_denied_without_permission)
    (auto simp: grants_def wit_policy_def wit_principal_def starts_with_def)

text \<open>
  Granting a role never takes access away: whatever the policy, a principal
  with more roles is allowed every action it was allowed before.
\<close>

theorem access_monotone:
  assumes "set (roles p) \<subseteq> set (roles p')" "evaluate pol p act = Allow"
  shows "evaluate pol p' act = Allow"
  using engine.decide_mono [OF assms(1), of pol act] assms(2) by (simp add: is_allowed_iff)

theorem access_monotone_witness:
  "evaluate wit_policy (wit_principal [''analyst'', ''viewer'']) (ToolCall ''web_search'') = Allow"
  by (rule access_monotone [of "wit_principal [''analyst'']"])
    (simp_all add: wit_policy_def wit_principal_def evaluate_def evaluate_tool_call_def
      principal_has_permission_def)

text \<open>
  Scope containment is reflexive, and it is transitive through a scope that
  names every level the outer one restricts.
\<close>

lemma scope_containment:
  "encompasses a a \<and>
   (encompasses a b \<longrightarrow> encompasses b c \<longrightarrow>
    (sc_org a \<noteq> None \<longrightarrow> sc_org b \<noteq> None) \<longrightarrow> (sc_team a \<noteq> None \<longrightarrow> sc_team b \<noteq> None) \<longrightarrow>
    (sc_project a \<noteq> None \<longrightarrow> sc_project b \<noteq> None) \<longrightarrow> encompasses a c)"
proof -
  have r: "field_encompasses x x" for x by (cases x) simp_all
  have t: "field_encompasses x y \<Longrightarrow> field_encompasses y z \<Longrightarrow> (x \<noteq> None \<longrightarrow> y \<noteq> None) \<Longrightarrow>
    field_encompasses x z" for x y z
    by (cases x; cases y; cases z) auto
  show ?thesis by (auto simp: encompasses_def r intro: t split: if_splits)
qed

end
