(* ===== verification/Access_Middleware.thy ===== *)
theory Access_Middleware
  imports Edge_Middleware Jwt Rbac
begin

text \<open>
  The layers that decide who may reach a handler: authentication
  (\<^verbatim>\<open>middleware/auth.rs\<close>), per-module access (\<^verbatim>\<open>lib.rs\<close>) and role-based access
  (\<^verbatim>\<open>middleware/rbac.rs\<close>).
\<close>

section \<open>Authentication\<close>

record 'v auth_state =
  as_validator :: "'v validator"
  as_cookie_name :: string
  as_exempt_paths :: "string list"
  as_audit :: bool

definition PROBE_PATHS :: "string list" where
  "PROBE_PATHS = [''/health'', ''/version'', ''/metrics'']"

definition auth_state_with_cookie_name :: "'v validator \<Rightarrow> string \<Rightarrow> 'v auth_state" where
  "auth_state_with_cookie_name v name =
     \<lparr>as_validator = v, as_cookie_name = name, as_exempt_paths = PROBE_PATHS, as_audit = False\<rparr>"

definition with_audit :: "'v auth_state \<Rightarrow> 'v auth_state" where
  "with_audit s = s\<lparr>as_audit := True\<rparr>"

definition has_cookie :: "string \<Rightarrow> string \<Rightarrow> bool" where
  "has_cookie cookie_header name =
     list_ex (\<lambda>pair. case split_once (CHR ''='') (trim pair) of
         None \<Rightarrow> False | Some (k, _) \<Rightarrow> trim k = name)
       (split_on (CHR '';'') cookie_header)"

definition COOKIE_ALIASES :: "string list" where
  "COOKIE_ALIASES = [''__Secure-greenhat_tools.session_token'', ''greenhat_tools.session_token'',
     ''__Secure-better-auth.session_token'', ''better-auth.session_token'']"

definition bearer_token :: "string \<Rightarrow> string option" where
  "bearer_token authz =
     opt_filter (\<lambda>t. t \<noteq> []) (map_option trim (strip_prefix ''Bearer '' (trim authz)))"

definition extract_credential :: "ext \<Rightarrow> header_map \<Rightarrow> string \<Rightarrow> session_credential option" where
  "extract_credential X headers cookie_name =
     (case Option.bind (header_str X headers ''authorization'') bearer_token of
        Some token \<Rightarrow> Some (BearerCred token)
      | None \<Rightarrow>
          (case header_str X headers ''cookie'' of
             None \<Rightarrow> None
           | Some cookie_header \<Rightarrow>
               if has_cookie cookie_header cookie_name then Some (CookieCred cookie_header)
               else if has_cookie cookie_header (''__Secure-'' @ cookie_name)
                 then Some (CookieCred cookie_header)
               else if list_ex (\<lambda>a. a \<noteq> cookie_name \<and> has_cookie cookie_header a) COOKIE_ALIASES
                 then Some (CookieCred cookie_header)
               else None))"

definition map_auth_error :: "auth_error \<Rightarrow> app_error" where
  "map_auth_error e = (case e of
     InvalidSession _ \<Rightarrow> app_err (Unauthorized ''invalid or expired session'')
   | Upstream msg \<Rightarrow> app_err (ServiceUnavailable (''auth upstream error: '' @ msg)))"

definition auth_reason :: "auth_error \<Rightarrow> string" where
  "auth_reason e = (case e of InvalidSession m \<Rightarrow> m | Upstream m \<Rightarrow> ''upstream_error: '' @ m)"

definition audit_if ::
  "bool \<Rightarrow> string \<Rightarrow> string \<Rightarrow> string \<Rightarrow> actor option \<Rightarrow> json \<Rightarrow> string option
     \<Rightarrow> ('v, 's) world \<Rightarrow> ('v, 's) world" where
  "audit_if b ty rid ip act p ua w = (if b then emit_event ty rid ip act p ua w else w)"

text \<open>The request that goes on: identity headers set from the principal, and the principal itself.\<close>

definition authenticated :: "ext \<Rightarrow> principal \<Rightarrow> request \<Rightarrow> request" where
  "authenticated X p rq =
     (let h = rq_headers rq;
          h = (case hv_from_str X (user_id p) of
                 Some v \<Rightarrow> hm_insert ''x-auth-user-id'' v h | None \<Rightarrow> h);
          h = (if roles p \<noteq> [] then
                 (case hv_from_str X (str_join '','' (roles p)) of
                    Some v \<Rightarrow> hm_insert ''x-auth-roles'' v h | None \<Rightarrow> h)
               else h)
      in rq\<lparr>rq_headers := h, rq_principal := Some p\<rparr>)"

definition auth_middleware :: "ext \<Rightarrow> 'v auth_state \<Rightarrow> ('v, 's) middleware" where
  "auth_middleware X state next rq w =
     (let path = rq_path rq;
          rid = extract_request_id X rq;
          ip = extract_client_ip X rq;
          ua = header_str X (rq_headers rq) ''user-agent''
      in if rq_method rq = ''OPTIONS'' then run_next next rq w
         else if path \<in> set (as_exempt_paths state) then run_next next rq w
         else case extract_credential X (rq_headers rq) (as_cookie_name state) of
           None \<Rightarrow>
             (Err (app_err (Unauthorized ''missing session credential'')),
              audit_if (as_audit state) ''auth.login_failure'' rid ip None
                (JObj [(''reason'', JStr ''missing_credential''), (''path'', JStr path)]) ua w)
         | Some cred \<Rightarrow>
             let mode = auth_mode_str (cred_method cred)
             in if cred_method cred = Cookie \<and> \<not> supports_cookie (as_validator state)
                then (Err (app_err (Unauthorized ''cookie auth not supported'')), w)
                else if cred_method cred = Bearer \<and> \<not> supports_bearer (as_validator state)
                then (Err (app_err (Unauthorized ''bearer auth not supported'')), w)
                else case validate_session (as_validator state) cred (w_now w) (w_auth w) of
                  ((Inr p, t), v) \<Rightarrow>
                    let w1 = audit_if (as_audit state) ''auth.login_success'' rid ip
                          (Some (actor_from_principal p))
                          (JObj [(''auth_mode'', JStr mode), (''claims_sub'', JStr (user_id p))]) ua
                          (w\<lparr>w_now := t, w_auth := v\<rparr>)
                    in (case next (authenticated X p rq) w1 of (r, w2) \<Rightarrow>
                          (Ok (r\<lparr>rs_actor := Some \<lparr>ra_user_id = user_id p, ra_roles = roles p\<rparr>\<rparr>), w2))
                | ((Inl e, t), v) \<Rightarrow>
                    (Err (map_auth_error e),
                     audit_if (as_audit state) ''auth.login_failure'' rid ip None
                       (JObj [(''auth_mode'', JStr mode), (''reason'', JStr (auth_reason e)),
                              (''path'', JStr path)]) ua
                       (w\<lparr>w_now := t, w_auth := v\<rparr>)))"

section \<open>Module access\<close>

definition module_key_for_path :: "string \<Rightarrow> string option" where
  "module_key_for_path path =
     (if starts_with ''/api/exponential'' path then Some ''exponential''
      else if starts_with ''/api/greenbooks'' path then Some ''greenbooks''
      else if starts_with ''/api/greenspot'' path then Some ''greenspot''
      else if starts_with ''/api/marketing'' path then Some ''marketing''
      else if starts_with ''/api/soc2'' path then Some ''soc2''
      else if starts_with ''/api/security'' path then Some ''security''
      else if starts_with ''/api/pdf-'' path \<or> starts_with ''/api/image-to-pdf'' path
           \<or> starts_with ''/api/prd-generator'' path then Some ''tools''
      else None)"

definition EXPONENTIAL_ORG_ID :: string where
  "EXPONENTIAL_ORG_ID = ''cd861b76-f85c-4afc-b3e8-8f85945c3132''"

text \<open>
  The data plane behind the module grants: its base URL and key if configured,
  and what a GET of a URL answers (a transport error, or a status and a text;
  an unreadable text reads as empty). Reads do not change the application state.
\<close>

record 's data_plane =
  dp_env :: "(string \<times> string) option"
  dp_get :: "url \<Rightarrow> 's \<Rightarrow> (string, nat \<times> string) result"
  dp_status_display :: "nat \<Rightarrow> string"

definition grants_url :: "ext \<Rightarrow> string \<Rightarrow> principal \<Rightarrow> (string, url) result" where
  "grants_url X base p =
     try_result (url_parse X (base @ ''/rest/v1/user_module_access'')) (\<lambda>u.
       Ok (append_pair ''org_id'' (''eq.'' @ unwrap_or EXPONENTIAL_ORG_ID (org_id p))
          (append_pair ''granted'' ''eq.true''
            (append_pair ''user_id'' (''eq.'' @ user_id p)
              (append_pair ''select'' ''module_key'' u)))))"

definition module_keys_of :: "json list \<Rightarrow> string list" where
  "module_keys_of rows = filter_map (\<lambda>r. Option.bind (jget ''module_key'' r) as_str) rows"

definition load_module_access_for_principal ::
  "ext \<Rightarrow> 's data_plane \<Rightarrow> principal \<Rightarrow> 's \<Rightarrow> (app_error, string list option) result" where
  "load_module_access_for_principal X D p s = (case dp_env D of
     None \<Rightarrow> Ok None
   | Some (base, key) \<Rightarrow>
       try_result (map_err (\<lambda>e. app_err (Internal e)) (grants_url X base p)) (\<lambda>u.
       try_result (map_err (\<lambda>e. app_err (Internal e)) (dp_get D u s)) (\<lambda>(status, txt).
         if \<not> is_success status then
           (if status = 404 \<or> str_contains ''user_module_access'' txt then Ok None
            else Err (app_err (Internal
              (''failed to load module access (status '' @ dp_status_display D status @ '')''))))
         else
           let rows = (case json_from_str X txt of Inr (JArr rs) \<Rightarrow> rs | _ \<Rightarrow> [])
           in if rows = [] then Ok None else Ok (Some (module_keys_of rows)))))"

definition module_access_middleware :: "ext \<Rightarrow> 's data_plane \<Rightarrow> ('v, 's) middleware" where
  "module_access_middleware X D next rq w =
     (if rq_path rq \<in> set (PROBE_PATHS @ [''/api/me/module-access'']) then run_next next rq w
      else case module_key_for_path (rq_path rq) of
        None \<Rightarrow> run_next next rq w
      | Some module_key \<Rightarrow>
          (case rq_principal rq of
             None \<Rightarrow> run_next next rq w
           | Some p \<Rightarrow>
               (case load_module_access_for_principal X D p (w_app w) of
                  Inl e \<Rightarrow> (Err e, w)
                | Inr None \<Rightarrow> run_next next rq w
                | Inr (Some granted) \<Rightarrow>
                    if module_key \<notin> set granted
                    then (Err (app_err (Forbidden (''module '' @ quoted module_key @ '' access denied''))), w)
                    else run_next next rq w)))"

section \<open>Role-based access\<close>

record rbac_state =
  rb_policy :: policy
  rb_exempt_paths :: "string list"

definition rbac_state_new :: "policy \<Rightarrow> rbac_state" where
  "rbac_state_new pol = \<lparr>rb_policy = pol, rb_exempt_paths = PROBE_PATHS\<rparr>"

text \<open>The tool a tool-call body names, if the body is JSON with such a string.\<close>

definition body_tool :: "ext \<Rightarrow> string \<Rightarrow> string option" where
  "body_tool X body = Option.bind (result_ok (json_from_str X body)) (\<lambda>v. Option.bind (jget ''tool'' v) as_str)"

definition rbac_deny ::
  "ext \<Rightarrow> request \<Rightarrow> actor option \<Rightarrow> json \<Rightarrow> string \<Rightarrow> ('v, 's) world
     \<Rightarrow> (app_error, response) result \<times> ('v, 's) world" where
  "rbac_deny X rq act p msg w =
     (Err (with_request_id (extract_request_id X rq) (app_err (Forbidden msg))),
      emit_event ''authz.denied'' (extract_request_id X rq) (extract_source_ip X rq) act p None w)"

definition rbac_middleware :: "ext \<Rightarrow> rbac_state \<Rightarrow> ('v, 's) middleware" where
  "rbac_middleware X state next rq w =
     (let path = rq_path rq; method = rq_method rq
      in if path \<in> set (rb_exempt_paths state) then run_next next rq w
         else case rq_principal rq of
           None \<Rightarrow> rbac_deny X rq None
             (JObj [(''reason'', JStr ''no_principal''), (''method'', JStr method), (''path'', JStr path)])
             ''authentication required for this resource'' w
         | Some p \<Rightarrow>
             (case evaluate (rb_policy state) p (RouteAccess method path) of
                Deny reason \<Rightarrow> rbac_deny X rq (Some (actor_from_principal p))
                  (JObj [(''reason'', JStr reason), (''action'', JStr ''route_access''),
                         (''method'', JStr method), (''path'', JStr path)]) reason w
              | Allow \<Rightarrow>
                  if starts_with ''/v1/tools/call'' path \<and> method = ''POST'' then
                    (case rq_body rq of
                       None \<Rightarrow> (Err (with_request_id (extract_request_id X rq)
                                 (app_err (Internal ''failed to read request body for RBAC check''))), w)
                     | Some bytes \<Rightarrow>
                         (case body_tool X bytes of
                            None \<Rightarrow> run_next next rq w
                          | Some tool \<Rightarrow>
                              (case evaluate (rb_policy state) p (ToolCall tool) of
                                 Deny reason \<Rightarrow> rbac_deny X rq (Some (actor_from_principal p))
                                   (JObj [(''reason'', JStr reason), (''action'', JStr ''tool_call''),
                                          (''tool'', JStr tool)]) reason w
                               | Allow \<Rightarrow> run_next next rq w)))
                  else run_next next rq w))"

section \<open>The gates\<close>

definition auth_exempt :: "'v auth_state \<Rightarrow> request \<Rightarrow> bool" where
  "auth_exempt state rq \<longleftrightarrow> rq_method rq = ''OPTIONS'' \<or> rq_path rq \<in> set (as_exempt_paths state)"

text \<open>The principal the validator gives a request, with the state it leaves.\<close>

definition auth_principal ::
  "ext \<Rightarrow> 'v auth_state \<Rightarrow> request \<Rightarrow> ('v, 's) world \<Rightarrow> (principal \<times> nat \<times> 'v) option" where
  "auth_principal X state rq w =
     (case extract_credential X (rq_headers rq) (as_cookie_name state) of
        None \<Rightarrow> None
      | Some cred \<Rightarrow>
          if (case cred_method cred of Cookie \<Rightarrow> supports_cookie (as_validator state)
                | Bearer \<Rightarrow> supports_bearer (as_validator state))
          then (case validate_session (as_validator state) cred (w_now w) (w_auth w) of
                  ((Inr p, t), v) \<Rightarrow> Some (p, t, v) | _ \<Rightarrow> None)
          else None)"

definition auth_refused :: "ext \<Rightarrow> 'v auth_state \<Rightarrow> request \<Rightarrow> ('v, 's) world \<Rightarrow> bool" where
  "auth_refused X state rq w \<longleftrightarrow> \<not> auth_exempt state rq \<and> auth_principal X state rq w = None"

definition module_refused :: "ext \<Rightarrow> 's data_plane \<Rightarrow> request \<Rightarrow> ('v, 's) world \<Rightarrow> bool" where
  "module_refused X D rq w \<longleftrightarrow> rq_path rq \<notin> set (PROBE_PATHS @ [''/api/me/module-access'']) \<and>
     (\<exists>m p. module_key_for_path (rq_path rq) = Some m \<and> rq_principal rq = Some p \<and>
       (case load_module_access_for_principal X D p (w_app w) of
          Inl e \<Rightarrow> True | Inr None \<Rightarrow> False | Inr (Some granted) \<Rightarrow> m \<notin> set granted))"

definition is_tool_call :: "request \<Rightarrow> bool" where
  "is_tool_call rq \<longleftrightarrow> starts_with ''/v1/tools/call'' (rq_path rq) \<and> rq_method rq = ''POST''"

definition rbac_refused :: "ext \<Rightarrow> rbac_state \<Rightarrow> request \<Rightarrow> bool" where
  "rbac_refused X state rq \<longleftrightarrow> rq_path rq \<notin> set (rb_exempt_paths state) \<and>
     (case rq_principal rq of
        None \<Rightarrow> True
      | Some p \<Rightarrow>
          evaluate (rb_policy state) p (RouteAccess (rq_method rq) (rq_path rq)) \<noteq> Allow \<or>
          is_tool_call rq \<and>
            (case rq_body rq of
               None \<Rightarrow> True
             | Some b \<Rightarrow> (case body_tool X b of
                   None \<Rightarrow> False | Some tool \<Rightarrow> evaluate (rb_policy state) p (ToolCall tool) \<noteq> Allow)))"

lemma audit_if_frame [simp]:
  "w_app (audit_if b ty rid ip act p ua w) = w_app w"
  "w_auth (audit_if b ty rid ip act p ua w) = w_auth w"
  "w_now (audit_if b ty rid ip act p ua w) = w_now w"
  by (simp_all add: audit_if_def)

lemma authenticated_simps [simp]:
  "rq_method (authenticated X p rq) = rq_method rq" "rq_path (authenticated X p rq) = rq_path rq"
  "rq_body (authenticated X p rq) = rq_body rq" "rq_principal (authenticated X p rq) = Some p"
  by (simp_all add: authenticated_def Let_def)

lemma auth_pass:
  assumes "\<not> auth_exempt state rq" "auth_principal X state rq w = Some (p, t, v)"
  shows "\<exists>w1. w_app w1 = w_app w \<and> w_auth w1 = v \<and> w_now w1 = t \<and> (\<forall>next. auth_middleware X state next rq w =
     (case next (authenticated X p rq) w1 of (r, w2) \<Rightarrow>
        (Inr (r\<lparr>rs_actor := Some \<lparr>ra_user_id = user_id p, ra_roles = roles p\<rparr>\<rparr>), w2)))"
proof -
  obtain cred where c: "extract_credential X (rq_headers rq) (as_cookie_name state) = Some cred"
      "validate_session (as_validator state) cred (w_now w) (w_auth w) = ((Inr p, t), v)"
      "cred_method cred = Cookie \<longrightarrow> supports_cookie (as_validator state)"
      "cred_method cred = Bearer \<longrightarrow> supports_bearer (as_validator state)"
    using assms(2) by (auto simp: auth_principal_def split: option.splits if_splits auth_method.splits
        prod.splits sum.splits)
  let ?w1 = "audit_if (as_audit state) ''auth.login_success'' (extract_request_id X rq)
    (extract_client_ip X rq) (Some (actor_from_principal p))
    (JObj [(''auth_mode'', JStr (auth_mode_str (cred_method cred))), (''claims_sub'', JStr (user_id p))])
    (header_str X (rq_headers rq) ''user-agent'') (w\<lparr>w_now := t, w_auth := v\<rparr>)"
  show ?thesis
    using assms(1) c
    by (intro exI [of _ ?w1], cases "cred_method cred")
       (simp_all add: auth_exempt_def auth_middleware_def Let_def)
qed

lemma auth_refuse:
  assumes "auth_refused X state rq w"
  shows "\<exists>e w'. w_app w' = w_app w \<and> (\<forall>next. auth_middleware X state next rq w = (Inl e, w'))"
proof (cases "extract_credential X (rq_headers rq) (as_cookie_name state)")
  case None
  then show ?thesis using assms
    by (simp add: auth_refused_def auth_exempt_def auth_middleware_def Let_def)
next
  case (Some cred)
  obtain r t v where r: "validate_session (as_validator state) cred (w_now w) (w_auth w) = ((r, t), v)"
    by (metis prod.exhaust)
  show ?thesis using assms Some r
    by (cases "cred_method cred"; cases r)
       (auto simp: auth_refused_def auth_exempt_def auth_principal_def auth_middleware_def Let_def
        split: if_splits)
qed

lemma auth_exempt_pass: "auth_exempt state rq \<Longrightarrow> auth_middleware X state next rq w = run_next next rq w"
  by (auto simp: auth_exempt_def auth_middleware_def Let_def)

interpretation auth: gate "auth_middleware X state" "auth_refused X state" for X state
proof
  fix rq and w :: "('a, 'b) world"
  assume "auth_refused X state rq w"
  then show "\<exists>e w'. w_app w' = w_app w \<and> (\<forall>next. auth_middleware X state next rq w = (Inl e, w'))"
    by (rule auth_refuse)
next
  fix rq and w :: "('a, 'b) world"
  assume ok: "\<not> auth_refused X state rq w"
  show "\<exists>rq' w' post. w_app w' = w_app w \<and> rq_method rq' = rq_method rq \<and> rq_path rq' = rq_path rq
      \<and> (\<forall>r v. w_app (snd (post r v)) = w_app v) \<and> (\<forall>next. auth_middleware X state next rq w =
          (case next rq' w' of (r, v) \<Rightarrow> (Inr (fst (post r v)), snd (post r v))))"
  proof (cases "auth_exempt state rq")
    case True
    then show ?thesis
      by (intro exI [of _ rq] exI [of _ w] exI [of _ Pair]) (simp add: auth_exempt_pass split_beta)
  next
    case False
    with ok obtain p t v where "auth_principal X state rq w = Some (p, t, v)"
      by (auto simp: auth_refused_def)
    from auth_pass [OF False this] obtain w1 where w1: "w_app w1 = w_app w"
        "\<forall>next. auth_middleware X state next rq w = (case next (authenticated X p rq) w1 of (r, w2) \<Rightarrow>
          (Inr (r\<lparr>rs_actor := Some \<lparr>ra_user_id = user_id p, ra_roles = roles p\<rparr>\<rparr>), w2))"
      by blast
    let ?post = "\<lambda>r v. (r\<lparr>rs_actor := Some \<lparr>ra_user_id = user_id p, ra_roles = roles p\<rparr>\<rparr>, v)"
    show ?thesis using w1
      by (intro exI [of _ "authenticated X p rq"] exI [of _ w1] exI [of _ ?post]) simp
  qed
qed

interpretation module_gate: gate "module_access_middleware X D" "module_refused X D" for X and D :: "'s data_plane"
proof (rule gate_simpleI)
  fix rq and w :: "('v, 's) world"
  assume "module_refused X D rq w"
  then obtain m p where mp: "module_key_for_path (rq_path rq) = Some m" "rq_principal rq = Some p"
      "rq_path rq \<notin> set (PROBE_PATHS @ [''/api/me/module-access''])"
      "case load_module_access_for_principal X D p (w_app w) of
         Inl e \<Rightarrow> True | Inr None \<Rightarrow> False | Inr (Some granted) \<Rightarrow> m \<notin> set granted"
    by (auto simp: module_refused_def)
  obtain e where "\<forall>next. module_access_middleware X D next rq w = (Inl e, w)"
    using mp by (cases "load_module_access_for_principal X D p (w_app w)")
      (auto simp: module_access_middleware_def split: option.splits)
  then show "\<exists>e w'. w_app w' = w_app w \<and> (\<forall>next. module_access_middleware X D next rq w = (Inl e, w'))"
    by blast
next
  fix rq and w :: "('v, 's) world"
  assume "\<not> module_refused X D rq w"
  then have "module_access_middleware X D next rq w = run_next next rq w" for "next"
    by (cases "module_key_for_path (rq_path rq)"; cases "rq_principal rq";
        cases "load_module_access_for_principal X D (the (rq_principal rq)) (w_app w)")
       (auto simp: module_refused_def module_access_middleware_def split: option.splits)
  then show "\<exists>w'. w_app w' = w_app w \<and> (\<forall>next. module_access_middleware X D next rq w = run_next next rq w')"
    by blast
qed

lemma rbac_refuse:
  assumes "rbac_refused X state rq"
  shows "\<exists>e w'. w_app w' = w_app w \<and> (\<forall>next. rbac_middleware X state next rq w = (Inl e, w'))"
proof (cases "rq_principal rq")
  case None
  then show ?thesis using assms by (simp add: rbac_refused_def rbac_middleware_def rbac_deny_def)
next
  case (Some p)
  show ?thesis
  proof (cases "evaluate (rb_policy state) p (RouteAccess (rq_method rq) (rq_path rq))")
    case Allow
    then have tc: "is_tool_call rq" using assms Some by (simp add: rbac_refused_def)
    show ?thesis
    proof (cases "rq_body rq")
      case (Some b)
      then obtain tool where t: "body_tool X b = Some tool"
          "evaluate (rb_policy state) p (ToolCall tool) \<noteq> Allow"
        using assms \<open>rq_principal rq = Some p\<close> Allow tc by (auto simp: rbac_refused_def split: option.splits)
      then show ?thesis using assms tc Some \<open>rq_principal rq = Some p\<close> Allow
        by (cases "evaluate (rb_policy state) p (ToolCall tool)")
           (simp_all add: rbac_refused_def is_tool_call_def rbac_middleware_def rbac_deny_def)
    qed (use assms tc Some Allow in \<open>simp add: rbac_refused_def is_tool_call_def rbac_middleware_def\<close>)
  qed (use assms Some in \<open>simp add: rbac_refused_def rbac_middleware_def rbac_deny_def\<close>)
qed

lemma rbac_pass:
  assumes "\<not> rbac_refused X state rq"
  shows "rbac_middleware X state next rq w = run_next next rq w"
proof (cases "rq_path rq \<in> set (rb_exempt_paths state)")
  case False
  then obtain p where p: "rq_principal rq = Some p"
      "evaluate (rb_policy state) p (RouteAccess (rq_method rq) (rq_path rq)) = Allow"
    using assms by (auto simp: rbac_refused_def split: option.splits)
  show ?thesis
  proof (cases "is_tool_call rq")
    case True
    then obtain b where b: "rq_body rq = Some b" "\<forall>tool. body_tool X b = Some tool \<longrightarrow>
        evaluate (rb_policy state) p (ToolCall tool) = Allow"
      using assms p False by (auto simp: rbac_refused_def split: option.splits)
    then show ?thesis using p True False
      by (cases "body_tool X b") (simp_all add: is_tool_call_def rbac_middleware_def)
  qed (use p False in \<open>auto simp: is_tool_call_def rbac_middleware_def\<close>)
qed (simp add: rbac_middleware_def)

interpretation rbac: gate "rbac_middleware X state" "\<lambda>rq w. rbac_refused X state rq" for X state
  by (rule gate_simpleI, erule rbac_refuse) (use rbac_pass in blast)

section \<open>What the access layers promise\<close>

text \<open>
  C36: authentication fails closed. Without a credential, with one of a kind the
  validator does not support, or with one it refuses, the answer is 401, or 503
  when the authentication service itself failed; nothing behind runs.
\<close>

theorem auth_fails_closed:
  assumes "auth_refused X state rq w"
  shows "rs_status (fst (layer (auth_middleware X state) next rq w)) \<in> {401, 503}
    \<and> w_app (snd (layer (auth_middleware X state) next rq w)) = w_app w
    \<and> layer (auth_middleware X state) next rq w = layer (auth_middleware X state) next' rq w"
proof -
  have "rs_status (fst (layer (auth_middleware X state) next rq w)) \<in> {401, 503}"
  proof (cases "extract_credential X (rq_headers rq) (as_cookie_name state)")
    case None
    then show ?thesis using assms
      by (simp add: layer_def auth_refused_def auth_exempt_def auth_middleware_def Let_def)
  next
    case (Some cred)
    obtain r t v where r: "validate_session (as_validator state) cred (w_now w) (w_auth w) = ((r, t), v)"
      by (metis prod.exhaust)
    show ?thesis using assms Some r
      by (cases "cred_method cred"; cases r)
         (auto simp: layer_def auth_refused_def auth_exempt_def auth_principal_def auth_middleware_def Let_def
          map_auth_error_def split: if_splits auth_error.splits)
  qed
  then show ?thesis using auth.reject_no_effect [OF assms] auth.reject_blind [OF assms] by blast
qed

theorem auth_fails_closed_witness:
  "rs_status (fst (layer (auth_middleware wit_ext (auth_state_with_cookie_name always_invalid_validator ''sid''))
     wit_handler (wit_request ''GET'' no_headers) wit_world)) \<in> {401, 503}"
proof -
  have "auth_refused wit_ext (auth_state_with_cookie_name always_invalid_validator ''sid'')
      (wit_request ''GET'' no_headers) wit_world"
    by (simp add: auth_refused_def auth_exempt_def auth_state_with_cookie_name_def PROBE_PATHS_def wit_request_def
        auth_principal_def extract_credential_def header_str_def hm_get_def)
  from auth_fails_closed [OF this] show ?thesis by blast
qed

text \<open>
  The CSRF check and authentication disagree on what a bearer token is. A
  state-changing request with \<^verbatim>\<open>Authorization: bearer x\<close> (lower case) and a
  session cookie passes the CSRF check without any token, and is then
  authenticated by the cookie.
\<close>

theorem csrf_exempt_but_cookie_authenticated:
  assumes "header_str X (rq_headers rq) ''authorization'' = Some ''bearer x''"
    and "header_str X (rq_headers rq) ''cookie'' = Some c" "has_cookie c name"
  shows "\<not> csrf_violation X config rq \<and> extract_credential X (rq_headers rq) name = Some (CookieCred c)"
proof -
  have "is_bearer_authorization ''bearer x''" "bearer_token ''bearer x'' = None" by code_simp+
  then show ?thesis using assms
    by (simp add: csrf_violation_def claims_bearer_def extract_credential_def)
qed

theorem csrf_exempt_but_cookie_authenticated_witness:
  "\<not> csrf_violation wit_ext csrf_default (wit_request ''POST''
       (no_headers(''authorization'' := [''bearer x''], ''cookie'' := [''sid=1''])))
   \<and> extract_credential wit_ext (no_headers(''authorization'' := [''bearer x''], ''cookie'' := [''sid=1''])) ''sid''
       = Some (CookieCred ''sid=1'')"
proof -
  have "has_cookie ''sid=1'' ''sid''" by code_simp
  then show ?thesis
    using csrf_exempt_but_cookie_authenticated [of wit_ext
        "wit_request ''POST'' (no_headers(''authorization'' := [''bearer x''], ''cookie'' := [''sid=1'']))"
        "''sid=1''" "''sid''" csrf_default]
    by (simp add: wit_request_def header_str_def hm_get_def wit_ext_def)
qed

end
