(* ===== verification/Gateway.thy ===== *)
theory Gateway
  imports Access_Middleware
begin

text \<open>
  The request path as \<^verbatim>\<open>app\<close> in \<^verbatim>\<open>lib.rs\<close> assembles it: from the outside in, header
  hardening, rate limit, validation, CSRF check, request log, authentication,
  module access, role-based access and the handler.
\<close>

section \<open>The stack\<close>

record ('v, 's) gateway =
  g_rate :: rate_limit_state
  g_max_body_size :: nat
  g_csrf :: csrf_config
  g_auth :: "'v auth_state option"
  g_data_plane :: "'s data_plane"
  g_policy :: "policy option"

definition SERVICE_NAME :: string where
  "SERVICE_NAME = ''api-mcp-gateway''"

text \<open>The role-based layer exists only with a policy, the authentication layers only when enabled.\<close>

definition rbac_layer :: "ext \<Rightarrow> ('v, 's) gateway \<Rightarrow> ('v, 's) handler \<Rightarrow> ('v, 's) handler" where
  "rbac_layer X g h = (case g_policy g of
     None \<Rightarrow> h | Some pol \<Rightarrow> layer (rbac_middleware X (rbac_state_new pol)) h)"

definition auth_layers :: "ext \<Rightarrow> ('v, 's) gateway \<Rightarrow> ('v, 's) handler \<Rightarrow> ('v, 's) handler" where
  "auth_layers X g h = (case g_auth g of
     None \<Rightarrow> h
   | Some st \<Rightarrow> layer (auth_middleware X st) (layer (module_access_middleware X (g_data_plane g)) h))"

definition app :: "ext \<Rightarrow> ('v, 's) gateway \<Rightarrow> ('v, 's) handler \<Rightarrow> ('v, 's) handler" where
  "app X g h =
     header_hardening_middleware
       (layer (rate_limit_middleware X (g_rate g))
         (layer (validate_request X (g_max_body_size g))
           (layer (csrf_middleware X (g_csrf g))
             (request_log_middleware X SERVICE_NAME
               (auth_layers X g (rbac_layer X g h))))))"

text \<open>The structured 404 of a path no route matches.\<close>

definition fallback_handler :: "ext \<Rightarrow> ('v, 's) handler" where
  "fallback_handler X rq w =
     (let err = app_err (NotFound (''no route matches '' @ rq_path rq))
      in (into_response (case Option.bind (rq_request_id rq) (hv_to_str X) of
            Some rid \<Rightarrow> with_request_id rid err | None \<Rightarrow> err), w))"

section \<open>Which requests reach the handler\<close>

definition hardened :: "request \<Rightarrow> request" where
  "hardened rq = rq\<lparr>rq_headers := strip_spoofable (rq_headers rq)\<rparr>"

definition rbac_admits :: "ext \<Rightarrow> ('v, 's) gateway \<Rightarrow> request \<Rightarrow> bool" where
  "rbac_admits X g rq = (case g_policy g of
     None \<Rightarrow> True | Some pol \<Rightarrow> \<not> rbac_refused X (rbac_state_new pol) rq)"

text \<open>The request the handler sees, if the inner layers let one through.\<close>

definition inner_request :: "ext \<Rightarrow> ('v, 's) gateway \<Rightarrow> request \<Rightarrow> ('v, 's) world \<Rightarrow> request option" where
  "inner_request X g rq w =
     opt_filter (rbac_admits X g)
       (case g_auth g of
          None \<Rightarrow> Some rq
        | Some st \<Rightarrow>
            opt_filter (\<lambda>rq'. \<not> module_refused X (g_data_plane g) rq' w)
              (if auth_exempt st rq then Some rq
               else map_option (\<lambda>(p, _). authenticated X p rq) (auth_principal X st rq w)))"

definition handler_request :: "ext \<Rightarrow> ('v, 's) gateway \<Rightarrow> request \<Rightarrow> ('v, 's) world \<Rightarrow> request option" where
  "handler_request X g rq0 w =
     (let rq = hardened rq0
      in if rate_over X (g_rate g) rq w \<or> oversized X (g_max_body_size g) rq \<or> wrong_media X rq
            \<or> csrf_violation X (g_csrf g) rq
         then None else inner_request X g rq w)"

section \<open>Reaching through layers\<close>

text \<open>
  A stack, seen as a function of the handler at its centre, either answers
  without it or calls it once with one request and decorates what it returns.
\<close>

definition unreached :: "(('v, 's) handler \<Rightarrow> ('v, 's) handler) \<Rightarrow> request \<Rightarrow> ('v, 's) world \<Rightarrow> bool" where
  "unreached f rq w \<longleftrightarrow> (\<exists>r w'. w_app w' = w_app w \<and> (\<forall>h. f h rq w = (r, w')))"

definition reached ::
  "(('v, 's) handler \<Rightarrow> ('v, 's) handler) \<Rightarrow> request \<Rightarrow> ('v, 's) world \<Rightarrow> request \<Rightarrow> bool" where
  "reached f rq w rq' \<longleftrightarrow> (\<exists>w' post. w_app w' = w_app w \<and> (\<forall>r v. w_app (snd (post r v)) = w_app v)
     \<and> (\<forall>h. f h rq w = (case h rq' w' of (r, v) \<Rightarrow> post r v)))"

text \<open>One layer over another: the answer of the inner stack is decorated.\<close>

definition passes ::
  "(('v, 's) handler \<Rightarrow> ('v, 's) handler) \<Rightarrow> (('v, 's) handler \<Rightarrow> ('v, 's) handler)
     \<Rightarrow> request \<Rightarrow> ('v, 's) world \<Rightarrow> request \<Rightarrow> ('v, 's) world \<Rightarrow> bool" where
  "passes f g rq w rq' w' \<longleftrightarrow> w_app w' = w_app w \<and> (\<exists>post. (\<forall>r v. w_app (snd (post r v)) = w_app v)
     \<and> (\<forall>h. f h rq w = (case g h rq' w' of (r, v) \<Rightarrow> post r v)))"

lemma passesI:
  assumes "w_app w' = w_app w" "\<And>r v. w_app (snd (post r v)) = w_app v"
    and "\<And>h. f h rq w = (case g h rq' w' of (r, v) \<Rightarrow> post r v)"
  shows "passes f g rq w rq' w'"
  using assms unfolding passes_def by blast

lemma passes_eqI: "(\<And>h. f h rq w = g h rq' w') \<Longrightarrow> w_app w' = w_app w \<Longrightarrow> passes f g rq w rq' w'"
  by (rule passesI [of _ _ Pair]) simp_all

lemma passes_unreached:
  assumes "passes f g rq w rq' w'" "unreached g rq' w'"
  shows "unreached f rq w"
proof -
  from assms(1) obtain post :: "response \<Rightarrow> ('a, 'b) world \<Rightarrow> response \<times> ('a, 'b) world" where
    p: "w_app w' = w_app w" "\<forall>r v. w_app (snd (post r v)) = w_app v"
      "\<forall>h. f h rq w = (case g h rq' w' of (r, v) \<Rightarrow> post r v)" by (auto simp: passes_def)
  from assms(2) obtain r v where "w_app v = w_app w'" "\<forall>h. g h rq' w' = (r, v)" by (auto simp: unreached_def)
  then have "w_app (snd (post r v)) = w_app w" "\<forall>h. f h rq w = (fst (post r v), snd (post r v))"
    using p by simp_all
  then show ?thesis unfolding unreached_def by blast
qed

lemma passes_reached:
  assumes "passes f g rq w rq' w'" "reached g rq' w' rq''"
  shows "reached f rq w rq''"
proof -
  from assms(1) obtain post :: "response \<Rightarrow> ('a, 'b) world \<Rightarrow> response \<times> ('a, 'b) world" where
    p: "w_app w' = w_app w" "\<forall>r v. w_app (snd (post r v)) = w_app v"
      "\<forall>h. f h rq w = (case g h rq' w' of (r, v) \<Rightarrow> post r v)" by (auto simp: passes_def)
  from assms(2) obtain w2 and post2 :: "response \<Rightarrow> ('a, 'b) world \<Rightarrow> response \<times> ('a, 'b) world" where
    q: "w_app w2 = w_app w'" "\<forall>r v. w_app (snd (post2 r v)) = w_app v"
      "\<forall>h. g h rq' w' = (case h rq'' w2 of (r, v) \<Rightarrow> post2 r v)" by (auto simp: reached_def)
  show ?thesis unfolding reached_def
    using p q by (intro exI [of _ w2] exI [of _ "\<lambda>r v. case post2 r v of (r', v') \<Rightarrow> post r' v'"])
      (auto simp: split_beta)
qed

text \<open>A gate that turns the request away keeps everything behind it from running.\<close>

context gate
begin

lemma gate_unreached: "bad rq w \<Longrightarrow> unreached (\<lambda>h. layer mw (f h)) rq w"
  using bad_rejects [of rq w] unfolding unreached_def layer_def by fastforce

end

section \<open>Layer by layer\<close>

lemma rbac_layer_cases:
  "if rbac_admits X g rq then reached (rbac_layer X g) rq w rq else unreached (rbac_layer X g) rq w"
proof (cases "g_policy g")
  case None
  have "reached (rbac_layer X g) rq w rq"
    unfolding reached_def by (intro exI [of _ w] exI [of _ Pair]) (simp add: rbac_layer_def None)
  then show ?thesis using None by (simp add: rbac_admits_def)
next
  case (Some pol)
  have r: "reached (rbac_layer X g) rq w rq" if "\<not> rbac_refused X (rbac_state_new pol) rq"
    unfolding reached_def using that
    by (intro exI [of _ w] exI [of _ Pair]) (simp add: rbac_layer_def Some layer_def rbac_pass split_beta)
  have u: "unreached (rbac_layer X g) rq w" if "rbac_refused X (rbac_state_new pol) rq"
  proof -
    have "rbac_layer X g = layer (rbac_middleware X (rbac_state_new pol))"
      by (simp add: rbac_layer_def Some fun_eq_iff)
    then show ?thesis using rbac.gate_unreached [OF that, of "\<lambda>h. h" w] by simp
  qed
  show ?thesis using r u Some by (simp add: rbac_admits_def)
qed

lemma module_pass:
  assumes "\<not> module_refused X D rq w"
  shows "\<exists>w'. w_app w' = w_app w \<and> (\<forall>next. layer (module_access_middleware X D) next rq w = next rq w')"
proof -
  from assms have "module_access_middleware X D next rq w = run_next next rq w" for "next"
    by (cases "module_key_for_path (rq_path rq)"; cases "rq_principal rq";
        cases "load_module_access_for_principal X D (the (rq_principal rq)) (w_app w)")
       (auto simp: module_refused_def module_access_middleware_def split: option.splits)
  then show ?thesis by (intro exI [of _ w]) (simp add: layer_def)
qed

lemma module_refused_app: "w_app w = w_app w' \<Longrightarrow> module_refused X D rq w = module_refused X D rq w'"
  by (simp add: module_refused_def)

text \<open>Module access over role-based access.\<close>

definition module_layer :: "ext \<Rightarrow> ('v, 's) gateway \<Rightarrow> ('v, 's) handler \<Rightarrow> ('v, 's) handler" where
  "module_layer X g h = layer (module_access_middleware X (g_data_plane g)) (rbac_layer X g h)"

lemma module_layer_cases:
  "if \<not> module_refused X (g_data_plane g) rq w \<and> rbac_admits X g rq
     then reached (module_layer X g) rq w rq else unreached (module_layer X g) rq w"
proof (cases "module_refused X (g_data_plane g) rq w")
  case True
  then have "unreached (module_layer X g) rq w"
    unfolding module_layer_def by (rule module_gate.gate_unreached)
  then show ?thesis using True by simp
next
  case False
  from module_pass [OF this] obtain w' where w': "w_app w' = w_app w"
      "\<forall>next. layer (module_access_middleware X (g_data_plane g)) next rq w = next rq w'" by blast
  have p: "passes (module_layer X g) (rbac_layer X g) rq w rq w'"
    unfolding module_layer_def by (rule passes_eqI) (use w' in auto)
  show ?thesis
    using rbac_layer_cases [of X g rq w'] passes_reached [OF p] passes_unreached [OF p] False
    by (auto split: if_splits)
qed

lemma auth_layers_cases:
  "case inner_request X g rq w of
     Some rq' \<Rightarrow> reached (\<lambda>h. auth_layers X g (rbac_layer X g h)) rq w rq'
   | None \<Rightarrow> unreached (\<lambda>h. auth_layers X g (rbac_layer X g h)) rq w"
proof (cases "g_auth g")
  case None
  then show ?thesis using rbac_layer_cases [of X g rq w]
    by (auto simp: inner_request_def auth_layers_def split: if_splits)
next
  case (Some st)
  let ?m = "module_layer X g"
  have f: "(\<lambda>h. auth_layers X g (rbac_layer X g h)) = (\<lambda>h. layer (auth_middleware X st) (?m h))"
    by (simp add: auth_layers_def module_layer_def Some)
  consider (exempt) "auth_exempt st rq" | (refused) "auth_refused X st rq w"
    | (pass) p t v where "\<not> auth_exempt st rq" "auth_principal X st rq w = Some (p, t, v)"
    by (cases "auth_principal X st rq w") (auto simp: auth_refused_def)
  then show ?thesis
  proof cases
    case exempt
    have "passes (\<lambda>h. layer (auth_middleware X st) (?m h)) ?m rq w rq w"
      by (rule passes_eqI) (simp_all add: layer_def auth_exempt_pass exempt)
    from passes_reached [OF this] passes_unreached [OF this] module_layer_cases [of X g rq w]
    show ?thesis unfolding f using exempt Some by (auto simp: inner_request_def split: if_splits)
  next
    case refused
    then show ?thesis unfolding f using auth.gate_unreached [OF refused, of ?m] Some
      by (auto simp: inner_request_def auth_refused_def)
  next
    case pass
    from auth_pass [OF pass] obtain w1 where w1: "w_app w1 = w_app w"
        "\<forall>next. auth_middleware X st next rq w = (case next (authenticated X p rq) w1 of (r, w2) \<Rightarrow>
          (Inr (r\<lparr>rs_actor := Some \<lparr>ra_user_id = user_id p, ra_roles = roles p\<rparr>\<rparr>), w2))"
      by blast
    have pp: "passes (\<lambda>h. layer (auth_middleware X st) (?m h)) ?m rq w (authenticated X p rq) w1"
      by (rule passesI [of _ _ "\<lambda>r v. (r\<lparr>rs_actor := Some \<lparr>ra_user_id = user_id p, ra_roles = roles p\<rparr>\<rparr>, v)"])
         (use w1 in \<open>auto simp: layer_def split: prod.splits\<close>)
    from passes_reached [OF pp] passes_unreached [OF pp] module_layer_cases [of X g "authenticated X p rq" w1]
    show ?thesis unfolding f using pass Some module_refused_app [OF w1(1)]
      by (auto simp: inner_request_def split: if_splits)
  qed
qed

lemma inner_request_cong:
  "w_app w = w_app w' \<Longrightarrow> w_now w = w_now w' \<Longrightarrow> w_auth w = w_auth w' \<Longrightarrow>
     inner_request X g rq w = inner_request X g rq w'"
  by (auto simp: inner_request_def auth_principal_def module_refused_app [of w w']
      split: option.splits)

lemma rate_check_frame [simp]:
  "w_now (snd (rate_check state rq key w)) = w_now w"
  "w_auth (snd (rate_check state rq key w)) = w_auth w"
  by (simp_all add: rate_check_def split_beta)

text \<open>The three outer gates, each over an arbitrary stack.\<close>

lemma csrf_layer_pass:
  assumes "\<not> csrf_violation X config rq"
  shows "passes (\<lambda>h. layer (csrf_middleware X config) (f h)) f rq w rq w"
  by (rule passesI [of _ _ "csrf_post X config rq"])
     (simp_all add: layer_def csrf_pass [OF assms] split_beta)

lemma log_layer_pass: "passes (\<lambda>h. request_log_middleware X s (f h)) f rq w rq w"
  by (rule passesI [of _ _ "\<lambda>r v. request_log_middleware X s (\<lambda>_ _. (r, v)) rq w"])
     (simp_all add: request_log_middleware_def Let_def split_beta)

lemma validate_layer_pass:
  assumes "\<not> oversized X n rq" "\<not> wrong_media X rq"
  shows "passes (\<lambda>h. layer (validate_request X n) (f h)) f rq w rq w"
  by (rule passes_eqI) (simp_all add: layer_def validate_pass [OF assms])

lemma rate_layer_pass:
  assumes "\<not> rate_over X st rq w"
  shows "passes (\<lambda>h. layer (rate_limit_middleware X st) (f h)) f rq w rq
    (snd (rate_check st rq (extract_principal_key X rq (extract_client_ip X rq) (rq_path rq)) w))"
  by (rule passes_eqI) (use assms in \<open>simp_all add: layer_def rate_over_def rate_limit_middleware_def Let_def split_beta\<close>)

lemma hardening_pass: "passes (\<lambda>h. header_hardening_middleware (f h)) f rq w (hardened rq) w"
  by (rule passesI [of _ _ "\<lambda>r v. (r\<lparr>rs_headers := fold (\<lambda>(n, v). hm_or_insert n v) security_headers
        (rs_headers r)\<rparr>, v)"])
     (simp_all add: header_hardening_middleware_def hardened_def)

section \<open>The whole stack\<close>

definition csrf_stack :: "ext \<Rightarrow> ('v, 's) gateway \<Rightarrow> ('v, 's) handler \<Rightarrow> ('v, 's) handler" where
  "csrf_stack X g h = layer (csrf_middleware X (g_csrf g))
     (request_log_middleware X SERVICE_NAME (auth_layers X g (rbac_layer X g h)))"

definition validate_stack :: "ext \<Rightarrow> ('v, 's) gateway \<Rightarrow> ('v, 's) handler \<Rightarrow> ('v, 's) handler" where
  "validate_stack X g h = layer (validate_request X (g_max_body_size g)) (csrf_stack X g h)"

definition verdict ::
  "(('v, 's) handler \<Rightarrow> ('v, 's) handler) \<Rightarrow> request \<Rightarrow> ('v, 's) world \<Rightarrow> request option \<Rightarrow> bool" where
  "verdict f rq w = (\<lambda>None \<Rightarrow> unreached f rq w | Some rq' \<Rightarrow> reached f rq w rq')"

lemma verdict_passes: "passes f g rq w rq' w' \<Longrightarrow> verdict g rq' w' v \<Longrightarrow> verdict f rq w v"
  by (cases v) (auto simp: verdict_def intro: passes_reached passes_unreached)

lemma csrf_stack_verdict:
  "verdict (csrf_stack X g) rq w (if csrf_violation X (g_csrf g) rq then None else inner_request X g rq w)"
proof (cases "csrf_violation X (g_csrf g) rq")
  case True
  from csrf.gate_unreached [OF this, of "\<lambda>h. request_log_middleware X SERVICE_NAME (auth_layers X g (rbac_layer X g h))" w]
  show ?thesis using True by (simp add: verdict_def csrf_stack_def [abs_def])
next
  case False
  have "verdict (\<lambda>h. auth_layers X g (rbac_layer X g h)) rq w (inner_request X g rq w)"
    using auth_layers_cases [of X g rq w] by (simp add: verdict_def)
  from verdict_passes [OF csrf_layer_pass [OF False] verdict_passes [OF log_layer_pass this]]
  show ?thesis using False by (simp add: csrf_stack_def [abs_def])
qed

lemma validate_stack_verdict:
  "verdict (validate_stack X g) rq w
     (if oversized X (g_max_body_size g) rq \<or> wrong_media X rq \<or> csrf_violation X (g_csrf g) rq
      then None else inner_request X g rq w)"
proof (cases "oversized X (g_max_body_size g) rq \<or> wrong_media X rq")
  case True
  from valid.gate_unreached [OF this, of "csrf_stack X g" w]
  show ?thesis using True by (auto simp: verdict_def validate_stack_def [abs_def])
next
  case False
  then have "passes (validate_stack X g) (csrf_stack X g) rq w rq w"
    unfolding validate_stack_def [abs_def] by (intro validate_layer_pass) auto
  from verdict_passes [OF this csrf_stack_verdict] show ?thesis using False by simp
qed

lemma app_verdict: "verdict (app X g) rq w (handler_request X g rq w)"
proof -
  let ?rq = "hardened rq"
  let ?f = "\<lambda>h. layer (rate_limit_middleware X (g_rate g)) (validate_stack X g h)"
  have a: "app X g = (\<lambda>h. header_hardening_middleware (?f h))"
    by (simp add: app_def validate_stack_def csrf_stack_def fun_eq_iff)
  have "verdict ?f ?rq w (handler_request X g rq w)"
  proof (cases "rate_over X (g_rate g) ?rq w")
    case True
    from rate.gate_unreached [OF this, of "validate_stack X g"] show ?thesis
      using True by (simp add: verdict_def handler_request_def Let_def)
  next
    case False
    let ?w1 = "snd (rate_check (g_rate g) ?rq
      (extract_principal_key X ?rq (extract_client_ip X ?rq) (rq_path ?rq)) w)"
    have "inner_request X g ?rq ?w1 = inner_request X g ?rq w" by (rule inner_request_cong) simp_all
    with verdict_passes [OF rate_layer_pass [OF False] validate_stack_verdict [of X g ?rq ?w1]] show ?thesis
      using False by (auto simp: handler_request_def Let_def split: if_splits)
  qed
  then show ?thesis unfolding a by (rule verdict_passes [OF hardening_pass])
qed

section \<open>What the gateway promises\<close>

text \<open>
  C1: the handler is behind every gate. If a request is over its rate, too
  large or of the wrong media type, fails the CSRF check, has no session the
  validator accepts (and is not exempt), is refused its module, or is not
  permitted by the policy, then the response and every state component are the
  same whatever handler is installed, and the application state is untouched.
\<close>

theorem handler_behind_every_gate:
  assumes "handler_request X g rq w = None"
  shows "app X g h rq w = app X g h' rq w \<and> w_app (snd (app X g h rq w)) = w_app w"
  using app_verdict [of X g rq w] assms by (auto simp: verdict_def unreached_def)

text \<open>A gateway without a policy whose validator accepts every credential.\<close>

definition wit_gateway :: "(unit, nat) gateway" where
  "wit_gateway = \<lparr>g_rate = \<lparr>read_limiter = \<lparr>rl_rps = 1, rl_burst = 1\<rparr>, write_limiter = \<lparr>rl_rps = 1, rl_burst = 1\<rparr>\<rparr>,
     g_max_body_size = 1000, g_csrf = csrf_default,
     g_auth = Some (with_audit (auth_state_with_cookie_name noop_validator ''sid'')),
     g_data_plane = \<lparr>dp_env = None, dp_get = (\<lambda>u s. Inl ''down''), dp_status_display = dec_str\<rparr>, g_policy = None\<rparr>"

definition wit_bearer :: request where
  "wit_bearer = wit_request ''GET'' (no_headers(''authorization'' := [''Bearer tok'']))"

lemma wit_rate: "\<not> rate_over wit_ext (g_rate wit_gateway) rq wit_world"
  by (simp add: rate_over_def rate_check_def wit_gateway_def check_def refilled_def bucket_at_def
      wit_world_def b64.secs_0 b64.fl_0 b64.fl_1 Let_def split_beta)

lemma hardened_header:
  "k \<notin> set SPOOFABLE_REQUEST_HEADERS \<Longrightarrow>
     header_str X (rq_headers (hardened rq)) k = header_str X (rq_headers rq) k"
  by (simp add: header_str_def hardened_def strip_spoofable_get)

lemma wit_bearer_admitted:
  "handler_request wit_ext wit_gateway wit_bearer wit_world =
     Some (authenticated wit_ext (wit_principal [] \<lparr>user_id := ''test-user'', session_id := ''test-session''\<rparr>)
       (hardened wit_bearer))"
proof -
  have h: "header_str wit_ext (rq_headers (hardened wit_bearer)) ''authorization'' = Some ''Bearer tok''"
      "header_str wit_ext (rq_headers (hardened wit_bearer)) ''content-length'' = None"
    by (simp_all add: hardened_header SPOOFABLE_REQUEST_HEADERS_def)
       (simp_all add: wit_bearer_def wit_request_def header_str_def hm_get_def wit_ext_def)
  have m: "rq_method (hardened wit_bearer) = ''GET''" "rq_path (hardened wit_bearer) = ''/v1/items''"
    by (simp_all add: hardened_def wit_bearer_def wit_request_def)
  have b: "bearer_token ''Bearer tok'' = Some ''tok''" by code_simp
  have k: "module_key_for_path ''/v1/items'' = None" by code_simp
  have c: "extract_credential wit_ext (rq_headers (hardened wit_bearer)) ''sid'' = Some (BearerCred ''tok'')"
    by (simp add: extract_credential_def h b)
  show ?thesis
    using wit_rate [of "hardened wit_bearer"]
    by (simp add: handler_request_def Let_def oversized_def h wrong_media_def is_mutating_def m csrf_violation_def
        is_state_changing_def inner_request_def wit_gateway_def with_audit_def auth_state_with_cookie_name_def
        auth_exempt_def PROBE_PATHS_def auth_principal_def c cred_method_def noop_validator_def module_refused_def
        k rbac_admits_def wit_principal_def)
qed

theorem handler_behind_every_gate_witness:
  "app wit_ext wit_gateway wit_handler (wit_request ''POST'' no_headers) wit_world =
     app wit_ext wit_gateway (fallback_handler wit_ext) (wit_request ''POST'' no_headers) wit_world
   \<and> w_app (snd (app wit_ext wit_gateway wit_handler (wit_request ''POST'' no_headers) wit_world)) = 0"
proof -
  have "header_str wit_ext (rq_headers (hardened (wit_request ''POST'' no_headers))) ''content-type'' = None"
    by (simp add: hardened_header SPOOFABLE_REQUEST_HEADERS_def)
       (simp add: wit_request_def header_str_def hm_get_def)
  moreover have "\<not> starts_with ''application/json'' []" "rq_method (hardened (wit_request ''POST'' no_headers)) = ''POST''"
      "rq_path (hardened (wit_request ''POST'' no_headers)) = ''/v1/items''"
    by (simp_all add: starts_with_def hardened_def wit_request_def)
  ultimately have n: "handler_request wit_ext wit_gateway (wit_request ''POST'' no_headers) wit_world = None"
    by (simp add: handler_request_def Let_def wrong_media_def is_mutating_def)
  have z: "0 = w_app wit_world" by (simp add: wit_world_def)
  show ?thesis unfolding z by (rule handler_behind_every_gate [OF n])
qed

text \<open>
  C4: a request every gate admits is served. The handler is called exactly once,
  on the admitted request, the state it finds has the caller's application
  state, and what it does to that state is what remains.
\<close>

theorem admitted_request_served:
  assumes "handler_request X g rq w = Some rq'"
  shows "\<exists>w' post. w_app w' = w_app w \<and> (\<forall>h. app X g h rq w = (case h rq' w' of (r, v) \<Rightarrow> post r v)
     \<and> w_app (snd (app X g h rq w)) = w_app (snd (h rq' w')))"
proof -
  from app_verdict [of X g rq w] assms obtain w' and post where
    "w_app w' = w_app w" "\<forall>r v. w_app (snd (post r v)) = w_app v"
      "\<forall>h. app X g h rq w = (case h rq' w' of (r, v) \<Rightarrow> post r v)"
    unfolding verdict_def reached_def by auto
  then show ?thesis by (intro exI [of _ w'] exI [of _ post]) (auto simp: split_beta)
qed


theorem admitted_request_served_witness:
  "w_app (snd (app wit_ext wit_gateway wit_handler wit_bearer wit_world)) = 1"
proof -
  from admitted_request_served [OF wit_bearer_admitted] obtain w' rq' where w': "w_app w' = w_app wit_world"
      "w_app (snd (app wit_ext wit_gateway wit_handler wit_bearer wit_world)) = w_app (snd (wit_handler rq' w'))"
    by blast
  have "w_app (snd (wit_handler rq' w')) = Suc (w_app w')" by (simp add: wit_handler_def)
  with w' show ?thesis by (simp only: wit_world_def) simp
qed



definition wit_policy_gateway :: "(unit, nat) gateway" where
  "wit_policy_gateway = wit_gateway\<lparr>g_policy := Some wit_policy, g_auth := Some (auth_state_with_cookie_name
     \<lparr>supports_cookie = True, supports_bearer = True,
      validate_session = (\<lambda>c n s. ((Inr (wit_principal [''viewer'']), n), s))\<rparr> ''sid'')\<rparr>"


end
