(* ===== verification/F64_Value.thy ===== *)
theory F64_Value
  imports F64 Rust_Str
begin

text \<open>
  Binary64 values with their infinities and the not-a-number, as \<^verbatim>\<open>f64\<close> has them,
  their text and the operations the sources use on amounts. The two zeros are
  one value here: every comparison treats them as equal, and only the decimal
  text of a number, a parameter of the model, could tell them apart.
\<close>

section \<open>Floating-point text\<close>

text \<open>
  \<^verbatim>\<open>f64::from_str\<close>: a sign, then \<^verbatim>\<open>inf\<close>, \<^verbatim>\<open>infinity\<close> or \<^verbatim>\<open>nan\<close> in any case, or
  digits with an optional fraction and exponent, rounded to binary64 with its
  subnormal range and its overflow to infinity.
\<close>

datatype f64 = Finite rat | Infinite bool | NaN

definition f64_of_rat :: "rat \<Rightarrow> f64" where
  "f64_of_rat x =
     (let r = (if \<bar>x\<bar> < 1 / 2 ^ 1022 then of_int (rne (x * 2 ^ 1074)) / 2 ^ 1074 else b64_round x)
      in if 2 ^ 1024 \<le> \<bar>r\<bar> then Infinite (r < 0) else Finite r)"

definition split_exp :: "string \<Rightarrow> string \<times> string option" where
  "split_exp s =
     (let m = takeWhile (\<lambda>c. ascii_lower c \<noteq> CHR ''e'') s
      in (m, if length m < length s then Some (drop (Suc (length m)) s) else None))"

definition parse_exp :: "string \<Rightarrow> int option" where
  "parse_exp e =
     (let neg = (take 1 e = ''-'');
          ds = (if take 1 e = ''-'' \<or> take 1 e = ''+'' then tl e else e)
      in if ds \<noteq> [] \<and> list_all is_digit ds
         then Some (if neg then - int (digits_val ds) else int (digits_val ds)) else None)"

definition parse_decimal :: "string \<Rightarrow> rat option" where
  "parse_decimal s =
     (let (m, e) = split_exp s;
          whole = takeWhile (\<lambda>c. c \<noteq> CHR ''.'') m;
          frac = drop (Suc (length whole)) m;
          ds = whole @ frac
      in if ds \<noteq> [] \<and> list_all is_digit ds then
           (case (case e of None \<Rightarrow> Some 0 | Some t \<Rightarrow> parse_exp t) of
              None \<Rightarrow> None
            | Some k \<Rightarrow> Some (of_nat (digits_val ds) * 10 powi (k - int (length frac))))
         else None)"

definition parse_f64 :: "string \<Rightarrow> f64 option" where
  "parse_f64 s =
     (let neg = (take 1 s = ''-'');
          body = (if take 1 s = ''-'' \<or> take 1 s = ''+'' then tl s else s)
      in if to_ascii_lowercase body \<in> set [''inf'', ''infinity''] then Some (Infinite neg)
         else if to_ascii_lowercase body = ''nan'' then Some NaN
         else map_option (\<lambda>x. f64_of_rat (if neg then - x else x)) (parse_decimal body))"

section \<open>Arithmetic and comparison\<close>

definition f64_neg :: "f64 \<Rightarrow> f64" where
  "f64_neg v = (case v of Finite x \<Rightarrow> Finite (- x) | Infinite s \<Rightarrow> Infinite (\<not> s) | NaN \<Rightarrow> NaN)"

definition f64_abs :: "f64 \<Rightarrow> f64" where
  "f64_abs v = (case v of Finite x \<Rightarrow> Finite \<bar>x\<bar> | Infinite s \<Rightarrow> Infinite False | NaN \<Rightarrow> NaN)"

fun f64_add :: "f64 \<Rightarrow> f64 \<Rightarrow> f64" where
  "f64_add (Finite x) (Finite y) = f64_of_rat (x + y)"
| "f64_add (Infinite s) (Infinite t) = (if s = t then Infinite s else NaN)"
| "f64_add (Infinite s) (Finite y) = Infinite s"
| "f64_add (Finite x) (Infinite t) = Infinite t"
| "f64_add NaN v = NaN"
| "f64_add v NaN = NaN"

definition f64_sub :: "f64 \<Rightarrow> f64 \<Rightarrow> f64" where
  "f64_sub a b = f64_add a (f64_neg b)"

fun f64_mul :: "f64 \<Rightarrow> f64 \<Rightarrow> f64" where
  "f64_mul (Finite x) (Finite y) = f64_of_rat (x * y)"
| "f64_mul (Infinite s) (Infinite t) = Infinite (s \<noteq> t)"
| "f64_mul (Infinite s) (Finite y) = (if y = 0 then NaN else Infinite (s \<noteq> (y < 0)))"
| "f64_mul (Finite x) (Infinite t) = (if x = 0 then NaN else Infinite (t \<noteq> (x < 0)))"
| "f64_mul NaN v = NaN"
| "f64_mul v NaN = NaN"

text \<open>\<^verbatim>\<open>f64::max\<close>: the other operand when one is the not-a-number.\<close>

definition f64_max :: "f64 \<Rightarrow> f64 \<Rightarrow> f64" where
  "f64_max a b = (if a = NaN then b else if b = NaN then a
     else case (a, b) of
       (Finite x, Finite y) \<Rightarrow> Finite (max x y)
     | (Infinite s, _) \<Rightarrow> if s then b else a
     | (_, Infinite t) \<Rightarrow> if t then a else b
     | _ \<Rightarrow> a)"

text \<open>\<^verbatim>\<open>Iterator::sum\<close>: from the left.\<close>

definition f64_sum :: "f64 list \<Rightarrow> f64" where
  "f64_sum xs = foldl f64_add (Finite 0) xs"

text \<open>\<open>a > b\<close>, false for the not-a-number on either side.\<close>

fun f64_gt :: "f64 \<Rightarrow> f64 \<Rightarrow> bool" where
  "f64_gt (Finite x) (Finite y) = (x > y)"
| "f64_gt (Infinite s) (Finite y) = (\<not> s)"
| "f64_gt (Finite x) (Infinite t) = t"
| "f64_gt (Infinite s) (Infinite t) = (\<not> s \<and> t)"
| "f64_gt NaN v = False"
| "f64_gt v NaN = False"

text \<open>\<open>v != 0.0\<close>, true for the not-a-number.\<close>

definition f64_nonzero :: "f64 \<Rightarrow> bool" where
  "f64_nonzero v = (v \<noteq> Finite 0)"

text \<open>\<^verbatim>\<open>(v * 100.0).round() / 100.0\<close>: half away from zero.\<close>

definition round_away :: "rat \<Rightarrow> int" where
  "round_away x = (if 0 \<le> x then \<lfloor>x + 1 / 2\<rfloor> else - \<lfloor>- x + 1 / 2\<rfloor>)"

definition round2 :: "f64 \<Rightarrow> f64" where
  "round2 v = (case v of
     Finite x \<Rightarrow> (case f64_of_rat (x * 100) of
         Finite y \<Rightarrow> f64_of_rat (of_int (round_away y) / 100)
       | w \<Rightarrow> w)
   | w \<Rightarrow> w)"

text \<open>The exact value of a cent tolerance as the literal \<open>0.01\<close> has it.\<close>

definition f64_cent :: f64 where
  "f64_cent = f64_of_rat (1 / 100)"

section \<open>Whole amounts are exact\<close>

lemma f64_of_int:
  assumes "\<bar>i\<bar> \<le> 2 ^ 53"
  shows "f64_of_rat (of_int i) = Finite (of_int i)"
proof (cases "i = 0")
  case True
  then show ?thesis using rne_of_int [of 0] by (simp add: f64_of_rat_def Let_def)
next
  case False
  let ?x = "of_int i :: rat"
  have one: "1 \<le> \<bar>?x\<bar>" using False by (simp flip: of_int_abs)
  have p: "(1::rat) / 2 ^ 1022 \<le> 1" "(2::rat) ^ 53 < 2 ^ 1024"
    by (simp_all add: divide_le_eq_1 one_le_power power_strict_increasing)
  have "\<bar>?x\<bar> \<le> of_int (2 ^ 53)" using assms by (simp only: of_int_abs [symmetric] of_int_le_iff)
  then have "\<not> 2 ^ 1024 \<le> \<bar>?x\<bar>" using p(2) by simp
  moreover have "\<not> \<bar>?x\<bar> < 1 / 2 ^ 1022" using one p(1) by linarith
  ultimately show ?thesis using b64_round_int [OF assms] by (simp only: f64_of_rat_def Let_def if_False)
qed

lemma f64_add_int:
  "\<bar>a + b\<bar> \<le> 2 ^ 53 \<Longrightarrow> f64_add (Finite (of_int a)) (Finite (of_int b)) = Finite (of_int (a + b))"
  using f64_of_int [of "a + b"] by simp

lemma cent_not_below_0: "\<not> f64_gt (Finite 0) f64_cent"
proof -
  have "\<not> (1::rat) / 100 < 1 / 2 ^ 1022"
  proof -
    have "(2::rat) ^ 7 \<le> 2 ^ 1022" by (rule power_increasing) simp_all
    then show ?thesis by (simp add: field_simps)
  qed
  moreover have "0 \<le> b64_round (1 / 100)" by (rule b64.fl_nonneg) simp
  ultimately show ?thesis by (simp add: f64_cent_def f64_of_rat_def Let_def)
qed

end
