(* ===== verification/Config.thy ===== *)
theory Config
  imports Gateway F64_Value
begin

text \<open>
  The gateway configuration of \<^verbatim>\<open>config.rs\<close>: reading it from the environment and
  validating it at start-up, down to the state the request path starts in.
\<close>

section \<open>The configuration\<close>

record gateway_config =
  gc_port :: nat
  gc_rate_limit_read_rps :: f64
  gc_rate_limit_read_burst :: nat
  gc_rate_limit_write_rps :: f64
  gc_rate_limit_write_burst :: nat
  gc_max_body_size :: nat
  gc_cors_allow_origins :: "string list"
  gc_csrf_enabled :: bool
  gc_csrf_cookie_name :: string
  gc_csrf_header_name :: string
  gc_csrf_cookie_domain :: "string option"
  gc_policy_file :: "string option"
  gc_auth_enabled :: bool
  gc_betterauth_base_url :: string
  gc_proxy_upstream_base_url :: string
  gc_betterauth_cookie_name :: string
  gc_betterauth_timeout_ms :: nat

record config_validation_error =
  ce_field :: string
  ce_message :: string

definition cfg_err :: "string \<Rightarrow> string \<Rightarrow> config_validation_error" where
  "cfg_err f m = \<lparr>ce_field = f, ce_message = m\<rparr>"

definition parse_cors_allow_origins :: "string option \<Rightarrow> string list \<Rightarrow> string list" where
  "parse_cors_allow_origins raw d = (case raw of
     Some v \<Rightarrow>
       let parsed = filter (\<lambda>s. s \<noteq> []) (map trim (split_on (CHR '','') v))
       in if parsed = [] then d else parsed
   | None \<Rightarrow> d)"

definition nonempty_trimmed :: "string option \<Rightarrow> string option" where
  "nonempty_trimmed v = opt_filter (\<lambda>s. s \<noteq> []) (map_option trim v)"

definition config_from_env :: "environment \<Rightarrow> gateway_config" where
  "config_from_env env =
     \<lparr>gc_port = parse_env env (parse_uint 16) ''PORT'' 8080,
      gc_rate_limit_read_rps = parse_env env parse_f64 ''RATE_LIMIT_READ_RPS''
        (parse_env env parse_f64 ''RATE_LIMIT_RPS'' (Finite 12)),
      gc_rate_limit_read_burst = parse_env env (parse_uint 32) ''RATE_LIMIT_READ_BURST''
        (parse_env env (parse_uint 32) ''RATE_LIMIT_BURST'' 40),
      gc_rate_limit_write_rps = parse_env env parse_f64 ''RATE_LIMIT_WRITE_RPS''
        (parse_env env parse_f64 ''RATE_LIMIT_RPS'' (Finite 8)),
      gc_rate_limit_write_burst = parse_env env (parse_uint 32) ''RATE_LIMIT_WRITE_BURST''
        (parse_env env (parse_uint 32) ''RATE_LIMIT_BURST'' 20),
      gc_max_body_size = parse_env env (parse_uint 64) ''MAX_BODY_SIZE_BYTES'' 1048576,
      gc_cors_allow_origins = parse_cors_allow_origins (env ''CORS_ALLOW_ORIGINS'')
        [''https://tools.greenhatsec.com'', ''https://admin.greenhatsec.com''],
      gc_csrf_enabled = parse_env env parse_bool ''CSRF_ENABLED'' True,
      gc_csrf_cookie_name = parse_env env Some ''CSRF_COOKIE_NAME'' ''csrf_token'',
      gc_csrf_header_name = parse_env env Some ''CSRF_HEADER_NAME'' ''x-csrf-token'',
      gc_csrf_cookie_domain = nonempty_trimmed (env ''CSRF_COOKIE_DOMAIN''),
      gc_policy_file = nonempty_trimmed (env ''POLICY_FILE''),
      gc_auth_enabled = parse_env env parse_bool ''AUTH_ENABLED'' True,
      gc_betterauth_base_url = parse_env env Some ''BETTERAUTH_BASE_URL'' ''http://localhost:3000'',
      gc_proxy_upstream_base_url = parse_env env Some ''PROXY_UPSTREAM_BASE_URL''
        (parse_env env Some ''BETTERAUTH_BASE_URL'' ''http://localhost:3000''),
      gc_betterauth_cookie_name = parse_env env Some ''BETTERAUTH_COOKIE_NAME'' ''better-auth.session_token'',
      gc_betterauth_timeout_ms = parse_env env (parse_uint 64) ''BETTERAUTH_TIMEOUT_MS'' 2000\<rparr>"

section \<open>Validation\<close>

definition validate_rps :: "string \<Rightarrow> f64 \<Rightarrow> config_validation_error list" where
  "validate_rps field v =
     (case v of
        Finite r \<Rightarrow> if r \<le> 0 \<or> 10000 < r then [cfg_err field ''must be > 0 and <= 10000''] else []
      | _ \<Rightarrow> [cfg_err field ''must be > 0 and <= 10000''])"

definition validate_origin_url :: "ext \<Rightarrow> string \<Rightarrow> string \<Rightarrow> config_validation_error list" where
  "validate_origin_url X field raw =
     (let trimmed = trim raw
      in if trimmed = [] then [cfg_err field ''must not be empty'']
         else case url_parse X trimmed of
           Inr u \<Rightarrow>
             (if u_scheme u \<noteq> ''http'' \<and> u_scheme u \<noteq> ''https''
              then [cfg_err field (''must use http:// or https:// (got scheme '' @ quoted (u_scheme u) @ '')'')]
              else [])
             @ (if u_host u = None then [cfg_err field ''must include a host''] else [])
         | Inl e \<Rightarrow> [cfg_err field (''must be a valid URL ('' @ e @ '')'')])"

text \<open>The file system as the policy-file check asks it.\<close>

record file_system =
  path_exists :: "string \<Rightarrow> bool"
  path_is_file :: "string \<Rightarrow> bool"
  path_open_error :: "string \<Rightarrow> string option"

definition validate_policy_file :: "file_system \<Rightarrow> string \<Rightarrow> config_validation_error list" where
  "validate_policy_file F path =
     (if \<not> path_exists F path then [cfg_err ''POLICY_FILE'' (''file does not exist: '' @ path)]
      else if \<not> path_is_file F path then [cfg_err ''POLICY_FILE'' (''path is not a file: '' @ path)]
      else case path_open_error F path of
        Some e \<Rightarrow> [cfg_err ''POLICY_FILE'' (''file is not readable: '' @ path @ '' ('' @ e @ '')'')]
      | None \<Rightarrow> [])"

definition config_errors :: "ext \<Rightarrow> file_system \<Rightarrow> gateway_config \<Rightarrow> config_validation_error list" where
  "config_errors X F c =
     validate_origin_url X ''BETTERAUTH_BASE_URL'' (gc_betterauth_base_url c)
     @ validate_origin_url X ''PROXY_UPSTREAM_BASE_URL'' (gc_proxy_upstream_base_url c)
     @ (if trim (gc_csrf_cookie_name c) = [] then [cfg_err ''CSRF_COOKIE_NAME'' ''must not be empty''] else [])
     @ (if trim (gc_betterauth_cookie_name c) = []
        then [cfg_err ''BETTERAUTH_COOKIE_NAME'' ''must not be empty''] else [])
     @ (if gc_cors_allow_origins c = []
        then [cfg_err ''CORS_ALLOW_ORIGINS'' ''must contain at least one origin'']
        else concat (map (validate_origin_url X ''CORS_ALLOW_ORIGINS'') (gc_cors_allow_origins c)))
     @ (if gc_port c = 0 then [cfg_err ''PORT'' ''must be between 1 and 65535''] else [])
     @ validate_rps ''RATE_LIMIT_READ_RPS'' (gc_rate_limit_read_rps c)
     @ validate_rps ''RATE_LIMIT_WRITE_RPS'' (gc_rate_limit_write_rps c)
     @ (if gc_rate_limit_read_burst c = 0 then [cfg_err ''RATE_LIMIT_READ_BURST'' ''must be > 0''] else [])
     @ (if gc_rate_limit_write_burst c = 0 then [cfg_err ''RATE_LIMIT_WRITE_BURST'' ''must be > 0''] else [])
     @ (if \<not> (1024 \<le> gc_max_body_size c \<and> gc_max_body_size c \<le> 104857600)
        then [cfg_err ''MAX_BODY_SIZE_BYTES'' ''must be between 1024 and 104857600 bytes''] else [])
     @ (case gc_policy_file c of Some path \<Rightarrow> validate_policy_file F path | None \<Rightarrow> [])"

definition config_validate ::
  "ext \<Rightarrow> file_system \<Rightarrow> gateway_config \<Rightarrow> (config_validation_error list, unit) result" where
  "config_validate X F c =
     (let errors = config_errors X F c in if errors = [] then Ok () else Err errors)"

definition from_env_validated ::
  "ext \<Rightarrow> file_system \<Rightarrow> environment \<Rightarrow> (config_validation_error list, gateway_config) result" where
  "from_env_validated X F env =
     (let cfg = config_from_env env in try_result (config_validate X F cfg) (\<lambda>_. Ok cfg))"

section \<open>From the configuration to the stack\<close>

text \<open>
  \<^verbatim>\<open>RateLimiter::new(rps, burst)\<close> on the configured rates: a validated rate is a
  finite number.
\<close>

definition rps_value :: "f64 \<Rightarrow> rat" where
  "rps_value v = (case v of Finite r \<Rightarrow> r | _ \<Rightarrow> 0)"

definition rate_state_of :: "gateway_config \<Rightarrow> rate_limit_state" where
  "rate_state_of c =
     \<lparr>read_limiter = fst (rl_new (rps_value (gc_rate_limit_read_rps c)) (gc_rate_limit_read_burst c)),
      write_limiter = fst (rl_new (rps_value (gc_rate_limit_write_rps c)) (gc_rate_limit_write_burst c))\<rparr>"

definition csrf_of :: "gateway_config \<Rightarrow> csrf_config" where
  "csrf_of c = csrf_default\<lparr>cs_enabled := gc_csrf_enabled c, cs_cookie_name := gc_csrf_cookie_name c,
     cs_cookie_domain := gc_csrf_cookie_domain c, cs_header_name := gc_csrf_header_name c\<rparr>"

definition gateway_of ::
  "gateway_config \<Rightarrow> 'v validator \<Rightarrow> 's data_plane \<Rightarrow> policy option \<Rightarrow> ('v, 's) gateway" where
  "gateway_of c v D pol =
     \<lparr>g_rate = rate_state_of c, g_max_body_size = gc_max_body_size c, g_csrf = csrf_of c,
      g_auth = (if gc_auth_enabled c
                then Some (with_audit (auth_state_with_cookie_name v (gc_betterauth_cookie_name c))) else None),
      g_data_plane = D, g_policy = pol\<rparr>"

section \<open>What validation guarantees\<close>

definition config_ok :: "ext \<Rightarrow> file_system \<Rightarrow> gateway_config \<Rightarrow> bool" where
  "config_ok X F c \<longleftrightarrow>
     (\<forall>raw \<in> set (gc_betterauth_base_url c # gc_proxy_upstream_base_url c # gc_cors_allow_origins c).
        trim raw \<noteq> [] \<and> (\<exists>u. url_parse X (trim raw) = Inr u \<and> u_scheme u \<in> {''http'', ''https''} \<and> u_host u \<noteq> None))
     \<and> trim (gc_csrf_cookie_name c) \<noteq> [] \<and> trim (gc_betterauth_cookie_name c) \<noteq> []
     \<and> gc_cors_allow_origins c \<noteq> [] \<and> 0 < gc_port c
     \<and> (\<exists>r. gc_rate_limit_read_rps c = Finite r \<and> 0 < r \<and> r \<le> 10000)
     \<and> (\<exists>r. gc_rate_limit_write_rps c = Finite r \<and> 0 < r \<and> r \<le> 10000)
     \<and> 0 < gc_rate_limit_read_burst c \<and> 0 < gc_rate_limit_write_burst c
     \<and> 1024 \<le> gc_max_body_size c \<and> gc_max_body_size c \<le> 104857600
     \<and> (\<forall>p. gc_policy_file c = Some p \<longrightarrow> path_exists F p \<and> path_is_file F p \<and> path_open_error F p = None)"

lemma validate_origin_url_Nil:
  "validate_origin_url X f raw = [] \<longleftrightarrow> trim raw \<noteq> [] \<and>
     (\<exists>u. url_parse X (trim raw) = Inr u \<and> u_scheme u \<in> {''http'', ''https''} \<and> u_host u \<noteq> None)"
  by (auto simp: validate_origin_url_def Let_def split: sum.splits)

lemma validate_rps_Nil: "validate_rps f v = [] \<longleftrightarrow> (\<exists>r. v = Finite r \<and> 0 < r \<and> r \<le> 10000)"
  by (auto simp: validate_rps_def not_le not_less split: f64.splits)

lemma validate_policy_file_Nil:
  "validate_policy_file F p = [] \<longleftrightarrow> path_exists F p \<and> path_is_file F p \<and> path_open_error F p = None"
  by (auto simp: validate_policy_file_def split: option.splits)

lemma config_errors_Nil: "config_errors X F c = [] \<longleftrightarrow> config_ok X F c"
  unfolding config_errors_def config_ok_def
  by (auto simp: validate_origin_url_Nil validate_rps_Nil validate_policy_file_Nil split: if_splits option.splits)

text \<open>
  Start-up validation accepts a configuration exactly when every check
  holds: the two upstream URLs and every CORS origin are http or https URLs
  with a host, the cookie names are not blank, the port is not 0, both rates
  are finite, positive and at most 10000, both bursts are positive, the body
  limit is between 1 KiB and 100 MiB, and a policy file can be opened.
\<close>

theorem config_validate_exact:
  "config_validate X F c = Ok () \<longleftrightarrow> config_ok X F c"
  by (simp add: config_validate_def Let_def config_errors_Nil)

lemma parse_env_uint_bound: "d < 2 ^ w \<Longrightarrow> parse_env env (parse_uint w) k d < 2 ^ w"
  by (cases "env k") (auto simp: parse_env_def unwrap_or_def parse_uint_bound split: option.splits)


definition wit_url_ext :: ext where
  "wit_url_ext = wit_ext\<lparr>url_parse := (\<lambda>s. Inr \<lparr>u_scheme = ''https'', u_host = Some s, u_port = None, u_text = s,
     u_query = None\<rparr>)\<rparr>"

definition wit_fs :: file_system where
  "wit_fs = \<lparr>path_exists = (\<lambda>_. False), path_is_file = (\<lambda>_. False), path_open_error = (\<lambda>_. None)\<rparr>"


end
