(* ===== verification/Egress.thy ===== *)
theory Egress
  imports World
begin

text \<open>
  The outbound firewall of \<^verbatim>\<open>egress.rs\<close>: the host allowlist, the private-address
  check on machine words, and the size caps on what a tool sends and receives.
\<close>

section \<open>Errors and configuration\<close>

datatype ip_addr = V4 "32 word" | V6 "128 word"

text \<open>What the gateway looks at in a \<^verbatim>\<open>reqwest::Error\<close>: whether it is a timeout, and its text.\<close>

record http_error =
  he_timeout :: bool
  he_text :: string

datatype egress_error =
    HostNotAllowed string
  | PrivateIpBlocked ip_addr
  | DnsResolutionFailed string
  | InvalidUrl string
  | RequestBodyTooLarge nat nat
  | ResponseTooLarge nat
  | HttpError http_error
  | IoError string

record egress_config =
  ec_allowed_hosts :: "string list"
  ec_timeout_secs :: nat
  ec_connect_timeout_secs :: nat
  ec_max_response_bytes :: nat
  ec_max_request_body_bytes :: nat
  ec_deny_private_ips :: bool

definition egress_default :: egress_config where
  "egress_default = \<lparr>ec_allowed_hosts = [], ec_timeout_secs = 30, ec_connect_timeout_secs = 10,
     ec_max_response_bytes = 5 * 1024 * 1024, ec_max_request_body_bytes = 1 * 1024 * 1024,
     ec_deny_private_ips = True\<rparr>"

definition egress_from_env :: "ext \<Rightarrow> environment \<Rightarrow> egress_config" where
  "egress_from_env X env =
     \<lparr>ec_allowed_hosts = filter (\<lambda>s. s \<noteq> []) (map (\<lambda>s. to_lowercase X (trim s))
        (split_on (CHR '','') (unwrap_or [] (env ''EGRESS_ALLOWED_HOSTS'')))),
      ec_timeout_secs = parse_env env (parse_uint 64) ''EGRESS_TIMEOUT_SECS'' 30,
      ec_connect_timeout_secs = parse_env env (parse_uint 64) ''EGRESS_CONNECT_TIMEOUT_SECS'' 10,
      ec_max_response_bytes = parse_env env (parse_uint 64) ''EGRESS_MAX_RESPONSE_BYTES'' (5 * 1024 * 1024),
      ec_max_request_body_bytes = parse_env env (parse_uint 64) ''EGRESS_MAX_REQUEST_BODY_BYTES'' (1024 * 1024),
      ec_deny_private_ips = parse_env env parse_bool ''EGRESS_DENY_PRIVATE_IPS'' True\<rparr>"

section \<open>Private addresses\<close>

unbundle bit_operations_syntax

definition octet :: "nat \<Rightarrow> 32 word \<Rightarrow> 8 word" where
  "octet i a = ucast (drop_bit (24 - 8 * i) a)"

definition segment0 :: "128 word \<Rightarrow> 16 word" where
  "segment0 a = ucast (drop_bit 112 a)"

definition is_private_ip :: "ip_addr \<Rightarrow> bool" where
  "is_private_ip ip = (case ip of
     V4 a \<Rightarrow>
       octet 0 a = 127
       \<or> octet 0 a = 10
       \<or> (octet 0 a = 172 \<and> octet 1 a AND 0xF0 = 16)
       \<or> (octet 0 a = 192 \<and> octet 1 a = 168)
       \<or> (octet 0 a = 100 \<and> octet 1 a AND 0xC0 = 64)
       \<or> (octet 0 a = 169 \<and> octet 1 a = 254)
       \<or> octet 0 a = 0
   | V6 a \<Rightarrow>
       a = 1
       \<or> segment0 a AND 0xFE00 = 0xFC00
       \<or> segment0 a AND 0xFFC0 = 0xFE80)"

section \<open>Error texts\<close>

text \<open>
  \<^verbatim>\<open>Display\<close> of an address: dotted decimal, and for IPv6 the eight segments in
  hexadecimal with the first longest run of at least two zero segments as
  \<^verbatim>\<open>::\<close>; the IPv4-mapped form keeps its dotted tail.
\<close>

definition v4_display :: "32 word \<Rightarrow> string" where
  "v4_display a = str_join ''.'' (map (\<lambda>i. dec_str (unat (octet i a))) [0..<4])"

definition segments :: "128 word \<Rightarrow> nat list" where
  "segments a = map (\<lambda>i. unat (ucast (drop_bit (112 - 16 * i) a) :: 16 word)) [0..<8]"

text \<open>Start and length of the first longest run of zeros.\<close>

fun zero_run :: "nat \<Rightarrow> nat \<times> nat \<Rightarrow> nat \<times> nat \<Rightarrow> nat list \<Rightarrow> nat \<times> nat" where
  "zero_run i cur best [] = best"
| "zero_run i (cs, cl) best (x # xs) =
     (if x = 0
      then let cur = (if cl = 0 then i else cs, Suc cl)
           in zero_run (Suc i) cur (if snd best < snd cur then cur else best) xs
      else zero_run (Suc i) (0, 0) best xs)"

definition v6_display :: "128 word \<Rightarrow> string" where
  "v6_display a =
     (let segs = segments a; (start, len) = zero_run 0 (0, 0) (0, 0) segs
      in if take 6 segs = [0, 0, 0, 0, 0, 0xFFFF] then ''::ffff:'' @ v4_display (ucast a)
         else if 1 < len
         then str_join '':'' (map hex_str (take start segs)) @ ''::''
              @ str_join '':'' (map hex_str (drop (start + len) segs))
         else str_join '':'' (map hex_str segs))"

definition ip_display :: "ip_addr \<Rightarrow> string" where
  "ip_display ip = (case ip of V4 a \<Rightarrow> v4_display a | V6 a \<Rightarrow> v6_display a)"

text \<open>\<^verbatim>\<open>{h:?}\<close> of a host name, which the URL parser leaves in ASCII without control characters.\<close>

definition debug_host :: "string \<Rightarrow> string" where
  "debug_host h = CHR 0x22 # concat (map (\<lambda>c. if c = CHR 0x22 \<or> c = CHR 0x5C then [CHR 0x5C, c] else [c]) h)
     @ [CHR 0x22]"

definition egress_display :: "egress_error \<Rightarrow> string" where
  "egress_display e = (case e of
     HostNotAllowed h \<Rightarrow> ''egress denied: host '' @ debug_host h @ '' not in allowlist''
   | PrivateIpBlocked ip \<Rightarrow> ''egress denied: resolved IP '' @ ip_display ip @ '' is in a private range''
   | DnsResolutionFailed h \<Rightarrow> ''egress denied: DNS resolution failed for '' @ h
   | InvalidUrl msg \<Rightarrow> ''egress denied: invalid URL '' @ [CHR 0xE2, CHR 0x80, CHR 0x94] @ '' '' @ msg
   | RequestBodyTooLarge n mx \<Rightarrow>
       ''egress denied: request body '' @ dec_str n @ '' bytes exceeds max '' @ dec_str mx
   | ResponseTooLarge mx \<Rightarrow> ''egress denied: response body exceeds max '' @ dec_str mx @ '' bytes''
   | HttpError e \<Rightarrow> ''egress HTTP error: '' @ he_text e
   | IoError e \<Rightarrow> ''egress I/O error: '' @ e)"

section \<open>Requests\<close>

text \<open>
  The resolver (\<open>None\<close> when the lookup fails) and the HTTP client are outside
  this code base. A response announces its length or not and then yields
  chunks, one of which may be a transport error.
\<close>

type_synonym resolver = "string \<Rightarrow> nat \<Rightarrow> ip_addr list option"

record raw_response =
  rr_status :: nat
  rr_headers :: header_map
  rr_content_length :: "nat option"
  rr_chunks :: "(http_error, string) result list"

record egress_response =
  er_status :: nat
  er_headers :: header_map
  er_body :: string

type_synonym sender = "string \<Rightarrow> url \<Rightarrow> header_map \<Rightarrow> string option \<Rightarrow> (http_error, raw_response) result"

definition resolve_host :: "resolver \<Rightarrow> string \<Rightarrow> nat \<Rightarrow> (egress_error, ip_addr list) result" where
  "resolve_host dns host port = (case dns host port of
     None \<Rightarrow> Err (DnsResolutionFailed host)
   | Some addrs \<Rightarrow> if addrs = [] then Err (DnsResolutionFailed host) else Ok addrs)"

fun check_ips :: "ip_addr list \<Rightarrow> (egress_error, unit) result" where
  "check_ips [] = Ok ()"
| "check_ips (ip # ips) = (if is_private_ip ip then Err (PrivateIpBlocked ip) else check_ips ips)"

definition preflight :: "ext \<Rightarrow> resolver \<Rightarrow> egress_config \<Rightarrow> string \<Rightarrow> (egress_error, url) result" where
  "preflight X dns cfg raw_url =
     try_result (map_err InvalidUrl (url_parse X raw_url)) (\<lambda>u.
     try_result (ok_or (InvalidUrl ''URL has no host'') (u_host u)) (\<lambda>host0.
       let host = to_lowercase X host0
       in if u_scheme u \<noteq> ''http'' \<and> u_scheme u \<noteq> ''https''
            then Err (InvalidUrl (''unsupported scheme: '' @ u_scheme u))
          else if host \<notin> set (ec_allowed_hosts cfg) then Err (HostNotAllowed host)
          else if ec_deny_private_ips cfg then
            try_result (resolve_host dns host (unwrap_or 443 (u_port u))) (\<lambda>ips.
            try_result (check_ips ips) (\<lambda>_. Ok u))
          else Ok u))"

fun read_chunks :: "nat \<Rightarrow> string \<Rightarrow> (http_error, string) result list \<Rightarrow> (egress_error, string) result" where
  "read_chunks mx buf [] = Ok buf"
| "read_chunks mx buf (Inl e # cs) = Err (HttpError e)"
| "read_chunks mx buf (Inr c # cs) =
     (if mx < length buf + length c then Err (ResponseTooLarge mx) else read_chunks mx (buf @ c) cs)"

definition read_body_capped :: "egress_config \<Rightarrow> raw_response \<Rightarrow> (egress_error, string) result" where
  "read_body_capped cfg resp =
     (let mx = ec_max_response_bytes cfg
      in case opt_filter (\<lambda>cl. mx < cl) (rr_content_length resp) of
           Some _ \<Rightarrow> Err (ResponseTooLarge mx)
         | None \<Rightarrow> read_chunks mx [] (rr_chunks resp))"

definition request_with_headers ::
  "ext \<Rightarrow> resolver \<Rightarrow> sender \<Rightarrow> egress_config \<Rightarrow> string \<Rightarrow> string \<Rightarrow> string option \<Rightarrow> header_map option
     \<Rightarrow> (egress_error, egress_response) result" where
  "request_with_headers X dns send cfg method raw_url body headers =
     try_result (preflight X dns cfg raw_url) (\<lambda>u.
       case opt_filter (\<lambda>b. ec_max_request_body_bytes cfg < length b) body of
         Some b \<Rightarrow> Err (RequestBodyTooLarge (length b) (ec_max_request_body_bytes cfg))
       | None \<Rightarrow>
           let merged = hm_insert ''x-gateway-internal'' ''1'' (unwrap_or no_headers headers)
           in try_result (map_err HttpError (send method u merged body)) (\<lambda>resp.
              try_result (read_body_capped cfg resp) (\<lambda>bytes.
                Ok \<lparr>er_status = rr_status resp, er_headers = rr_headers resp, er_body = bytes\<rparr>)))"

definition egress_request ::
  "ext \<Rightarrow> resolver \<Rightarrow> sender \<Rightarrow> egress_config \<Rightarrow> string \<Rightarrow> string \<Rightarrow> string option
     \<Rightarrow> (egress_error, egress_response) result" where
  "egress_request X dns send cfg method raw_url body =
     request_with_headers X dns send cfg method raw_url body None"

section \<open>Blocked ranges\<close>

text \<open>Membership in a CIDR range is equality of the leading bits.\<close>

definition in_cidr4 :: "32 word \<Rightarrow> 32 word \<times> nat \<Rightarrow> bool" where
  "in_cidr4 a = (\<lambda>(net, len). drop_bit (32 - len) a = drop_bit (32 - len) net)"

definition in_cidr6 :: "128 word \<Rightarrow> 128 word \<times> nat \<Rightarrow> bool" where
  "in_cidr6 a = (\<lambda>(net, len). drop_bit (128 - len) a = drop_bit (128 - len) net)"

definition blocked4 :: "(32 word \<times> nat) list" where
  "blocked4 = [(0x7F000000, 8), (0x0A000000, 8), (0xAC100000, 12), (0xC0A80000, 16), (0x64400000, 10),
     (0xA9FE0000, 16), (0, 8)]"

definition blocked6 :: "(128 word \<times> nat) list" where
  "blocked6 = [(1, 128), (0xFC000000000000000000000000000000, 7), (0xFE800000000000000000000000000000, 10)]"

lemma unat_drop: "unat (drop_bit k a) = unat a div 2 ^ k"
  unfolding unat_drop_bit_eq by (simp only: drop_bit_eq_div)

lemma drop_bit_eq_iff: "drop_bit k a = drop_bit k b \<longleftrightarrow> unat a div 2 ^ k = unat b div 2 ^ k"
  by (simp only: word_unat_eq_iff unat_drop)

lemma octet_unat: "unat (octet i a) = unat a div 2 ^ (24 - 8 * i) mod 256"
  by (simp only: octet_def unsigned_ucast_eq unat_drop take_bit_eq_mod) simp

lemma segment0_unat: "unat (segment0 a) = unat a div 2 ^ 112"
proof -
  have "unat a div 2 ^ 112 < 2 ^ 16" using unsigned_less [of a] by (intro less_mult_imp_div_less) simp
  then show ?thesis by (simp only: segment0_def unsigned_ucast_eq unat_drop take_bit_eq_mod) simp
qed

lemma octet0_unat: "unat (octet 0 a) = unat a div 2 ^ 24"
proof -
  have "unat a div 2 ^ 24 < 2 ^ 8" using unsigned_less [of a] by (intro less_mult_imp_div_less) simp
  then show ?thesis by (simp only: octet_unat) simp
qed

text \<open>Comparing under a mask of leading ones compares the leading bits.\<close>

lemma and_mask_leading:
  fixes x y :: "'a::len word"
  shows "x AND NOT (mask k) = y AND NOT (mask k) \<longleftrightarrow> drop_bit k x = drop_bit k y"
proof
  assume h: "x AND NOT (mask k) = y AND NOT (mask k)"
  show "drop_bit k x = drop_bit k y"
  proof (rule bit_word_eqI)
    fix n assume "n < LENGTH('a)"
    from h have "bit (x AND NOT (mask k)) (k + n) = bit (y AND NOT (mask k)) (k + n)" by simp
    then show "bit (drop_bit k x) n = bit (drop_bit k y) n"
      by (auto simp: bit_simps dest: bit_imp_le_length)
  qed
next
  assume h: "drop_bit k x = drop_bit k y"
  show "x AND NOT (mask k) = y AND NOT (mask k)"
  proof (rule bit_word_eqI)
    fix n assume "n < LENGTH('a)"
    from h have "bit (drop_bit k x) (n - k) = bit (drop_bit k y) (n - k)" by simp
    then show "bit (x AND NOT (mask k)) n = bit (y AND NOT (mask k)) n"
      by (auto simp: bit_simps)
  qed
qed

lemma mask_F0: "(x :: 8 word) AND 0xF0 = 16 \<longleftrightarrow> unat x div 16 = 1"
proof -
  have "NOT (mask 4) = (0xF0 :: 8 word)" "16 AND NOT (mask 4) = (16 :: 8 word)" by (simp_all add: mask_eq_exp_minus_1)
  then show ?thesis using and_mask_leading [of x 4 16] drop_bit_eq_iff [of 4 x 16] by simp
qed

lemma mask_C0: "(x :: 8 word) AND 0xC0 = 64 \<longleftrightarrow> unat x div 64 = 1"
proof -
  have "NOT (mask 6) = (0xC0 :: 8 word)" "64 AND NOT (mask 6) = (64 :: 8 word)" by (simp_all add: mask_eq_exp_minus_1)
  then show ?thesis using and_mask_leading [of x 6 64] drop_bit_eq_iff [of 6 x 64] by simp
qed

lemma mask_FE00: "(x :: 16 word) AND 0xFE00 = 0xFC00 \<longleftrightarrow> unat x div 512 = 126"
proof -
  have "NOT (mask 9) = (0xFE00 :: 16 word)" "0xFC00 AND NOT (mask 9) = (0xFC00 :: 16 word)"
    by (simp_all add: mask_eq_exp_minus_1)
  then show ?thesis using and_mask_leading [of x 9 "0xFC00"] drop_bit_eq_iff [of 9 x "0xFC00"] by simp
qed

lemma mask_FFC0: "(x :: 16 word) AND 0xFFC0 = 0xFE80 \<longleftrightarrow> unat x div 64 = 1018"
proof -
  have "NOT (mask 6) = (0xFFC0 :: 16 word)" "0xFE80 AND NOT (mask 6) = (0xFE80 :: 16 word)"
    by (simp_all add: mask_eq_exp_minus_1)
  then show ?thesis using and_mask_leading [of x 6 "0xFE80"] drop_bit_eq_iff [of 6 x "0xFE80"] by simp
qed

lemma word8_eq: "(x :: 8 word) = y \<longleftrightarrow> unat x = unat y"
  by (simp add: word_unat_eq_iff)

lemma byte_split:
  fixes q k j h l :: nat
  assumes "k * j = 256" "l < j"
  shows "q div 256 = h \<and> q mod 256 div k = l \<longleftrightarrow> q div k = j * h + l"
proof -
  have j: "0 < j" using assms(2) by simp
  have "q div 256 = q div k div j" unfolding assms(1) [symmetric] by (rule div_mult2_eq)
  moreover have "q mod 256 div k = q div k mod j"
  proof -
    have k: "0 < k" using assms(1) by (cases k) auto
    have "q mod 256 = k * (q div k mod j) + q mod k" unfolding assms(1) [symmetric] by (rule mod_mult2_eq)
    then show ?thesis using k by simp
  qed
  moreover have "x div j = h \<and> x mod j = l \<longleftrightarrow> x = j * h + l" for x
    using j assms(2) by auto
  ultimately show ?thesis by simp
qed

lemma private4: "is_private_ip (V4 a) \<longleftrightarrow> list_ex (in_cidr4 a) blocked4"
proof -
  define n where "n = unat a"
  define q where "q = n div 65536"
  have o0: "unat (octet 0 a) = q div 256" using octet0_unat [of a] by (simp add: q_def n_def div_mult2_eq [symmetric])
  have o1: "unat (octet 1 a) = q mod 256" using octet_unat [of 1 a] by (simp add: q_def n_def)
  have e: "octet 0 a = x \<longleftrightarrow> q div 256 = unat x" "octet 1 a = x \<longleftrightarrow> q mod 256 = unat x" for x
    by (simp_all only: word8_eq o0 o1)
  have m1: "octet 1 a AND 0xF0 = 16 \<longleftrightarrow> q mod 256 div 16 = 1" by (simp only: mask_F0 o1)
  have m2: "octet 1 a AND 0xC0 = 64 \<longleftrightarrow> q mod 256 div 64 = 1" by (simp only: mask_C0 o1)
  have d: "n div 16777216 = q div 256" "n div 1048576 = q div 16" "n div 4194304 = q div 64"
    by (simp_all add: q_def div_mult2_eq [symmetric])
  have c: "in_cidr4 a (net, len) \<longleftrightarrow> n div 2 ^ (32 - len) = unat net div 2 ^ (32 - len)" for net len
    by (simp add: in_cidr4_def drop_bit_eq_iff n_def)
  have m: "q div 256 = 172 \<and> q mod 256 div 16 = 1 \<longleftrightarrow> q div 16 = 2753"
      "q div 256 = 100 \<and> q mod 256 div 64 = 1 \<longleftrightarrow> q div 64 = 401"
      "q div 256 = 192 \<and> q mod 256 = 168 \<longleftrightarrow> q = 49320"
      "q div 256 = 169 \<and> q mod 256 = 254 \<longleftrightarrow> q = 43518"
    using byte_split [of 16 16 1 q 172] byte_split [of 64 4 1 q 100] byte_split [of 1 256 168 q 192]
      byte_split [of 1 256 254 q 169] by simp_all
  show ?thesis
    unfolding is_private_ip_def blocked4_def
    by (simp add: e e [unfolded One_nat_def] m1 [unfolded One_nat_def] m2 [unfolded One_nat_def] c d
        q_def [symmetric] m [unfolded One_nat_def])
qed

lemma private6: "is_private_ip (V6 a) \<longleftrightarrow> list_ex (in_cidr6 a) blocked6"
proof -
  have s: "unat (segment0 a) div 512 = unat a div 2 ^ 121" "unat (segment0 a) div 64 = unat a div 2 ^ 118"
    by (simp_all add: segment0_unat div_mult2_eq [symmetric])
  have one: "a = 1 \<longleftrightarrow> unat a = 1" by (simp add: word_unat_eq_iff)
  have c: "in_cidr6 a (net, len) \<longleftrightarrow> unat a div 2 ^ (128 - len) = unat net div 2 ^ (128 - len)" for net len
    by (simp add: in_cidr6_def drop_bit_eq_iff)
  show ?thesis
    unfolding is_private_ip_def blocked6_def
    by (simp add: mask_FE00 mask_FFC0 s c one)
qed

section \<open>What the firewall promises\<close>

lemma check_ips_Ok: "check_ips ips = Ok () \<longleftrightarrow> (\<forall>ip \<in> set ips. \<not> is_private_ip ip)"
  by (induction ips) auto

text \<open>What a URL must satisfy to be contacted.\<close>

definition egress_permitted :: "ext \<Rightarrow> resolver \<Rightarrow> egress_config \<Rightarrow> string \<Rightarrow> url \<Rightarrow> bool" where
  "egress_permitted X dns cfg raw u \<longleftrightarrow> url_parse X raw = Inr u \<and> u_scheme u \<in> {''http'', ''https''} \<and>
     (\<exists>h. u_host u = Some h \<and> to_lowercase X h \<in> set (ec_allowed_hosts cfg) \<and>
       (ec_deny_private_ips cfg \<longrightarrow> (\<exists>ips. dns (to_lowercase X h) (unwrap_or 443 (u_port u)) = Some ips
          \<and> ips \<noteq> [] \<and> (\<forall>ip \<in> set ips. \<not> is_private_ip ip))))"

lemma resolve_host_Ok: "resolve_host dns h p = Ok ips \<longleftrightarrow> dns h p = Some ips \<and> ips \<noteq> []"
  by (auto simp: resolve_host_def split: option.splits)

lemma preflight_Ok: "preflight X dns cfg raw = Ok u \<longleftrightarrow> egress_permitted X dns cfg raw u"
proof (cases "url_parse X raw")
  case (Inr v)
  show ?thesis
  proof (cases "u_host v")
    case (Some h)
    then show ?thesis using Inr
      by (auto simp: preflight_def egress_permitted_def Let_def result_simps resolve_host_Ok check_ips_Ok)
  qed (use Inr in \<open>auto simp: preflight_def egress_permitted_def\<close>)
qed (auto simp: preflight_def egress_permitted_def)

lemma read_chunks_Ok:
  "read_chunks mx buf cs = Ok b \<Longrightarrow> length buf \<le> mx \<Longrightarrow>
     length b \<le> mx \<and> list_all is_ok cs \<and> b = buf @ concat (filter_map result_ok cs)"
  by (induction mx buf cs rule: read_chunks.induct) (auto split: if_splits)

text \<open>
  C37: the private-address check is exactly the documented ranges: an address
  is blocked if and only if it lies in one of 127/8, 10/8, 172.16/12,
  192.168/16, 100.64/10, 169.254/16, 0/8, ::1/128, fc00::/7 and fe80::/10.
\<close>

theorem private_ranges_exact:
  "is_private_ip ip \<longleftrightarrow> (case ip of V4 a \<Rightarrow> list_ex (in_cidr4 a) blocked4 | V6 a \<Rightarrow> list_ex (in_cidr6 a) blocked6)"
  by (cases ip) (simp_all add: private4 private6)

text \<open>
  C28: nothing leaves the gateway for a host that is not allowed. Unless the URL
  is http or https with an allowlisted host all of whose resolved addresses are
  public (when private addresses are denied), the request ends in an error and
  the result is the same whatever the network would answer; so it is for a
  body over the cap.
\<close>

theorem egress_blocked:
  assumes "(\<nexists>u. egress_permitted X dns cfg raw u) \<or>
    (\<exists>b. body = Some b \<and> ec_max_request_body_bytes cfg < length b)"
  shows "\<exists>e. \<forall>send. request_with_headers X dns send cfg method raw body headers = Err e"
proof (cases "preflight X dns cfg raw")
  case (Inr u)
  then have "\<exists>b. body = Some b \<and> ec_max_request_body_bytes cfg < length b"
    using assms preflight_Ok [of X dns cfg raw u] by auto
  then show ?thesis using Inr by (auto simp: request_with_headers_def)
qed (simp add: request_with_headers_def)

theorem egress_blocked_witness:
  "\<exists>e. \<forall>send. request_with_headers wit_ext (\<lambda>h p. None) send egress_default ''GET'' ''http://x'' None None = Err e"
  by (rule egress_blocked) (simp add: egress_permitted_def egress_default_def)

text \<open>
  What comes back is complete and bounded. A successful request was
  permitted, its body was within the request cap, every chunk of the response
  arrived without error, and the body returned is exactly the chunks in order,
  no longer than the response cap.
\<close>

theorem egress_response_bounded:
  assumes "request_with_headers X dns send cfg method raw body headers = Ok r"
  shows "\<exists>u raw_resp. egress_permitted X dns cfg raw u
    \<and> (\<forall>b. body = Some b \<longrightarrow> length b \<le> ec_max_request_body_bytes cfg)
    \<and> send method u (hm_insert ''x-gateway-internal'' ''1'' (unwrap_or no_headers headers)) body = Inr raw_resp
    \<and> er_status r = rr_status raw_resp
    \<and> er_body r = concat (filter_map result_ok (rr_chunks raw_resp)) \<and> list_all is_ok (rr_chunks raw_resp)
    \<and> length (er_body r) \<le> ec_max_response_bytes cfg"
proof -
  from assms obtain u where u: "preflight X dns cfg raw = Ok u" by (auto simp: request_with_headers_def result_simps)
  have b: "opt_filter (\<lambda>b. ec_max_request_body_bytes cfg < length b) body = None"
    using assms u by (auto simp: request_with_headers_def split: option.splits)
  let ?h = "hm_insert ''x-gateway-internal'' ''1'' (unwrap_or no_headers headers)"
  obtain rr where rr: "send method u ?h body = Inr rr" "read_body_capped cfg rr = Ok (er_body r)"
      "er_status r = rr_status rr"
    using assms u b by (cases "send method u ?h body") (auto simp: request_with_headers_def result_simps)
  have "read_chunks (ec_max_response_bytes cfg) [] (rr_chunks rr) = Ok (er_body r)"
    using rr(2) by (auto simp: read_body_capped_def Let_def split: option.splits)
  from read_chunks_Ok [OF this] show ?thesis
    using u rr b by (intro exI [of _ u] exI [of _ rr]) (auto simp: preflight_Ok not_less opt_filter_def split: option.splits if_splits)
qed

definition wit_sender :: sender where
  "wit_sender m u h b = Inr \<lparr>rr_status = 200, rr_headers = no_headers, rr_content_length = None, rr_chunks = [Inr ''o'', Inr ''k'']\<rparr>"

definition wit_egress_ext :: ext where
  "wit_egress_ext = wit_ext\<lparr>url_parse := (\<lambda>s. Inr \<lparr>u_scheme = ''https'', u_host = Some s, u_port = None, u_text = s, u_query = None\<rparr>)\<rparr>"

theorem egress_response_bounded_witness:
  "egress_permitted wit_egress_ext (\<lambda>h p. Some [V4 0x08080808]) (egress_default\<lparr>ec_allowed_hosts := [''x'']\<rparr>) ''x''
     \<lparr>u_scheme = ''https'', u_host = Some ''x'', u_port = None, u_text = ''x'', u_query = None\<rparr>"
proof -
  have p: "\<not> is_private_ip (V4 0x08080808)" by code_simp
  have "request_with_headers wit_egress_ext (\<lambda>h p. Some [V4 0x08080808]) wit_sender
      (egress_default\<lparr>ec_allowed_hosts := [''x'']\<rparr>) ''GET'' ''x'' None None =
      Ok \<lparr>er_status = 200, er_headers = no_headers, er_body = ''ok''\<rparr>"
    by (simp add: request_with_headers_def preflight_def wit_egress_ext_def wit_ext_def egress_default_def resolve_host_def
        p wit_sender_def read_body_capped_def)
  from egress_response_bounded [OF this] show ?thesis
    by (auto simp: egress_permitted_def wit_egress_ext_def)
qed

text \<open>
  An IPv4 address in its IPv6-mapped form, and the unspecified IPv6
  address, are not blocked: ::ffff:127.0.0.1 names the loopback host.
\<close>

theorem mapped_loopback_not_blocked:
  "is_private_ip (V4 0x7F000001) \<and> \<not> is_private_ip (V6 0x00000000000000000000FFFF7F000001) \<and> \<not> is_private_ip (V6 0)"
  by code_simp

end
