(* ===== verification/Tool_Args.thy ===== *)
theory Tool_Args
  imports Egress F64
begin

text \<open>
  The tool catalogue of \<^verbatim>\<open>tool_router.rs\<close>: the names the gateway build knows and
  \<^verbatim>\<open>validate_args\<close>, which turns the parameters of a tool call into the request
  the router will make. Each arm of the \<^verbatim>\<open>match\<close> is a row of a table; the arms
  of one shape share a definition.
\<close>

section \<open>Validated calls\<close>

datatype validated_args =
    HttpGet string
  | HttpPost string "string option"
  | HttpRequest (hr_method: string) (hr_url: string) (hr_body: "string option")
      (hr_content_type_json: bool) (hr_require_bearer: bool)
  | GetAuditLogs
  | PermissionCheck string string string
  | ExponentialMembers string string
  | ExponentialOverview string "string option" "string option" bool

definition supported_tool_names :: "string list" where
  "supported_tool_names = [
     ''http_get'', ''http_post'', ''list_tasks'', ''create_task'', ''get_task'', ''update_task'',
     ''delete_task'', ''list_sprints'', ''create_sprint'', ''get_sprint'', ''list_projects'',
     ''create_project'', ''get_project'', ''list_teams'', ''get_team'', ''get_project_tasks'',
     ''get_project_members'', ''get_project_permissions'', ''get_team_members'',
     ''get_team_permissions'', ''get_task_comments'', ''list_greenspot_contacts'',
     ''create_greenspot_contact'', ''get_greenspot_contact'', ''list_greenspot_companies'',
     ''create_greenspot_company'', ''get_greenspot_company'', ''list_greenspot_deals'',
     ''create_greenspot_deal'', ''get_greenspot_deal'', ''list_greenspot_tasks'',
     ''create_greenspot_task'', ''get_greenspot_task'', ''list_greenbooks_accounts'',
     ''get_greenbooks_account'', ''list_greenbooks_customers'', ''get_greenbooks_customer'',
     ''list_greenbooks_vendors'', ''get_greenbooks_vendor'', ''list_greenbooks_invoices'',
     ''get_greenbooks_invoice'', ''create_greenbooks_invoice'', ''list_greenbooks_bills'',
     ''get_greenbooks_bill'', ''create_greenbooks_bill'', ''list_greenbooks_journal_entries'',
     ''get_greenbooks_journal_entry'', ''create_greenbooks_journal_entry'',
     ''list_greenbooks_bank_accounts'', ''get_greenbooks_bank_account'',
     ''list_greenbooks_reports'', ''post_greenbooks_invoice_gl'', ''post_greenbooks_bill_gl'',
     ''post_greenbooks_journal_entry'', ''create_greenbooks_invoice_payment'',
     ''create_greenbooks_bill_payment'', ''create_greenbooks_bank_transfer'',
     ''post_greenbooks_bank_reconcile'', ''list_greenbooks_bank_transactions'',
     ''list_greenbooks_payments'', ''list_greenbooks_currencies'', ''list_greenbooks_tax_codes'',
     ''create_greenbooks_tax_code'', ''get_greenbooks_tax_code'', ''update_greenbooks_tax_code'',
     ''list_greenbooks_fx_rates'', ''create_greenbooks_fx_rate'', ''update_greenbooks_fx_rate'',
     ''delete_greenbooks_fx_rate'', ''convert_greenbooks_fx'', ''run_greenbooks_fx_revaluation'',
     ''list_greenbooks_fiscal_periods'', ''create_greenbooks_fiscal_period'',
     ''get_greenbooks_fiscal_period'', ''update_greenbooks_fiscal_period'',
     ''delete_greenbooks_fiscal_period'', ''check_greenbooks_fiscal_lock'',
     ''list_greenbooks_items'', ''create_greenbooks_item'', ''update_greenbooks_item'',
     ''update_greenbooks_invoice'', ''post_greenbooks_invoice'', ''update_greenbooks_bill'',
     ''update_greenbooks_customer'', ''delete_greenbooks_customer'',
     ''get_greenbooks_customer_statement'', ''get_greenbooks_customer_hub'',
     ''update_greenbooks_vendor'', ''list_greenbooks_recurring'', ''create_greenbooks_recurring'',
     ''create_greenbooks_bank_account'', ''get_greenbooks_bank_account_reconciliations'',
     ''patch_greenbooks_bank_reconcile'', ''update_greenbooks_bank_account'',
     ''create_greenbooks_bank_transaction'', ''get_greenbooks_account_ledger'',
     ''create_greenbooks_account'', ''update_greenbooks_account'', ''import_greenbooks_accounts'',
     ''export_greenbooks_accounts'', ''list_greenbooks_audit_events'',
     ''get_greenbooks_audit_entity'', ''import_greenbooks_quickbooks'',
     ''get_greenbooks_settings'', ''update_greenbooks_settings'', ''list_greenbooks_statements'',
     ''get_greenbooks_crm_link'', ''sync_greenbooks_crm_link'', ''get_greenbooks_report_aging'',
     ''get_greenbooks_report_ap_aging'', ''get_greenbooks_report_fx_summary'',
     ''get_greenbooks_report_gst_summary'', ''export_greenbooks_reports'', ''get_audit_logs'']"

definition is_supported_tool :: "string \<Rightarrow> bool" where
  "is_supported_tool tool = list_ex (\<lambda>t. t = tool) supported_tool_names"

definition exponential_base_url :: "environment \<Rightarrow> string" where
  "exponential_base_url env =
     unwrap_or ''https://tools.greenhatsec.com''
       (opt_filter (\<lambda>s. s \<noteq> [])
          (map_option (\<lambda>s. trim_end_matches (CHR ''/'') (trim s)) (env ''EXPONENTIAL_API_BASE_URL'')))"

section \<open>Parameters\<close>

definition required :: "string \<Rightarrow> json \<Rightarrow> (string, string) result" where
  "required k p = ok_or (''missing required param: '' @ k) (get_str k p)"

text \<open>The closures \<^verbatim>\<open>make_url\<close> and \<^verbatim>\<open>json_body\<close> with the size check that follows it.\<close>

definition make_url :: "ext \<Rightarrow> string \<Rightarrow> string \<Rightarrow> (string, string) result" where
  "make_url X base path =
     (let url = base @ path
      in try_result (map_err (\<lambda>_. ''invalid url'') (url_parse X url)) (\<lambda>_. Ok url))"

definition too_large :: "nat \<Rightarrow> nat \<Rightarrow> string" where
  "too_large n mx = ''request body '' @ dec_str n @ '' bytes exceeds max '' @ dec_str mx"

definition json_body :: "ext \<Rightarrow> egress_config \<Rightarrow> json \<Rightarrow> (string, string) result" where
  "json_body X cfg v =
     (let body_bytes = json_to_string X v
      in if ec_max_request_body_bytes cfg < length body_bytes
         then Err (too_large (length body_bytes) (ec_max_request_body_bytes cfg))
         else Ok body_bytes)"

text \<open>
  A path such as \<^verbatim>\<open>"/api/exponential/tasks/{task_id}"\<close>: literal text, and
  required parameters copied into the text as they are.
\<close>

datatype seg = Lit string | Param string

fun fill_path :: "seg list \<Rightarrow> json \<Rightarrow> (string, string) result" where
  "fill_path [] p = Ok []"
| "fill_path (Lit s # sgs) p = try_result (fill_path sgs p) (\<lambda>r. Ok (s @ r))"
| "fill_path (Param k # sgs) p =
     try_result (required k p) (\<lambda>v. try_result (fill_path sgs p) (\<lambda>r. Ok (v @ r)))"

text \<open>Optional query parameters, by the type the value must have.\<close>

datatype qparam = QStr string | QBool string | QU64 string | QF64 string | QLit string string

definition query_param :: "ext \<Rightarrow> json \<Rightarrow> qparam \<Rightarrow> (string \<times> string) option" where
  "query_param X p q = (case q of
     QStr k \<Rightarrow> map_option (Pair k) (get_str k p)
   | QBool k \<Rightarrow> map_option (\<lambda>v. (k, if v then ''true'' else ''false'')) (get_bool k p)
   | QU64 k \<Rightarrow> map_option (\<lambda>v. (k, dec_str v)) (get_u64 k p)
   | QF64 k \<Rightarrow> map_option (\<lambda>v. (k, f64_string X v)) (get_f64 k p)
   | QLit k v \<Rightarrow> Some (k, v))"

definition append_param :: "ext \<Rightarrow> json \<Rightarrow> qparam \<Rightarrow> url \<Rightarrow> url" where
  "append_param X p q u = (case query_param X p q of None \<Rightarrow> u | Some (k, v) \<Rightarrow> append_pair k v u)"

text \<open>Optional body fields: the parameter, the member it becomes, and its type.\<close>

datatype bfield = BStr string string | BI64 string string | BF64 string string | BRaw string string

definition set_field :: "json \<Rightarrow> bfield \<Rightarrow> json \<Rightarrow> json" where
  "set_field p f body = (case f of
     BStr k m \<Rightarrow> (case get_str k p of None \<Rightarrow> body | Some v \<Rightarrow> jset m (JStr v) body)
   | BI64 k m \<Rightarrow> (case get_i64 k p of None \<Rightarrow> body | Some v \<Rightarrow> jset m (jint v) body)
   | BF64 k m \<Rightarrow> (case get_f64 k p of None \<Rightarrow> body | Some v \<Rightarrow> jset m (JNum (Float v)) body)
   | BRaw k m \<Rightarrow> (case jget k p of None \<Rightarrow> body | Some v \<Rightarrow> jset m v body))"

fun required_fields :: "(string \<times> string) list \<Rightarrow> json \<Rightarrow> (string, (string \<times> json) list) result" where
  "required_fields [] p = Ok []"
| "required_fields ((m, k) # rs) p =
     try_result (required k p) (\<lambda>v. try_result (required_fields rs p) (\<lambda>ms. Ok ((m, JStr v) # ms)))"

section \<open>The shapes of the arms\<close>

type_synonym arm = "ext \<Rightarrow> string \<Rightarrow> egress_config \<Rightarrow> json \<Rightarrow> (string, validated_args) result"

definition http_get_arm :: arm where
  "http_get_arm X base cfg p =
     try_result (required ''url'' p) (\<lambda>url.
     try_result (map_err (\<lambda>_. ''invalid url'') (url_parse X url)) (\<lambda>_. Ok (HttpGet url)))"

definition http_post_arm :: arm where
  "http_post_arm X base cfg p =
     try_result (required ''url'' p) (\<lambda>url.
     try_result (map_err (\<lambda>_. ''invalid url'') (url_parse X url)) (\<lambda>_.
       let body = get_str ''body'' p
       in case opt_filter (\<lambda>b. ec_max_request_body_bytes cfg < length b) body of
            Some b \<Rightarrow> Err (too_large (length b) (ec_max_request_body_bytes cfg))
          | None \<Rightarrow> Ok (HttpPost url body)))"

text \<open>A request without body.\<close>

definition plain_arm :: "string \<Rightarrow> seg list \<Rightarrow> arm" where
  "plain_arm m sgs X base cfg p =
     try_result (fill_path sgs p) (\<lambda>path.
     try_result (make_url X base path) (\<lambda>url. Ok (HttpRequest m url None False True)))"

text \<open>A GET whose query is opened once and then gets the parameters present.\<close>

definition query_arm :: "seg list \<Rightarrow> qparam list \<Rightarrow> arm" where
  "query_arm sgs qs X base cfg p =
     try_result (fill_path sgs p) (\<lambda>path.
     try_result (make_url X base path) (\<lambda>url.
     try_result (map_err (\<lambda>_. ''invalid url'') (url_parse X url)) (\<lambda>u.
       Ok (HttpRequest ''GET'' (url_string X (fold (append_param X p) qs (query_pairs_mut u))) None False True))))"

text \<open>A GET whose query is opened only if its one parameter is present.\<close>

definition opt_query_arm :: "seg list \<Rightarrow> qparam \<Rightarrow> arm" where
  "opt_query_arm sgs q X base cfg p =
     try_result (fill_path sgs p) (\<lambda>path.
     try_result (make_url X base path) (\<lambda>url.
     try_result (map_err (\<lambda>_. ''invalid url'') (url_parse X url)) (\<lambda>u.
       Ok (HttpRequest ''GET'' (url_string X (append_param X p q u)) None False True))))"

text \<open>A request whose JSON body has the required members and then the optional ones.\<close>

definition body_arm :: "string \<Rightarrow> seg list \<Rightarrow> (string \<times> string) list \<Rightarrow> bfield list \<Rightarrow> arm" where
  "body_arm m sgs req fs X base cfg p =
     try_result (fill_path sgs p) (\<lambda>path.
     try_result (required_fields req p) (\<lambda>ms.
     try_result (json_body X cfg (fold (set_field p) fs (JObj ms))) (\<lambda>body.
     try_result (make_url X base path) (\<lambda>url. Ok (HttpRequest m url (Some body) True True)))))"

text \<open>A request that passes on the parameter \<^verbatim>\<open>payload\<close>, or all parameters.\<close>

definition payload_arm :: "string \<Rightarrow> seg list \<Rightarrow> arm" where
  "payload_arm m sgs X base cfg p =
     try_result (fill_path sgs p) (\<lambda>path.
     try_result (json_body X cfg (unwrap_or p (jget ''payload'' p))) (\<lambda>body.
     try_result (make_url X base path) (\<lambda>url. Ok (HttpRequest m url (Some body) True True))))"

definition list_projects_arm :: arm where
  "list_projects_arm X base cfg p =
     Ok (ExponentialOverview ''list_projects'' None (get_str ''teamId'' p)
           (unwrap_or False (get_bool ''includeArchived'' p)))"

definition overview_arm :: "string \<Rightarrow> string \<Rightarrow> arm" where
  "overview_arm kind k X base cfg p =
     try_result (required k p) (\<lambda>v. Ok (ExponentialOverview kind (Some v) None True))"

definition members_arm :: "string \<Rightarrow> string \<Rightarrow> arm" where
  "members_arm res k X base cfg p =
     try_result (required k p) (\<lambda>v. Ok (ExponentialMembers res v))"

definition permission_arm :: "string \<Rightarrow> string \<Rightarrow> arm" where
  "permission_arm res k X base cfg p =
     try_result (required k p) (\<lambda>v.
     try_result (required ''action'' p) (\<lambda>a. Ok (PermissionCheck res v a)))"

section \<open>The arms\<close>

definition native_arms :: "(string \<times> arm) list" where
  "native_arms = [
     (''http_get'', http_get_arm),
     (''http_post'', http_post_arm),
     (''get_audit_logs'', (\<lambda>X base cfg p. Ok GetAuditLogs))]"

definition task_arms :: "(string \<times> arm) list" where
  "task_arms = [
     (''list_tasks'',
      query_arm [Lit ''/api/exponential/tasks''] [QStr ''projectId'', QStr ''assigneeId'', QStr ''status'', QStr ''sprintId'', QStr ''teamId'', QStr ''search'', QBool ''includeArchived'', QU64 ''limit'', QStr ''cursor'']),
     (''create_task'',
      body_arm ''POST'' [Lit ''/api/exponential/tasks''] [(''project_id'', ''projectId''), (''title'', ''title'')] [BStr ''description'' ''description'',
        BStr ''status'' ''status'',
        BI64 ''priority'' ''priority'',
        BStr ''assigneeId'' ''assignee_id'',
        BStr ''sprintId'' ''sprint_id'',
        BStr ''dueAt'' ''due_at'',
        BRaw ''labels'' ''labels'',
        BStr ''milestone'' ''milestone'',
        BI64 ''position'' ''position'']),
     (''get_task'', plain_arm ''GET'' [Lit ''/api/exponential/tasks/'', Param ''taskId''])]"

definition task_change_arms :: "(string \<times> arm) list" where
  "task_change_arms = [
     (''update_task'',
      body_arm ''PATCH'' [Lit ''/api/exponential/tasks/'', Param ''taskId''] [] [BStr ''title'' ''title'',
        BStr ''description'' ''description'',
        BStr ''status'' ''status'',
        BI64 ''priority'' ''priority'',
        BStr ''assigneeId'' ''assignee_id'',
        BStr ''projectId'' ''project_id'',
        BStr ''sprintId'' ''sprint_id'',
        BStr ''dueAt'' ''due_at'',
        BRaw ''labels'' ''labels'',
        BStr ''milestone'' ''milestone'',
        BI64 ''position'' ''position'',
        BStr ''action'' ''action'']),
     (''delete_task'', plain_arm ''DELETE'' [Lit ''/api/exponential/tasks/'', Param ''taskId''])]"

definition sprint_arms :: "(string \<times> arm) list" where
  "sprint_arms = [
     (''list_sprints'', query_arm [Lit ''/api/exponential/sprints''] [QStr ''projectId'', QStr ''state'']),
     (''create_sprint'',
      body_arm ''POST'' [Lit ''/api/exponential/sprints''] [(''project_id'', ''projectId'')] [BStr ''name'' ''name'',
        BStr ''startDate'' ''start_date'',
        BStr ''endDate'' ''end_date'']),
     (''get_sprint'', plain_arm ''GET'' [Lit ''/api/exponential/sprints/'', Param ''sprintId''])]"

definition project_arms :: "(string \<times> arm) list" where
  "project_arms = [
     (''list_projects'', list_projects_arm),
     (''create_project'',
      body_arm ''POST'' [Lit ''/api/exponential/projects''] [(''team_id'', ''teamId''), (''name'', ''name'')] [BStr ''description'' ''description'',
        BStr ''color'' ''color'',
        BStr ''icon'' ''icon'',
        BI64 ''sprintDurationDays'' ''sprint_duration_days'',
        BStr ''startDate'' ''start_date'']),
     (''get_project'', overview_arm ''get_project'' ''projectId''),
     (''list_teams'', (\<lambda>X base cfg p. Ok (ExponentialOverview ''list_teams'' None None True))),
     (''get_team'', overview_arm ''get_team'' ''teamId''),
     (''get_project_tasks'',
      query_arm [Lit ''/api/exponential/projects/'', Param ''projectId'', Lit ''/tasks''] [QU64 ''limit'', QStr ''cursor'', QBool ''includeArchived''])]"

definition member_arms :: "(string \<times> arm) list" where
  "member_arms = [
     (''get_project_members'', members_arm ''project'' ''projectId''),
     (''get_project_permissions'', permission_arm ''project'' ''projectId''),
     (''get_team_members'', members_arm ''team'' ''teamId''),
     (''get_team_permissions'', permission_arm ''team'' ''teamId''),
     (''get_task_comments'',
      plain_arm ''GET'' [Lit ''/api/exponential/tasks/'', Param ''taskId'', Lit ''/comments''])]"

definition greenspot_party_arms :: "(string \<times> arm) list" where
  "greenspot_party_arms = [
     (''list_greenspot_contacts'',
      query_arm [Lit ''/api/greenspot/contacts''] [QStr ''search'', QStr ''companyId'', QBool ''includeArchived'', QU64 ''limit'']),
     (''create_greenspot_contact'',
      body_arm ''POST'' [Lit ''/api/greenspot/contacts''] [(''name'', ''name'')] [BStr ''email'' ''email'',
        BStr ''phone'' ''phone'',
        BStr ''title'' ''title'',
        BStr ''companyId'' ''companyId'']),
     (''get_greenspot_contact'', plain_arm ''GET'' [Lit ''/api/greenspot/contacts/'', Param ''id'']),
     (''list_greenspot_companies'',
      query_arm [Lit ''/api/greenspot/companies''] [QStr ''search'', QBool ''includeArchived'', QU64 ''limit'']),
     (''create_greenspot_company'',
      body_arm ''POST'' [Lit ''/api/greenspot/companies''] [(''name'', ''name'')] [BStr ''domain'' ''domain'',
        BStr ''industry'' ''industry'']),
     (''get_greenspot_company'', plain_arm ''GET'' [Lit ''/api/greenspot/companies/'', Param ''id''])]"

definition greenspot_work_arms :: "(string \<times> arm) list" where
  "greenspot_work_arms = [
     (''list_greenspot_deals'',
      query_arm [Lit ''/api/greenspot/deals''] [QStr ''search'', QStr ''stage'', QBool ''includeArchived'', QU64 ''limit'']),
     (''create_greenspot_deal'',
      body_arm ''POST'' [Lit ''/api/greenspot/deals''] [(''name'', ''name'')] [BStr ''stage'' ''stage'',
        BF64 ''amount'' ''amount'',
        BStr ''companyId'' ''companyId'',
        BStr ''primaryContactId'' ''primaryContactId'']),
     (''get_greenspot_deal'', plain_arm ''GET'' [Lit ''/api/greenspot/deals/'', Param ''id'']),
     (''list_greenspot_tasks'',
      query_arm [Lit ''/api/greenspot/tasks''] [QStr ''search'', QStr ''status'', QStr ''assigneeId'', QBool ''includeArchived'', QU64 ''limit'']),
     (''create_greenspot_task'',
      body_arm ''POST'' [Lit ''/api/greenspot/tasks''] [(''title'', ''title'')] [BStr ''status'' ''status'',
        BStr ''dueDate'' ''dueDate'',
        BStr ''assigneeId'' ''assigneeId'']),
     (''get_greenspot_task'', plain_arm ''GET'' [Lit ''/api/greenspot/tasks/'', Param ''id''])]"

definition books_party_arms :: "(string \<times> arm) list" where
  "books_party_arms = [
     (''list_greenbooks_accounts'', opt_query_arm [Lit ''/api/greenbooks/accounts''] (QStr ''q'')),
     (''get_greenbooks_account'', plain_arm ''GET'' [Lit ''/api/greenbooks/accounts/'', Param ''id'']),
     (''list_greenbooks_customers'', opt_query_arm [Lit ''/api/greenbooks/customers''] (QStr ''q'')),
     (''get_greenbooks_customer'', plain_arm ''GET'' [Lit ''/api/greenbooks/customers/'', Param ''id'']),
     (''list_greenbooks_vendors'', opt_query_arm [Lit ''/api/greenbooks/vendors''] (QStr ''q'')),
     (''get_greenbooks_vendor'', plain_arm ''GET'' [Lit ''/api/greenbooks/vendors/'', Param ''id'']),
     (''list_greenbooks_invoices'', opt_query_arm [Lit ''/api/greenbooks/invoices''] (QStr ''status'')),
     (''get_greenbooks_invoice'', plain_arm ''GET'' [Lit ''/api/greenbooks/invoices/'', Param ''id'']),
     (''create_greenbooks_invoice'', payload_arm ''POST'' [Lit ''/api/greenbooks/invoices'']),
     (''list_greenbooks_bills'', opt_query_arm [Lit ''/api/greenbooks/bills''] (QStr ''status''))]"

definition books_document_arms :: "(string \<times> arm) list" where
  "books_document_arms = [
     (''get_greenbooks_bill'', plain_arm ''GET'' [Lit ''/api/greenbooks/bills/'', Param ''id'']),
     (''create_greenbooks_bill'', payload_arm ''POST'' [Lit ''/api/greenbooks/bills'']),
     (''list_greenbooks_journal_entries'', plain_arm ''GET'' [Lit ''/api/greenbooks/journal-entries'']),
     (''get_greenbooks_journal_entry'',
      plain_arm ''GET'' [Lit ''/api/greenbooks/journal-entries/'', Param ''id'']),
     (''create_greenbooks_journal_entry'', payload_arm ''POST'' [Lit ''/api/greenbooks/journal-entries'']),
     (''list_greenbooks_bank_accounts'', plain_arm ''GET'' [Lit ''/api/greenbooks/bank-accounts'']),
     (''get_greenbooks_bank_account'',
      plain_arm ''GET'' [Lit ''/api/greenbooks/bank-accounts/'', Param ''id'']),
     (''list_greenbooks_reports'', plain_arm ''GET'' [Lit ''/api/greenbooks/reports'']),
     (''post_greenbooks_invoice_gl'',
      plain_arm ''POST'' [Lit ''/api/greenbooks/invoices/'', Param ''id'', Lit ''/post-gl'']),
     (''post_greenbooks_bill_gl'',
      plain_arm ''POST'' [Lit ''/api/greenbooks/bills/'', Param ''id'', Lit ''/post-gl'']),
     (''post_greenbooks_journal_entry'',
      plain_arm ''POST'' [Lit ''/api/greenbooks/journal-entries/'', Param ''id'', Lit ''/post''])]"

definition books_payment_arms :: "(string \<times> arm) list" where
  "books_payment_arms = [
     (''create_greenbooks_invoice_payment'',
      payload_arm ''POST'' [Lit ''/api/greenbooks/invoices/'', Param ''id'', Lit ''/payments'']),
     (''create_greenbooks_bill_payment'',
      payload_arm ''POST'' [Lit ''/api/greenbooks/bills/'', Param ''id'', Lit ''/payments'']),
     (''create_greenbooks_bank_transfer'',
      payload_arm ''POST'' [Lit ''/api/greenbooks/bank-accounts/transfer'']),
     (''post_greenbooks_bank_reconcile'',
      payload_arm ''POST'' [Lit ''/api/greenbooks/bank-accounts/'', Param ''id'', Lit ''/reconcile'']),
     (''list_greenbooks_bank_transactions'',
      query_arm [Lit ''/api/greenbooks/bank-accounts/'', Param ''id'', Lit ''/transactions''] [QBool ''reconciled'', QStr ''startDate'', QStr ''endDate'', QU64 ''limit'']),
     (''list_greenbooks_payments'', plain_arm ''GET'' [Lit ''/api/greenbooks/payments''])]"

definition books_tax_arms :: "(string \<times> arm) list" where
  "books_tax_arms = [
     (''list_greenbooks_currencies'', plain_arm ''GET'' [Lit ''/api/greenbooks/currencies'']),
     (''list_greenbooks_tax_codes'', plain_arm ''GET'' [Lit ''/api/greenbooks/tax-codes'']),
     (''create_greenbooks_tax_code'', payload_arm ''POST'' [Lit ''/api/greenbooks/tax-codes'']),
     (''get_greenbooks_tax_code'', plain_arm ''GET'' [Lit ''/api/greenbooks/tax-codes/'', Param ''id'']),
     (''update_greenbooks_tax_code'',
      payload_arm ''PATCH'' [Lit ''/api/greenbooks/tax-codes/'', Param ''id'']),
     (''list_greenbooks_fx_rates'', plain_arm ''GET'' [Lit ''/api/greenbooks/fx-rates'']),
     (''create_greenbooks_fx_rate'', payload_arm ''POST'' [Lit ''/api/greenbooks/fx-rates'']),
     (''update_greenbooks_fx_rate'',
      payload_arm ''PATCH'' [Lit ''/api/greenbooks/fx-rates/'', Param ''id'']),
     (''delete_greenbooks_fx_rate'',
      plain_arm ''DELETE'' [Lit ''/api/greenbooks/fx-rates/'', Param ''id''])]"

definition books_period_arms :: "(string \<times> arm) list" where
  "books_period_arms = [
     (''convert_greenbooks_fx'',
      query_arm [Lit ''/api/greenbooks/fx-rates/convert''] [QStr ''from'', QStr ''to'', QF64 ''amount'']),
     (''run_greenbooks_fx_revaluation'', payload_arm ''POST'' [Lit ''/api/greenbooks/fx-revaluation'']),
     (''list_greenbooks_fiscal_periods'', plain_arm ''GET'' [Lit ''/api/greenbooks/fiscal-periods'']),
     (''create_greenbooks_fiscal_period'', payload_arm ''POST'' [Lit ''/api/greenbooks/fiscal-periods'']),
     (''get_greenbooks_fiscal_period'',
      plain_arm ''GET'' [Lit ''/api/greenbooks/fiscal-periods/'', Param ''id'']),
     (''update_greenbooks_fiscal_period'',
      payload_arm ''PATCH'' [Lit ''/api/greenbooks/fiscal-periods/'', Param ''id'']),
     (''delete_greenbooks_fiscal_period'',
      plain_arm ''DELETE'' [Lit ''/api/greenbooks/fiscal-periods/'', Param ''id'']),
     (''check_greenbooks_fiscal_lock'',
      opt_query_arm [Lit ''/api/greenbooks/fiscal-periods/check''] (QStr ''date''))]"

definition books_item_arms :: "(string \<times> arm) list" where
  "books_item_arms = [
     (''list_greenbooks_items'', plain_arm ''GET'' [Lit ''/api/greenbooks/items'']),
     (''create_greenbooks_item'', payload_arm ''POST'' [Lit ''/api/greenbooks/items'']),
     (''update_greenbooks_item'', payload_arm ''PATCH'' [Lit ''/api/greenbooks/items'']),
     (''update_greenbooks_invoice'',
      payload_arm ''PATCH'' [Lit ''/api/greenbooks/invoices/'', Param ''id'']),
     (''post_greenbooks_invoice'',
      plain_arm ''POST'' [Lit ''/api/greenbooks/invoices/'', Param ''id'', Lit ''/post'']),
     (''update_greenbooks_bill'', payload_arm ''PATCH'' [Lit ''/api/greenbooks/bills/'', Param ''id'']),
     (''update_greenbooks_customer'',
      payload_arm ''PATCH'' [Lit ''/api/greenbooks/customers/'', Param ''id''])]"

definition books_customer_arms :: "(string \<times> arm) list" where
  "books_customer_arms = [
     (''delete_greenbooks_customer'',
      plain_arm ''DELETE'' [Lit ''/api/greenbooks/customers/'', Param ''id'']),
     (''get_greenbooks_customer_statement'',
      plain_arm ''GET'' [Lit ''/api/greenbooks/customers/'', Param ''id'', Lit ''/statement'']),
     (''get_greenbooks_customer_hub'',
      plain_arm ''GET'' [Lit ''/api/greenbooks/customers/'', Param ''id'', Lit ''/hub'']),
     (''update_greenbooks_vendor'', payload_arm ''PATCH'' [Lit ''/api/greenbooks/vendors/'', Param ''id'']),
     (''list_greenbooks_recurring'', plain_arm ''GET'' [Lit ''/api/greenbooks/recurring'']),
     (''create_greenbooks_recurring'', payload_arm ''POST'' [Lit ''/api/greenbooks/recurring'']),
     (''create_greenbooks_bank_account'', payload_arm ''POST'' [Lit ''/api/greenbooks/bank-accounts'']),
     (''get_greenbooks_bank_account_reconciliations'',
      plain_arm ''GET'' [Lit ''/api/greenbooks/bank-accounts/'', Param ''id'', Lit ''/reconcile''])]"

definition books_bank_arms :: "(string \<times> arm) list" where
  "books_bank_arms = [
     (''patch_greenbooks_bank_reconcile'',
      payload_arm ''PATCH'' [Lit ''/api/greenbooks/bank-accounts/'', Param ''id'', Lit ''/reconcile'']),
     (''update_greenbooks_bank_account'',
      payload_arm ''PATCH'' [Lit ''/api/greenbooks/bank-accounts/'', Param ''id'']),
     (''create_greenbooks_bank_transaction'',
      payload_arm ''POST'' [Lit ''/api/greenbooks/bank-accounts/'', Param ''id'', Lit ''/transactions'']),
     (''get_greenbooks_account_ledger'',
      plain_arm ''GET'' [Lit ''/api/greenbooks/accounts/'', Param ''id'', Lit ''/ledger'']),
     (''create_greenbooks_account'', payload_arm ''POST'' [Lit ''/api/greenbooks/accounts'']),
     (''update_greenbooks_account'',
      payload_arm ''PATCH'' [Lit ''/api/greenbooks/accounts/'', Param ''id''])]"

definition books_admin_arms :: "(string \<times> arm) list" where
  "books_admin_arms = [
     (''import_greenbooks_accounts'', payload_arm ''POST'' [Lit ''/api/greenbooks/accounts/import'']),
     (''export_greenbooks_accounts'', plain_arm ''GET'' [Lit ''/api/greenbooks/accounts/export'']),
     (''list_greenbooks_audit_events'', plain_arm ''GET'' [Lit ''/api/greenbooks/audit'']),
     (''get_greenbooks_audit_entity'',
      plain_arm ''GET'' [Lit ''/api/greenbooks/audit/'', Param ''entityType'', Lit ''/'', Param ''entityId'']),
     (''import_greenbooks_quickbooks'', payload_arm ''POST'' [Lit ''/api/greenbooks/import/quickbooks'']),
     (''get_greenbooks_settings'', plain_arm ''GET'' [Lit ''/api/greenbooks/settings'']),
     (''update_greenbooks_settings'', payload_arm ''PUT'' [Lit ''/api/greenbooks/settings'']),
     (''list_greenbooks_statements'', plain_arm ''GET'' [Lit ''/api/greenbooks/statements'']),
     (''get_greenbooks_crm_link'', plain_arm ''GET'' [Lit ''/api/greenbooks/crm-link''])]"

definition books_report_arms :: "(string \<times> arm) list" where
  "books_report_arms = [
     (''sync_greenbooks_crm_link'', payload_arm ''POST'' [Lit ''/api/greenbooks/crm-link'']),
     (''get_greenbooks_report_aging'', plain_arm ''GET'' [Lit ''/api/greenbooks/reports?type=ar-aging'']),
     (''get_greenbooks_report_ap_aging'',
      plain_arm ''GET'' [Lit ''/api/greenbooks/reports?type=ap-aging'']),
     (''get_greenbooks_report_fx_summary'',
      plain_arm ''GET'' [Lit ''/api/greenbooks/reports?type=fx-summary'']),
     (''get_greenbooks_report_gst_summary'',
      plain_arm ''GET'' [Lit ''/api/greenbooks/reports?type=gst-summary'']),
     (''export_greenbooks_reports'',
      query_arm [Lit ''/api/greenbooks/reports''] [QLit ''format'' ''csv'', QStr ''type'', QStr ''asOfDate'', QStr ''startDate'', QStr ''endDate''])]"

text \<open>The whole \<^verbatim>\<open>match\<close>.\<close>

definition tool_arms :: "(string \<times> arm) list" where
  "tool_arms = native_arms @ task_arms @ task_change_arms @ sprint_arms @ project_arms @ member_arms
     @ greenspot_party_arms @ greenspot_work_arms @ books_party_arms @ books_document_arms
     @ books_payment_arms @ books_tax_arms @ books_period_arms @ books_item_arms
     @ books_customer_arms @ books_bank_arms @ books_admin_arms @ books_report_arms"

definition validate_args ::
  "ext \<Rightarrow> environment \<Rightarrow> string \<Rightarrow> json \<Rightarrow> egress_config \<Rightarrow> (string, validated_args) result" where
  "validate_args X env tool params cfg =
     (case map_of tool_arms tool of
        Some f \<Rightarrow> f X (exponential_base_url env) cfg params
      | None \<Rightarrow> Err ''unsupported tool'')"

section \<open>The catalogue\<close>

lemmas arm_group_defs = native_arms_def task_arms_def task_change_arms_def sprint_arms_def project_arms_def
  member_arms_def greenspot_party_arms_def greenspot_work_arms_def books_party_arms_def
  books_document_arms_def books_payment_arms_def books_tax_arms_def books_period_arms_def
  books_item_arms_def books_customer_arms_def books_bank_arms_def books_admin_arms_def
  books_report_arms_def

text \<open>The names in the table are those of the list, with one in another place.\<close>

lemma supported_names:
  "supported_tool_names = take 2 (map fst tool_arms) @ drop 3 (map fst tool_arms) @ [''get_audit_logs'']"
  by (simp add: supported_tool_names_def tool_arms_def arm_group_defs)

lemma third_arm: "map fst tool_arms ! 2 = ''get_audit_logs''" "3 \<le> length tool_arms"
  by (simp_all add: tool_arms_def arm_group_defs)

lemma set_move_last: "i < length xs \<Longrightarrow> set (take i xs @ drop (Suc i) xs @ [xs ! i]) = set xs"
  by (subst (4) id_take_nth_drop [of i xs]) auto

lemma supported_iff: "is_supported_tool t \<longleftrightarrow> t \<in> fst ` set tool_arms"
  using set_move_last [of 2 "map fst tool_arms"] third_arm
  by (simp add: is_supported_tool_def list_ex_iff supported_names numeral_3_eq_3)

lemma tool_arm_cases:
  assumes "is_supported_tool t"
  obtains f where "map_of tool_arms t = Some f" "(t, f) \<in> set tool_arms"
  using assms by (metis map_of_SomeD map_of_eq_None_iff not_None_eq supported_iff)

section \<open>What every arm guarantees\<close>

text \<open>
  The URL is the upstream base with a path below \<^verbatim>\<open>/api/\<close>, or that URL with query
  pairs appended by the URL library; a body is there exactly with the JSON
  content type and is within the cap; the caller's credential is asked for.
\<close>

definition targets_upstream :: "ext \<Rightarrow> string \<Rightarrow> string \<Rightarrow> bool" where
  "targets_upstream X base url \<longleftrightarrow>
     (\<exists>path u. starts_with ''/api/'' path \<and> url_parse X (base @ path) = Ok u
        \<and> (url = base @ path \<or> (\<exists>qs. url = url_string X (u\<lparr>u_query := qs\<rparr>))))"

definition call_ok :: "ext \<Rightarrow> string \<Rightarrow> egress_config \<Rightarrow> validated_args \<Rightarrow> bool" where
  "call_ok X base cfg v = (case v of
     HttpGet url \<Rightarrow> is_ok (url_parse X url)
   | HttpPost url body \<Rightarrow> is_ok (url_parse X url)
       \<and> (\<forall>b. body = Some b \<longrightarrow> length b \<le> ec_max_request_body_bytes cfg)
   | HttpRequest m url body ct rb \<Rightarrow>
       rb \<and> (ct \<longleftrightarrow> body \<noteq> None) \<and> (m = ''GET'' \<longrightarrow> body = None)
       \<and> (\<forall>b. body = Some b \<longrightarrow> length b \<le> ec_max_request_body_bytes cfg)
       \<and> targets_upstream X base url
   | _ \<Rightarrow> True)"

definition refusal :: "egress_config \<Rightarrow> string \<Rightarrow> bool" where
  "refusal cfg e \<longleftrightarrow> e = ''invalid url'' \<or> (\<exists>k. e = ''missing required param: '' @ k)
     \<or> (\<exists>n. ec_max_request_body_bytes cfg < n \<and> e = too_large n (ec_max_request_body_bytes cfg))"

definition arm_ok :: "arm \<Rightarrow> bool" where
  "arm_ok f \<longleftrightarrow> (\<forall>X base cfg p. case f X base cfg p of
     Inl e \<Rightarrow> refusal cfg e | Inr v \<Rightarrow> call_ok X base cfg v)"

fun api_path :: "seg list \<Rightarrow> bool" where
  "api_path (Lit s # sgs) = starts_with ''/api/'' s"
| "api_path _ = False"

lemma required_Err: "required k p = Inl e \<Longrightarrow> e = ''missing required param: '' @ k"
  by (cases "get_str k p") (simp_all add: required_def)

lemma fill_path_Err: "fill_path sgs p = Inl e \<Longrightarrow> \<exists>k. e = ''missing required param: '' @ k"
  by (induction sgs p arbitrary: e rule: fill_path.induct) (auto simp: result_simps dest: required_Err)

lemma required_fields_Err:
  "required_fields rs p = Inl e \<Longrightarrow> \<exists>k. e = ''missing required param: '' @ k"
  by (induction rs p arbitrary: e rule: required_fields.induct) (auto simp: result_simps dest: required_Err)

lemma fill_path_api: "fill_path sgs p = Inr path \<Longrightarrow> api_path sgs \<Longrightarrow> starts_with ''/api/'' path"
  by (cases sgs rule: api_path.cases) (auto simp: result_simps starts_with_iff)

lemma make_url_Ok: "make_url X base path = Inr url \<longleftrightarrow> url = base @ path \<and> is_ok (url_parse X (base @ path))"
  by (cases "url_parse X (base @ path)") (auto simp: make_url_def Let_def)

lemma make_url_Err: "make_url X base path = Inl e \<Longrightarrow> e = ''invalid url''"
  by (cases "url_parse X (base @ path)") (auto simp: make_url_def Let_def)

lemma json_body_Ok: "json_body X cfg v = Inr b \<Longrightarrow> length b \<le> ec_max_request_body_bytes cfg"
  by (auto simp: json_body_def Let_def split: if_splits)

lemma json_body_Err: "json_body X cfg v = Inl e \<Longrightarrow>
  \<exists>n. ec_max_request_body_bytes cfg < n \<and> e = too_large n (ec_max_request_body_bytes cfg)"
  by (auto simp: json_body_def Let_def split: if_splits)

lemma is_okE: "is_ok r \<Longrightarrow> (\<And>a. r = Inr a \<Longrightarrow> P) \<Longrightarrow> P"
  by (cases r) simp_all

lemma refusals:
  "required k p = Inl e \<Longrightarrow> refusal cfg e"
  "fill_path sgs p = Inl e \<Longrightarrow> refusal cfg e"
  "required_fields rs p = Inl e \<Longrightarrow> refusal cfg e"
  "make_url X base path = Inl e \<Longrightarrow> refusal cfg e"
  "json_body X cfg v = Inl e \<Longrightarrow> refusal cfg e"
  "refusal cfg ''invalid url''"
  "ec_max_request_body_bytes cfg < n \<Longrightarrow> refusal cfg (too_large n (ec_max_request_body_bytes cfg))"
  unfolding refusal_def
  using required_Err [of k p e] fill_path_Err [of sgs p e] required_fields_Err [of rs p e]
    make_url_Err [of X base path e] json_body_Err [of X cfg v e] by blast+

lemma arm_okI:
  assumes "\<And>X base cfg p e. f X base cfg p = Inl e \<Longrightarrow> refusal cfg e"
    and "\<And>X base cfg p v. f X base cfg p = Inr v \<Longrightarrow> call_ok X base cfg v"
  shows "arm_ok f"
  unfolding arm_ok_def by (auto split: sum.split intro: assms)

lemma targets_upstreamI:
  assumes "fill_path sgs p = Inr path" "api_path sgs" "is_ok (url_parse X (base @ path))"
  shows "targets_upstream X base (base @ path)"
  using fill_path_api [OF assms(1,2)] assms(3) by (auto simp: targets_upstream_def elim!: is_okE)

lemma plain_arm_ok: "api_path sgs \<Longrightarrow> arm_ok (plain_arm m sgs)"
  by (rule arm_okI)
     (auto simp: plain_arm_def call_ok_def result_simps make_url_Ok intro: refusals targets_upstreamI)

lemma payload_arm_ok: "api_path sgs \<Longrightarrow> m \<noteq> ''GET'' \<Longrightarrow> arm_ok (payload_arm m sgs)"
  by (rule arm_okI)
     (auto simp: payload_arm_def call_ok_def result_simps make_url_Ok
        dest: json_body_Ok intro: refusals targets_upstreamI)

lemma body_arm_ok: "api_path sgs \<Longrightarrow> m \<noteq> ''GET'' \<Longrightarrow> arm_ok (body_arm m sgs req fs)"
  by (rule arm_okI)
     (auto simp: body_arm_def call_ok_def result_simps make_url_Ok
        dest: json_body_Ok intro: refusals targets_upstreamI)

lemma append_param_query: "\<exists>qs. append_param X p q u = u\<lparr>u_query := qs\<rparr>"
proof (cases "query_param X p q")
  case None
  then have "append_param X p q u = u\<lparr>u_query := u_query u\<rparr>" by (simp add: append_param_def)
  then show ?thesis by blast
qed (auto simp: append_param_def append_pair_def)

lemma append_params_query: "\<exists>qs. fold (append_param X p) ps u = u\<lparr>u_query := qs\<rparr>"
proof (induction ps arbitrary: u)
  case Nil
  have "u = u\<lparr>u_query := u_query u\<rparr>" by simp
  then show ?case by (metis fold_simps(1))
next
  case (Cons q ps)
  obtain qs where "append_param X p q u = u\<lparr>u_query := qs\<rparr>" using append_param_query by blast
  moreover obtain qs' where "fold (append_param X p) ps (u\<lparr>u_query := qs\<rparr>) = (u\<lparr>u_query := qs\<rparr>)\<lparr>u_query := qs'\<rparr>"
    using Cons by blast
  ultimately show ?case by auto
qed

lemma targets_upstream_query:
  assumes "fill_path sgs p = Inr path" "api_path sgs" "url_parse X (base @ path) = Inr u"
    and "\<exists>qs. v = u\<lparr>u_query := qs\<rparr>"
  shows "targets_upstream X base (url_string X v)"
  using fill_path_api [OF assms(1,2)] assms(3,4) by (auto simp: targets_upstream_def)

lemma opened_query: "\<exists>qs. fold (append_param X p) ps (query_pairs_mut u) = u\<lparr>u_query := qs\<rparr>"
  using append_params_query [of X p ps "query_pairs_mut u"] by (auto simp: query_pairs_mut_def)

lemma query_arm_ok: "api_path sgs \<Longrightarrow> arm_ok (query_arm sgs qs)"
  by (rule arm_okI)
     (auto simp: query_arm_def call_ok_def result_simps make_url_Ok
        intro: refusals targets_upstream_query [OF _ _ _ opened_query])

lemma opt_query_arm_ok: "api_path sgs \<Longrightarrow> arm_ok (opt_query_arm sgs q)"
  by (rule arm_okI)
     (auto simp: opt_query_arm_def call_ok_def result_simps make_url_Ok
        intro: refusals targets_upstream_query [OF _ _ _ append_param_query])

lemma http_arms_ok: "arm_ok http_get_arm" "arm_ok http_post_arm"
  by (auto intro!: arm_okI simp: http_get_arm_def http_post_arm_def call_ok_def result_simps Let_def
      opt_filter_def intro: refusals split: option.splits if_splits)

lemma gateway_arms_ok:
  "arm_ok (\<lambda>X base cfg p. Ok GetAuditLogs)" "arm_ok list_projects_arm" "arm_ok (overview_arm kind k)"
  "arm_ok (members_arm res k)" "arm_ok (permission_arm res k)"
  "arm_ok (\<lambda>X base cfg p. Ok (ExponentialOverview k i t a))"
  by (auto intro!: arm_okI simp: list_projects_arm_def overview_arm_def members_arm_def
      permission_arm_def call_ok_def result_simps intro: refusals)

lemmas arm_oks = http_arms_ok gateway_arms_ok plain_arm_ok payload_arm_ok body_arm_ok query_arm_ok opt_query_arm_ok

lemma tool_arms_ok: "list_all (\<lambda>r. arm_ok (snd r)) tool_arms"
  by (simp add: tool_arms_def arm_group_defs arm_oks starts_with_def)

section \<open>Properties\<close>


text \<open>
  An identifier is copied into the URL as it is. Whatever text the caller
  passes as the task id, the validated call is a DELETE of the base followed by
  the tasks path and that text, so an id such as ../projects/p names another
  resource than a task once the URL library has resolved the dot segments.
\<close>

theorem identifier_copied_verbatim:
  assumes "url_parse X (exponential_base_url env @ ''/api/exponential/tasks/'' @ s) = Ok u"
  shows "validate_args X env ''delete_task'' (JObj [(''taskId'', JStr s)]) cfg =
     Ok (HttpRequest ''DELETE'' (exponential_base_url env @ ''/api/exponential/tasks/'' @ s) None False True)"
proof -
  have "map_of tool_arms ''delete_task'' =
      Some (plain_arm ''DELETE'' [Lit ''/api/exponential/tasks/'', Param ''taskId''])"
    by (simp add: tool_arms_def native_arms_def task_arms_def task_change_arms_def)
  then show ?thesis
    using assms by (simp add: validate_args_def plain_arm_def required_def get_str_def make_url_def)
qed

definition wit_any_url :: ext where
  "wit_any_url = wit_ext\<lparr>url_parse := (\<lambda>s. Inr \<lparr>u_scheme = ''https'', u_host = Some ''tools.greenhatsec.com'',
     u_port = None, u_text = s, u_query = None\<rparr>)\<rparr>"

theorem identifier_copied_verbatim_witness:
  "validate_args wit_any_url (\<lambda>_. None) ''delete_task'' (JObj [(''taskId'', JStr ''../projects/p1'')]) egress_default =
     Ok (HttpRequest ''DELETE'' ''https://tools.greenhatsec.com/api/exponential/tasks/../projects/p1'' None False True)"
  using identifier_copied_verbatim [of wit_any_url "\<lambda>_. None" "''../projects/p1''"
      "\<lparr>u_scheme = ''https'', u_host = Some ''tools.greenhatsec.com'', u_port = None,
        u_text = ''https://tools.greenhatsec.com/api/exponential/tasks/../projects/p1'', u_query = None\<rparr>" egress_default]
  by (simp add: wit_any_url_def exponential_base_url_def)

end
