(* ===== verification/Tool_Router.thy ===== *)
theory Tool_Router
  imports Tool_Args Rbac
begin

text \<open>
  The tool runtime of \<^verbatim>\<open>tool_router.rs\<close>: the runtime configuration, the dispatch
  of a validated call, and \<^verbatim>\<open>ToolRouter::execute\<close> as the steps that calls in
  flight take against the queue, the global and the per-tool semaphore.
\<close>

section \<open>Envelopes\<close>

record tool_request =
  tr_tool :: string
  tr_params :: json

record tool_result =
  tres_success :: bool
  tres_status :: "nat option"
  tres_data :: string

text \<open>The cancellation token of the context is the environment's choice of a step.\<close>

record tool_audit_ctx =
  ctx_request_id :: string
  ctx_source_ip :: string
  ctx_user_agent :: "string option"
  ctx_actor :: "actor option"
  ctx_upstream_authorization :: "string option"
  ctx_upstream_cookie :: "string option"

section \<open>Runtime configuration\<close>

datatype default_tool_policy = ToolDeny | ToolAllow

record tool_runtime_tool_config =
  tc_enabled :: bool
  tc_timeout_ms :: nat
  tc_max_concurrent :: nat

record tool_runtime_config =
  rc_max_queue :: nat
  rc_queue_timeout_ms :: nat
  rc_max_concurrent_global :: nat
  rc_default_timeout_ms :: nat
  rc_default_max_concurrent :: nat
  rc_default_policy :: default_tool_policy
  rc_tools :: "string \<rightharpoonup> tool_runtime_tool_config"

definition builtins :: tool_runtime_config where
  "builtins = \<lparr>rc_max_queue = 64, rc_queue_timeout_ms = 2000, rc_max_concurrent_global = 32,
     rc_default_timeout_ms = 30000, rc_default_max_concurrent = 8, rc_default_policy = ToolDeny,
     rc_tools = [''http_get'' \<mapsto> \<lparr>tc_enabled = True, tc_timeout_ms = 30000, tc_max_concurrent = 8\<rparr>,
                 ''http_post'' \<mapsto> \<lparr>tc_enabled = True, tc_timeout_ms = 30000, tc_max_concurrent = 4\<rparr>]\<rparr>"

text \<open>\<^verbatim>\<open>usize::saturating_mul\<close>.\<close>

definition saturating_mul :: "nat \<Rightarrow> nat \<Rightarrow> nat" where
  "saturating_mul a b = min (a * b) (2 ^ 64 - 1)"

definition from_rbac_policy :: "policy \<Rightarrow> tool_runtime_config option" where
  "from_rbac_policy pol = (case p_tools pol of
     None \<Rightarrow> None
   | Some tp \<Rightarrow>
       let mcg = unwrap_or 32 (tp_max_concurrent_global tp)
       in Some \<lparr>rc_max_queue = max 8 (saturating_mul mcg 4), rc_queue_timeout_ms = 2000,
            rc_max_concurrent_global = mcg, rc_default_timeout_ms = 30000,
            rc_default_max_concurrent = 8,
            rc_default_policy = (case tp_default_policy tp of DefaultDeny \<Rightarrow> ToolDeny | DefaultAllow \<Rightarrow> ToolAllow),
            rc_tools = (\<lambda>name. map_option (\<lambda>entry. \<lparr>tc_enabled = te_enabled entry,
               tc_timeout_ms = te_timeout_ms entry, tc_max_concurrent = te_max_concurrent entry\<rparr>)
               (tp_allowlist tp name))\<rparr>)"

section \<open>The runtime\<close>

text \<open>The permits left in each semaphore.\<close>

record semaphores =
  sm_queue :: nat
  sm_global :: nat
  sm_tool :: "string \<rightharpoonup> nat"

definition tool_permits :: "tool_runtime_config \<Rightarrow> string \<Rightarrow> nat" where
  "tool_permits cfg tool =
     max 1 (unwrap_or (rc_default_max_concurrent cfg) (map_option tc_max_concurrent (rc_tools cfg tool)))"

definition runtime_new :: "tool_runtime_config \<Rightarrow> semaphores" where
  "runtime_new cfg = \<lparr>sm_queue = rc_max_queue cfg, sm_global = rc_max_concurrent_global cfg,
     sm_tool = map_of (map (\<lambda>tool. (tool, tool_permits cfg tool)) supported_tool_names)\<rparr>"

text \<open>The semaphore of a tool is named by the tool.\<close>

record resolved_tool =
  rs_timeout_ms :: nat
  rs_max_concurrent_tool :: nat
  rs_semaphore :: string

record reject =
  rj_reason :: string
  rj_message :: string
  rj_extra :: json

definition resolve_tool :: "tool_runtime_config \<Rightarrow> string \<Rightarrow> (reject, resolved_tool) result" where
  "resolve_tool cfg tool =
     (if \<not> is_supported_tool tool
      then Err \<lparr>rj_reason = ''tool_not_implemented'', rj_message = ''unknown tool: '' @ tool,
                rj_extra = JObj [(''tool_name'', JStr tool)]\<rparr>
      else case rc_tools cfg tool of
        Some entry \<Rightarrow>
          if \<not> tc_enabled entry
          then Err \<lparr>rj_reason = ''disabled'', rj_message = ''tool '' @ quoted tool @ '' is disabled'',
                    rj_extra = JObj [(''tool_name'', JStr tool),
                      (''max_concurrent_tool'', jnat (tc_max_concurrent entry)),
                      (''timeout_ms'', jnat (tc_timeout_ms entry))]\<rparr>
          else Ok \<lparr>rs_timeout_ms = tc_timeout_ms entry,
                   rs_max_concurrent_tool = tc_max_concurrent entry, rs_semaphore = tool\<rparr>
      | None \<Rightarrow>
          (case rc_default_policy cfg of
             ToolDeny \<Rightarrow> Err \<lparr>rj_reason = ''tool_not_in_allowlist'',
               rj_message = ''tool '' @ quoted tool @ '' not in allowlist'',
               rj_extra = JObj [(''tool_name'', JStr tool)]\<rparr>
           | ToolAllow \<Rightarrow> Ok \<lparr>rs_timeout_ms = rc_default_timeout_ms cfg,
               rs_max_concurrent_tool = rc_default_max_concurrent cfg, rs_semaphore = tool\<rparr>))"

section \<open>Audit events\<close>

text \<open>
  The first argument says whether an audit log is attached.
\<close>

definition emit_start ::
  "bool \<Rightarrow> tool_request \<Rightarrow> tool_audit_ctx \<Rightarrow> string \<Rightarrow> nat \<Rightarrow> nat \<Rightarrow> ('v, 's) world \<Rightarrow> ('v, 's) world" where
  "emit_start audit req ctx args_hash timeout_ms queue_wait_ms w =
     (if audit then emit_event ''tool.invoke_start'' (ctx_request_id ctx) (ctx_source_ip ctx) (ctx_actor ctx)
        (JObj [(''tool_name'', JStr (tr_tool req)), (''args_hash'', JStr args_hash),
               (''timeout_ms'', jnat timeout_ms), (''queue_wait_ms'', jnat queue_wait_ms)])
        (ctx_user_agent ctx) w
      else w)"

definition emit_success ::
  "bool \<Rightarrow> tool_request \<Rightarrow> tool_audit_ctx \<Rightarrow> nat \<Rightarrow> nat \<Rightarrow> ('v, 's) world \<Rightarrow> ('v, 's) world" where
  "emit_success audit req ctx duration_ms output_bytes w =
     (if audit then emit_event ''tool.invoke_success'' (ctx_request_id ctx) (ctx_source_ip ctx) (ctx_actor ctx)
        (JObj [(''tool_name'', JStr (tr_tool req)), (''duration_ms'', jnat duration_ms),
               (''output_bytes'', jnat output_bytes)]) None w
      else w)"

definition emit_failure ::
  "bool \<Rightarrow> tool_request \<Rightarrow> tool_audit_ctx \<Rightarrow> nat \<Rightarrow> string \<Rightarrow> string \<Rightarrow> ('v, 's) world \<Rightarrow> ('v, 's) world" where
  "emit_failure audit req ctx duration_ms kind msg w =
     (if audit then emit_event ''tool.invoke_failure'' (ctx_request_id ctx) (ctx_source_ip ctx) (ctx_actor ctx)
        (JObj [(''tool_name'', JStr (tr_tool req)), (''duration_ms'', jnat duration_ms),
               (''error_kind'', JStr kind), (''error_message'', JStr msg)]) None w
      else w)"

definition rejected_payload :: "tool_request \<Rightarrow> string \<Rightarrow> json option \<Rightarrow> json" where
  "rejected_payload req reason extra =
     (let payload = JObj [(''tool_name'', JStr (tr_tool req)), (''reason'', JStr reason)]
      in case extra of
           None \<Rightarrow> payload
         | Some e \<Rightarrow> (case as_object e of
             Some ms \<Rightarrow> fold (\<lambda>(k, v). jset k v) ms payload
           | None \<Rightarrow> jset ''extra'' e payload))"

definition emit_rejected ::
  "bool \<Rightarrow> tool_request \<Rightarrow> tool_audit_ctx \<Rightarrow> string \<Rightarrow> json option \<Rightarrow> ('v, 's) world \<Rightarrow> ('v, 's) world" where
  "emit_rejected audit req ctx reason extra w =
     (if audit then emit_event ''tool.invoke_rejected'' (ctx_request_id ctx) (ctx_source_ip ctx) (ctx_actor ctx)
        (rejected_payload req reason extra) None w
      else w)"

definition emit_egress_blocked_from_error ::
  "ext \<Rightarrow> bool \<Rightarrow> tool_request \<Rightarrow> tool_audit_ctx \<Rightarrow> egress_error \<Rightarrow> ('v, 's) world \<Rightarrow> ('v, 's) world" where
  "emit_egress_blocked_from_error X audit req ctx e w =
     (if audit then
        let (target_host, target_port) =
          unwrap_or (''unknown'', 0)
            (map_option (\<lambda>u. (unwrap_or ''unknown'' (u_host u), unwrap_or 443 (u_port u)))
               (Option.bind (get_str ''url'' (tr_params req)) (\<lambda>t. result_ok (url_parse X t))))
        in emit_event ''gateway.egress_blocked'' (ctx_request_id ctx) (ctx_source_ip ctx) (ctx_actor ctx)
          (JObj [(''tool_name'', JStr (tr_tool req)), (''target_host'', JStr target_host),
                 (''target_port'', jnat target_port), (''reason'', JStr (egress_display e))]) None w
      else w)"

definition classify_egress_error :: "egress_error \<Rightarrow> string \<times> string" where
  "classify_egress_error e = (case e of
     HostNotAllowed _ \<Rightarrow> (''egress_blocked'', egress_display e)
   | PrivateIpBlocked _ \<Rightarrow> (''egress_blocked'', egress_display e)
   | RequestBodyTooLarge _ _ \<Rightarrow> (''validation_error'', egress_display e)
   | InvalidUrl _ \<Rightarrow> (''validation_error'', egress_display e)
   | HttpError inner \<Rightarrow> if he_timeout inner then (''timeout'', egress_display e) else (''runtime_error'', egress_display e)
   | _ \<Rightarrow> (''runtime_error'', egress_display e))"

section \<open>Dispatch\<close>

record tool_ok =
  to_status :: "nat option"
  to_data :: string

text \<open>
  What a dispatched tool reaches: the resolver and the HTTP client of the egress
  firewall, the REST client that dispatch makes for itself (URL and service key;
  a status and a body that may fail to arrive) and the audit log file.
\<close>

type_synonym rest_reply = "nat \<times> (http_error, string) result"

record tool_net =
  tn_dns :: resolver
  tn_send :: sender
  tn_rest :: "string \<Rightarrow> string \<Rightarrow> (http_error, rest_reply) result"
  tn_file :: "string \<Rightarrow> (string, string) result"

definition is_success :: "nat \<Rightarrow> bool" where
  "is_success n = (200 \<le> n \<and> n < 300)"

definition text_or_default :: "(http_error, string) result \<Rightarrow> string" where
  "text_or_default t = unwrap_or [] (result_ok t)"

definition egress_ok :: "ext \<Rightarrow> egress_response \<Rightarrow> tool_ok" where
  "egress_ok X resp = \<lparr>to_status = Some (er_status resp), to_data = utf8_lossy X (er_body resp)\<rparr>"

definition header_opt :: "ext \<Rightarrow> string \<Rightarrow> string option \<Rightarrow> header_map \<Rightarrow> header_map" where
  "header_opt X n v h = (case Option.bind v (hv_from_str X) of None \<Rightarrow> h | Some x \<Rightarrow> hm_insert n x h)"

definition shim_headers :: "ext \<Rightarrow> tool_audit_ctx \<Rightarrow> header_map" where
  "shim_headers X ctx = header_opt X ''cookie'' (ctx_upstream_cookie ctx)
     (header_opt X ''authorization'' (ctx_upstream_authorization ctx)
        (hm_insert ''x-gateway-internal'' ''1'' no_headers))"

definition supabase_base :: "environment \<Rightarrow> string" where
  "supabase_base env = trim_end_matches (CHR ''/'')
     (trim (unwrap_or [] (opt_or (env ''SUPABASE_URL'') (env ''NEXT_PUBLIC_SUPABASE_URL''))))"

definition supabase_key :: "environment \<Rightarrow> string" where
  "supabase_key env = trim (unwrap_or [] (env ''SUPABASE_SERVICE_ROLE_KEY''))"

definition rest_url :: "ext \<Rightarrow> environment \<Rightarrow> string \<Rightarrow> (string \<times> string) list \<Rightarrow> (egress_error, string) result" where
  "rest_url X env table pairs =
     try_result (map_err InvalidUrl (url_parse X (supabase_base env @ ''/rest/v1/'' @ table))) (\<lambda>u.
       Ok (url_string X (fold (\<lambda>(k, v). append_pair k v) pairs (query_pairs_mut u))))"

definition rest_get ::
  "ext \<Rightarrow> environment \<Rightarrow> tool_net \<Rightarrow> string \<Rightarrow> (string \<times> string) list \<Rightarrow> (egress_error, rest_reply) result" where
  "rest_get X env net table pairs =
     try_result (rest_url X env table pairs) (\<lambda>url. map_err HttpError (tn_rest net url (supabase_key env)))"

definition json_error :: "ext \<Rightarrow> nat \<Rightarrow> string \<Rightarrow> tool_ok" where
  "json_error X status msg = \<lparr>to_status = Some status, to_data = json_to_string X (JObj [(''error'', JStr msg)])\<rparr>"

text \<open>\<^verbatim>\<open>serde_json::from_str::<Value>(&text)\<close> with an empty array, or rows, as the default.\<close>

definition json_or_empty :: "ext \<Rightarrow> string \<Rightarrow> json" where
  "json_or_empty X t = (case json_from_str X t of Inl _ \<Rightarrow> JArr [] | Inr v \<Rightarrow> v)"

definition rows_or_empty :: "ext \<Rightarrow> string \<Rightarrow> json list" where
  "rows_or_empty X t = (case json_from_str X t of Inr (JArr vs) \<Rightarrow> vs | _ \<Rightarrow> [])"

text \<open>\<^verbatim>\<open>resp.json().await?\<close>: a body that does not arrive or does not parse is a client error.\<close>

definition reply_json :: "ext \<Rightarrow> (http_error, string) result \<Rightarrow> (egress_error, json) result" where
  "reply_json X body = try_result (map_err HttpError body) (\<lambda>t.
     map_err (\<lambda>e. HttpError \<lparr>he_timeout = False, he_text = e\<rparr>) (json_from_str X t))"

definition member_table :: "string \<Rightarrow> string" where
  "member_table res = (if res = ''project'' then ''project_members'' else ''team_members'')"

definition member_fk :: "string \<Rightarrow> string" where
  "member_fk res = (if res = ''project'' then ''project_id'' else ''team_id'')"

definition actor_user_id :: "tool_audit_ctx \<Rightarrow> string" where
  "actor_user_id ctx = unwrap_or [] (map_option a_user_id (ctx_actor ctx))"

definition actor_is_admin :: "tool_audit_ctx \<Rightarrow> bool" where
  "actor_is_admin ctx = unwrap_or False
     (map_option (\<lambda>r. list_ex (\<lambda>x. x = ''admin'') r) (Option.bind (ctx_actor ctx) a_roles))"

text \<open>The membership gate: \<open>None\<close> lets the listing go on.\<close>

definition member_gate ::
  "ext \<Rightarrow> environment \<Rightarrow> tool_net \<Rightarrow> string \<Rightarrow> string \<Rightarrow> tool_audit_ctx \<Rightarrow> (egress_error, tool_ok option) result" where
  "member_gate X env net res i ctx =
     (if actor_is_admin ctx then Ok None
      else if actor_user_id ctx = [] then Ok (Some (json_error X 401 ''Unauthorized''))
      else try_result (rest_get X env net (member_table res)
             [(''select'', ''id''), (member_fk res, ''eq.'' @ i), (''user_id'', ''eq.'' @ actor_user_id ctx),
              (''limit'', ''1'')]) (\<lambda>(status, body).
           if \<not> is_success status
           then Ok (Some \<lparr>to_status = Some status, to_data = text_or_default body\<rparr>)
           else try_result (reply_json X body) (\<lambda>rows.
             if unwrap_or False (map_option (\<lambda>a. a \<noteq> []) (as_array rows)) then Ok None
             else Ok (Some (json_error X 403
               (if res = ''project'' then ''You are not a member of this project''
                else ''You are not a member of this team''))))))"

definition members_fallback_path :: "string \<Rightarrow> string \<Rightarrow> string" where
  "members_fallback_path res i =
     (if res = ''project'' then ''/api/exponential/projects/'' @ i @ ''/members''
      else ''/api/exponential/teams/'' @ i @ ''/members'')"

definition members_fallback ::
  "ext \<Rightarrow> environment \<Rightarrow> egress_config \<Rightarrow> tool_net \<Rightarrow> string \<Rightarrow> string \<Rightarrow> tool_audit_ctx
     \<Rightarrow> (egress_error, tool_ok) result" where
  "members_fallback X env cfg net res i ctx =
     try_result (request_with_headers X (tn_dns net) (tn_send net) cfg ''GET''
         (exponential_base_url env @ members_fallback_path res i) None (Some (shim_headers X ctx)))
       (\<lambda>resp. Ok (egress_ok X resp))"

definition dispatch_members ::
  "ext \<Rightarrow> environment \<Rightarrow> egress_config \<Rightarrow> tool_net \<Rightarrow> string \<Rightarrow> string \<Rightarrow> tool_audit_ctx
     \<Rightarrow> (egress_error, tool_ok) result" where
  "dispatch_members X env cfg net res i ctx =
     (if supabase_base env = [] \<or> supabase_key env = [] then members_fallback X env cfg net res i ctx
      else
        try_result (member_gate X env net res i ctx) (\<lambda>gate. case gate of
          Some answer \<Rightarrow> Ok answer
        | None \<Rightarrow>
            try_result (rest_get X env net (member_table res)
              [(''select'', ''*,user:users(id,first_name,last_name,email,avatar_url)''),
               (member_fk res, ''eq.'' @ i), (''order'', ''created_at.asc'')]) (\<lambda>(status, body).
              let text = text_or_default body
              in if \<not> is_success status then Ok \<lparr>to_status = Some status, to_data = text\<rparr>
                 else Ok \<lparr>to_status = Some 200,
                          to_data = json_to_string X (JObj [(''members'', json_or_empty X text)])\<rparr>)))"

definition dispatch_list ::
  "ext \<Rightarrow> environment \<Rightarrow> tool_net \<Rightarrow> string \<Rightarrow> (string \<times> string) list \<Rightarrow> (egress_error, tool_ok) result" where
  "dispatch_list X env net table pairs =
     try_result (rest_get X env net table pairs) (\<lambda>(status, body).
       let text = text_or_default body
       in if \<not> is_success status then Ok \<lparr>to_status = Some status, to_data = text\<rparr>
          else Ok \<lparr>to_status = Some 200, to_data = json_to_string X (JObj [(table, json_or_empty X text)])\<rparr>)"

definition OVERVIEW_ORG_ID :: string where
  "OVERVIEW_ORG_ID = ''cd861b76-f85c-4afc-b3e8-8f85945c3132''"

text \<open>The role of a user among the member rows: that of the first row of the user.\<close>

definition user_role_of :: "string \<Rightarrow> json \<Rightarrow> string" where
  "user_role_of uid members =
     (case as_array members of
        None \<Rightarrow> ''viewer''
      | Some arr \<Rightarrow> (case find (\<lambda>m. get_str ''user_id'' m = Some uid) arr of
          None \<Rightarrow> ''viewer''
        | Some m \<Rightarrow> unwrap_or ''viewer'' (get_str ''role'' m)))"

definition project_permissions :: "string \<Rightarrow> json" where
  "project_permissions user_role =
     (let can_manage = (user_role = ''lead''); can_contrib = (user_role = ''lead'' \<or> user_role = ''contributor'')
      in JObj [(''can_manage'', JBool can_manage), (''can_create_tasks'', JBool can_contrib),
               (''can_edit_tasks'', JBool can_contrib), (''can_manage_members'', JBool can_manage)])"

definition overview_project ::
  "ext \<Rightarrow> environment \<Rightarrow> tool_net \<Rightarrow> string \<Rightarrow> tool_audit_ctx \<Rightarrow> (egress_error, tool_ok) result" where
  "overview_project X env net pid ctx =
     try_result (rest_get X env net ''projects''
         [(''select'', ''*,team:teams(id,name,slug,color)''), (''id'', ''eq.'' @ pid), (''limit'', ''1'')]) (\<lambda>(pstatus, pbody).
       if \<not> is_success pstatus then Ok \<lparr>to_status = Some pstatus, to_data = text_or_default pbody\<rparr>
       else case rows_or_empty X (text_or_default pbody) of
         [] \<Rightarrow> Ok (json_error X 404 ''Project not found'')
       | project # _ \<Rightarrow>
           try_result (rest_get X env net ''sprints''
               [(''select'', ''*''), (''project_id'', ''eq.'' @ pid), (''order'', ''number.asc'')]) (\<lambda>(_, sbody).
           try_result (rest_get X env net ''project_members''
               [(''select'', ''*,user:users(id,first_name,last_name,email,avatar_url)''),
                (''project_id'', ''eq.'' @ pid)]) (\<lambda>(_, mbody).
             let sprints = json_or_empty X (text_or_default sbody);
                 members = json_or_empty X (text_or_default mbody);
                 user_role = user_role_of (actor_user_id ctx) members
             in Ok \<lparr>to_status = Some 200, to_data = json_to_string X (JObj
                  [(''project'', project), (''tasks'', JArr []), (''sprints'', sprints),
                   (''members'', members), (''user_role'', JStr user_role),
                   (''permissions'', project_permissions user_role)])\<rparr>)))"

definition overview_team ::
  "ext \<Rightarrow> environment \<Rightarrow> tool_net \<Rightarrow> string \<Rightarrow> (egress_error, tool_ok) result" where
  "overview_team X env net tid =
     try_result (rest_get X env net ''teams''
         [(''select'', ''*''), (''id'', ''eq.'' @ tid), (''limit'', ''1'')]) (\<lambda>(tstatus, tbody).
       if \<not> is_success tstatus then Ok \<lparr>to_status = Some tstatus, to_data = text_or_default tbody\<rparr>
       else case rows_or_empty X (text_or_default tbody) of
         [] \<Rightarrow> Ok (json_error X 404 ''Team not found'')
       | team # _ \<Rightarrow>
           try_result (rest_get X env net ''projects''
               [(''select'', ''*''), (''team_id'', ''eq.'' @ tid), (''order'', ''name.asc'')]) (\<lambda>(_, pbody).
             Ok \<lparr>to_status = Some 200, to_data = json_to_string X (JObj
                  [(''team'', team), (''projects'', json_or_empty X (text_or_default pbody))])\<rparr>))"

definition overview_list_projects ::
  "ext \<Rightarrow> environment \<Rightarrow> tool_net \<Rightarrow> string option \<Rightarrow> bool \<Rightarrow> (egress_error, tool_ok) result" where
  "overview_list_projects X env net team_id include_archived =
     dispatch_list X env net ''projects''
       ([(''select'', ''*,team:teams(id,name,slug,color)''), (''org_id'', ''eq.'' @ OVERVIEW_ORG_ID),
         (''order'', ''name.asc'')]
        @ (if include_archived then [] else [(''archived_at'', ''is.null'')])
        @ (case team_id of None \<Rightarrow> [] | Some tid \<Rightarrow> [(''team_id'', ''eq.'' @ tid)]))"

definition overview_list_teams :: "ext \<Rightarrow> environment \<Rightarrow> tool_net \<Rightarrow> (egress_error, tool_ok) result" where
  "overview_list_teams X env net =
     dispatch_list X env net ''teams''
       [(''select'', ''*''), (''org_id'', ''eq.'' @ OVERVIEW_ORG_ID), (''order'', ''name.asc'')]"

definition dispatch_overview ::
  "ext \<Rightarrow> environment \<Rightarrow> tool_net \<Rightarrow> string \<Rightarrow> string option \<Rightarrow> string option \<Rightarrow> bool \<Rightarrow> tool_audit_ctx
     \<Rightarrow> (egress_error, tool_ok) result" where
  "dispatch_overview X env net kind i team_id include_archived ctx =
     (if supabase_base env = [] \<or> supabase_key env = []
      then Ok (json_error X 500 ''Supabase env not configured in gateway'')
      else if kind = ''list_projects'' then overview_list_projects X env net team_id include_archived
      else if kind = ''get_project'' then overview_project X env net (unwrap_or [] i) ctx
      else if kind = ''list_teams'' then overview_list_teams X env net
      else if kind = ''get_team'' then overview_team X env net (unwrap_or [] i)
      else Ok (json_error X 400 ''unsupported overview kind''))"

text \<open>
  \<^verbatim>\<open>str::lines\<close>: a line ends at a line feed, with a carriage return before it; a
  last line without one is kept as it is.
\<close>

definition strip_cr :: "string \<Rightarrow> string" where
  "strip_cr l = (if l \<noteq> [] \<and> last l = CHR 0x0D then butlast l else l)"

definition str_lines :: "string \<Rightarrow> string list" where
  "str_lines s = (let ps = split_on (CHR 0x0A) s
     in map strip_cr (butlast ps) @ (if last ps = [] then [] else [last ps]))"

definition dispatch_audit_logs :: "environment \<Rightarrow> tool_net \<Rightarrow> tool_ok" where
  "dispatch_audit_logs env net =
     (let path = trim (unwrap_or [] (env ''AUDIT_LOG_FILE''))
      in if path = []
         then \<lparr>to_status = None, to_data = ''AUDIT_LOG_FILE not set; audit log query not available''\<rparr>
         else case tn_file net path of
           Inl e \<Rightarrow> \<lparr>to_status = None, to_data = ''failed to read audit log file: '' @ e\<rparr>
         | Inr text \<Rightarrow>
             let lines = str_lines text;
                 tail = (if 50 < length lines then drop (length lines - 50) lines else lines)
             in \<lparr>to_status = None, to_data = str_join [CHR 0x0A] tail\<rparr>)"

definition dispatch_permission :: "ext \<Rightarrow> string \<Rightarrow> string \<Rightarrow> string \<Rightarrow> tool_ok" where
  "dispatch_permission X res i action =
     \<lparr>to_status = Some 200, to_data = json_to_string X (JObj [(''hasPermission'', JBool True),
        (''action'', JStr action), (res @ ''Id'', JStr i)])\<rparr>"

definition dispatch ::
  "ext \<Rightarrow> environment \<Rightarrow> egress_config \<Rightarrow> tool_net \<Rightarrow> validated_args \<Rightarrow> tool_audit_ctx
     \<Rightarrow> (egress_error, tool_ok) result" where
  "dispatch X env cfg net args ctx = (case args of
     HttpGet url \<Rightarrow>
       try_result (egress_request X (tn_dns net) (tn_send net) cfg ''GET'' url None) (\<lambda>resp. Ok (egress_ok X resp))
   | HttpPost url body \<Rightarrow>
       try_result (egress_request X (tn_dns net) (tn_send net) cfg ''POST'' url body) (\<lambda>resp. Ok (egress_ok X resp))
   | HttpRequest method url body content_type_json _ \<Rightarrow>
       let headers = (if content_type_json then hm_insert ''content-type'' ''application/json'' (shim_headers X ctx)
                      else shim_headers X ctx)
       in try_result (request_with_headers X (tn_dns net) (tn_send net) cfg method url body (Some headers))
            (\<lambda>resp. Ok (egress_ok X resp))
   | ExponentialMembers res i \<Rightarrow> dispatch_members X env cfg net res i ctx
   | ExponentialOverview kind i team_id include_archived \<Rightarrow>
       dispatch_overview X env net kind i team_id include_archived ctx
   | PermissionCheck res i action \<Rightarrow>
       Ok (dispatch_permission X res i action)
   | GetAuditLogs \<Rightarrow> Ok (dispatch_audit_logs env net))"

section \<open>Executing a call\<close>

record tool_router =
  tx_ext :: ext
  tx_env :: environment
  tx_egress :: egress_config
  tx_net :: tool_net
  tx_cfg :: tool_runtime_config
  tx_audit :: bool

text \<open>
  A call in flight waits for the global permit, then for that of its tool, then
  runs. \<open>cl_since\<close> is the time it was admitted and, once it runs, the time it
  started.
\<close>

datatype phase = WaitGlobal | WaitTool | Running

record tool_call =
  cl_req :: tool_request
  cl_ctx :: tool_audit_ctx
  cl_resolved :: resolved_tool
  cl_args :: validated_args
  cl_since :: nat
  cl_phase :: phase

definition failed :: "string \<Rightarrow> tool_result" where
  "failed msg = \<lparr>tres_success = False, tres_status = None, tres_data = msg\<rparr>"

definition elapsed_ms :: "nat \<Rightarrow> ('v, 's) world \<Rightarrow> nat" where
  "elapsed_ms since w = (w_now w - since) div 1000000 mod 2 ^ 64"

definition needs_bearer :: "validated_args \<Rightarrow> bool" where
  "needs_bearer args = (case args of HttpRequest _ _ _ _ rb \<Rightarrow> rb | _ \<Rightarrow> False)"

definition no_upstream_credential :: "tool_audit_ctx \<Rightarrow> bool" where
  "no_upstream_credential ctx \<longleftrightarrow> ctx_upstream_authorization ctx = None \<and> ctx_upstream_cookie ctx = None"

definition bearer_from :: "string \<Rightarrow> tool_audit_ctx \<Rightarrow> tool_audit_ctx" where
  "bearer_from tok ctx = (let t = trim tok in
     if t \<noteq> [] then ctx\<lparr>ctx_upstream_authorization := Some (''Bearer '' @ t)\<rparr> else ctx)"

definition fallback_bearer :: "environment \<Rightarrow> tool_audit_ctx \<Rightarrow> tool_audit_ctx" where
  "fallback_bearer env ctx =
     (if no_upstream_credential ctx then
        (case env ''EXPONENTIAL_UPSTREAM_BEARER'' of
           Some tok \<Rightarrow> bearer_from tok ctx
         | None \<Rightarrow> (case env ''SUPABASE_SERVICE_ROLE_KEY'' of
             Some tok \<Rightarrow> bearer_from tok ctx
           | None \<Rightarrow> ctx))
      else ctx)"

text \<open>
  Steps 1 to 2.5 of \<^verbatim>\<open>execute\<close>: resolve the tool, validate the arguments, find a
  credential to forward. The context returned is the one the call goes on with.
\<close>

definition admit ::
  "tool_router \<Rightarrow> tool_request \<Rightarrow> tool_audit_ctx \<Rightarrow> ('v, 's) world
     \<Rightarrow> (tool_result, resolved_tool \<times> validated_args \<times> tool_audit_ctx) result \<times> ('v, 's) world" where
  "admit R req ctx w =
     (case resolve_tool (tx_cfg R) (tr_tool req) of
        Inl rj \<Rightarrow> (Err (failed (rj_message rj)),
                  emit_rejected (tx_audit R) req ctx (rj_reason rj) (Some (rj_extra rj)) w)
      | Inr resolved \<Rightarrow>
          (case validate_args (tx_ext R) (tx_env R) (tr_tool req) (tr_params req) (tx_egress R) of
             Inl msg \<Rightarrow> (Err (failed msg),
               emit_rejected (tx_audit R) req ctx ''args_validation_failed'' (Some (JObj [(''detail'', JStr msg)])) w)
           | Inr args \<Rightarrow>
               if needs_bearer args then
                 let ctx' = fallback_bearer (tx_env R) ctx
                 in if no_upstream_credential ctx' then
                      (Err (failed ''missing Authorization bearer token for upstream''),
                       emit_rejected (tx_audit R) req ctx' ''missing_upstream_bearer'' (Some (JObj [(''detail'',
                         JStr ''Authorization: Bearer <token> (or a forwarded session Cookie) required for upstream shim'')])) w)
                    else (Ok (resolved, args, ctx'), w)
               else (Ok (resolved, args, ctx), w)))"

text \<open>How a run ended, and what \<^verbatim>\<open>execute\<close> makes of it once the permits are dropped.\<close>

datatype outcome = OutOk tool_ok | OutTimeout | OutCancelled | OutEgressErr egress_error

definition conclude ::
  "tool_router \<Rightarrow> tool_call \<Rightarrow> outcome \<Rightarrow> ('v, 's) world \<Rightarrow> tool_result \<times> ('v, 's) world" where
  "conclude R c out w =
     (let req = cl_req c; ctx = cl_ctx c; duration_ms = elapsed_ms (cl_since c) w
      in case out of
           OutOk ok \<Rightarrow>
             (\<lparr>tres_success = True, tres_status = to_status ok, tres_data = to_data ok\<rparr>,
              emit_success (tx_audit R) req ctx duration_ms (length (to_data ok)) w)
         | OutTimeout \<Rightarrow>
             (failed ''tool timeout'', emit_failure (tx_audit R) req ctx duration_ms ''timeout'' ''tool timeout'' w)
         | OutCancelled \<Rightarrow>
             (failed ''cancelled'', emit_failure (tx_audit R) req ctx duration_ms ''cancelled'' ''cancelled'' w)
         | OutEgressErr e \<Rightarrow>
             let (kind, msg) = classify_egress_error e;
                 w' = (if kind = ''egress_blocked''
                       then emit_egress_blocked_from_error (tx_ext R) (tx_audit R) req ctx e w else w)
             in (failed msg, emit_failure (tx_audit R) req ctx duration_ms kind msg w'))"

definition dispatch_outcome :: "tool_router \<Rightarrow> tool_call \<Rightarrow> outcome" where
  "dispatch_outcome R c =
     (case dispatch (tx_ext R) (tx_env R) (tx_egress R) (tx_net R) (cl_args c) (cl_ctx c) of
        Inr ok \<Rightarrow> OutOk ok | Inl e \<Rightarrow> OutEgressErr e)"

section \<open>Calls in flight\<close>

record ('v, 's) router_state =
  ro_sem :: semaphores
  ro_calls :: "tool_call list"
  ro_done :: "(tool_request \<times> tool_result) list"
  ro_world :: "('v, 's) world"

definition router_init :: "tool_router \<Rightarrow> ('v, 's) world \<Rightarrow> ('v, 's) router_state" where
  "router_init R w = \<lparr>ro_sem = runtime_new (tx_cfg R), ro_calls = [], ro_done = [], ro_world = w\<rparr>"

definition finish_with :: "tool_request \<Rightarrow> tool_result \<Rightarrow> ('v, 's) world \<Rightarrow> ('v, 's) router_state \<Rightarrow> ('v, 's) router_state" where
  "finish_with req res w st = st\<lparr>ro_done := ro_done st @ [(req, res)], ro_world := w\<rparr>"

text \<open>
  Admission up to the bounded queue: everything before the first \<^verbatim>\<open>await\<close>.
\<close>

definition submit ::
  "tool_router \<Rightarrow> tool_request \<Rightarrow> tool_audit_ctx \<Rightarrow> ('v, 's) router_state \<Rightarrow> ('v, 's) router_state" where
  "submit R req ctx st =
     (case admit R req ctx (ro_world st) of
        (Inl res, w) \<Rightarrow> finish_with req res w st
      | (Inr (resolved, args, ctx'), w) \<Rightarrow>
          if sm_queue (ro_sem st) = 0 then
            finish_with req (failed ''tool queue full; backpressure applied'')
              (emit_rejected (tx_audit R) req ctx' ''queue_full'' (Some (JObj
                 [(''max_queue'', jnat (rc_max_queue (tx_cfg R))),
                  (''max_concurrent_global'', jnat (rc_max_concurrent_global (tx_cfg R))),
                  (''max_concurrent_tool'', jnat (rs_max_concurrent_tool resolved))])) w) st
          else st\<lparr>ro_sem := (ro_sem st)\<lparr>sm_queue := sm_queue (ro_sem st) - 1\<rparr>,
                  ro_calls := ro_calls st @ [\<lparr>cl_req = req, cl_ctx = ctx', cl_resolved = resolved,
                     cl_args = args, cl_since = w_now w, cl_phase = WaitGlobal\<rparr>],
                  ro_world := w\<rparr>)"

text \<open>Dropping the permits a call holds in its phase.\<close>

definition add_permit :: "string \<Rightarrow> (string \<rightharpoonup> nat) \<Rightarrow> (string \<rightharpoonup> nat)" where
  "add_permit t m = m(t := map_option Suc (m t))"

definition take_permit :: "string \<Rightarrow> (string \<rightharpoonup> nat) \<Rightarrow> (string \<rightharpoonup> nat)" where
  "take_permit t m = m(t := map_option (\<lambda>n. n - 1) (m t))"

definition release :: "tool_call \<Rightarrow> semaphores \<Rightarrow> semaphores" where
  "release c s =
     \<lparr>sm_queue = Suc (sm_queue s),
      sm_global = (if cl_phase c = WaitGlobal then sm_global s else Suc (sm_global s)),
      sm_tool = (if cl_phase c = Running then add_permit (rs_semaphore (cl_resolved c)) (sm_tool s)
                 else sm_tool s)\<rparr>"

definition acquire_global :: "tool_call list \<Rightarrow> tool_call \<Rightarrow> tool_call list \<Rightarrow> ('v, 's) router_state \<Rightarrow> ('v, 's) router_state" where
  "acquire_global as c bs st =
     st\<lparr>ro_sem := (ro_sem st)\<lparr>sm_global := sm_global (ro_sem st) - 1\<rparr>,
        ro_calls := as @ c\<lparr>cl_phase := WaitTool\<rparr> # bs\<rparr>"

definition start_tool ::
  "tool_router \<Rightarrow> tool_call list \<Rightarrow> tool_call \<Rightarrow> tool_call list \<Rightarrow> ('v, 's) router_state \<Rightarrow> ('v, 's) router_state" where
  "start_tool R as c bs st =
     (let w = ro_world st
      in st\<lparr>ro_sem := (ro_sem st)\<lparr>sm_tool := take_permit (rs_semaphore (cl_resolved c)) (sm_tool (ro_sem st))\<rparr>,
            ro_calls := as @ c\<lparr>cl_phase := Running, cl_since := w_now w\<rparr> # bs,
            ro_world := emit_start (tx_audit R) (cl_req c) (cl_ctx c) (hash_args (tx_ext R) (tr_params (cl_req c)))
              (rs_timeout_ms (cl_resolved c)) (elapsed_ms (cl_since c) w) w\<rparr>)"

definition leave ::
  "tool_call list \<Rightarrow> tool_call \<Rightarrow> tool_call list \<Rightarrow> tool_result \<Rightarrow> ('v, 's) world
     \<Rightarrow> ('v, 's) router_state \<Rightarrow> ('v, 's) router_state" where
  "leave as c bs res w st =
     finish_with (cl_req c) res w (st\<lparr>ro_sem := release c (ro_sem st), ro_calls := as @ bs\<rparr>)"

definition cancel_wait ::
  "tool_router \<Rightarrow> tool_call list \<Rightarrow> tool_call \<Rightarrow> tool_call list \<Rightarrow> ('v, 's) router_state \<Rightarrow> ('v, 's) router_state" where
  "cancel_wait R as c bs st =
     leave as c bs (failed ''cancelled'')
       (emit_rejected (tx_audit R) (cl_req c) (cl_ctx c) ''cancelled''
          (Some (JObj [(''phase'', JStr ''waiting_for_permits'')])) (ro_world st)) st"

definition queue_timeout ::
  "tool_router \<Rightarrow> tool_call list \<Rightarrow> tool_call \<Rightarrow> tool_call list \<Rightarrow> ('v, 's) router_state \<Rightarrow> ('v, 's) router_state" where
  "queue_timeout R as c bs st =
     leave as c bs (failed ''timed out waiting for tool execution permits'')
       (emit_rejected (tx_audit R) (cl_req c) (cl_ctx c) ''queue_timeout'' (Some (JObj
          [(''queue_timeout_ms'', jnat (rc_queue_timeout_ms (tx_cfg R))),
           (''queue_wait_ms'', jnat (elapsed_ms (cl_since c) (ro_world st))),
           (''max_concurrent_global'', jnat (rc_max_concurrent_global (tx_cfg R))),
           (''max_concurrent_tool'', jnat (rs_max_concurrent_tool (cl_resolved c)))])) (ro_world st)) st"

definition end_run ::
  "tool_router \<Rightarrow> tool_call list \<Rightarrow> tool_call \<Rightarrow> tool_call list \<Rightarrow> outcome \<Rightarrow> ('v, 's) router_state \<Rightarrow> ('v, 's) router_state" where
  "end_run R as c bs out st =
     (case conclude R c out (ro_world st) of (res, w) \<Rightarrow> leave as c bs res w st)"

definition deadline_passed :: "tool_call \<Rightarrow> nat \<Rightarrow> ('v, 's) world \<Rightarrow> bool" where
  "deadline_passed c ms w \<longleftrightarrow> cl_since c + ms * 1000000 \<le> w_now w"

text \<open>
  The steps of the calls in flight. Any waiting call may be the next to get a
  free permit, cancellation may come at any time, and a timeout may come once
  its deadline has passed.
\<close>

inductive call_step :: "tool_router \<Rightarrow> ('v, 's) router_state \<Rightarrow> ('v, 's) router_state \<Rightarrow> bool"
  for R :: tool_router where
  AcquireGlobal: "ro_calls st = as @ c # bs \<Longrightarrow> cl_phase c = WaitGlobal \<Longrightarrow> 0 < sm_global (ro_sem st)
    \<Longrightarrow> call_step R st (acquire_global as c bs st)"
| StartTool: "ro_calls st = as @ c # bs \<Longrightarrow> cl_phase c = WaitTool
    \<Longrightarrow> sm_tool (ro_sem st) (rs_semaphore (cl_resolved c)) = Some (Suc n)
    \<Longrightarrow> call_step R st (start_tool R as c bs st)"
| CancelWait: "ro_calls st = as @ c # bs \<Longrightarrow> cl_phase c \<noteq> Running
    \<Longrightarrow> call_step R st (cancel_wait R as c bs st)"
| QueueTimeout: "ro_calls st = as @ c # bs \<Longrightarrow> cl_phase c \<noteq> Running
    \<Longrightarrow> deadline_passed c (rc_queue_timeout_ms (tx_cfg R)) (ro_world st)
    \<Longrightarrow> call_step R st (queue_timeout R as c bs st)"
| Finish: "ro_calls st = as @ c # bs \<Longrightarrow> cl_phase c = Running
    \<Longrightarrow> call_step R st (end_run R as c bs (dispatch_outcome R c) st)"
| ToolTimeout: "ro_calls st = as @ c # bs \<Longrightarrow> cl_phase c = Running
    \<Longrightarrow> deadline_passed c (rs_timeout_ms (cl_resolved c)) (ro_world st)
    \<Longrightarrow> call_step R st (end_run R as c bs OutTimeout st)"
| CancelRun: "ro_calls st = as @ c # bs \<Longrightarrow> cl_phase c = Running
    \<Longrightarrow> call_step R st (end_run R as c bs OutCancelled st)"

text \<open>New calls arrive and time passes; everything else is a step of a call.\<close>

inductive tool_step :: "tool_router \<Rightarrow> ('v, 's) router_state \<Rightarrow> ('v, 's) router_state \<Rightarrow> bool"
  for R :: tool_router where
  Submit: "tool_step R st (submit R req ctx st)"
| Tick: "w_now (ro_world st) \<le> t \<Longrightarrow> tool_step R st (st\<lparr>ro_world := (ro_world st)\<lparr>w_now := t\<rparr>\<rparr>)"
| Call: "call_step R st st' \<Longrightarrow> tool_step R st st'"

inductive tool_reachable :: "tool_router \<Rightarrow> ('v, 's) world \<Rightarrow> ('v, 's) router_state \<Rightarrow> bool"
  for R :: tool_router and w :: "('v, 's) world" where
  Start: "tool_reachable R w (router_init R w)"
| Step: "tool_reachable R w st \<Longrightarrow> tool_step R st st' \<Longrightarrow> tool_reachable R w st'"

end
