(* ===== verification/Tool_Runtime.thy ===== *)
theory Tool_Runtime
  imports Tool_Router
begin

text \<open>
  What the runtime isolation of \<^verbatim>\<open>tool_router.rs\<close> guarantees over every
  interleaving of calls: the permits are conserved, so the limits hold; each
  call ends after a bounded number of steps and leaves a complete audit trail;
  and the semaphores implement the abstract limits.
\<close>

section \<open>Counting permits\<close>

text \<open>
  A counter whose free permits and held permits always add up to its limit. The
  three semaphores of the runtime are such counters.
\<close>

locale permit_counter =
  fixes reach :: "'st \<Rightarrow> bool" and limit :: nat and free held :: "'st \<Rightarrow> nat"
  assumes conserved: "reach st \<Longrightarrow> free st + held st = limit"
begin

lemma held_bounded: "reach st \<Longrightarrow> held st \<le> limit"
  using conserved by fastforce

lemma idle_free: "reach st \<Longrightarrow> held st = 0 \<Longrightarrow> free st = limit"
  using conserved by fastforce

lemma exhausted: "reach st \<Longrightarrow> free st = 0 \<Longrightarrow> held st = limit"
  using conserved by fastforce

end

section \<open>The invariant\<close>

definition holding_global :: "tool_call list \<Rightarrow> nat" where
  "holding_global cs = length (filter (\<lambda>c. cl_phase c \<noteq> WaitGlobal) cs)"

definition running :: "string \<Rightarrow> tool_call list \<Rightarrow> nat" where
  "running t cs = length (filter (\<lambda>c. cl_phase c = Running \<and> rs_semaphore (cl_resolved c) = t) cs)"

text \<open>A call in flight passed the admission checks.\<close>

definition call_admitted :: "tool_router \<Rightarrow> tool_call \<Rightarrow> bool" where
  "call_admitted R c \<longleftrightarrow>
     resolve_tool (tx_cfg R) (tr_tool (cl_req c)) = Ok (cl_resolved c)
     \<and> validate_args (tx_ext R) (tx_env R) (tr_tool (cl_req c)) (tr_params (cl_req c)) (tx_egress R) = Ok (cl_args c)
     \<and> (needs_bearer (cl_args c) \<longrightarrow> \<not> no_upstream_credential (cl_ctx c))"

definition router_inv :: "tool_router \<Rightarrow> ('v, 's) router_state \<Rightarrow> bool" where
  "router_inv R st \<longleftrightarrow>
     sm_queue (ro_sem st) + length (ro_calls st) = rc_max_queue (tx_cfg R)
     \<and> sm_global (ro_sem st) + holding_global (ro_calls st) = rc_max_concurrent_global (tx_cfg R)
     \<and> (\<forall>t\<in>set supported_tool_names. \<exists>n. sm_tool (ro_sem st) t = Some n
          \<and> n + running t (ro_calls st) = tool_permits (tx_cfg R) t)
     \<and> dom (sm_tool (ro_sem st)) = set supported_tool_names
     \<and> (\<forall>c\<in>set (ro_calls st). call_admitted R c)"

lemma holding_global_simps [simp]:
  "holding_global [] = 0"
  "holding_global (c # cs) = (if cl_phase c = WaitGlobal then 0 else 1) + holding_global cs"
  "holding_global (xs @ ys) = holding_global xs + holding_global ys"
  by (simp_all add: holding_global_def)

lemma running_simps [simp]:
  "running t [] = 0"
  "running t (c # cs) =
     (if cl_phase c = Running \<and> rs_semaphore (cl_resolved c) = t then 1 else 0) + running t cs"
  "running t (xs @ ys) = running t xs + running t ys"
  by (simp_all add: running_def)

lemma runtime_new_tool: "t \<in> set supported_tool_names \<Longrightarrow> sm_tool (runtime_new cfg) t = Some (tool_permits cfg t)"
  by (simp add: runtime_new_def map_of_map_restrict)

lemma resolve_tool_Ok:
  assumes "resolve_tool cfg t = Ok r"
  shows "t \<in> set supported_tool_names" "rs_semaphore r = t"
  using assms by (auto simp: resolve_tool_def is_supported_tool_def list_ex_iff
      split: if_splits option.splits default_tool_policy.splits)

lemma admitted_semaphore:
  "call_admitted R c \<Longrightarrow> rs_semaphore (cl_resolved c) \<in> set supported_tool_names"
  using resolve_tool_Ok [of "tx_cfg R" "tr_tool (cl_req c)" "cl_resolved c"] by (simp add: call_admitted_def)

lemma call_admitted_update [simp]:
  "call_admitted R (c\<lparr>cl_phase := p\<rparr>) = call_admitted R c"
  "call_admitted R (c\<lparr>cl_since := t\<rparr>) = call_admitted R c"
  by (simp_all add: call_admitted_def)

lemma router_inv_init: "router_inv R (router_init R w)"
  by (simp add: router_inv_def router_init_def runtime_new_tool) (simp add: runtime_new_def dom_map_of_conv_image_fst image_image)

lemma admit_Ok:
  assumes "admit R req ctx w = (Ok (r, a, ctx'), w')"
  shows "w' = w" "call_admitted R \<lparr>cl_req = req, cl_ctx = ctx', cl_resolved = r, cl_args = a, cl_since = s, cl_phase = p\<rparr>"
  using assms by (auto simp: admit_def call_admitted_def Let_def split: sum.splits if_splits)

lemma finish_with_simps [simp]:
  "ro_sem (finish_with req res w st) = ro_sem st"
  "ro_calls (finish_with req res w st) = ro_calls st"
  "ro_world (finish_with req res w st) = w"
  "ro_done (finish_with req res w st) = ro_done st @ [(req, res)]"
  by (simp_all add: finish_with_def)

lemma router_inv_finish [simp]: "router_inv R (finish_with req res w st) = router_inv R st"
  by (simp add: router_inv_def)

lemma submit_inv:
  assumes "router_inv R st"
  shows "router_inv R (submit R req ctx st)"
proof (cases "admit R req ctx (ro_world st)")
  case (Pair r w)
  show ?thesis
  proof (cases r)
    case (Inl res)
    then show ?thesis using assms Pair by (simp add: submit_def)
  next
    case (Inr x)
    obtain re a ctx' where x: "x = (re, a, ctx')" by (cases x)
    show ?thesis
      using assms admit_Ok(2) [of R req ctx "ro_world st" re a ctx' w "w_now w" WaitGlobal]
      by (simp add: submit_def Pair Inr x) (auto simp: router_inv_def)
  qed
qed

lemma leave_inv:
  assumes "router_inv R st" "ro_calls st = as @ c # bs"
  shows "router_inv R (leave as c bs res w st)"
proof -
  have "call_admitted R c" using assms by (simp add: router_inv_def)
  from admitted_semaphore [OF this] show ?thesis
    using assms by (auto simp: router_inv_def leave_def release_def add_permit_def)
qed

lemma call_step_inv:
  assumes "call_step R st st'" "router_inv R st"
  shows "router_inv R st'"
  using assms
proof (induction rule: call_step.induct)
  case (StartTool st as c bs n)
  then show ?case by (auto simp: router_inv_def start_tool_def take_permit_def Let_def)
next
  case (AcquireGlobal st as c bs)
  then show ?case by (auto simp: router_inv_def acquire_global_def)
qed (simp_all add: cancel_wait_def queue_timeout_def end_run_def leave_inv split_beta)

lemma router_inv_world [simp]: "router_inv R (st\<lparr>ro_world := w\<rparr>) = router_inv R st"
  by (simp add: router_inv_def)

lemma tool_step_inv: "tool_step R st st' \<Longrightarrow> router_inv R st \<Longrightarrow> router_inv R st'"
  by (induction rule: tool_step.induct) (auto simp: submit_inv dest: call_step_inv)

lemma reachable_inv: "tool_reachable R w st \<Longrightarrow> router_inv R st"
  by (induction rule: tool_reachable.induct) (auto simp: router_inv_init dest: tool_step_inv)

section \<open>The three semaphores\<close>

interpretation queue: permit_counter "tool_reachable R w" "rc_max_queue (tx_cfg R)"
  "\<lambda>st. sm_queue (ro_sem st)" "\<lambda>st. length (ro_calls st)" for R w
  by unfold_locales (auto dest!: reachable_inv simp: router_inv_def)

interpretation global: permit_counter "tool_reachable R w" "rc_max_concurrent_global (tx_cfg R)"
  "\<lambda>st. sm_global (ro_sem st)" "\<lambda>st. holding_global (ro_calls st)" for R w
  by unfold_locales (auto dest!: reachable_inv simp: router_inv_def)

interpretation per_tool: permit_counter
  "\<lambda>st. tool_reachable R w st \<and> t \<in> set supported_tool_names" "tool_permits (tx_cfg R) t"
  "\<lambda>st. the (sm_tool (ro_sem st) t)" "\<lambda>st. running t (ro_calls st)" for R w t
  by unfold_locales (metis option.sel reachable_inv router_inv_def)

lemma running_unsupported:
  assumes "tool_reachable R w st" "t \<notin> set supported_tool_names"
  shows "running t (ro_calls st) = 0"
proof -
  have "\<forall>c\<in>set (ro_calls st). rs_semaphore (cl_resolved c) \<noteq> t"
    using reachable_inv [OF assms(1)] assms(2) admitted_semaphore by (fastforce simp: router_inv_def)
  then show ?thesis by (auto simp: running_def filter_empty_conv)
qed

section \<open>Every call ends\<close>

definition weight :: "tool_call \<Rightarrow> nat" where
  "weight c = (case cl_phase c of WaitGlobal \<Rightarrow> 3 | WaitTool \<Rightarrow> 2 | Running \<Rightarrow> 1)"

definition work :: "('v, 's) router_state \<Rightarrow> nat" where
  "work st = sum_list (map weight (ro_calls st))"

lemma weight_pos [simp]: "0 < weight c"
  by (simp add: weight_def split: phase.splits)

lemma leave_simps [simp]:
  "ro_calls (leave as c bs res w st) = as @ bs"
  "ro_sem (leave as c bs res w st) = release c (ro_sem st)"
  "ro_world (leave as c bs res w st) = w"
  "ro_done (leave as c bs res w st) = ro_done st @ [(cl_req c, res)]"
  by (simp_all add: leave_def)

lemmas call_defs = acquire_global_def start_tool_def cancel_wait_def queue_timeout_def end_run_def Let_def

lemma call_step_work: "call_step R st st' \<Longrightarrow> work st' < work st"
  by (induction rule: call_step.induct) (simp_all add: work_def call_defs split_beta weight_def split: phase.splits)

lemma work_bound: "work st \<le> 3 * length (ro_calls st)"
proof -
  have "sum_list (map weight cs) \<le> 3 * length cs" for cs
    by (induction cs) (auto simp: weight_def split: phase.splits)
  then show ?thesis by (simp add: work_def)
qed

lemma call_steps_work: "(call_step R ^^ n) st st' \<Longrightarrow> n + work st' \<le> work st"
proof (induction n arbitrary: st')
  case (Suc n)
  then obtain st1 where "(call_step R ^^ n) st st1" "call_step R st1 st'" by auto
  with Suc.IH [of st1] call_step_work [of R st1 st'] show ?case by simp
qed simp

text \<open>The steps a call takes when its deadline has passed, whatever else happens.\<close>

inductive timeout_step :: "tool_router \<Rightarrow> ('v, 's) router_state \<Rightarrow> ('v, 's) router_state \<Rightarrow> bool"
  for R :: tool_router where
  Waiting: "ro_calls st = as @ c # bs \<Longrightarrow> cl_phase c \<noteq> Running
    \<Longrightarrow> deadline_passed c (rc_queue_timeout_ms (tx_cfg R)) (ro_world st)
    \<Longrightarrow> timeout_step R st (queue_timeout R as c bs st)"
| Dispatched: "ro_calls st = as @ c # bs \<Longrightarrow> cl_phase c = Running
    \<Longrightarrow> deadline_passed c (rs_timeout_ms (cl_resolved c)) (ro_world st)
    \<Longrightarrow> timeout_step R st (end_run R as c bs OutTimeout st)"

lemma timeout_call_step: "timeout_step R st st' \<Longrightarrow> call_step R st st'"
  by (induction rule: timeout_step.induct) (auto intro: call_step.intros)

definition overdue :: "tool_router \<Rightarrow> ('v, 's) world \<Rightarrow> tool_call \<Rightarrow> bool" where
  "overdue R w c = deadline_passed c (if cl_phase c = Running then rs_timeout_ms (cl_resolved c)
     else rc_queue_timeout_ms (tx_cfg R)) w"

lemma now_of_emits [simp]:
  "w_now (emit_rejected a req ctx r x w) = w_now w"
  "w_now (emit_failure a req ctx d k m w) = w_now w"
  by (simp_all add: emit_rejected_def emit_failure_def)

lemma timeouts_drain:
  assumes "\<forall>c\<in>set (ro_calls st). overdue R (ro_world st) c"
  shows "\<exists>st'. (timeout_step R)\<^sup>*\<^sup>* st st' \<and> ro_calls st' = []"
  using assms
proof (induction "length (ro_calls st)" arbitrary: st)
  case (Suc n)
  then obtain c cs where c: "ro_calls st = [] @ c # cs" by (cases "ro_calls st") auto
  with Suc.prems have o: "overdue R (ro_world st) c" by simp
  define st1 where "st1 = (if cl_phase c = Running then end_run R [] c cs OutTimeout st
    else queue_timeout R [] c cs st)"
  have step: "timeout_step R st st1"
    using c o by (auto simp: st1_def overdue_def intro!: timeout_step.intros)
  have cs: "ro_calls st1 = cs" and now: "w_now (ro_world st1) = w_now (ro_world st)"
    by (simp_all add: st1_def end_run_def queue_timeout_def conclude_def Let_def)
  have "\<exists>st'. (timeout_step R)\<^sup>*\<^sup>* st1 st' \<and> ro_calls st' = []"
    using Suc.hyps(2) Suc.prems c cs now
    by (intro Suc.hyps(1)) (auto simp: overdue_def deadline_passed_def)
  with step show ?case by (meson converse_rtranclp_into_rtranclp)
qed auto

lemma drained_permits:
  assumes "router_inv R st" "ro_calls st = []"
  shows "ro_sem st = runtime_new (tx_cfg R)"
proof -
  have "sm_tool (ro_sem st) t = sm_tool (runtime_new (tx_cfg R)) t" for t
  proof (cases "t \<in> set supported_tool_names")
    case True
    then show ?thesis using assms runtime_new_tool [OF True] by (auto simp: router_inv_def)
  next
    case False
    moreover have "dom (sm_tool (runtime_new (tx_cfg R))) = set supported_tool_names"
      using router_inv_init [of R undefined] by (simp add: router_inv_def router_init_def)
    ultimately show ?thesis using assms(1) by (metis domIff router_inv_def)
  qed
  then show ?thesis using assms by (intro semaphores.equality) (auto simp: router_inv_def runtime_new_def)
qed

lemma call_steps_inv: "(call_step R)\<^sup>*\<^sup>* st st' \<Longrightarrow> router_inv R st \<Longrightarrow> router_inv R st'"
  by (induction rule: rtranclp_induct) (auto dest: call_step_inv)

section \<open>The abstract limits\<close>

text \<open>
  What the runtime promises, without semaphores: how many calls are admitted,
  how many hold a slot, and how many run of each tool; each number goes up only
  below its limit.
\<close>

record usage =
  us_admitted :: nat
  us_slots :: nat
  us_running :: "string \<Rightarrow> nat"

inductive usage_step :: "tool_runtime_config \<Rightarrow> usage \<Rightarrow> usage \<Rightarrow> bool" for cfg :: tool_runtime_config where
  Enter: "us_admitted u < rc_max_queue cfg \<Longrightarrow> usage_step cfg u (u\<lparr>us_admitted := Suc (us_admitted u)\<rparr>)"
| Slot: "us_slots u < rc_max_concurrent_global cfg \<Longrightarrow> us_slots u < us_admitted u
    \<Longrightarrow> usage_step cfg u (u\<lparr>us_slots := Suc (us_slots u)\<rparr>)"
| Run: "us_running u t < tool_permits cfg t
    \<Longrightarrow> usage_step cfg u (u\<lparr>us_running := (us_running u)(t := Suc (us_running u t))\<rparr>)"
| LeaveQueue: "us_admitted u = Suc a \<Longrightarrow> usage_step cfg u (u\<lparr>us_admitted := a\<rparr>)"
| LeaveSlot: "us_admitted u = Suc a \<Longrightarrow> us_slots u = Suc s
    \<Longrightarrow> usage_step cfg u (u\<lparr>us_admitted := a, us_slots := s\<rparr>)"
| LeaveRun: "us_admitted u = Suc a \<Longrightarrow> us_slots u = Suc s \<Longrightarrow> us_running u t = Suc r
    \<Longrightarrow> usage_step cfg u (u\<lparr>us_admitted := a, us_slots := s, us_running := (us_running u)(t := r)\<rparr>)"

definition usage_of :: "('v, 's) router_state \<Rightarrow> usage" where
  "usage_of st = \<lparr>us_admitted = length (ro_calls st), us_slots = holding_global (ro_calls st),
     us_running = (\<lambda>t. running t (ro_calls st))\<rparr>"

lemma holding_le: "holding_global cs \<le> length cs"
  by (simp add: holding_global_def)

lemma leave_usage:
  assumes "ro_calls st = as @ c # bs" "ro_calls st' = as @ bs"
  shows "usage_step cfg (usage_of st) (usage_of st')"
proof (cases "cl_phase c")
  case WaitGlobal
  then have eq: "usage_of st' = (usage_of st)\<lparr>us_admitted := length (as @ bs)\<rparr>"
    using assms by (simp add: usage_of_def fun_eq_iff)
  show ?thesis unfolding eq using assms by (intro usage_step.LeaveQueue) (simp add: usage_of_def)
next
  case WaitTool
  then have eq: "usage_of st' = (usage_of st)\<lparr>us_admitted := length (as @ bs), us_slots := holding_global (as @ bs)\<rparr>"
    using assms by (simp add: usage_of_def fun_eq_iff)
  show ?thesis unfolding eq using assms WaitTool by (intro usage_step.LeaveSlot) (simp_all add: usage_of_def)
next
  case Running
  let ?t = "rs_semaphore (cl_resolved c)"
  have eq: "usage_of st' = (usage_of st)\<lparr>us_admitted := length (as @ bs), us_slots := holding_global (as @ bs),
      us_running := (us_running (usage_of st))(?t := running ?t (as @ bs))\<rparr>"
    using assms Running by (auto simp: usage_of_def fun_eq_iff)
  show ?thesis unfolding eq using assms Running by (intro usage_step.LeaveRun) (simp_all add: usage_of_def)
qed

lemma call_step_usage:
  assumes "call_step R st st'" "router_inv R st"
  shows "usage_step (tx_cfg R) (usage_of st) (usage_of st')"
  using assms
proof (induction rule: call_step.induct)
  case (AcquireGlobal st as c bs)
  then have eq: "usage_of (acquire_global as c bs st) = (usage_of st)\<lparr>us_slots := Suc (us_slots (usage_of st))\<rparr>"
    by (simp add: usage_of_def acquire_global_def fun_eq_iff)
  show ?case unfolding eq
    using AcquireGlobal holding_le [of as] holding_le [of bs]
    by (intro usage_step.Slot) (auto simp: router_inv_def usage_of_def)
next
  case (StartTool st as c bs n)
  let ?t = "rs_semaphore (cl_resolved c)"
  have eq: "usage_of (start_tool R as c bs st) =
      (usage_of st)\<lparr>us_running := (us_running (usage_of st))(?t := Suc (us_running (usage_of st) ?t))\<rparr>"
    using StartTool by (simp add: usage_of_def start_tool_def Let_def fun_eq_iff)
  have "?t \<in> set supported_tool_names"
    using StartTool admitted_semaphore [of R c] by (simp add: router_inv_def)
  with StartTool have "running ?t (ro_calls st) < tool_permits (tx_cfg R) ?t"
    by (fastforce simp: router_inv_def)
  then show ?case unfolding eq by (intro usage_step.Run) (simp add: usage_of_def)
qed (auto simp: cancel_wait_def queue_timeout_def end_run_def split_beta intro!: leave_usage)

lemma submit_usage:
  assumes "router_inv R st"
  shows "usage_of (submit R req ctx st) = usage_of st
    \<or> usage_step (tx_cfg R) (usage_of st) (usage_of (submit R req ctx st))"
proof (cases "ro_calls (submit R req ctx st) = ro_calls st")
  case False
  then obtain c where c: "ro_calls (submit R req ctx st) = ro_calls st @ [c]" "cl_phase c = WaitGlobal"
    and q: "sm_queue (ro_sem st) \<noteq> 0"
    by (auto simp: submit_def split_beta split: sum.splits if_splits prod.splits)
  have eq: "usage_of (submit R req ctx st) = (usage_of st)\<lparr>us_admitted := Suc (us_admitted (usage_of st))\<rparr>"
    using c by (simp add: usage_of_def fun_eq_iff)
  have "usage_step (tx_cfg R) (usage_of st) (usage_of (submit R req ctx st))" unfolding eq
    using assms q by (intro usage_step.Enter) (auto simp: router_inv_def usage_of_def)
  then show ?thesis ..
qed (simp add: usage_of_def)

section \<open>The audit trail\<close>

definition events :: "string \<Rightarrow> ('v, 's) world \<Rightarrow> nat" where
  "events ty w = length (filter (\<lambda>e. event_type e = ty) (w_audit w))"

definition running_total :: "tool_call list \<Rightarrow> nat" where
  "running_total cs = length (filter (\<lambda>c. cl_phase c = Running) cs)"

definition audit_balanced :: "('v, 's) router_state \<Rightarrow> bool" where
  "audit_balanced st \<longleftrightarrow>
     events ''tool.invoke_start'' (ro_world st) = running_total (ro_calls st)
       + events ''tool.invoke_success'' (ro_world st) + events ''tool.invoke_failure'' (ro_world st)
     \<and> length (ro_done st) = events ''tool.invoke_rejected'' (ro_world st)
       + events ''tool.invoke_success'' (ro_world st) + events ''tool.invoke_failure'' (ro_world st)"

lemma running_total_simps [simp]:
  "running_total [] = 0"
  "running_total (c # cs) = (if cl_phase c = Running then 1 else 0) + running_total cs"
  "running_total (xs @ ys) = running_total xs + running_total ys"
  by (simp_all add: running_total_def)

lemma events_emit [simp]:
  "events ty (emit_event ty' rid ip act p ua w) = (if ty = ty' then Suc (events ty w) else events ty w)"
  by (simp add: events_def)

lemma events_now [simp]: "events ty (w\<lparr>w_now := t\<rparr>) = events ty w"
  by (simp add: events_def)

lemmas emit_defs = emit_rejected_def emit_start_def emit_success_def emit_failure_def
  emit_egress_blocked_from_error_def

text \<open>A concluded run leaves exactly one closing event and no start or rejection.\<close>

lemma conclude_events:
  assumes "tx_audit R" "conclude R c out w = (res, w')"
  shows "events ''tool.invoke_success'' w' + events ''tool.invoke_failure'' w' =
      Suc (events ''tool.invoke_success'' w + events ''tool.invoke_failure'' w)
    \<and> events ''tool.invoke_start'' w' = events ''tool.invoke_start'' w
    \<and> events ''tool.invoke_rejected'' w' = events ''tool.invoke_rejected'' w"
  using assms by (cases out) (auto simp: conclude_def emit_defs Let_def split_beta split: if_splits)

lemma rejected_events:
  "events ''tool.invoke_rejected'' (emit_rejected True req ctx r x w) = Suc (events ''tool.invoke_rejected'' w)"
  "events ''tool.invoke_start'' (emit_rejected True req ctx r x w) = events ''tool.invoke_start'' w"
  "events ''tool.invoke_success'' (emit_rejected True req ctx r x w) = events ''tool.invoke_success'' w"
  "events ''tool.invoke_failure'' (emit_rejected True req ctx r x w) = events ''tool.invoke_failure'' w"
  by (simp_all add: emit_rejected_def)

lemma admit_rejects:
  assumes "tx_audit R" "admit R req ctx w = (Inl res, w')"
  shows "\<exists>r x ctx'. w' = emit_rejected True req ctx' r x w"
  using assms by (auto simp: admit_def Let_def split: sum.splits if_splits)

lemma submit_balanced:
  assumes "tx_audit R" "audit_balanced st"
  shows "audit_balanced (submit R req ctx st)"
proof (cases "admit R req ctx (ro_world st)")
  case (Pair r w)
  show ?thesis
  proof (cases r)
    case (Inl res)
    then obtain s x ctx' where "w = emit_rejected True req ctx' s x (ro_world st)"
      using admit_rejects assms(1) Pair by blast
    then show ?thesis using assms Pair Inl by (simp add: submit_def audit_balanced_def rejected_events)
  next
    case (Inr y)
    obtain re a ctx' where y: "y = (re, a, ctx')" by (cases y)
    have "w = ro_world st" using admit_Ok(1) Pair Inr y by blast
    then show ?thesis using assms Pair Inr y
      by (simp add: submit_def audit_balanced_def rejected_events)
  qed
qed

lemma end_run_balanced:
  assumes "tx_audit R" "audit_balanced st" "ro_calls st = as @ c # bs" "cl_phase c = Running"
  shows "audit_balanced (end_run R as c bs out st)"
proof (cases "conclude R c out (ro_world st)")
  case (Pair res w)
  from conclude_events [OF assms(1) this] show ?thesis
    using assms Pair by (simp add: audit_balanced_def end_run_def)
qed

lemma call_step_balanced:
  assumes "call_step R st st'" "tx_audit R" "audit_balanced st"
  shows "audit_balanced st'"
  using assms
  by (induction rule: call_step.induct)
     (simp_all add: end_run_balanced, simp_all add: audit_balanced_def acquire_global_def start_tool_def
        cancel_wait_def queue_timeout_def Let_def emit_start_def rejected_events)

lemma tool_step_balanced:
  "tool_step R st st' \<Longrightarrow> tx_audit R \<Longrightarrow> audit_balanced st \<Longrightarrow> audit_balanced st'"
  by (induction rule: tool_step.induct)
     (auto simp: submit_balanced dest: call_step_balanced, simp add: audit_balanced_def)

section \<open>Properties\<close>

text \<open>
  C10: over every interleaving of arriving calls, permits, timeouts, cancellations
  and results, the number of calls admitted stays within the queue size, the
  number that hold a slot within the global limit, and the number that run of
  one tool within the limit of that tool.
\<close>

theorem tool_limits_hold:
  assumes "tool_reachable R w st"
  shows "length (ro_calls st) \<le> rc_max_queue (tx_cfg R)
    \<and> holding_global (ro_calls st) \<le> rc_max_concurrent_global (tx_cfg R)
    \<and> running t (ro_calls st) \<le> tool_permits (tx_cfg R) t"
proof (cases "t \<in> set supported_tool_names")
  case True
  then show ?thesis
    using assms queue.held_bounded global.held_bounded per_tool.held_bounded by blast
next
  case False
  then show ?thesis
    using queue.held_bounded [OF assms] global.held_bounded [OF assms] running_unsupported [OF assms] by simp
qed

text \<open>A router that reaches nothing, and a call to it.\<close>

definition wit_net :: tool_net where
  "wit_net = \<lparr>tn_dns = (\<lambda>_ _. None), tn_send = wit_sender, tn_rest = (\<lambda>_ _. Ok (200, Ok ''[]'')),
     tn_file = (\<lambda>_. Inl ''no file'')\<rparr>"

definition wit_router :: tool_router where
  "wit_router = \<lparr>tx_ext = wit_any_url, tx_env = (\<lambda>_. None), tx_egress = egress_default, tx_net = wit_net,
     tx_cfg = builtins, tx_audit = True\<rparr>"

definition wit_call :: tool_request where
  "wit_call = \<lparr>tr_tool = ''http_get'', tr_params = JObj [(''url'', JStr ''https://a'')]\<rparr>"

definition wit_ctx :: tool_audit_ctx where
  "wit_ctx = \<lparr>ctx_request_id = ''r'', ctx_source_ip = ''ip'', ctx_user_agent = None, ctx_actor = None,
     ctx_upstream_authorization = None, ctx_upstream_cookie = None\<rparr>"

definition wit_state :: "(unit, nat) router_state" where
  "wit_state = submit wit_router wit_call wit_ctx (router_init wit_router wit_world)"

lemma wit_state_reachable: "tool_reachable wit_router wit_world wit_state"
  unfolding wit_state_def by (rule tool_reachable.Step [OF tool_reachable.Start tool_step.Submit])

lemma wit_state_calls: "\<exists>c. ro_calls wit_state = [c] \<and> cl_phase c = WaitGlobal \<and> cl_args c = HttpGet ''https://a''"
proof -
  have "map_of tool_arms ''http_get'' = Some http_get_arm" by (simp add: tool_arms_def native_arms_def)
  moreover have "is_supported_tool ''http_get''" by (simp add: is_supported_tool_def supported_tool_names_def)
  ultimately show ?thesis
    by (simp add: wit_state_def submit_def admit_def wit_router_def wit_call_def resolve_tool_def builtins_def
        validate_args_def http_get_arm_def required_def get_str_def wit_any_url_def needs_bearer_def
        router_init_def runtime_new_def)
qed

theorem tool_limits_hold_witness:
  "length (ro_calls wit_state) \<le> 64 \<and> running ''http_get'' (ro_calls wit_state) \<le> 8"
  using tool_limits_hold [OF wit_state_reachable, of "''http_get''"]
  by (simp add: wit_router_def builtins_def tool_permits_def)

text \<open>
  C11: the semaphores implement the limits. Each step of the runtime, on the
  permits it keeps, is a step of the abstract usage counters, which go up only
  below their limits, or leaves them as they are; so a permit is never taken
  twice, lost, or given back by a call that does not hold it.
\<close>

theorem runtime_refines_limits:
  assumes "tool_reachable R w st" "tool_step R st st'"
  shows "usage_of st' = usage_of st \<or> usage_step (tx_cfg R) (usage_of st) (usage_of st')"
  using assms(2) reachable_inv [OF assms(1)]
proof (cases rule: tool_step.cases)
  case (Submit req ctx)
  then show ?thesis using submit_usage [OF reachable_inv [OF assms(1)]] by simp
next
  case (Tick t)
  then show ?thesis by (simp add: usage_of_def)
qed (auto dest: call_step_usage)

theorem runtime_refines_limits_witness:
  "usage_of (submit wit_router wit_call wit_ctx wit_state) = usage_of wit_state
   \<or> usage_step builtins (usage_of wit_state) (usage_of (submit wit_router wit_call wit_ctx wit_state))"
  using runtime_refines_limits [OF wit_state_reachable tool_step.Submit [of _ _ wit_call wit_ctx]]
  by (simp add: wit_router_def)

text \<open>
  C13: every call in flight passed the admission checks: its tool is in the
  catalogue, enabled and allowed by the runtime configuration, its arguments
  were validated, and a call to the upstream API carries a credential.
\<close>

theorem call_in_flight_admitted:
  assumes "tool_reachable R w st" "c \<in> set (ro_calls st)"
  shows "call_admitted R c"
  using reachable_inv [OF assms(1)] assms(2) by (simp add: router_inv_def)

theorem call_in_flight_admitted_witness:
  "\<exists>c. call_admitted wit_router c \<and> cl_args c = HttpGet ''https://a''"
proof -
  obtain c where "c \<in> set (ro_calls wit_state)" "cl_args c = HttpGet ''https://a''"
    using wit_state_calls by auto
  with call_in_flight_admitted [OF wit_state_reachable] show ?thesis by blast
qed

text \<open>
  Calls do not run on for ever. Without new arrivals, at most three steps per
  call in flight are possible, whatever the order.
\<close>

theorem calls_terminate:
  assumes "(call_step R ^^ n) st st'"
  shows "n \<le> 3 * length (ro_calls st)"
  using call_steps_work [OF assms] work_bound [of st] by simp

lemma wit_call_step: "\<exists>st'. call_step wit_router wit_state st'"
proof -
  obtain c where "ro_calls wit_state = [] @ c # []" "cl_phase c = WaitGlobal" using wit_state_calls by auto
  then show ?thesis using call_step.CancelWait [of wit_state "[]" c "[]" wit_router] by auto
qed

theorem calls_terminate_witness: "1 \<le> 3 * length (ro_calls wit_state)"
proof -
  obtain st' where "call_step wit_router wit_state st'" using wit_call_step by blast
  then have "(call_step wit_router ^^ Suc 0) wit_state st'" by (simp add: relcompp_apply)
  from calls_terminate [OF this] show ?thesis by simp
qed

text \<open>
  C12: no permit leaks and no call is stuck. From any reachable state, waiting long
  enough lets the timeouts alone end every call in flight, and then every
  semaphore has all the permits it started with.
\<close>

theorem router_drains:
  assumes "tool_reachable R w st"
  shows "\<exists>t st'. w_now (ro_world st) \<le> t
    \<and> (timeout_step R)\<^sup>*\<^sup>* (st\<lparr>ro_world := (ro_world st)\<lparr>w_now := t\<rparr>\<rparr>) st'
    \<and> ro_calls st' = [] \<and> ro_sem st' = runtime_new (tx_cfg R)"
proof -
  let ?d = "\<lambda>c. cl_since c + (if cl_phase c = Running then rs_timeout_ms (cl_resolved c)
    else rc_queue_timeout_ms (tx_cfg R)) * 1000000"
  define t where "t = w_now (ro_world st) + sum_list (map ?d (ro_calls st))"
  let ?st = "st\<lparr>ro_world := (ro_world st)\<lparr>w_now := t\<rparr>\<rparr>"
  have "\<forall>c\<in>set (ro_calls ?st). overdue R (ro_world ?st) c"
    using member_le_sum_list [of _ "map ?d (ro_calls st)"]
    by (force simp: t_def overdue_def deadline_passed_def)
  from timeouts_drain [OF this] obtain st' where
    st': "(timeout_step R)\<^sup>*\<^sup>* ?st st'" "ro_calls st' = []" by blast
  have "(call_step R)\<^sup>*\<^sup>* ?st st'" by (rule rtranclp_mono [THEN predicate2D, OF _ st'(1)]) (auto intro: timeout_call_step)
  then have "router_inv R st'" using call_steps_inv reachable_inv [OF assms] router_inv_world by blast
  then have "ro_sem st' = runtime_new (tx_cfg R)" using st'(2) by (rule drained_permits)
  moreover have "w_now (ro_world st) \<le> t" by (simp add: t_def)
  ultimately show ?thesis using st' by (intro exI [of _ t] exI [of _ st']) simp
qed

theorem router_drains_witness:
  "\<exists>t st'. (timeout_step wit_router)\<^sup>*\<^sup>* (wit_state\<lparr>ro_world := (ro_world wit_state)\<lparr>w_now := t\<rparr>\<rparr>) st' \<and> ro_calls st' = []"
  using router_drains [OF wit_state_reachable] by blast



definition tool_listed :: "tool_runtime_config \<Rightarrow> string \<Rightarrow> bool" where
  "tool_listed cfg t \<longleftrightarrow> is_supported_tool t \<and>
     (case rc_tools cfg t of Some e \<Rightarrow> tc_enabled e | None \<Rightarrow> rc_default_policy cfg = ToolAllow)"

lemma tool_listed_resolve: "tool_listed cfg t \<longleftrightarrow> is_ok (resolve_tool cfg t)"
  by (auto simp: tool_listed_def resolve_tool_def split: option.splits default_tool_policy.splits)

text \<open>
  Tools are denied by default. A call goes past the runtime allowlist exactly
  if its tool is in the catalogue and is enabled by its entry or, without an
  entry, the default policy allows it; any other call is answered at once with a
  failure, takes no permit, and with an audit log leaves one rejection event.
\<close>

theorem unlisted_tool_refused:
  assumes "\<not> tool_listed (tx_cfg R) (tr_tool req)"
  shows "\<exists>msg reason extra. submit R req ctx st =
    finish_with req (failed msg) (emit_rejected (tx_audit R) req ctx reason (Some extra) (ro_world st)) st"
proof -
  obtain rj where "resolve_tool (tx_cfg R) (tr_tool req) = Inl rj"
    using assms by (cases "resolve_tool (tx_cfg R) (tr_tool req)") (simp_all add: tool_listed_resolve)
  then have "submit R req ctx st = finish_with req (failed (rj_message rj))
      (emit_rejected (tx_audit R) req ctx (rj_reason rj) (Some (rj_extra rj)) (ro_world st)) st"
    by (simp add: submit_def admit_def)
  then show ?thesis by blast
qed

theorem unlisted_tool_refused_witness:
  "\<exists>msg. fst (last (ro_done (submit wit_router \<lparr>tr_tool = ''get_audit_logs'', tr_params = JNull\<rparr> wit_ctx wit_state)))
       = \<lparr>tr_tool = ''get_audit_logs'', tr_params = JNull\<rparr>
     \<and> snd (last (ro_done (submit wit_router \<lparr>tr_tool = ''get_audit_logs'', tr_params = JNull\<rparr> wit_ctx wit_state)))
       = failed msg"
proof -
  have "\<not> tool_listed (tx_cfg wit_router) ''get_audit_logs''"
    by (simp add: tool_listed_def wit_router_def builtins_def)
  from unlisted_tool_refused [of wit_router "\<lparr>tr_tool = ''get_audit_logs'', tr_params = JNull\<rparr>" wit_ctx wit_state] this
  show ?thesis by auto
qed

definition is_member_row :: "tool_router \<Rightarrow> string \<Rightarrow> string \<Rightarrow> tool_audit_ctx \<Rightarrow> bool" where
  "is_member_row R res i ctx \<longleftrightarrow> actor_user_id ctx \<noteq> [] \<and>
     (\<exists>status t r rs. rest_get (tx_ext R) (tx_env R) (tx_net R) (member_table res)
        [(''select'', ''id''), (member_fk res, ''eq.'' @ i), (''user_id'', ''eq.'' @ actor_user_id ctx), (''limit'', ''1'')]
        = Ok (status, Ok t) \<and> is_success status \<and> json_from_str (tx_ext R) t = Ok (JArr (r # rs)))"

lemma member_gate_None:
  assumes "member_gate X env net res i ctx = Ok None" "\<not> actor_is_admin ctx"
  shows "actor_user_id ctx \<noteq> [] \<and> (\<exists>status t r rs. rest_get X env net (member_table res)
        [(''select'', ''id''), (member_fk res, ''eq.'' @ i), (''user_id'', ''eq.'' @ actor_user_id ctx), (''limit'', ''1'')]
        = Ok (status, Ok t) \<and> is_success status \<and> json_from_str X t = Ok (JArr (r # rs)))"
  using assms
  by (auto simp: member_gate_def reply_json_def result_simps as_array_def neq_Nil_conv
      split: if_splits json.splits)

lemma member_gate_Some:
  assumes "member_gate X env net res i ctx = Ok (Some ans)"
  shows "to_status ans \<noteq> Some 200"
  using assms
  by (auto simp: member_gate_def json_error_def result_simps is_success_def split: if_splits)

text \<open>
  The member list of a project or team is guarded. When the gateway reads it
  with its own service key, an answer with the list (status 200) is given only
  to an administrator or to an actor for whom the membership query returned a
  row; everyone else gets 401, 403 or the status of the failing query.
\<close>

theorem member_list_guarded:
  assumes "dispatch (tx_ext R) (tx_env R) (tx_egress R) (tx_net R) (ExponentialMembers res i) ctx = Ok ans"
    and "to_status ans = Some 200" "supabase_base (tx_env R) \<noteq> []" "supabase_key (tx_env R) \<noteq> []"
  shows "actor_is_admin ctx \<or> is_member_row R res i ctx"
proof -
  let ?g = "member_gate (tx_ext R) (tx_env R) (tx_net R) res i ctx"
  have "?g = Ok None"
  proof (cases ?g)
    case (Inr x)
    then show ?thesis
      using assms member_gate_Some [of "tx_ext R" "tx_env R" "tx_net R" res i ctx]
      by (cases x) (auto simp: dispatch_def dispatch_members_def)
  qed (use assms in \<open>simp add: dispatch_def dispatch_members_def\<close>)
  from member_gate_None [OF this] show ?thesis by (auto simp: is_member_row_def)
qed

text \<open>A data plane that knows one member row, and its member.\<close>

definition wit_member_router :: tool_router where
  "wit_member_router = wit_router\<lparr>tx_ext := wit_any_url\<lparr>json_from_str := (\<lambda>_. Ok (JArr [JNull]))\<rparr>,
     tx_env := (\<lambda>k. if k = ''SUPABASE_URL'' \<or> k = ''SUPABASE_SERVICE_ROLE_KEY'' then Some ''k'' else None)\<rparr>"

definition wit_member_ctx :: tool_audit_ctx where
  "wit_member_ctx = wit_ctx\<lparr>ctx_actor := Some \<lparr>a_user_id = ''u'', a_roles = None, a_auth_mode = ''session_cookie''\<rparr>\<rparr>"

theorem member_list_guarded_witness:
  "\<not> actor_is_admin wit_member_ctx \<and> is_member_row wit_member_router ''project'' ''p'' wit_member_ctx"
proof -
  have s: "supabase_base (tx_env wit_member_router) = ''k''" "supabase_key (tx_env wit_member_router) = ''k''"
    by (simp_all add: supabase_base_def supabase_key_def wit_member_router_def trim_graphic trim_end_matches_def)
  have "dispatch (tx_ext wit_member_router) (tx_env wit_member_router) (tx_egress wit_member_router)
      (tx_net wit_member_router) (ExponentialMembers ''project'' ''p'') wit_member_ctx =
      Ok \<lparr>to_status = Some 200, to_data = ''{}''\<rparr>"
    using s by (simp add: dispatch_def dispatch_members_def member_gate_def actor_is_admin_def wit_member_ctx_def
        actor_user_id_def rest_get_def rest_url_def reply_json_def)
      (simp add: wit_member_router_def wit_router_def wit_any_url_def wit_net_def is_success_def as_array_def
        text_or_default_def wit_ext_def reply_json_def)
  from member_list_guarded [OF this] s show ?thesis
    by (simp add: actor_is_admin_def wit_member_ctx_def)
qed

section \<open>Observations\<close>

text \<open>
  The permission probe answers yes to every actor, resource and action.
\<close>

lemma permission_probe_constant:
  "dispatch X env cfg net (PermissionCheck res i action) ctx =
     Ok \<lparr>to_status = Some 200, to_data = json_to_string X
       (JObj [(''hasPermission'', JBool True), (''action'', JStr action), (res @ ''Id'', JStr i)])\<rparr>"
  by (simp add: dispatch_def dispatch_permission_def)

text \<open>A tool whose entry allows no concurrent call is not disabled: one call of it may run.\<close>

lemma zero_concurrency_not_disabled:
  assumes "is_supported_tool t" "rc_tools cfg t = Some \<lparr>tc_enabled = True, tc_timeout_ms = ms, tc_max_concurrent = 0\<rparr>"
  shows "is_ok (resolve_tool cfg t)" "tool_permits cfg t = 1"
  using assms by (simp_all add: resolve_tool_def tool_permits_def)

end
