(* ===== verification/Quickbooks_Parse.thy ===== *)
theory Quickbooks_Parse
  imports F64_Value Http
begin

text \<open>
  Reading a QuickBooks export, the pure half of \<^verbatim>\<open>quickbooks_import.rs\<close>: the archive
  and its workbooks, the detection of what a sheet holds, and the row parsers.
\<close>

section \<open>Data\<close>

record customer_row =
  cr_name :: string
  cr_phone :: "string option"
  cr_email :: "string option"
  cr_full_name :: "string option"
  cr_billing_address :: "string option"

record supplier_row =
  su_name :: string
  su_phone :: "string option"
  su_email :: "string option"
  su_full_name :: "string option"
  su_address :: "string option"

record employee_row =
  em_name :: string
  em_phone :: "string option"
  em_email :: "string option"

record journal_line =
  jl_memo :: "string option"
  jl_account :: string
  jl_debit :: f64
  jl_credit :: f64

record journal_entry =
  je_date :: string
  je_kind :: string
  je_num :: "string option"
  je_name :: "string option"
  je_lines :: "journal_line list"

record gl_row =
  gl_account :: string

record trial_balance_row =
  tb_debit :: f64
  tb_credit :: f64

datatype pl_row = PLRow

datatype bs_row = BSRow

datatype data_type_key =
    Customers
  | Suppliers
  | Employees
  | Journal
  | GeneralLedger
  | TrialBalance
  | ProfitAndLoss
  | BalanceSheet

fun data_type_str :: "data_type_key \<Rightarrow> string" where
  "data_type_str Customers = ''customers''"
| "data_type_str Suppliers = ''suppliers''"
| "data_type_str Employees = ''employees''"
| "data_type_str Journal = ''journal''"
| "data_type_str GeneralLedger = ''generalLedger''"
| "data_type_str TrialBalance = ''trialBalance''"
| "data_type_str ProfitAndLoss = ''profitAndLoss''"
| "data_type_str BalanceSheet = ''balanceSheet''"

record parsed_data =
  pd_files :: "(string \<times> string) list"
  pd_customers :: "customer_row list"
  pd_suppliers :: "supplier_row list"
  pd_employees :: "employee_row list"
  pd_journal :: "journal_entry list"
  pd_general_ledger :: "gl_row list"
  pd_trial_balance :: "trial_balance_row list"
  pd_profit_and_loss :: "pl_row list"
  pd_balance_sheet :: "bs_row list"
  pd_parse_errors :: "string list"

definition parsed_default :: parsed_data where
  "parsed_default = \<lparr>pd_files = [], pd_customers = [], pd_suppliers = [], pd_employees = [], pd_journal = [],
     pd_general_ledger = [], pd_trial_balance = [], pd_profit_and_loss = [], pd_balance_sheet = [],
     pd_parse_errors = []\<rparr>"

section \<open>Cells\<close>

text \<open>
  A cell as the spreadsheet reader gives it. The display text of its date type
  comes with the value; error and empty cells are \<open>Other\<close>.
\<close>

datatype cell =
    StringCell string
  | FloatCell f64
  | IntCell int
  | BoolCell bool
  | DateTimeCell string
  | Other

text \<open>\<^verbatim>\<open>f as i64\<close> saturates.\<close>

definition as_i64_cast :: "int \<Rightarrow> int" where
  "as_i64_cast i = max (- (2 ^ 63)) (min (2 ^ 63 - 1) i)"

definition f64_display :: "ext \<Rightarrow> f64 \<Rightarrow> string" where
  "f64_display X v = (case v of
     Finite x \<Rightarrow> f64_string X x
   | Infinite s \<Rightarrow> (if s then ''-inf'' else ''inf'')
   | NaN \<Rightarrow> ''NaN'')"

definition data_to_string :: "ext \<Rightarrow> cell \<Rightarrow> string" where
  "data_to_string X d = (case d of
     StringCell s \<Rightarrow> s
   | FloatCell v \<Rightarrow> (case v of
       Finite x \<Rightarrow> if of_int \<lfloor>x\<rfloor> = x then int_str (as_i64_cast \<lfloor>x\<rfloor>) else f64_display X v
     | _ \<Rightarrow> f64_display X v)
   | IntCell i \<Rightarrow> int_str i
   | BoolCell b \<Rightarrow> (if b then ''true'' else ''false'')
   | DateTimeCell s \<Rightarrow> s
   | Other \<Rightarrow> [])"

text \<open>\<^verbatim>\<open>slice::get\<close>.\<close>

definition cell_at :: "'a list \<Rightarrow> nat \<Rightarrow> 'a option" where
  "cell_at row i = (if i < length row then Some (row ! i) else None)"

definition blank :: "string \<Rightarrow> bool" where
  "blank s = (trim s = [])"

definition str_opt :: "string option \<Rightarrow> string option" where
  "str_opt v = (let s = trim (unwrap_or [] v) in if s \<noteq> [] then Some s else None)"

definition parse_num :: "string option \<Rightarrow> f64" where
  "parse_num v = (case v of
     None \<Rightarrow> Finite 0
   | Some s \<Rightarrow>
       if blank s then Finite 0
       else let neg_wrapped = (take 1 (trim s) = ''('' \<and> take 1 (rev (trim s)) = '')'');
                cleaned = filter (\<lambda>c. c \<notin> set ''$, ()'') s;
                parsed = unwrap_or (Finite 0) (parse_f64 cleaned)
            in if neg_wrapped then f64_neg parsed else parsed)"

text \<open>
  \<^verbatim>\<open>chars().nth(i)\<close> for the first characters: \<open>is_date_like\<close> looks at them only
  to compare them with ASCII characters, and a character beyond ASCII is never one.
\<close>

definition is_date_like :: "string option \<Rightarrow> bool" where
  "is_date_like v = (case v of
     None \<Rightarrow> False
   | Some t \<Rightarrow>
       let s = trim t; slash = split_on (CHR ''/'') s
       in (length slash = 3 \<and> list_all (list_all is_digit) slash)
          \<or> (10 \<le> length s \<and> list_all (\<lambda>c. is_digit c \<or> c = CHR ''-'') (take 10 s)
             \<and> s ! 4 = CHR ''-'' \<and> s ! 7 = CHR ''-''))"

text \<open>
  \<^verbatim>\<open>{:0>2}\<close> pads to two characters, not bytes. The slice \<^verbatim>\<open>s[..10]\<close> is only reached
  with a date that \<open>is_date_like\<close> accepts, whose first ten bytes are ASCII.
\<close>

definition pad_chars :: "nat \<Rightarrow> string \<Rightarrow> string" where
  "pad_chars w s = replicate (w - length (filter (\<lambda>c. \<not> continuation_byte c) s)) CHR ''0'' @ s"

definition normalize_date :: "string option \<Rightarrow> string" where
  "normalize_date v =
     (let s = trim (unwrap_or [] v); slash = split_on (CHR ''/'') s
      in if length slash = 3 then
           (let y = (if length (slash ! 2) = 2 then ''20'' @ slash ! 2 else slash ! 2)
            in y @ ''-'' @ pad_chars 2 (slash ! 0) @ ''-'' @ pad_chars 2 (slash ! 1))
         else take 10 s)"

definition clean_phone :: "string option \<Rightarrow> string option" where
  "clean_phone v = Option.bind v (\<lambda>w.
     let t = trim w;
         s = (case find_map (\<lambda>p. if starts_with (to_ascii_lowercase p) (to_ascii_lowercase t)
                then Some (trim (drop (length p) t)) else None)
                [''Phone:'', ''Mobile:'', ''Home:'', ''Work:'', ''Fax:''] of
              Some r \<Rightarrow> r | None \<Rightarrow> t)
     in if s \<noteq> [] then Some s else None)"

definition extract_email :: "string list \<Rightarrow> nat \<Rightarrow> string option" where
  "extract_email row offset =
     find_map (\<lambda>v. if CHR ''@'' \<in> set (trim v) then Some (trim v) else None)
       (drop (Suc offset) (take (min (offset + 5) (length row)) row))"

type_synonym address_parts =
  "string option \<times> string option \<times> string option \<times> string option \<times> string option \<times> string option"

definition parse_address :: "string option \<Rightarrow> address_parts" where
  "parse_address addr = (case addr of
     None \<Rightarrow> (None, None, None, None, None, None)
   | Some a \<Rightarrow>
       let parts = filter (\<lambda>s. s \<noteq> []) (map trim (split_on (CHR 0x0A) a));
           n = length parts
       in if parts = [] then (None, None, None, None, None, None)
          else if n < 3 then (Some (parts ! 0), None, None, None, None, None)
          else
            let tokens = split_whitespace (parts ! (n - 2));
                k = length tokens;
                placed = (3 \<le> k);
                country_line = to_ascii_lowercase (last parts)
            in (Some (parts ! 0),
                if 3 < n then Some (str_join '', '' (drop 1 (take (n - 2) parts))) else None,
                if placed then Some (str_join '' '' (take (k - 2) tokens)) else None,
                if placed then Some (tokens ! (k - 2)) else None,
                if placed then Some (tokens ! (k - 1)) else None,
                Some (if str_contains ''can'' country_line \<or> str_contains ''canada'' country_line
                      then ''CA'' else ''US'')))"

definition sanitize_source :: "string \<Rightarrow> string" where
  "sanitize_source s = map (\<lambda>c. if is_ascii_alphabetic c then ascii_lower c else CHR ''_'')
     (filter (\<lambda>c. \<not> continuation_byte c) s)"

section \<open>Rows\<close>

definition row_text :: "string list \<Rightarrow> string" where
  "row_text row = to_ascii_lowercase (str_join '' '' (filter (\<lambda>s. \<not> blank s) row))"

definition is_header_row :: "string list \<Rightarrow> bool" where
  "is_header_row row =
     (let text = row_text row;
          has_date = str_contains ''date'' text;
          has_debit_credit = (str_contains ''debit'' text \<or> str_contains ''credit'' text);
          has_accountish = (str_contains ''account'' text \<or> str_contains ''memo'' text
            \<or> str_contains ''description'' text);
          has_balance = str_contains ''balance'' text
      in str_contains ''phone'' text \<or> str_contains ''email'' text
         \<or> (has_date \<and> (has_debit_credit \<or> has_balance) \<and> has_accountish))"

fun header_index :: "nat \<Rightarrow> string list list \<Rightarrow> nat" where
  "header_index i [] = 4"
| "header_index i (row # rows) = (if is_header_row row then i else header_index (Suc i) rows)"

definition find_header_row :: "string list list \<Rightarrow> nat" where
  "find_header_row rows = header_index 0 (take 20 rows)"

definition data_rows :: "string list list \<Rightarrow> string list list" where
  "data_rows rows = drop (find_header_row rows + 1) rows"

definition detect_offset :: "string list \<Rightarrow> nat" where
  "detect_offset row = (if unwrap_or False (map_option (\<lambda>v. \<not> blank v) (head_opt row)) then 0 else 1)"

definition is_end_of_data :: "string \<Rightarrow> bool" where
  "is_end_of_data v = list_ex (\<lambda>p. starts_with p (trim v))
     [''Total'', ''TOTAL'', ''Monday,'', ''Tuesday,'', ''Wednesday,'', ''Thursday,'', ''Friday,'',
      ''Saturday,'', ''Sunday,'']"

text \<open>
  The loop that the three contact parsers share: a row without a name is passed
  over, a closing row ends the list.
\<close>

fun contact_rows :: "(string list \<Rightarrow> nat \<Rightarrow> string \<Rightarrow> 'a) \<Rightarrow> string list list \<Rightarrow> 'a list" where
  "contact_rows mk [] = []"
| "contact_rows mk (row # rows) =
     (let offset = detect_offset row; name = trim (unwrap_or [] (cell_at row offset))
      in if name = [] then contact_rows mk rows
         else if is_end_of_data name then []
         else mk row offset name # contact_rows mk rows)"

definition parse_customers :: "string list list \<Rightarrow> customer_row list" where
  "parse_customers rows = contact_rows (\<lambda>row offset name.
     \<lparr>cr_name = name, cr_phone = clean_phone (cell_at row (offset + 1)), cr_email = extract_email row offset,
      cr_full_name = str_opt (cell_at row (offset + 3)),
      cr_billing_address = str_opt (cell_at row (offset + 4))\<rparr>) (data_rows rows)"

definition parse_suppliers :: "string list list \<Rightarrow> supplier_row list" where
  "parse_suppliers rows = contact_rows (\<lambda>row offset name.
     \<lparr>su_name = name, su_phone = clean_phone (cell_at row (offset + 1)), su_email = extract_email row offset,
      su_full_name = str_opt (cell_at row (offset + 3)),
      su_address = str_opt (cell_at row (offset + 4))\<rparr>) (data_rows rows)"

definition parse_employees :: "string list list \<Rightarrow> employee_row list" where
  "parse_employees rows = contact_rows (\<lambda>row offset name.
     \<lparr>em_name = name, em_phone = clean_phone (cell_at row (offset + 1)),
      em_email = extract_email row offset\<rparr>) (data_rows rows)"

section \<open>The journal\<close>

record journal_cols =
  jc_date :: "nat option"
  jc_tx_type :: "nat option"
  jc_num :: "nat option"
  jc_name :: "nat option"
  jc_memo :: "nat option"
  jc_account :: "nat option"
  jc_debit :: "nat option"
  jc_credit :: "nat option"

definition no_cols :: journal_cols where
  "no_cols = \<lparr>jc_date = None, jc_tx_type = None, jc_num = None, jc_name = None, jc_memo = None,
     jc_account = None, jc_debit = None, jc_credit = None\<rparr>"

definition map_column :: "nat \<times> string \<Rightarrow> journal_cols \<Rightarrow> journal_cols" where
  "map_column = (\<lambda>(idx, cell) cols.
     let label = str_join '' '' (split_whitespace (to_ascii_lowercase cell))
     in if str_contains ''date'' label then cols\<lparr>jc_date := Some idx\<rparr>
        else if str_contains ''type'' label then cols\<lparr>jc_tx_type := Some idx\<rparr>
        else if str_contains ''num'' label \<or> str_contains ''no.'' label then cols\<lparr>jc_num := Some idx\<rparr>
        else if str_contains ''name'' label \<or> str_contains ''payee'' label then cols\<lparr>jc_name := Some idx\<rparr>
        else if str_contains ''memo'' label \<or> str_contains ''description'' label then cols\<lparr>jc_memo := Some idx\<rparr>
        else if str_contains ''account'' label then cols\<lparr>jc_account := Some idx\<rparr>
        else if str_contains ''debit'' label then cols\<lparr>jc_debit := Some idx\<rparr>
        else if str_contains ''credit'' label then cols\<lparr>jc_credit := Some idx\<rparr>
        else cols)"

definition map_journal_columns :: "string list \<Rightarrow> journal_cols" where
  "map_journal_columns row = fold map_column (enumerate 0 row) no_cols"

definition get_journal_cell :: "string list \<Rightarrow> nat option \<Rightarrow> nat \<Rightarrow> nat \<Rightarrow> string option" where
  "get_journal_cell row col offset fallback = (case col of
     Some c \<Rightarrow> cell_at row c
   | None \<Rightarrow> cell_at row (offset + fallback))"

definition cell_trimmed :: "string option \<Rightarrow> string" where
  "cell_trimmed v = trim (unwrap_or [] v)"

definition is_journal_account_header_row :: "string list \<Rightarrow> journal_cols \<Rightarrow> nat \<Rightarrow> bool" where
  "is_journal_account_header_row row cols offset =
     (if is_date_like (get_journal_cell row (jc_date cols) offset 0) then False
      else if cell_trimmed (get_journal_cell row (jc_account cols) offset 5) = [] then False
      else if f64_nonzero (parse_num (get_journal_cell row (jc_debit cols) offset 6))
            \<or> f64_nonzero (parse_num (get_journal_cell row (jc_credit cols) offset 7)) then False
      else cell_trimmed (get_journal_cell row (jc_tx_type cols) offset 1) = []
         \<and> cell_trimmed (get_journal_cell row (jc_num cols) offset 2) = []
         \<and> cell_trimmed (get_journal_cell row (jc_name cols) offset 3) = []
         \<and> cell_trimmed (get_journal_cell row (jc_memo cols) offset 4) = [])"

text \<open>The line a row holds, if it names an account.\<close>

definition row_line :: "journal_cols \<Rightarrow> string list \<Rightarrow> journal_line option" where
  "row_line cols row =
     (let offset = detect_offset row
      in map_option (\<lambda>account.
           \<lparr>jl_memo = str_opt (get_journal_cell row (jc_memo cols) offset 4), jl_account = account,
            jl_debit = parse_num (get_journal_cell row (jc_debit cols) offset 6),
            jl_credit = parse_num (get_journal_cell row (jc_credit cols) offset 7)\<rparr>)
         (str_opt (get_journal_cell row (jc_account cols) offset 5)))"

definition row_date :: "journal_cols \<Rightarrow> string list \<Rightarrow> string option" where
  "row_date cols row = get_journal_cell row (jc_date cols) (detect_offset row) 0"

definition add_line :: "journal_line option \<Rightarrow> journal_entry \<Rightarrow> journal_entry" where
  "add_line l e = (case l of None \<Rightarrow> e | Some line \<Rightarrow> e\<lparr>je_lines := je_lines e @ [line]\<rparr>)"

definition start_entry :: "journal_cols \<Rightarrow> string list \<Rightarrow> journal_entry" where
  "start_entry cols row =
     (let offset = detect_offset row
      in \<lparr>je_date = normalize_date (row_date cols row),
          je_kind = unwrap_or ''Journal'' (str_opt (get_journal_cell row (jc_tx_type cols) offset 1)),
          je_num = str_opt (get_journal_cell row (jc_num cols) offset 2),
          je_name = str_opt (get_journal_cell row (jc_name cols) offset 3),
          je_lines = []\<rparr>)"

definition push_entry :: "journal_entry option \<Rightarrow> journal_entry list" where
  "push_entry e = (case e of None \<Rightarrow> [] | Some x \<Rightarrow> if je_lines x \<noteq> [] then [x] else [])"

definition skipped_row :: "journal_cols \<Rightarrow> string list \<Rightarrow> bool" where
  "skipped_row cols row = (list_all blank row \<or> is_journal_account_header_row row cols (detect_offset row))"

fun journal_loop ::
  "journal_cols \<Rightarrow> string list list \<Rightarrow> journal_entry list \<Rightarrow> journal_entry option \<Rightarrow> journal_entry list" where
  "journal_loop cols [] entries current = entries @ push_entry current"
| "journal_loop cols (row # rows) entries current =
     (if skipped_row cols row then journal_loop cols rows entries current
      else if is_date_like (row_date cols row)
      then journal_loop cols rows (entries @ push_entry current)
             (Some (add_line (row_line cols row) (start_entry cols row)))
      else journal_loop cols rows entries (map_option (add_line (row_line cols row)) current))"

definition parse_journal :: "string list list \<Rightarrow> journal_entry list" where
  "parse_journal rows =
     (let cols = map_journal_columns (unwrap_or [] (cell_at rows (find_header_row rows)))
      in journal_loop cols (data_rows rows) [] None)"

section \<open>The other reports\<close>

definition first_cell :: "string list \<Rightarrow> string" where
  "first_cell row = trim (unwrap_or [] (opt_or (head_opt row) (cell_at row 1)))"

fun ledger_loop :: "string list list \<Rightarrow> string \<Rightarrow> gl_row list" where
  "ledger_loop [] account = []"
| "ledger_loop (row # rows) account =
     (let first = first_cell row
      in if first = [] then ledger_loop rows account
         else if \<not> is_date_like (Some first) \<and> \<not> starts_with ''Total'' first \<and> \<not> starts_with ''TOTAL'' first
              \<and> blank (unwrap_or [] (cell_at row 2))
              \<and> \<not> f64_nonzero (parse_num (Some (unwrap_or [] (cell_at row 3))))
              \<and> \<not> f64_nonzero (parse_num (Some (unwrap_or [] (cell_at row 4))))
         then ledger_loop rows first
         else if is_date_like (cell_at row (detect_offset row))
         then \<lparr>gl_account = account\<rparr> # ledger_loop rows account
         else ledger_loop rows account)"

definition parse_general_ledger :: "string list list \<Rightarrow> gl_row list" where
  "parse_general_ledger rows = ledger_loop (data_rows rows) []"

definition parse_trial_balance :: "string list list \<Rightarrow> trial_balance_row list" where
  "parse_trial_balance rows = filter_map (\<lambda>row.
     let offset = detect_offset row; account = trim (unwrap_or [] (cell_at row offset));
         debit = parse_num (cell_at row (offset + 1)); credit = parse_num (cell_at row (offset + 2))
     in if account = [] \<or> starts_with ''Total'' account \<or> starts_with ''TOTAL'' account \<or> is_end_of_data account
        then None
        else if f64_nonzero debit \<or> f64_nonzero credit then Some \<lparr>tb_debit = debit, tb_credit = credit\<rparr>
        else None) (data_rows rows)"

definition statement_amount :: "string list \<Rightarrow> string list \<Rightarrow> bool" where
  "statement_amount headings row =
     (let label = to_ascii_lowercase (first_cell row)
      in \<not> (label = [] \<or> starts_with ''total'' label \<or> label \<in> set headings)
         \<and> f64_nonzero (parse_num (cell_at row (detect_offset row + 1))))"

definition parse_profit_and_loss :: "string list list \<Rightarrow> pl_row list" where
  "parse_profit_and_loss rows =
     map (\<lambda>_. PLRow) (filter (statement_amount [''income'', ''expenses'', ''revenue'']) rows)"

definition parse_balance_sheet :: "string list list \<Rightarrow> bs_row list" where
  "parse_balance_sheet rows =
     map (\<lambda>_. BSRow) (filter (statement_amount [''assets'', ''liabilities'', ''equity'']) rows)"

section \<open>Workbooks and archives\<close>

definition detect_type :: "string \<Rightarrow> string \<Rightarrow> string list list \<Rightarrow> data_type_key option" where
  "detect_type name sheet_name rows =
     (let header_text = to_ascii_lowercase (str_join '' '' (filter (\<lambda>s. \<not> blank s) (concat (take 10 rows))));
          probe = str_join '' '' [to_ascii_lowercase name, to_ascii_lowercase sheet_name, header_text];
          has = (\<lambda>w. str_contains w probe)
      in if has ''customer'' then Some Customers
         else if has ''supplier'' \<or> has ''vendor'' then Some Suppliers
         else if has ''employee'' then Some Employees
         else if has ''journal'' \<or> (has ''debit'' \<and> has ''credit'' \<and> has ''memo'') then Some Journal
         else if has ''general ledger'' \<or> has ''general_ledger'' \<or> has '' gl'' then Some GeneralLedger
         else if has ''trial balance'' then Some TrialBalance
         else if (has ''profit'' \<and> has ''loss'') \<or> has ''income statement'' then Some ProfitAndLoss
         else if has ''balance sheet'' then Some BalanceSheet
         else None)"

definition parse_rows_by_type :: "string list list \<Rightarrow> data_type_key \<Rightarrow> parsed_data \<Rightarrow> parsed_data" where
  "parse_rows_by_type rows ty p = (case ty of
     Customers \<Rightarrow> p\<lparr>pd_customers := pd_customers p @ parse_customers rows\<rparr>
   | Suppliers \<Rightarrow> p\<lparr>pd_suppliers := pd_suppliers p @ parse_suppliers rows\<rparr>
   | Employees \<Rightarrow> p\<lparr>pd_employees := pd_employees p @ parse_employees rows\<rparr>
   | Journal \<Rightarrow> p\<lparr>pd_journal := pd_journal p @ parse_journal rows\<rparr>
   | GeneralLedger \<Rightarrow> p\<lparr>pd_general_ledger := pd_general_ledger p @ parse_general_ledger rows\<rparr>
   | TrialBalance \<Rightarrow> p\<lparr>pd_trial_balance := pd_trial_balance p @ parse_trial_balance rows\<rparr>
   | ProfitAndLoss \<Rightarrow> p\<lparr>pd_profit_and_loss := pd_profit_and_loss p @ parse_profit_and_loss rows\<rparr>
   | BalanceSheet \<Rightarrow> p\<lparr>pd_balance_sheet := pd_balance_sheet p @ parse_balance_sheet rows\<rparr>)"

text \<open>
  The spreadsheet reader and the archive reader are other crates: what they
  give for a file are arguments. A worksheet or an archive member that cannot be
  read is \<open>None\<close>.
\<close>

record qb_readers =
  qr_workbook :: "string \<Rightarrow> (string, (string \<times> cell list list option) list) result"
  qr_zip :: "string \<Rightarrow> (string \<times> string option) option list option"

definition push_parse_error :: "string \<Rightarrow> parsed_data \<Rightarrow> parsed_data" where
  "push_parse_error e p = p\<lparr>pd_parse_errors := pd_parse_errors p @ [e]\<rparr>"

definition parse_sheet :: "ext \<Rightarrow> string \<Rightarrow> string \<times> cell list list option \<Rightarrow> bool \<times> parsed_data \<Rightarrow> bool \<times> parsed_data" where
  "parse_sheet X name = (\<lambda>(sheet_name, range) (detected_any, p). case range of
     None \<Rightarrow> (detected_any, p)
   | Some cells \<Rightarrow>
       let rows = map (map (data_to_string X)) cells
       in case detect_type name sheet_name rows of
            None \<Rightarrow> (detected_any, p)
          | Some t \<Rightarrow> (True, parse_rows_by_type rows t
              (p\<lparr>pd_files := alist_set (if sheet_name = ''Sheet1'' then name else name @ '':'' @ sheet_name)
                   (data_type_str t) (pd_files p)\<rparr>)))"

definition parse_workbook_bytes :: "ext \<Rightarrow> qb_readers \<Rightarrow> string \<Rightarrow> string \<Rightarrow> parsed_data \<Rightarrow> parsed_data" where
  "parse_workbook_bytes X R name data p = (case qr_workbook R data of
     Inl e \<Rightarrow> push_parse_error (''Error parsing '' @ name @ '': '' @ e) p
   | Inr sheets \<Rightarrow>
       if sheets = [] then push_parse_error (''no sheet in '' @ name) p
       else let (detected_any, q) = fold (parse_sheet X name) sheets (False, p)
            in if detected_any then q
               else push_parse_error (''Could not detect type for: '' @ name)
                      (q\<lparr>pd_files := alist_set name ''unknown'' (pd_files q)\<rparr>))"

definition ends_with :: "string \<Rightarrow> string \<Rightarrow> bool" where
  "ends_with p s = starts_with (rev p) (rev s)"

definition importable_name :: "string \<Rightarrow> bool" where
  "importable_name name \<longleftrightarrow> \<not> (ends_with ''/'' name \<or> starts_with ''__MACOSX'' name \<or> str_contains ''/.'' name
     \<or> \<not> (ends_with ''.xlsx'' name \<or> ends_with ''.xls'' name \<or> ends_with ''.csv'' name))"

definition parse_member :: "ext \<Rightarrow> qb_readers \<Rightarrow> (string \<times> string option) option \<Rightarrow> nat \<times> parsed_data \<Rightarrow> nat \<times> parsed_data" where
  "parse_member X R m = (\<lambda>(excel_count, p). case m of
     None \<Rightarrow> (excel_count, p)
   | Some (name, content) \<Rightarrow>
       if \<not> importable_name name then (excel_count, p)
       else (excel_count + 1, (case content of
           None \<Rightarrow> p
         | Some buf \<Rightarrow> parse_workbook_bytes X R (last (split_on (CHR ''/'') name)) buf p)))"

definition is_zip :: "string \<Rightarrow> bool" where
  "is_zip data = (4 \<le> length data \<and> data ! 0 = CHR ''P'' \<and> data ! 1 = CHR ''K'')"

definition parse_qb_blob :: "ext \<Rightarrow> qb_readers \<Rightarrow> string \<Rightarrow> parsed_data" where
  "parse_qb_blob X R data =
     (if is_zip data then
        (case qr_zip R data of
           Some members \<Rightarrow>
             let (excel_count, p) = fold (parse_member X R) members (0, parsed_default)
             in if excel_count = 0 then push_parse_error ''No Excel files found in ZIP archive.'' p else p
         | None \<Rightarrow> push_parse_error ''Invalid ZIP archive.'' parsed_default)
      else parse_workbook_bytes X R ''upload.xlsx'' data parsed_default)"

section \<open>The journal keeps every line\<close>

text \<open>
  The reference: of the rows that are neither blank nor account headings, those
  from the first dated row on, and the line each of them holds.
\<close>

definition posting_rows :: "journal_cols \<Rightarrow> string list list \<Rightarrow> string list list" where
  "posting_rows cols rows =
     dropWhile (\<lambda>row. \<not> is_date_like (row_date cols row)) (filter (\<lambda>row. \<not> skipped_row cols row) rows)"

definition all_lines :: "journal_entry list \<Rightarrow> journal_line list" where
  "all_lines es = concat (map je_lines es)"

lemma all_lines_simps [simp]:
  "all_lines [] = []" "all_lines (e # es) = je_lines e @ all_lines es"
  "all_lines (es @ fs) = all_lines es @ all_lines fs"
  by (simp_all add: all_lines_def)

lemma all_lines_push [simp]:
  "all_lines (push_entry (Some e)) = je_lines e" "push_entry None = []"
  by (simp_all add: push_entry_def)

lemma je_lines_add [simp]:
  "je_lines (add_line l e) = je_lines e @ (case l of None \<Rightarrow> [] | Some x \<Rightarrow> [x])"
  by (simp add: add_line_def split: option.splits)

lemma je_lines_start [simp]: "je_lines (start_entry cols row) = []"
  by (simp add: start_entry_def Let_def)

lemma journal_loop_lines:
  "all_lines (journal_loop cols rows es (Some e)) =
     all_lines es @ je_lines e @ filter_map (row_line cols) (filter (\<lambda>row. \<not> skipped_row cols row) rows)"
proof (induction rows arbitrary: es e)
  case (Cons row rows)
  then show ?case by (auto split: option.splits)
qed simp

lemma journal_loop_lines_None:
  "all_lines (journal_loop cols rows es None) = all_lines es @ filter_map (row_line cols) (posting_rows cols rows)"
proof (induction rows arbitrary: es)
  case (Cons row rows)
  then show ?case
    by (auto simp: journal_loop_lines posting_rows_def split: option.splits)
qed (simp add: posting_rows_def)

text \<open>Each entry of the result has lines, and each line names an account.\<close>

definition line_ok :: "journal_line \<Rightarrow> bool" where
  "line_ok l = (jl_account l \<noteq> [] \<and> trim (jl_account l) = jl_account l)"

definition entry_ok :: "journal_entry \<Rightarrow> bool" where
  "entry_ok e = (je_kind e \<noteq> [] \<and> list_all line_ok (je_lines e))"

lemma str_opt_ok: "str_opt v = Some s \<Longrightarrow> s \<noteq> [] \<and> trim s = s"
  by (auto simp: str_opt_def Let_def split: if_splits)

lemma row_line_ok: "row_line cols row = Some l \<Longrightarrow> line_ok l"
  by (auto simp: row_line_def Let_def line_ok_def dest: str_opt_ok)

lemma start_entry_ok: "entry_ok (start_entry cols row)"
  by (auto simp: entry_ok_def start_entry_def Let_def unwrap_or_def dest: str_opt_ok split: option.splits)

lemma add_line_ok: "entry_ok e \<Longrightarrow> entry_ok (add_line (row_line cols row) e)"
  by (auto simp: entry_ok_def add_line_def dest: row_line_ok split: option.splits)

lemma push_entry_ok:
  "pred_option entry_ok cur \<Longrightarrow> list_all (\<lambda>e. entry_ok e \<and> je_lines e \<noteq> []) (push_entry cur)"
  by (auto simp: push_entry_def split: option.splits)

lemma journal_loop_ok:
  assumes "list_all (\<lambda>e. entry_ok e \<and> je_lines e \<noteq> []) es" "pred_option entry_ok cur"
  shows "list_all (\<lambda>e. entry_ok e \<and> je_lines e \<noteq> []) (journal_loop cols rows es cur)"
  using assms
proof (induction cols rows es cur rule: journal_loop.induct)
  case (1 cols es cur)
  then show ?case by (simp add: push_entry_ok)
next
  case (2 cols row rows es cur)
  have "pred_option entry_ok (map_option (add_line (row_line cols row)) cur)"
    using "2.prems"(2) by (cases cur) (simp_all add: add_line_ok)
  then show ?case using 2 by (auto simp: push_entry_ok add_line_ok start_entry_ok)
qed

text \<open>
  C34: Reading a journal sheet loses, repeats and reorders nothing: the lines of
  the entries, one after the other, are the lines of the sheet from the first
  dated row on, blank rows and account headings left out; and every entry has at
  least one line, a kind, and an account name on each line.
\<close>

theorem journal_lines_preserved:
  "all_lines (parse_journal rows) =
     filter_map (row_line (map_journal_columns (unwrap_or [] (cell_at rows (find_header_row rows)))))
       (posting_rows (map_journal_columns (unwrap_or [] (cell_at rows (find_header_row rows)))) (data_rows rows))
   \<and> list_all (\<lambda>e. je_lines e \<noteq> [] \<and> je_kind e \<noteq> [] \<and> list_all (\<lambda>l. jl_account l \<noteq> []) (je_lines e))
       (parse_journal rows)"
proof -
  let ?cols = "map_journal_columns (unwrap_or [] (cell_at rows (find_header_row rows)))"
  have "list_all (\<lambda>e. entry_ok e \<and> je_lines e \<noteq> []) (journal_loop ?cols (data_rows rows) [] None)"
    by (rule journal_loop_ok) simp_all
  then show ?thesis
    by (auto simp: parse_journal_def Let_def journal_loop_lines_None entry_ok_def line_ok_def list_all_iff)
qed

section \<open>Observations\<close>

text \<open>
  A workbook in the current spreadsheet format is itself an archive. Uploaded on
  its own it is taken apart as one: no member of it has an importable name, and
  nothing of it is read.
\<close>

lemma plain_workbook_not_read:
  assumes "is_zip data" "qr_zip R data = Some members"
    and "\<forall>m\<in>set members. \<forall>name content. m = Some (name, content) \<longrightarrow> \<not> importable_name name"
  shows "parse_qb_blob X R data = push_parse_error ''No Excel files found in ZIP archive.'' parsed_default"
proof -
  have "fold (parse_member X R) members (0, parsed_default) = (0, parsed_default)"
    using assms(3)
  proof (induction members)
    case (Cons m ms)
    then have "parse_member X R m (0, parsed_default) = (0, parsed_default)"
      by (auto simp: parse_member_def split: option.splits)
    then show ?case using Cons by simp
  qed simp
  then show ?thesis using assms(1,2) by (simp add: parse_qb_blob_def)
qed

text \<open>The fallback to the second cell never happens: a row that has one also has a first cell.\<close>

lemma first_cell_is_first: "first_cell (c # cs) = trim c"
  by (simp add: first_cell_def)

text \<open>Two slashes alone are a date.\<close>

lemma slashes_are_a_date: "is_date_like (Some ''//'') \<and> normalize_date (Some ''//'') = ''-00-00''"
  by code_simp

end
