(* ===== verification/Quickbooks_Import.thy ===== *)
theory Quickbooks_Import
  imports Quickbooks_Parse "HOL-Library.Sublist"
begin

text \<open>
  Writing a parsed QuickBooks export to the data plane, the other half of
  \<^verbatim>\<open>quickbooks_import.rs\<close>: the purge, the accounts, the contacts, the bank accounts,
  the journal and its ledger, and the report.
\<close>

section \<open>The report\<close>

record accounts_report =
  ar_created :: nat
  ar_reused :: nat
  ar_unmapped :: "string list"

record entity_report =
  er_imported :: nat
  er_skipped :: nat
  er_details :: "string list"

record employee_report =
  ep_parsed :: nat
  ep_note :: string

record journal_report =
  jr_imported :: nat
  jr_errors :: nat
  jr_total_lines :: nat
  jr_unmapped_accounts :: "string list"

record bank_accounts_report =
  br_created :: nat
  br_details :: "string list"

record rows_note =
  rn_rows :: nat
  rn_note :: string

record debug_report =
  dr_files_detected :: nat
  dr_parse_errors :: nat
  dr_customers :: nat
  dr_suppliers :: nat
  dr_employees :: nat
  dr_journal_entries :: nat
  dr_journal_lines :: nat
  dr_general_ledger :: nat
  dr_trial_balance :: nat
  dr_profit_and_loss :: nat
  dr_balance_sheet :: nat

record import_report =
  ir_accounts :: accounts_report
  ir_customers :: entity_report
  ir_suppliers :: entity_report
  ir_employees :: employee_report
  ir_journal_entries :: journal_report
  ir_bank_accounts :: bank_accounts_report
  ir_general_ledger :: rows_note
  ir_trial_balance :: rows_note
  ir_profit_and_loss :: rows_note
  ir_balance_sheet :: rows_note
  ir_warnings :: "string list"
  ir_dry_run_notice :: "string option"
  ir_debug :: debug_report

record import_response =
  rp_success :: bool
  rp_dry_run :: bool
  rp_dry_run_notice :: "string option"
  rp_purge :: bool
  rp_purge_report :: "(string \<times> int) list option"
  rp_report :: import_report
  rp_files_found :: "string list"
  rp_timestamp :: string
  rp_error :: "string option"

definition base_report :: "parsed_data \<Rightarrow> bool \<Rightarrow> import_report" where
  "base_report p dry_run =
     \<lparr>ir_accounts = \<lparr>ar_created = 0, ar_reused = 0, ar_unmapped = []\<rparr>,
      ir_customers = \<lparr>er_imported = 0, er_skipped = 0, er_details = []\<rparr>,
      ir_suppliers = \<lparr>er_imported = 0, er_skipped = 0, er_details = []\<rparr>,
      ir_employees = \<lparr>ep_parsed = length (pd_employees p),
        ep_note = ''Employees parsed for reference (no gb_employees table)''\<rparr>,
      ir_journal_entries = \<lparr>jr_imported = 0, jr_errors = 0, jr_total_lines = 0, jr_unmapped_accounts = []\<rparr>,
      ir_bank_accounts = \<lparr>br_created = 0, br_details = []\<rparr>,
      ir_general_ledger = \<lparr>rn_rows = length (pd_general_ledger p),
        rn_note = ''GL data used for cross-validation; journal entries are the primary import''\<rparr>,
      ir_trial_balance = \<lparr>rn_rows = length (pd_trial_balance p), rn_note = ''Trial balance used for validation''\<rparr>,
      ir_profit_and_loss = \<lparr>rn_rows = length (pd_profit_and_loss p), rn_note = ''P&L used for validation''\<rparr>,
      ir_balance_sheet = \<lparr>rn_rows = length (pd_balance_sheet p), rn_note = ''Balance sheet used for validation''\<rparr>,
      ir_warnings = pd_parse_errors p,
      ir_dry_run_notice = (if dry_run then Some ''Dry run mode: no data was written to the database.'' else None),
      ir_debug = \<lparr>dr_files_detected = length (pd_files p), dr_parse_errors = length (pd_parse_errors p),
        dr_customers = length (pd_customers p), dr_suppliers = length (pd_suppliers p),
        dr_employees = length (pd_employees p), dr_journal_entries = length (pd_journal p),
        dr_journal_lines = sum_list (map (\<lambda>e. length (je_lines e)) (pd_journal p)),
        dr_general_ledger = length (pd_general_ledger p), dr_trial_balance = length (pd_trial_balance p),
        dr_profit_and_loss = length (pd_profit_and_loss p), dr_balance_sheet = length (pd_balance_sheet p)\<rparr>\<rparr>"

section \<open>Fixed tables\<close>

definition ORG_ID :: string where
  "ORG_ID = ''cd861b76-f85c-4afc-b3e8-8f85945c3132''"

datatype account_map_def = AccountMapDef
  (am_qb_name: string) (am_code: string) (am_name: string) (am_account_type: string) (am_sub_type: string)
  (am_normal_balance: string) (am_existing: bool)

definition QB_ACCOUNT_MAP :: "account_map_def list" where
  "QB_ACCOUNT_MAP =
     [AccountMapDef ''RBC CAD 7336'' ''1011'' ''RBC CAD 7336'' ''asset'' ''bank'' ''debit'' False,
      AccountMapDef ''RBC USD'' ''1012'' ''RBC USD'' ''asset'' ''bank'' ''debit'' False,
      AccountMapDef ''Venn - 2756'' ''1013'' ''Venn - 2756'' ''asset'' ''bank'' ''debit'' False,
      AccountMapDef ''Venn - 5516'' ''1014'' ''Venn - 5516'' ''asset'' ''bank'' ''debit'' False,
      AccountMapDef ''Venn:0265 SaaS'' ''2101'' ''Venn CC 0265 SaaS'' ''liability'' ''current_liability'' ''credit'' False,
      AccountMapDef ''Venn:4594 Physical'' ''2102'' ''Venn CC 4594 Physical'' ''liability'' ''current_liability'' ''credit'' False,
      AccountMapDef ''Accounts Receivable (A/R)'' ''1100'' ''Accounts Receivable'' ''asset'' ''current_asset'' ''debit'' True,
      AccountMapDef ''Accounts Receivable (A/R) - USD'' ''1101'' ''Accounts Receivable (USD)'' ''asset'' ''current_asset'' ''debit'' False,
      AccountMapDef ''Accounts Payable (A/P)'' ''2000'' ''Accounts Payable'' ''liability'' ''current_liability'' ''credit'' True,
      AccountMapDef ''Direct Deposit Payable'' ''2401'' ''Direct Deposit Payable'' ''liability'' ''current_liability'' ''credit'' False,
      AccountMapDef ''GST/HST Payable'' ''2200'' ''GST/HST Payable'' ''liability'' ''current_liability'' ''credit'' True,
      AccountMapDef ''Payroll Liabilities:Federal Taxes'' ''2402'' ''Payroll Liabilities - Federal Taxes'' ''liability'' ''current_liability'' ''credit'' False,
      AccountMapDef ''Payroll Liabilities:Vacation Pay'' ''2403'' ''Payroll Liabilities - Vacation Pay'' ''liability'' ''current_liability'' ''credit'' False,
      AccountMapDef ''Opening Balance Equity'' ''3001'' ''Opening Balance Equity'' ''equity'' ''equity'' ''credit'' False,
      AccountMapDef ''GHA Sales'' ''4001'' ''GHA Sales'' ''revenue'' ''operating_revenue'' ''credit'' False,
      AccountMapDef ''Sales'' ''4000'' ''Service Revenue'' ''revenue'' ''operating_revenue'' ''credit'' True,
      AccountMapDef ''Advertising/Promotional'' ''6800'' ''Marketing & Advertising'' ''expense'' ''operating_expense'' ''debit'' True,
      AccountMapDef ''Consulting Fees'' ''5101'' ''Consulting Fees'' ''expense'' ''cost_of_goods'' ''debit'' False,
      AccountMapDef ''Legal and professional fees'' ''6700'' ''Professional Fees'' ''expense'' ''operating_expense'' ''debit'' True,
      AccountMapDef ''Meals and entertainment'' ''6901'' ''Meals and Entertainment'' ''expense'' ''operating_expense'' ''debit'' False,
      AccountMapDef ''Office Expenses'' ''6400'' ''Office Supplies'' ''expense'' ''operating_expense'' ''debit'' True,
      AccountMapDef ''Payroll Expenses:Taxes'' ''6200'' ''Payroll Taxes'' ''expense'' ''operating_expense'' ''debit'' True,
      AccountMapDef ''Payroll Expenses:Wages'' ''6000'' ''Salaries & Wages'' ''expense'' ''operating_expense'' ''debit'' True,
      AccountMapDef ''IRAP Contribution'' ''4501'' ''IRAP Contribution'' ''revenue'' ''other_revenue'' ''credit'' False,
      AccountMapDef ''Exchange Gain or Loss'' ''7501'' ''Exchange Gain or Loss'' ''expense'' ''other_expense'' ''debit'' False]"

datatype bank_account_def = BankAccountDef
  (bd_name: string) (bd_institution: string) (bd_last4: "string option") (bd_currency: string) (bd_qb_account: string)

definition BANK_ACCOUNTS :: "bank_account_def list" where
  "BANK_ACCOUNTS =
     [BankAccountDef ''RBC CAD 7336'' ''Royal Bank of Canada'' (Some ''7336'') ''CAD'' ''RBC CAD 7336'',
      BankAccountDef ''RBC USD'' ''Royal Bank of Canada'' None ''USD'' ''RBC USD'',
      BankAccountDef ''Venn - 2756'' ''Venn (Neo Financial)'' (Some ''2756'') ''CAD'' ''Venn - 2756'',
      BankAccountDef ''Venn - 5516'' ''Venn (Neo Financial)'' (Some ''5516'') ''CAD'' ''Venn - 5516'']"

definition purge_order :: "string list" where
  "purge_order =
     [''gb_ledger_entries'', ''gb_bank_transactions'', ''gb_bank_reconciliations'', ''gb_reconciliations'',
      ''gb_expense_items'', ''gb_expenses'', ''gb_bill_payments'', ''gb_bill_items'', ''gb_bills'',
      ''gb_invoice_items'', ''gb_payments'', ''gb_invoices'', ''gb_journal_entry_lines'', ''gb_journal_entries'',
      ''gb_vendors'', ''gb_customers'', ''gb_bank_accounts'', ''gb_audit_log'', ''gb_fiscal_periods'',
      ''gb_recurring_templates'']"

section \<open>Computations over the data plane\<close>

record qb_http =
  qh_method :: string
  qh_url :: string
  qh_prefer :: "string option"
  qh_body :: "json option"

record qb_reply =
  qy_status :: nat
  qy_content_range :: "string option"
  qy_text :: "(string, string) result"

text \<open>
  What comes from outside: the environment and the readers, whether a client can
  be built with a key, the reply of the data plane (which may depend on all it was
  sent before), the clock, the percent encoding, the text of a float with two
  decimals, and the order of a hash set.
\<close>

record qb_env =
  qx_ext :: ext
  qx_vars :: environment
  qx_readers :: qb_readers
  qx_client :: "string \<Rightarrow> (string, unit) result"
  qx_reply :: "string \<Rightarrow> qb_http list \<Rightarrow> qb_http \<Rightarrow> (string, qb_reply) result"
  qx_now :: "qb_http list \<Rightarrow> string"
  qx_encode :: "string \<Rightarrow> string"
  qx_fixed2 :: "f64 \<Rightarrow> string"
  qx_order :: "string list \<Rightarrow> string list"

record import_state =
  is_trace :: "qb_http list"
  is_report :: import_report

type_synonym 'a imp = "import_state \<Rightarrow> (string, 'a) result \<times> import_state"

definition imp_lift :: "(string, 'a) result \<Rightarrow> 'a imp" where
  "imp_lift r s = (r, s)"

definition imp_bind :: "'a imp \<Rightarrow> ('a \<Rightarrow> 'b imp) \<Rightarrow> 'b imp" where
  "imp_bind m f s = (case m s of (Inl e, s') \<Rightarrow> (Inl e, s') | (Inr a, s') \<Rightarrow> f a s')"

text \<open>The result as a value, for a caller that looks at the error itself.\<close>

definition imp_try :: "'a imp \<Rightarrow> (string, 'a) result imp" where
  "imp_try m s = (case m s of (r, s') \<Rightarrow> (Inr r, s'))"

definition imp_note :: "(import_report \<Rightarrow> import_report) \<Rightarrow> unit imp" where
  "imp_note f s = (Inr (), s\<lparr>is_report := f (is_report s)\<rparr>)"

text \<open>A computation that depends on the state, as one that reads the clock does.\<close>

definition imp_get :: "(import_state \<Rightarrow> 'a imp) \<Rightarrow> 'a imp" where
  "imp_get f s = f s s"

primrec imp_each :: "('a \<Rightarrow> unit imp) \<Rightarrow> 'a list \<Rightarrow> unit imp" where
  "imp_each f [] = imp_lift (Ok ())"
| "imp_each f (x # xs) = imp_bind (f x) (\<lambda>_. imp_each f xs)"

primrec imp_fold :: "('b \<Rightarrow> 'a \<Rightarrow> 'b imp) \<Rightarrow> 'b \<Rightarrow> 'a list \<Rightarrow> 'b imp" where
  "imp_fold f b [] = imp_lift (Ok b)"
| "imp_fold f b (x # xs) = imp_bind (f b x) (\<lambda>c. imp_fold f c xs)"

definition send :: "qb_env \<Rightarrow> string \<Rightarrow> qb_http \<Rightarrow> qb_reply imp" where
  "send D key q s = (qx_reply D key (is_trace s) q, s\<lparr>is_trace := is_trace s @ [q]\<rparr>)"

definition status_ok :: "nat \<Rightarrow> bool" where
  "status_ok n = (200 \<le> n \<and> n < 300)"

section \<open>Requests\<close>

definition qb_supabase_env :: "environment \<Rightarrow> (string, string \<times> string) result" where
  "qb_supabase_env env =
     (let base = trim_end_matches (CHR ''/'')
            (unwrap_or [] (opt_or (env ''SUPABASE_URL'') (env ''NEXT_PUBLIC_SUPABASE_URL'')));
          key = unwrap_or [] (env ''SUPABASE_SERVICE_ROLE_KEY'')
      in if base = [] \<or> key = [] then Err ''Supabase env not configured in gateway'' else Ok (base, key))"

definition rows_of :: "ext \<Rightarrow> string \<Rightarrow> json list" where
  "rows_of X txt = (case json_from_str X txt of Inr (JArr rows) \<Rightarrow> rows | _ \<Rightarrow> [])"

definition reply_rows :: "ext \<Rightarrow> qb_reply \<Rightarrow> (string, json list) result" where
  "reply_rows X r = try_result (qy_text r) (\<lambda>txt. if \<not> status_ok (qy_status r) then Err txt else Ok (rows_of X txt))"

definition http_get :: "string \<Rightarrow> string option \<Rightarrow> qb_http" where
  "http_get u prefer = \<lparr>qh_method = ''GET'', qh_url = u, qh_prefer = prefer, qh_body = None\<rparr>"

definition post_rows_with_prefer :: "qb_env \<Rightarrow> string \<Rightarrow> string \<Rightarrow> json \<Rightarrow> string \<Rightarrow> json list imp" where
  "post_rows_with_prefer D key u payload prefer =
     imp_bind (send D key \<lparr>qh_method = ''POST'', qh_url = u, qh_prefer = Some prefer, qh_body = Some payload\<rparr>)
       (\<lambda>r. imp_lift (reply_rows (qx_ext D) r))"

definition post_rows :: "qb_env \<Rightarrow> string \<Rightarrow> string \<Rightarrow> json \<Rightarrow> json list imp" where
  "post_rows D key u payload = post_rows_with_prefer D key u payload ''return=representation''"

definition first_id :: "json list \<Rightarrow> string option" where
  "first_id rows = Option.bind (head_opt rows) (get_str ''id'')"

definition find_account_id :: "qb_env \<Rightarrow> string \<Rightarrow> string \<Rightarrow> string \<Rightarrow> string option imp" where
  "find_account_id D key base code =
     imp_bind (send D key (http_get (base @ ''/rest/v1/gb_accounts?select=id&org_id=eq.'' @ ORG_ID @ ''&code=eq.''
         @ code @ ''&limit=1'') None))
       (\<lambda>r. imp_lift (try_result (reply_rows (qx_ext D) r) (\<lambda>rows. Ok (first_id rows))))"

definition exists_by_name :: "qb_env \<Rightarrow> string \<Rightarrow> string \<Rightarrow> string \<Rightarrow> string \<Rightarrow> bool imp" where
  "exists_by_name D key base table name =
     imp_bind (send D key (http_get (base @ ''/rest/v1/'' @ table @ ''?select=id&org_id=eq.'' @ ORG_ID
         @ ''&name=eq.'' @ qx_encode D name @ ''&limit=1'') None))
       (\<lambda>r. imp_lift (try_result (reply_rows (qx_ext D) r) (\<lambda>rows. Ok (rows \<noteq> []))))"

section \<open>The purge\<close>

definition row_total :: "ext \<Rightarrow> qb_reply \<Rightarrow> int" where
  "row_total X r = unwrap_or 0 (Option.bind (Option.bind (qy_content_range r) (hv_to_str X))
     (\<lambda>s. parse_i64 (last (split_on (CHR ''/'') s))))"

definition purge_table :: "qb_env \<Rightarrow> string \<Rightarrow> string \<Rightarrow> bool \<Rightarrow> (string \<times> int) list \<Rightarrow> string \<Rightarrow> (string \<times> int) list imp" where
  "purge_table D key base dry_run out table =
     imp_bind (send D key (http_get (base @ ''/rest/v1/'' @ table @ ''?select=*&org_id=eq.'' @ ORG_ID @ ''&limit=1'')
         (Some ''count=exact''))) (\<lambda>resp.
       if \<not> status_ok (qy_status resp) then imp_lift (Ok (alist_set table (- 1) out))
       else let total = row_total (qx_ext D) resp
            in if dry_run \<or> total \<le> 0 then imp_lift (Ok (alist_set table (max total 0) out))
               else imp_bind (send D key \<lparr>qh_method = ''DELETE'',
                       qh_url = base @ ''/rest/v1/'' @ table @ ''?org_id=eq.'' @ ORG_ID, qh_prefer = None, qh_body = None\<rparr>)
                     (\<lambda>del. imp_lift (Ok (alist_set table (if status_ok (qy_status del) then max total 0 else - 1) out))))"

definition run_purge :: "qb_env \<Rightarrow> bool \<Rightarrow> (string \<times> int) list imp" where
  "run_purge D dry_run =
     imp_bind (imp_lift (qb_supabase_env (qx_vars D))) (\<lambda>(base, key).
     imp_bind (imp_lift (qx_client D key)) (\<lambda>_.
       imp_fold (purge_table D key base dry_run) [] purge_order))"

section \<open>Accounts and contacts\<close>

definition warn :: "string \<Rightarrow> import_report \<Rightarrow> import_report" where
  "warn w r = r\<lparr>ir_warnings := ir_warnings r @ [w]\<rparr>"

definition reused :: "import_report \<Rightarrow> import_report" where
  "reused r = r\<lparr>ir_accounts := (ir_accounts r)\<lparr>ar_reused := ar_reused (ir_accounts r) + 1\<rparr>\<rparr>"

definition created :: "import_report \<Rightarrow> import_report" where
  "created r = r\<lparr>ir_accounts := (ir_accounts r)\<lparr>ar_created := ar_created (ir_accounts r) + 1\<rparr>\<rparr>"

type_synonym account_map = "string \<Rightarrow> string option"

definition with_note :: "(import_report \<Rightarrow> import_report) \<Rightarrow> 'a \<Rightarrow> 'a imp" where
  "with_note f a = imp_bind (imp_note f) (\<lambda>_. imp_lift (Ok a))"

definition account_payload :: "account_map_def \<Rightarrow> json" where
  "account_payload m = JArr [JObj [(''org_id'', JStr ORG_ID), (''code'', JStr (am_code m)), (''name'', JStr (am_name m)),
     (''account_type'', JStr (am_account_type m)), (''sub_type'', JStr (am_sub_type m)),
     (''normal_balance'', JStr (am_normal_balance m)), (''is_active'', JBool True), (''is_system'', JBool False)]]"

definition setup_account :: "qb_env \<Rightarrow> string \<Rightarrow> string \<Rightarrow> bool \<Rightarrow> account_map \<Rightarrow> account_map_def \<Rightarrow> account_map imp" where
  "setup_account D key base dry_run acc m =
     imp_bind (find_account_id D key base (am_code m)) (\<lambda>found. case found of
       Some i \<Rightarrow> with_note reused (acc(am_qb_name m \<mapsto> i))
     | None \<Rightarrow>
         if am_existing m
         then with_note (warn (''Expected existing account '' @ am_code m @ '' ('' @ am_name m @ '') not found'')) acc
         else if dry_run then with_note created (acc(am_qb_name m \<mapsto> ''dry-run-'' @ am_code m))
         else imp_bind (post_rows_with_prefer D key (base @ ''/rest/v1/gb_accounts?on_conflict=org_id,code'')
                 (account_payload m) ''resolution=merge-duplicates,return=representation'') (\<lambda>rows.
                case first_id rows of
                  Some i \<Rightarrow> with_note created (acc(am_qb_name m \<mapsto> i))
                | None \<Rightarrow> imp_lift (Ok acc)))"

definition setup_accounts :: "qb_env \<Rightarrow> string \<Rightarrow> string \<Rightarrow> bool \<Rightarrow> account_map imp" where
  "setup_accounts D key base dry_run = imp_fold (setup_account D key base dry_run) Map.empty QB_ACCOUNT_MAP"

text \<open>
  The loops over customers and suppliers are the same code over two tables; what
  differs is the record, the table, the noun of the messages and the part of the
  report they count in.
\<close>

record contact =
  ct_name :: string
  ct_email :: "string option"
  ct_phone :: "string option"
  ct_full_name :: "string option"
  ct_address :: "string option"

definition contact_payload :: "contact \<Rightarrow> json" where
  "contact_payload c = (case parse_address (ct_address c) of (a1, a2, city, province, postal, country) \<Rightarrow>
     JArr [JObj [(''org_id'', JStr ORG_ID), (''name'', JStr (ct_name c)), (''email'', jopt_str (ct_email c)),
       (''phone'', jopt_str (ct_phone c)),
       (''company'', jopt_str (opt_filter (\<lambda>v. v \<noteq> ct_name c) (ct_full_name c))),
       (''address_line1'', jopt_str a1), (''address_line2'', jopt_str a2), (''city'', jopt_str city),
       (''province'', jopt_str province), (''postal_code'', jopt_str postal), (''country'', jopt_str country)]])"

type_synonym entity_update = "(entity_report \<Rightarrow> entity_report) \<Rightarrow> import_report \<Rightarrow> import_report"

definition count_imported :: "entity_report \<Rightarrow> entity_report" where
  "count_imported e = e\<lparr>er_imported := er_imported e + 1\<rparr>"

definition count_skipped :: "entity_report \<Rightarrow> entity_report" where
  "count_skipped e = e\<lparr>er_skipped := er_skipped e + 1\<rparr>"

definition detail :: "string \<Rightarrow> entity_report \<Rightarrow> entity_report" where
  "detail d e = e\<lparr>er_details := er_details e @ [d]\<rparr>"

definition import_contact ::
  "qb_env \<Rightarrow> string \<Rightarrow> string \<Rightarrow> bool \<Rightarrow> entity_update \<Rightarrow> string \<Rightarrow> string \<Rightarrow> string \<Rightarrow> contact \<Rightarrow> unit imp" where
  "import_contact D key base dry_run upd table noun err_noun c =
     (if blank (ct_name c) then imp_note (upd count_skipped)
      else if dry_run
      then imp_note (upd (detail (''[DRY-RUN] Would import '' @ noun @ '': '' @ ct_name c) \<circ> count_imported))
      else imp_bind (exists_by_name D key base table (ct_name c)) (\<lambda>exists.
        if exists then imp_note (upd (detail (''Skipped (exists): '' @ ct_name c) \<circ> count_skipped))
        else imp_bind (imp_try (post_rows D key (base @ ''/rest/v1/'' @ table) (contact_payload c))) (\<lambda>r. case r of
            Inr _ \<Rightarrow> imp_note (upd (detail (''Imported: '' @ ct_name c) \<circ> count_imported))
          | Inl e \<Rightarrow> imp_note (warn (''Error importing '' @ err_noun @ '' '' @ ct_name c @ '': '' @ e) \<circ> upd count_skipped))))"

definition customer_contact :: "customer_row \<Rightarrow> contact" where
  "customer_contact c = \<lparr>ct_name = cr_name c, ct_email = cr_email c, ct_phone = cr_phone c,
     ct_full_name = cr_full_name c, ct_address = cr_billing_address c\<rparr>"

definition supplier_contact :: "supplier_row \<Rightarrow> contact" where
  "supplier_contact c = \<lparr>ct_name = su_name c, ct_email = su_email c, ct_phone = su_phone c,
     ct_full_name = su_full_name c, ct_address = su_address c\<rparr>"

definition import_customers :: "qb_env \<Rightarrow> string \<Rightarrow> string \<Rightarrow> parsed_data \<Rightarrow> bool \<Rightarrow> unit imp" where
  "import_customers D key base p dry_run =
     imp_each (\<lambda>c. import_contact D key base dry_run ir_customers_update ''gb_customers'' ''customer'' ''customer''
       (customer_contact c)) (pd_customers p)"

definition import_suppliers :: "qb_env \<Rightarrow> string \<Rightarrow> string \<Rightarrow> parsed_data \<Rightarrow> bool \<Rightarrow> unit imp" where
  "import_suppliers D key base p dry_run =
     imp_each (\<lambda>c. import_contact D key base dry_run ir_suppliers_update ''gb_vendors'' ''supplier'' ''vendor''
       (supplier_contact c)) (pd_suppliers p)"

definition bank_created :: "string \<Rightarrow> import_report \<Rightarrow> import_report" where
  "bank_created d r = r\<lparr>ir_bank_accounts := \<lparr>br_created = br_created (ir_bank_accounts r) + 1,
     br_details = br_details (ir_bank_accounts r) @ [d]\<rparr>\<rparr>"

definition bank_detail :: "string \<Rightarrow> import_report \<Rightarrow> import_report" where
  "bank_detail d r = r\<lparr>ir_bank_accounts := (ir_bank_accounts r)\<lparr>br_details := br_details (ir_bank_accounts r) @ [d]\<rparr>\<rparr>"

definition bank_payload :: "bank_account_def \<Rightarrow> string \<Rightarrow> json" where
  "bank_payload b gl = JArr [JObj [(''org_id'', JStr ORG_ID), (''name'', JStr (bd_name b)),
     (''institution'', JStr (bd_institution b)), (''account_number_last4'', jopt_str (bd_last4 b)),
     (''gl_account_id'', JStr gl), (''currency'', JStr (bd_currency b)), (''is_active'', JBool True)]]"

definition import_bank_account :: "qb_env \<Rightarrow> string \<Rightarrow> string \<Rightarrow> account_map \<Rightarrow> bool \<Rightarrow> bank_account_def \<Rightarrow> unit imp" where
  "import_bank_account D key base acc dry_run b =
     (if dry_run then imp_note (bank_created (''[DRY-RUN] Would create bank account: '' @ bd_name b))
      else case acc (bd_qb_account b) of
        None \<Rightarrow> imp_note (warn (''No GL account mapped for bank: '' @ bd_name b))
      | Some gl \<Rightarrow>
          if starts_with ''dry-run-'' gl
          then imp_note (warn (''No persisted GL account mapped for bank: '' @ bd_name b))
          else imp_bind (exists_by_name D key base ''gb_bank_accounts'' (bd_name b)) (\<lambda>exists.
            if exists then imp_note (bank_detail (''Skipped (exists): '' @ bd_name b))
            else imp_bind (imp_try (post_rows D key (base @ ''/rest/v1/gb_bank_accounts'') (bank_payload b gl))) (\<lambda>r.
              case r of
                Inr _ \<Rightarrow> imp_note (bank_created (''Created: '' @ bd_name b))
              | Inl e \<Rightarrow> imp_note (warn (''Error creating bank account '' @ bd_name b @ '': '' @ e)))))"

definition import_bank_accounts :: "qb_env \<Rightarrow> string \<Rightarrow> string \<Rightarrow> account_map \<Rightarrow> bool \<Rightarrow> unit imp" where
  "import_bank_accounts D key base acc dry_run = imp_each (import_bank_account D key base acc dry_run) BANK_ACCOUNTS"

section \<open>The journal\<close>

definition jf64 :: "f64 \<Rightarrow> json" where
  "jf64 v = (case v of Finite x \<Rightarrow> JNum (Float x) | _ \<Rightarrow> JNull)"

definition line_payload :: "nat \<Rightarrow> journal_line \<Rightarrow> string \<Rightarrow> json" where
  "line_payload i l account_id = JObj [(''account_id'', JStr account_id), (''description'', jopt_str (jl_memo l)),
     (''debit'', jf64 (jl_debit l)), (''credit'', jf64 (jl_credit l)), (''sort_order'', jnat i)]"

definition lines_payload :: "account_map \<Rightarrow> journal_entry \<Rightarrow> json list" where
  "lines_payload acc e = filter_map (\<lambda>(i, l). map_option (line_payload i l) (acc (jl_account l)))
     (enumerate 0 (je_lines e))"

definition missing_accounts :: "account_map \<Rightarrow> journal_entry \<Rightarrow> string list" where
  "missing_accounts acc e = filter (\<lambda>a. acc a = None) (map jl_account (je_lines e))"

definition total_debit :: "journal_entry \<Rightarrow> f64" where
  "total_debit e = f64_sum (map jl_debit (je_lines e))"

definition total_credit :: "journal_entry \<Rightarrow> f64" where
  "total_credit e = f64_sum (map jl_credit (je_lines e))"

definition unbalanced :: "f64 \<Rightarrow> f64 \<Rightarrow> bool" where
  "unbalanced d c = f64_gt (f64_abs (f64_sub d c)) f64_cent"

definition journal_error :: "import_report \<Rightarrow> import_report" where
  "journal_error r = r\<lparr>ir_journal_entries := (ir_journal_entries r)\<lparr>jr_errors := jr_errors (ir_journal_entries r) + 1\<rparr>\<rparr>"

definition journal_imported :: "import_report \<Rightarrow> import_report" where
  "journal_imported r = r\<lparr>ir_journal_entries := (ir_journal_entries r)\<lparr>jr_imported := jr_imported (ir_journal_entries r) + 1\<rparr>\<rparr>"

definition count_lines :: "nat \<Rightarrow> import_report \<Rightarrow> import_report" where
  "count_lines n r = r\<lparr>ir_journal_entries := (ir_journal_entries r)\<lparr>jr_total_lines := jr_total_lines (ir_journal_entries r) + n\<rparr>\<rparr>"

definition entry_payload :: "qb_env \<Rightarrow> qb_http list \<Rightarrow> nat \<Rightarrow> journal_entry \<Rightarrow> json" where
  "entry_payload D tr idx e =
     (let year = hd (split_on (CHR ''-'') (je_date e));
          entry_num = ''QBI-'' @ year @ ''-'' @ pad_left 4 (dec_str (idx + 1));
          desc = str_join '' - '' (filter_map (\<lambda>x. x)
            [Some (je_kind e), je_name e, Option.bind (head_opt (je_lines e)) jl_memo])
      in JArr [JObj [(''org_id'', JStr ORG_ID), (''entry_number'', JStr entry_num), (''entry_date'', JStr (je_date e)),
           (''description'', JStr desc), (''reference'', jopt_str (map_option (\<lambda>n. ''QB#'' @ n) (je_num e))),
           (''source'', JStr (''qb_import_'' @ sanitize_source (je_kind e))), (''status'', JStr ''posted''),
           (''posted_at'', JStr (qx_now D tr)), (''total_debit'', jf64 (round2 (total_debit e))),
           (''total_credit'', jf64 (round2 (total_credit e)))]])"

definition value_f64 :: "json option \<Rightarrow> rat" where
  "value_f64 v = (case v of
     Some (JNum (PosInt n)) \<Rightarrow> b64_round (of_nat n)
   | Some (JNum (NegInt i)) \<Rightarrow> b64_round (of_int i)
   | Some (JNum (Float x)) \<Rightarrow> x
   | _ \<Rightarrow> 0)"

definition ledger_row :: "string \<Rightarrow> string \<Rightarrow> json \<Rightarrow> json option" where
  "ledger_row date je_id r = Option.bind (get_str ''id'' r) (\<lambda>i. map_option (\<lambda>account_id.
     JObj [(''org_id'', JStr ORG_ID), (''account_id'', JStr account_id), (''journal_entry_id'', JStr je_id),
       (''journal_line_id'', JStr i), (''entry_date'', JStr date),
       (''debit'', JNum (Float (value_f64 (jget ''debit'' r)))), (''credit'', JNum (Float (value_f64 (jget ''credit'' r))))])
     (get_str ''account_id'' r))"

definition post_ledger :: "qb_env \<Rightarrow> string \<Rightarrow> string \<Rightarrow> nat \<Rightarrow> journal_entry \<Rightarrow> string \<Rightarrow> json list \<Rightarrow> unit imp" where
  "post_ledger D key base idx e je_id inserted =
     (let rows = filter_map (ledger_row (je_date e) je_id) inserted
      in imp_bind
           (if rows = [] then imp_lift (Ok ())
            else imp_bind (imp_try (post_rows D key (base @ ''/rest/v1/gb_ledger_entries'') (JArr rows))) (\<lambda>r. case r of
                Inr _ \<Rightarrow> imp_lift (Ok ())
              | Inl err \<Rightarrow> imp_note (warn (''Error ledger for JE '' @ dec_str (idx + 1) @ '': '' @ err))))
           (\<lambda>_. imp_note journal_imported))"

definition post_journal :: "qb_env \<Rightarrow> string \<Rightarrow> string \<Rightarrow> nat \<Rightarrow> journal_entry \<Rightarrow> json list \<Rightarrow> unit imp" where
  "post_journal D key base idx e payloads = imp_get (\<lambda>s.
     imp_bind (imp_try (post_rows D key (base @ ''/rest/v1/gb_journal_entries'') (entry_payload D (is_trace s) idx e)))
       (\<lambda>r. case r of
          Inl err \<Rightarrow> imp_note (warn (''Error JE '' @ dec_str (idx + 1) @ '': '' @ err) \<circ> journal_error)
        | Inr je_rows \<Rightarrow> (case first_id je_rows of
            None \<Rightarrow> imp_note journal_error
          | Some je_id \<Rightarrow>
              imp_bind (imp_try (post_rows D key (base @ ''/rest/v1/gb_journal_entry_lines'')
                  (JArr (map (jset ''journal_entry_id'' (JStr je_id)) payloads)))) (\<lambda>r. case r of
                Inl err \<Rightarrow> imp_note (warn (''Error JE lines '' @ dec_str (idx + 1) @ '': '' @ err) \<circ> journal_error)
              | Inr inserted \<Rightarrow> post_ledger D key base idx e je_id inserted))))"

definition import_entry :: "qb_env \<Rightarrow> string \<Rightarrow> string \<Rightarrow> account_map \<Rightarrow> bool \<Rightarrow> nat \<times> journal_entry \<Rightarrow> unit imp" where
  "import_entry D key base acc dry_run = (\<lambda>(idx, e).
     let payloads = lines_payload acc e; d = total_debit e; c = total_credit e
     in if missing_accounts acc e \<noteq> [] then imp_note journal_error
        else if length payloads < 2
        then imp_note (warn (''JE '' @ je_date e @ '' '' @ je_kind e @ '': less than 2 lines, skipped'') \<circ> journal_error)
        else if unbalanced d c
        then imp_note (warn (''JE '' @ je_date e @ '' is unbalanced: debit='' @ qx_fixed2 D d @ '', credit='' @ qx_fixed2 D c)
               \<circ> journal_error)
        else imp_bind (imp_note (count_lines (length payloads))) (\<lambda>_.
          if dry_run then imp_note journal_imported else post_journal D key base idx e payloads))"

definition note_unmapped :: "string list \<Rightarrow> import_report \<Rightarrow> import_report" where
  "note_unmapped accounts r = r\<lparr>ir_journal_entries := (ir_journal_entries r)\<lparr>jr_unmapped_accounts := accounts\<rparr>,
     ir_accounts := (ir_accounts r)\<lparr>ar_unmapped := accounts\<rparr>\<rparr>"

text \<open>
  The set of unmapped accounts only grows by the accounts each entry misses, and
  no request depends on it: it is collected at the end, in the order of the set.
\<close>

definition import_journal :: "qb_env \<Rightarrow> string \<Rightarrow> string \<Rightarrow> parsed_data \<Rightarrow> account_map \<Rightarrow> bool \<Rightarrow> unit imp" where
  "import_journal D key base p acc dry_run =
     imp_bind (imp_each (import_entry D key base acc dry_run) (enumerate 0 (pd_journal p))) (\<lambda>_.
       imp_note (note_unmapped (qx_order D (remdups (concat (map (missing_accounts acc) (pd_journal p)))))))"

definition validate_trial_balance :: "qb_env \<Rightarrow> parsed_data \<Rightarrow> import_report \<Rightarrow> import_report" where
  "validate_trial_balance D p r =
     (if pd_trial_balance p = [] then r
      else
        let tbd = f64_sum (map tb_debit (pd_trial_balance p)); tbc = f64_sum (map tb_credit (pd_trial_balance p));
            ls = concat (map je_lines (pd_journal p));
            jed = f64_sum (map jl_debit ls); jec = f64_sum (map jl_credit ls);
            fx = qx_fixed2 D;
            r1 = (if unbalanced tbd tbc
                  then warn (''QB Trial Balance is unbalanced: Debit='' @ fx tbd @ '', Credit='' @ fx tbc) r else r)
        in warn (''Validation: QB TB totals D='' @ fx tbd @ '' C='' @ fx tbc @ '' | JE totals D='' @ fx jed
             @ '' C='' @ fx jec) r1)"

definition TAX_WARNING :: string where
  "TAX_WARNING = ''GST/HST mapping: QuickBooks Journal export does not include tax codes/rates, so tax cannot be inferred. Use a Tax Detail report or map tax accounts manually after import.''"

definition run_import :: "qb_env \<Rightarrow> parsed_data \<Rightarrow> bool \<Rightarrow> unit imp" where
  "run_import D p dry_run =
     imp_bind (imp_lift (qb_supabase_env (qx_vars D))) (\<lambda>(base, key).
     imp_bind (imp_lift (qx_client D key)) (\<lambda>_.
     imp_bind (setup_accounts D key base dry_run) (\<lambda>acc.
     imp_bind (import_customers D key base p dry_run) (\<lambda>_.
     imp_bind (import_suppliers D key base p dry_run) (\<lambda>_.
     imp_bind (import_bank_accounts D key base acc dry_run) (\<lambda>_.
     imp_bind (import_journal D key base p acc dry_run) (\<lambda>_.
     imp_bind (if pd_journal p \<noteq> [] then imp_note (warn TAX_WARNING) else imp_lift (Ok ())) (\<lambda>_.
       imp_note (validate_trial_balance D p)))))))))"

section \<open>The handler\<close>

text \<open>
  The multipart request is the list of its fields up to the end or the first
  field that cannot be read.
\<close>

record multipart_field =
  mf_name :: "string option"
  mf_bytes :: "(string, string) result"
  mf_text :: "(string, string) result"

record import_form =
  if_file :: "string option"
  if_dry_run :: bool
  if_purge :: bool

fun read_form :: "import_form \<Rightarrow> multipart_field list \<Rightarrow> (string, import_form) result" where
  "read_form fm [] = Ok fm"
| "read_form fm (fd # rest) =
     (let name = unwrap_or [] (mf_name fd)
      in if name = ''file'' then
           (case mf_bytes fd of
              Inl e \<Rightarrow> Err (''invalid file: '' @ e)
            | Inr bytes \<Rightarrow> read_form (fm\<lparr>if_file := Some bytes\<rparr>) rest)
         else
           let value = to_ascii_lowercase (unwrap_or [] (result_ok (mf_text fd)))
           in read_form (if name = ''dryRun'' then fm\<lparr>if_dry_run := (value = ''true'')\<rparr>
                         else if name = ''purge'' then fm\<lparr>if_purge := (value = ''true'')\<rparr> else fm) rest)"

definition empty_form :: import_form where
  "empty_form = \<lparr>if_file = None, if_dry_run = True, if_purge = False\<rparr>"

text \<open>An answer is a refusal with its message, or the report; its encoding is left to the JSON library.\<close>

datatype qb_answer = Refused string | Reported import_response

definition import_answer ::
  "qb_env \<Rightarrow> import_form \<Rightarrow> parsed_data \<Rightarrow> (string \<times> int) list option \<Rightarrow> import_state \<Rightarrow> string option \<Rightarrow> qb_answer" where
  "import_answer D fm p purge_report s err = Reported
     \<lparr>rp_success = (err = None), rp_dry_run = if_dry_run fm, rp_dry_run_notice = ir_dry_run_notice (is_report s),
      rp_purge = if_purge fm, rp_purge_report = purge_report, rp_report = is_report s,
      rp_files_found = qx_order D (map fst (pd_files p)), rp_timestamp = qx_now D (is_trace s), rp_error = err\<rparr>"

definition purge_first :: "qb_env \<Rightarrow> import_form \<Rightarrow> (string \<times> int) list option imp" where
  "purge_first D fm =
     (if if_purge fm then imp_bind (run_purge D (if_dry_run fm)) (\<lambda>r. imp_lift (Ok (Some r)))
      else imp_lift (Ok None))"

definition import_parsed :: "qb_env \<Rightarrow> import_form \<Rightarrow> parsed_data \<Rightarrow> (nat \<times> qb_answer) \<times> qb_http list" where
  "import_parsed D fm p = (case purge_first D fm \<lparr>is_trace = [], is_report = base_report p (if_dry_run fm)\<rparr> of
     (Inl e, s1) \<Rightarrow> ((500, import_answer D fm p None s1 (Some (''purge failed: '' @ e))), is_trace s1)
   | (Inr purge_report, s1) \<Rightarrow> (case run_import D p (if_dry_run fm) s1 of
       (Inl e, s2) \<Rightarrow> ((500, import_answer D fm p purge_report s2 (Some e)), is_trace s2)
     | (Inr _, s2) \<Rightarrow> ((200, import_answer D fm p purge_report s2 None), is_trace s2)))"

definition greenbooks_import_quickbooks :: "qb_env \<Rightarrow> multipart_field list \<Rightarrow> (nat \<times> qb_answer) \<times> qb_http list" where
  "greenbooks_import_quickbooks D fds = (case read_form empty_form fds of
     Inl e \<Rightarrow> ((400, Refused e), [])
   | Inr fm \<Rightarrow> (case if_file fm of
       None \<Rightarrow> ((400, Refused ''missing multipart file field''), [])
     | Some data \<Rightarrow> import_parsed D fm (parse_qb_blob (qx_ext D) (qx_readers D) data)))"

section \<open>What a computation does to the state\<close>

text \<open>
  A relation between the state before and after a computation, whatever its
  result. For a relation that is reflexive and transitive, the sequencing
  operators of the importer keep it.
\<close>

definition imp_rel :: "(import_state \<Rightarrow> import_state \<Rightarrow> bool) \<Rightarrow> 'a imp \<Rightarrow> bool" where
  "imp_rel R m = (\<forall>s. R s (snd (m s)))"

locale import_relation =
  fixes R :: "import_state \<Rightarrow> import_state \<Rightarrow> bool"
  assumes rel_refl: "R s s"
    and rel_trans: "R s t \<Longrightarrow> R t u \<Longrightarrow> R s u"
begin

lemma rel_lift: "imp_rel R (imp_lift r)"
  by (simp add: imp_rel_def imp_lift_def rel_refl)

lemma rel_bind:
  assumes "imp_rel R m" "\<And>a. imp_rel R (f a)"
  shows "imp_rel R (imp_bind m f)"
proof -
  have "R s (snd (imp_bind m f s))" for s
  proof (cases "m s")
    case (Pair r t)
    then have "R s t" using assms(1) by (metis imp_rel_def snd_conv)
    then show ?thesis using Pair assms(2)
      by (cases r) (auto simp: imp_bind_def imp_rel_def intro: rel_trans)
  qed
  then show ?thesis by (simp add: imp_rel_def)
qed

lemma rel_try: "imp_rel R m \<Longrightarrow> imp_rel R (imp_try m)"
  by (simp add: imp_rel_def imp_try_def split_beta)

lemma rel_each: "(\<And>x. x \<in> set xs \<Longrightarrow> imp_rel R (f x)) \<Longrightarrow> imp_rel R (imp_each f xs)"
  by (induction xs) (auto intro: rel_lift rel_bind)

lemma rel_fold: "(\<And>b x. x \<in> set xs \<Longrightarrow> imp_rel R (f b x)) \<Longrightarrow> imp_rel R (imp_fold f b xs)"
  by (induction xs arbitrary: b) (auto intro!: rel_lift rel_bind)

end

text \<open>Two such relations: only requests of some kind were sent; some part of the report is as it was.\<close>

definition sent :: "(qb_http \<Rightarrow> bool) \<Rightarrow> import_state \<Rightarrow> import_state \<Rightarrow> bool" where
  "sent ok s s' = (\<exists>new. is_trace s' = is_trace s @ new \<and> list_all ok new)"

definition same :: "(import_report \<Rightarrow> 'b) \<Rightarrow> import_state \<Rightarrow> import_state \<Rightarrow> bool" where
  "same f s s' = (f (is_report s') = f (is_report s))"

interpretation sent: import_relation "sent ok" for ok
proof
  show "sent ok s s" for s by (simp add: sent_def)
  show "sent ok s t \<Longrightarrow> sent ok t u \<Longrightarrow> sent ok s u" for s t u by (auto simp: sent_def)
qed

interpretation same: import_relation "same f" for f
  by unfold_locales (simp_all add: same_def)

lemma sent_note: "imp_rel (sent ok) (imp_note f)"
  by (simp add: imp_rel_def imp_note_def sent_def)

lemma sent_with_note: "imp_rel (sent ok) (with_note f a)"
  unfolding with_note_def by (intro sent.rel_bind sent_note sent.rel_lift)

lemma sent_send: "ok q \<Longrightarrow> imp_rel (sent ok) (send D key q)"
  by (simp add: imp_rel_def send_def sent_def)

lemma rel_get: "(\<And>s. imp_rel R (m s)) \<Longrightarrow> imp_rel R (imp_get m)"
  by (simp add: imp_rel_def imp_get_def)

lemma sent_cases:
  "(b \<Longrightarrow> imp_rel R m) \<Longrightarrow> (\<not> b \<Longrightarrow> imp_rel R n) \<Longrightarrow> imp_rel R (if b then m else n)"
  "imp_rel R m1 \<Longrightarrow> (\<And>a. imp_rel R (m2 a)) \<Longrightarrow> imp_rel R (case x of None \<Rightarrow> m1 | Some a \<Rightarrow> m2 a)"
  "(\<And>e. imp_rel R (m3 e)) \<Longrightarrow> (\<And>a. imp_rel R (m4 a)) \<Longrightarrow> imp_rel R (case r of Inl e \<Rightarrow> m3 e | Inr a \<Rightarrow> m4 a)"
  "(\<And>a c. imp_rel R (m5 a c)) \<Longrightarrow> imp_rel R (case z of (a, c) \<Rightarrow> m5 a c)"
  by (auto split: option.splits sum.splits prod.splits)

lemmas sent_rules = sent.rel_lift sent.rel_bind sent.rel_try sent.rel_each sent.rel_fold
  sent_note sent_with_note sent_cases

section \<open>A dry run only reads\<close>

abbreviation reads :: "'a imp \<Rightarrow> bool" where
  "reads \<equiv> imp_rel (sent (\<lambda>q. qh_method q = ''GET''))"

lemma reads_get: "reads (send D key (http_get u prefer))"
  by (rule sent_send) (simp add: http_get_def)

lemma reads_find: "reads (find_account_id D key base code)"
  unfolding find_account_id_def by (intro sent_rules reads_get)

lemma reads_setup: "reads (setup_accounts D key base True)"
proof -
  have "reads (setup_account D key base True acc m)" for acc m
    unfolding setup_account_def by (intro sent_rules reads_find) (simp_all add: sent_rules)
  then show ?thesis unfolding setup_accounts_def by (intro sent_rules)
qed

lemma reads_contact: "reads (import_contact D key base True upd table noun err_noun c)"
  by (simp add: import_contact_def sent_rules)

lemma reads_bank: "reads (import_bank_accounts D key base acc True)"
  unfolding import_bank_accounts_def by (intro sent_rules) (simp add: import_bank_account_def sent_note)

lemma reads_entry: "reads (import_entry D key base acc True ie)"
  unfolding import_entry_def Let_def by (cases ie) (auto intro!: sent_rules)

lemma reads_journal: "reads (import_journal D key base p acc True)"
  unfolding import_journal_def by (intro sent_rules reads_entry)

lemma reads_import: "reads (run_import D p True)"
  unfolding run_import_def import_customers_def import_suppliers_def
  by (intro sent_rules reads_setup reads_contact reads_bank reads_journal)

lemma reads_purge: "reads (run_purge D True)"
proof -
  have "reads (purge_table D key base True out t)" for key base out t
    unfolding purge_table_def Let_def by (intro sent_rules reads_get) (simp_all add: sent_rules)
  then show ?thesis unfolding run_purge_def by (intro sent_rules)
qed

lemma reads_trace:
  assumes "reads m" "m s = (r, s')" "list_all (\<lambda>q. qh_method q = ''GET'') (is_trace s)"
  shows "list_all (\<lambda>q. qh_method q = ''GET'') (is_trace s')"
  using assms unfolding imp_rel_def sent_def by (metis list_all_append snd_conv)

lemma dry_run_reads:
  assumes "if_dry_run fm"
  shows "list_all (\<lambda>q. qh_method q = ''GET'') (snd (import_parsed D fm p))"
proof -
  let ?s0 = "\<lparr>is_trace = [], is_report = base_report p True\<rparr>"
  have m: "reads (purge_first D fm)"
    unfolding purge_first_def using assms by (auto intro!: sent_rules reads_purge)
  obtain r1 s1 where p1: "purge_first D fm ?s0 = (r1, s1)" by fastforce
  have t1: "list_all (\<lambda>q. qh_method q = ''GET'') (is_trace s1)" using reads_trace [OF m p1] by simp
  obtain r2 s2 where p2: "run_import D p True s1 = (r2, s2)" by fastforce
  have "list_all (\<lambda>q. qh_method q = ''GET'') (is_trace s2)"
    using reads_trace [OF reads_import p2 t1] .
  then show ?thesis using t1 p1 p2 assms
    by (cases r1; cases r2) (simp_all add: import_parsed_def)
qed

definition asks_dry_run :: "multipart_field list \<Rightarrow> bool" where
  "asks_dry_run fds = list_all (\<lambda>fd. mf_name fd = Some ''dryRun'' \<longrightarrow>
     map_option to_ascii_lowercase (result_ok (mf_text fd)) = Some ''true'') fds"

lemma read_form_dry:
  assumes "read_form fm fds = Ok fm'" "if_dry_run fm" "asks_dry_run fds"
  shows "if_dry_run fm'"
  using assms
proof (induction fm fds rule: read_form.induct)
  case (2 fm fd fds)
  show ?case
  proof (cases "mf_name fd = Some ''dryRun''")
    case True
    then obtain t where "mf_text fd = Inr t" "to_ascii_lowercase t = ''true''"
      using "2.prems"(3) by (auto simp: asks_dry_run_def)
    then show ?thesis using 2 True by (auto simp: Let_def asks_dry_run_def)
  next
    case False
    then show ?thesis
      using 2 by (auto simp: Let_def asks_dry_run_def unwrap_or_def split: if_splits sum.splits option.splits)
  qed
qed (simp add: asks_dry_run_def)

text \<open>
  C29: An upload that does not ask for the real import changes nothing in the data
  plane. If every field named \<^verbatim>\<open>dryRun\<close> holds the word true, in any case, and also
  if there is no such field, every request the handler sends is a read, whatever
  the file holds, with or without a purge, and whatever the data plane answers.
\<close>

theorem dry_run_writes_nothing:
  assumes "asks_dry_run fds"
  shows "list_all (\<lambda>q. qh_method q = ''GET'') (snd (greenbooks_import_quickbooks D fds))"
proof (cases "read_form empty_form fds")
  case (Inr fm)
  then have "if_dry_run fm" using read_form_dry assms by (fastforce simp: empty_form_def)
  then show ?thesis using Inr dry_run_reads
    by (simp add: greenbooks_import_quickbooks_def split: option.splits)
qed (simp add: greenbooks_import_quickbooks_def)

section \<open>Only balanced entries are posted\<close>

definition postable :: "account_map \<Rightarrow> journal_entry \<Rightarrow> bool" where
  "postable acc e = (missing_accounts acc e = [] \<and> 2 \<le> length (je_lines e)
     \<and> \<not> unbalanced (total_debit e) (total_credit e))"

text \<open>The requests that write one entry: its header, its lines and their ledger rows.\<close>

definition entry_request :: "qb_env \<Rightarrow> string \<Rightarrow> account_map \<Rightarrow> nat \<times> journal_entry \<Rightarrow> qb_http \<Rightarrow> bool" where
  "entry_request D base acc ie q = (qh_method q = ''POST'' \<and>
     ((qh_url q = base @ ''/rest/v1/gb_journal_entries'' \<and>
        (\<exists>tr. qh_body q = Some (entry_payload D tr (fst ie) (snd ie))))
      \<or> (qh_url q = base @ ''/rest/v1/gb_journal_entry_lines'' \<and>
        (\<exists>i. qh_body q = Some (JArr (map (jset ''journal_entry_id'' (JStr i)) (lines_payload acc (snd ie))))))
      \<or> (qh_url q = base @ ''/rest/v1/gb_ledger_entries'' \<and>
        (\<exists>i rows. qh_body q = Some (JArr (filter_map (ledger_row (je_date (snd ie)) i) rows))))))"

lemma lines_payload_length:
  assumes "missing_accounts acc e = []"
  shows "length (lines_payload acc e) = length (je_lines e)"
proof -
  have "length (filter_map (\<lambda>(i, l). map_option (line_payload i l) (acc (jl_account l))) (enumerate n ls)) = length ls"
    if "\<forall>l\<in>set ls. acc (jl_account l) \<noteq> None" for n ls
    using that by (induction ls arbitrary: n) auto
  then show ?thesis using assms by (auto simp: lines_payload_def missing_accounts_def filter_empty_conv)
qed

lemma sent_post_rows:
  "ok \<lparr>qh_method = ''POST'', qh_url = u, qh_prefer = Some ''return=representation'', qh_body = Some payload\<rparr>
   \<Longrightarrow> imp_rel (sent ok) (post_rows D key u payload)"
  unfolding post_rows_def post_rows_with_prefer_def by (intro sent_rules sent_send)

lemma sent_post_journal:
  "imp_rel (sent (entry_request D base acc (idx, e))) (post_journal D key base idx e (lines_payload acc e))"
proof -
  have "imp_rel (sent (entry_request D base acc (idx, e))) (post_ledger D key base idx e i rows)" for i rows
    unfolding post_ledger_def Let_def
    by (intro sent_rules sent_post_rows) (auto simp: entry_request_def)
  then show ?thesis unfolding post_journal_def
    by (intro rel_get sent_rules sent_post_rows) (auto simp: entry_request_def)
qed

lemma sent_mono: "imp_rel (sent ok) m \<Longrightarrow> (\<And>q. ok q \<Longrightarrow> ok' q) \<Longrightarrow> imp_rel (sent ok') m"
  unfolding imp_rel_def sent_def by (meson list.pred_mono_strong)

lemma sent_entry:
  "imp_rel (sent (\<lambda>q. postable acc (snd ie) \<and> entry_request D base acc ie q)) (import_entry D key base acc dry_run ie)"
proof (cases ie)
  case (Pair idx e)
  show ?thesis
  proof (cases "postable acc e")
    case True
    then have "imp_rel (sent (\<lambda>q. postable acc e \<and> entry_request D base acc (idx, e) q))
        (post_journal D key base idx e (lines_payload acc e))"
      using sent_mono [OF sent_post_journal] by simp
    then show ?thesis unfolding Pair import_entry_def by (auto simp: Let_def intro!: sent_rules)
  next
    case False
    then show ?thesis unfolding Pair import_entry_def
      by (auto simp: Let_def postable_def lines_payload_length intro!: sent_rules)
  qed
qed


section \<open>The report adds up\<close>

text \<open>How much a computation that succeeds adds to a counter of the report.\<close>

definition imp_adds :: "(import_report \<Rightarrow> nat) \<Rightarrow> nat \<Rightarrow> 'a imp \<Rightarrow> bool" where
  "imp_adds h n m = (\<forall>s a s'. m s = (Inr a, s') \<longrightarrow> h (is_report s') = h (is_report s) + n)"

lemma adds_bind:
  assumes "imp_adds h k m" "\<And>a. imp_adds h n (f a)"
  shows "imp_adds h (k + n) (imp_bind m f)"
  unfolding imp_adds_def
proof (intro allI impI)
  fix s b s'
  assume "imp_bind m f s = (Inr b, s')"
  then obtain a t where "m s = (Inr a, t)" "f a t = (Inr b, s')"
    by (auto simp: imp_bind_def split: prod.splits sum.splits)
  then show "h (is_report s') = h (is_report s) + (k + n)"
    using assms by (auto simp: imp_adds_def)
qed

lemma adds_same: "imp_rel (same h) m \<Longrightarrow> imp_adds h 0 m"
  unfolding imp_adds_def imp_rel_def same_def by (metis add_0_right snd_conv)

lemma adds_after:
  assumes "imp_rel (same h) m" "\<And>a. imp_adds h n (f a)"
  shows "imp_adds h n (imp_bind m f)"
  using adds_bind [OF adds_same [OF assms(1)] assms(2)] by simp

lemma adds_before:
  assumes "imp_adds h n m" "\<And>a. imp_rel (same h) (f a)"
  shows "imp_adds h n (imp_bind m f)"
  using adds_bind [OF assms(1) adds_same [OF assms(2)]] by simp

lemma adds_note: "(\<And>r. h (f r) = h r + n) \<Longrightarrow> imp_adds h n (imp_note f)"
  by (auto simp: imp_adds_def imp_note_def)

lemma adds_get: "(\<And>s. imp_adds h n (m s)) \<Longrightarrow> imp_adds h n (imp_get m)"
  by (simp add: imp_adds_def imp_get_def)

lemma adds_cases:
  "(b \<Longrightarrow> imp_adds h n m1) \<Longrightarrow> (\<not> b \<Longrightarrow> imp_adds h n m2) \<Longrightarrow> imp_adds h n (if b then m1 else m2)"
  "imp_adds h n m1 \<Longrightarrow> (\<And>a. imp_adds h n (m3 a)) \<Longrightarrow> imp_adds h n (case x of None \<Rightarrow> m1 | Some a \<Rightarrow> m3 a)"
  "(\<And>e. imp_adds h n (m4 e)) \<Longrightarrow> (\<And>a. imp_adds h n (m5 a)) \<Longrightarrow>
     imp_adds h n (case r of Inl e \<Rightarrow> m4 e | Inr a \<Rightarrow> m5 a)"
  "(\<And>a c. imp_adds h n (m6 a c)) \<Longrightarrow> imp_adds h n (case z of (a, c) \<Rightarrow> m6 a c)"
  by (auto split: option.splits sum.splits prod.splits)

lemma same_note: "(\<And>r. h (f r) = h r) \<Longrightarrow> imp_rel (same h) (imp_note f)"
  by (simp add: imp_rel_def imp_note_def same_def)

lemma same_with_note: "(\<And>r. h (f r) = h r) \<Longrightarrow> imp_rel (same h) (with_note f a)"
  unfolding with_note_def by (intro same.rel_bind same_note same.rel_lift)

lemma same_send: "imp_rel (same h) (send D key q)"
  by (simp add: imp_rel_def send_def same_def)

lemma same_requests:
  "imp_rel (same h) (post_rows_with_prefer D key u payload prefer)"
  "imp_rel (same h) (post_rows D key u payload)"
  "imp_rel (same h) (find_account_id D key base code)"
  "imp_rel (same h) (exists_by_name D key base table name)"
  unfolding post_rows_def post_rows_with_prefer_def find_account_id_def exists_by_name_def
  by (intro same.rel_bind same_send same.rel_lift)+

lemmas same_rules = same.rel_lift same.rel_bind same.rel_try same.rel_each same.rel_fold
  same_note same_with_note same_requests same_send sent_cases

text \<open>A loop whose every step accounts for one item accounts for all of them.\<close>

locale counted_loop =
  fixes step :: "'a \<Rightarrow> unit imp"
    and handled :: "import_report \<Rightarrow> nat"
  assumes step_counts: "imp_adds handled 1 (step x)"
begin

lemma loop_counts: "imp_adds handled (length xs) (imp_each step xs)"
proof (induction xs)
  case Nil
  then show ?case by (simp add: adds_same same.rel_lift)
next
  case (Cons x xs)
  then show ?case using adds_bind [OF step_counts Cons] by simp
qed

end

definition handled_contacts :: "entity_report \<Rightarrow> nat" where
  "handled_contacts e = er_imported e + er_skipped e"

definition handled_entries :: "import_report \<Rightarrow> nat" where
  "handled_entries r = jr_imported (ir_journal_entries r) + jr_errors (ir_journal_entries r)"

lemmas count_defs = handled_contacts_def handled_entries_def count_imported_def count_skipped_def detail_def warn_def
  journal_error_def journal_imported_def count_lines_def

lemma contact_counts:
  assumes "\<And>f r. get (upd f r) = f (get r)" "\<And>w r. get (warn w r) = get r"
  shows "imp_adds (\<lambda>r. handled_contacts (get r)) 1
     (import_contact D key base dry_run upd table noun err_noun c)"
  unfolding import_contact_def
  by (intro adds_cases adds_after same_rules adds_note; simp add: assms; simp add: count_defs)

interpretation customers: counted_loop
  "\<lambda>c. import_contact D key base dry_run ir_customers_update ''gb_customers'' ''customer'' ''customer'' (customer_contact c)"
  "\<lambda>r. handled_contacts (ir_customers r)"
  for D key base dry_run
  by unfold_locales (rule contact_counts, simp_all add: warn_def)

interpretation suppliers: counted_loop
  "\<lambda>c. import_contact D key base dry_run ir_suppliers_update ''gb_vendors'' ''supplier'' ''vendor'' (supplier_contact c)"
  "\<lambda>r. handled_contacts (ir_suppliers r)"
  for D key base dry_run
  by unfold_locales (rule contact_counts, simp_all add: warn_def)

lemma entry_counts: "imp_adds handled_entries 1 (import_entry D key base acc dry_run ie)"
proof -
  have l: "imp_adds handled_entries 1 (post_ledger D key base idx e i rows)" for idx e i rows
    unfolding post_ledger_def Let_def
    by (intro adds_after adds_note same_rules) (simp_all add: count_defs)
  have "imp_adds handled_entries 1 (post_journal D key base idx e payloads)" for idx e payloads
    unfolding post_journal_def
    by (intro adds_get adds_after adds_cases adds_note same_rules l) (simp_all add: count_defs)
  then show ?thesis unfolding import_entry_def Let_def
    by (cases ie) (auto simp: count_defs intro!: adds_cases adds_after adds_note same_rules)
qed

interpretation entries: counted_loop "import_entry D key base acc dry_run" handled_entries for D key base acc dry_run
  by unfold_locales (rule entry_counts)

text \<open>The other parts of the import leave a counter alone that their notes leave alone.\<close>

lemma same_setup:
  assumes "\<And>r. h (reused r) = h r" "\<And>r. h (created r) = h r" "\<And>w r. h (warn w r) = h r"
  shows "imp_rel (same h) (setup_accounts D key base dry_run)"
  unfolding setup_accounts_def setup_account_def by (intro same_rules) (simp_all add: assms)

lemma same_contact:
  assumes "\<And>f r. h (upd f r) = h r" "\<And>w r. h (warn w r) = h r"
  shows "imp_rel (same h) (import_contact D key base dry_run upd table noun err_noun c)"
  unfolding import_contact_def by (intro same_rules) (simp_all add: assms)

lemma same_bank:
  assumes "\<And>d r. h (bank_created d r) = h r" "\<And>d r. h (bank_detail d r) = h r" "\<And>w r. h (warn w r) = h r"
  shows "imp_rel (same h) (import_bank_accounts D key base acc dry_run)"
  unfolding import_bank_accounts_def import_bank_account_def by (intro same_rules) (simp_all add: assms)

lemma same_journal:
  assumes "\<And>r. h (journal_error r) = h r" "\<And>r. h (journal_imported r) = h r" "\<And>n r. h (count_lines n r) = h r"
    and "\<And>w r. h (warn w r) = h r" "\<And>u r. h (note_unmapped u r) = h r"
  shows "imp_rel (same h) (import_journal D key base p acc dry_run)"
proof -
  have "imp_rel (same h) (post_journal D key base idx e payloads)" for idx e payloads
    unfolding post_journal_def post_ledger_def Let_def by (intro rel_get same_rules) (simp_all add: assms)
  then have "imp_rel (same h) (import_entry D key base acc dry_run ie)" for ie
    unfolding import_entry_def Let_def by (cases ie) (auto simp: assms intro!: same_rules)
  then show ?thesis unfolding import_journal_def by (intro same_rules) (simp_all add: assms)
qed

lemma same_tail:
  assumes "\<And>w r. h (warn w r) = h r"
  shows "imp_rel (same h) (if b then imp_note (warn TAX_WARNING) else imp_lift (Ok ()))"
    "imp_rel (same h) (imp_note (validate_trial_balance D p))"
  by (auto simp: assms validate_trial_balance_def Let_def intro!: same_rules)

lemmas report_defs = reused_def created_def warn_def bank_created_def bank_detail_def note_unmapped_def
  journal_error_def journal_imported_def count_lines_def handled_entries_def

lemma same_customer_part:
  fixes h defines "h \<equiv> \<lambda>r. handled_contacts (ir_customers r)"
  shows "imp_rel (same h) (setup_accounts D key base dry_run)"
    "imp_rel (same h) (import_suppliers D key base p dry_run)"
    "imp_rel (same h) (import_bank_accounts D key base acc dry_run)"
    "imp_rel (same h) (import_journal D key base p acc dry_run)"
  unfolding h_def import_suppliers_def
  by (rule same_setup same_bank same_journal same.rel_each [OF same_contact]; simp add: report_defs)+

lemma same_supplier_part:
  fixes h defines "h \<equiv> \<lambda>r. handled_contacts (ir_suppliers r)"
  shows "imp_rel (same h) (setup_accounts D key base dry_run)"
    "imp_rel (same h) (import_customers D key base p dry_run)"
    "imp_rel (same h) (import_bank_accounts D key base acc dry_run)"
    "imp_rel (same h) (import_journal D key base p acc dry_run)"
  unfolding h_def import_customers_def
  by (rule same_setup same_bank same_journal same.rel_each [OF same_contact]; simp add: report_defs)+

lemma same_entry_part:
  "imp_rel (same handled_entries) (setup_accounts D key base dry_run)"
  "imp_rel (same handled_entries) (import_customers D key base p dry_run)"
  "imp_rel (same handled_entries) (import_suppliers D key base p dry_run)"
  "imp_rel (same handled_entries) (import_bank_accounts D key base acc dry_run)"
  unfolding import_customers_def import_suppliers_def
  by (rule same_setup same_bank same.rel_each [OF same_contact]; simp add: report_defs)+

lemma loop_adds:
  "imp_adds (\<lambda>r. handled_contacts (ir_customers r)) (length (pd_customers p)) (import_customers D key base p dry_run)"
  "imp_adds (\<lambda>r. handled_contacts (ir_suppliers r)) (length (pd_suppliers p)) (import_suppliers D key base p dry_run)"
  "imp_adds handled_entries (length (pd_journal p)) (import_journal D key base p acc dry_run)"
proof -
  show "imp_adds (\<lambda>r. handled_contacts (ir_customers r)) (length (pd_customers p)) (import_customers D key base p dry_run)"
    unfolding import_customers_def by (rule customers.loop_counts)
  show "imp_adds (\<lambda>r. handled_contacts (ir_suppliers r)) (length (pd_suppliers p)) (import_suppliers D key base p dry_run)"
    unfolding import_suppliers_def by (rule suppliers.loop_counts)
  show "imp_adds handled_entries (length (pd_journal p)) (import_journal D key base p acc dry_run)"
    unfolding import_journal_def
    using entries.loop_counts [of "enumerate 0 (pd_journal p)" D key base acc dry_run]
    by (intro adds_before same_note) (simp_all add: report_defs)
qed

lemma import_counts:
  "imp_adds (\<lambda>r. handled_contacts (ir_customers r)) (length (pd_customers p)) (run_import D p dry_run)"
  "imp_adds (\<lambda>r. handled_contacts (ir_suppliers r)) (length (pd_suppliers p)) (run_import D p dry_run)"
  "imp_adds handled_entries (length (pd_journal p)) (run_import D p dry_run)"
proof -
  note lifts = adds_after [OF same.rel_lift] adds_cases(4)
  have w: "handled_contacts (ir_customers (warn w r)) = handled_contacts (ir_customers r)"
    "handled_contacts (ir_suppliers (warn w r)) = handled_contacts (ir_suppliers r)"
    "handled_entries (warn w r) = handled_entries r" for w r
    by (simp_all add: report_defs)
  show "imp_adds (\<lambda>r. handled_contacts (ir_customers r)) (length (pd_customers p)) (run_import D p dry_run)"
    unfolding run_import_def
    by (intro lifts adds_after [OF same_customer_part(1)] adds_before [OF loop_adds(1)]
        same.rel_bind same_customer_part same_tail) (rule w)+
  show "imp_adds (\<lambda>r. handled_contacts (ir_suppliers r)) (length (pd_suppliers p)) (run_import D p dry_run)"
    unfolding run_import_def
    by (intro lifts adds_after [OF same_supplier_part(1)] adds_after [OF same_supplier_part(2)]
        adds_before [OF loop_adds(2)] same.rel_bind same_supplier_part same_tail) (rule w)+
  show "imp_adds handled_entries (length (pd_journal p)) (run_import D p dry_run)"
    unfolding run_import_def
    by (intro lifts adds_after [OF same_entry_part(1)] adds_after [OF same_entry_part(2)]
        adds_after [OF same_entry_part(3)] adds_after [OF same_entry_part(4)]
        adds_before [OF loop_adds(3)] same.rel_bind same_tail) (rule w)+
qed

lemma same_purge: "imp_rel (same h) (purge_first D fm)"
  unfolding purge_first_def run_purge_def purge_table_def Let_def by (intro same_rules)

text \<open>
  The counts of a report that is returned with status 200 add up: customers
  and vendors imported or skipped are all that were parsed, and so are journal
  entries imported or in error, whether the import was real or a dry run.
\<close>

theorem import_report_adds_up:
  assumes "import_parsed D fm p = ((200, Reported rp), tr)"
  shows "er_imported (ir_customers (rp_report rp)) + er_skipped (ir_customers (rp_report rp)) = length (pd_customers p)
     \<and> er_imported (ir_suppliers (rp_report rp)) + er_skipped (ir_suppliers (rp_report rp)) = length (pd_suppliers p)
     \<and> jr_imported (ir_journal_entries (rp_report rp)) + jr_errors (ir_journal_entries (rp_report rp))
         = length (pd_journal p)"
proof -
  let ?s0 = "\<lparr>is_trace = [], is_report = base_report p (if_dry_run fm)\<rparr>"
  obtain r1 s1 s2 where p1: "purge_first D fm ?s0 = (r1, s1)"
    and p2: "run_import D p (if_dry_run fm) s1 = (Inr (), s2)" and rp: "rp_report rp = is_report s2"
    using assms by (auto simp: import_parsed_def import_answer_def split: prod.splits sum.splits)
  have "is_report s1 = base_report p (if_dry_run fm)"
    using same_purge [of "\<lambda>r. r" D fm] p1 by (auto simp: imp_rel_def same_def dest: spec [of _ ?s0])
  then show ?thesis
    using import_counts [of p D "if_dry_run fm"] p2
    by (auto simp: imp_adds_def rp handled_contacts_def handled_entries_def base_report_def)
qed

section \<open>The purge\<close>

definition delete_url :: "string \<Rightarrow> string \<Rightarrow> string" where
  "delete_url base table = base @ ''/rest/v1/'' @ table @ ''?org_id=eq.'' @ ORG_ID"

abbreviation deletes :: "qb_http list \<Rightarrow> string list" where
  "deletes qs \<equiv> map qh_url (filter (\<lambda>q. qh_method q \<noteq> ''GET'') qs)"

lemma purge_table_effect:
  assumes "purge_table D key base dry_run out table s = (r, s')"
  shows "\<exists>new. is_trace s' = is_trace s @ new \<and> subseq (deletes new) [delete_url base table]
     \<and> (\<forall>out'. r = Inr out' \<longrightarrow> set (map fst out') = insert table (set (map fst out)))"
  using assms keys_alist_set [of table _ out]
  by (auto simp: purge_table_def imp_bind_def send_def imp_lift_def http_get_def delete_url_def Let_def
      split: sum.splits if_splits)

lemma purge_loop_effect:
  assumes "imp_fold (purge_table D key base dry_run) out tables s = (r, s')"
  shows "\<exists>new. is_trace s' = is_trace s @ new \<and> subseq (deletes new) (map (delete_url base) tables)
     \<and> (\<forall>out'. r = Inr out' \<longrightarrow> set (map fst out') = set tables \<union> set (map fst out))"
  using assms
proof (induction tables arbitrary: out s)
  case Nil
  then show ?case by (auto simp: imp_lift_def)
next
  case (Cons t ts)
  obtain r1 s1 where p: "purge_table D key base dry_run out t s = (r1, s1)" by fastforce
  obtain n1 where n1: "is_trace s1 = is_trace s @ n1" "subseq (deletes n1) [delete_url base t]"
    and k1: "\<And>o1. r1 = Inr o1 \<Longrightarrow> set (map fst o1) = insert t (set (map fst out))"
    using purge_table_effect [OF p] by auto
  show ?case
  proof (cases r1)
    case (Inl e)
    then have "s' = s1" "r = Inl e" using Cons.prems p by (simp_all add: imp_bind_def)
    moreover have "subseq (deletes n1 @ []) ([delete_url base t] @ map (delete_url base) ts)"
      using n1(2) by (intro list_emb_append_mono) simp_all
    ultimately show ?thesis using n1(1) by auto
  next
    case (Inr o1)
    then have "imp_fold (purge_table D key base dry_run) o1 ts s1 = (r, s')"
      using Cons.prems p by (simp add: imp_bind_def)
    from Cons.IH [OF this] obtain n2 where n2: "is_trace s' = is_trace s1 @ n2"
      "subseq (deletes n2) (map (delete_url base) ts)"
      and k2: "\<And>out'. r = Inr out' \<Longrightarrow> set (map fst out') = set ts \<union> set (map fst o1)"
      by auto
    have "subseq (deletes n1 @ deletes n2) ([delete_url base t] @ map (delete_url base) ts)"
      using n1(2) n2(2) by (rule list_emb_append_mono)
    then show ?thesis using n1(1) n2(1) k1 [OF Inr] k2
      by (intro exI [of _ "n1 @ n2"]) auto
  qed
qed

text \<open>
  A purge sends, beside reads, only deletions of one table each, in the fixed
  order in which rows that refer to others go first, each table at most once and
  each confined to the rows of the organisation; and when it succeeds its report
  has a line for every table of the list and for no other.
\<close>

theorem purge_in_order:
  assumes "qb_supabase_env (qx_vars D) = Ok (base, key)" "run_purge D dry_run s = (r, s')"
  shows "\<exists>new. is_trace s' = is_trace s @ new
     \<and> subseq (map qh_url (filter (\<lambda>q. qh_method q \<noteq> ''GET'') new))
         (map (\<lambda>table. base @ ''/rest/v1/'' @ table @ ''?org_id=eq.'' @ ORG_ID) purge_order)
     \<and> (\<forall>out. r = Ok out \<longrightarrow> set (map fst out) = set purge_order)"
proof (cases "qx_client D key")
  case (Inl e)
  then show ?thesis using assms by (auto simp: run_purge_def imp_bind_def imp_lift_def)
next
  case (Inr u)
  then have "imp_fold (purge_table D key base dry_run) [] purge_order s = (r, s')"
    using assms by (simp add: run_purge_def imp_bind_def imp_lift_def)
  from purge_loop_effect [OF this] show ?thesis by (simp add: delete_url_def [abs_def])
qed

section \<open>Observations\<close>

text \<open>
  The balance test is a comparison that is false for the not-a-number, which
  both the word \<open>nan\<close> in a cell and the difference of two infinite sums give:
  such an entry passes as balanced.
\<close>

lemma nan_is_balanced:
  "parse_num (Some ''NaN'') = NaN" "\<not> unbalanced NaN c" "\<not> unbalanced (Infinite False) (Infinite False)"
  by (code_simp, cases c) (simp_all add: unbalanced_def f64_sub_def f64_neg_def f64_abs_def)

text \<open>
  When the lines of an entry cannot be written, its header, posted with its totals
  a moment before, stays in the data plane: no request takes it back.
\<close>

lemma failed_lines_leave_header:
  assumes "post_rows D key (base @ ''/rest/v1/gb_journal_entries'') (entry_payload D (is_trace s) idx e) s = (Inr rows, s1)"
    and "first_id rows = Some i"
    and "post_rows D key (base @ ''/rest/v1/gb_journal_entry_lines'')
      (JArr (map (jset ''journal_entry_id'' (JStr i)) payloads)) s1 = (Inl err, s2)"
  shows "is_trace (snd (post_journal D key base idx e payloads s)) = is_trace s2"
  using assms by (simp add: post_journal_def imp_get_def imp_bind_def imp_try_def imp_note_def)

section \<open>The import ends with a report\<close>

text \<open>A data plane that answers every request with success and readable text.\<close>

definition plane_answers :: "qb_env \<Rightarrow> bool" where
  "plane_answers D = (\<forall>key tr q. \<exists>r t. qx_reply D key tr q = Ok r \<and> status_ok (qy_status r) \<and> qy_text r = Ok t)"

definition imp_returns :: "'a imp \<Rightarrow> bool" where
  "imp_returns m = (\<forall>s. \<exists>a s'. m s = (Inr a, s'))"

lemma returns_bind: "imp_returns m \<Longrightarrow> (\<And>a. imp_returns (f a)) \<Longrightarrow> imp_returns (imp_bind m f)"
  unfolding imp_returns_def imp_bind_def by (metis (no_types, lifting) old.prod.case sum.simps(6))

lemma returns_basic:
  "imp_returns (imp_lift (Ok a))" "imp_returns (imp_note f)" "imp_returns (imp_try m)"
  by (auto simp: imp_returns_def imp_lift_def imp_note_def imp_try_def split: prod.splits)

lemma returns_get: "(\<And>s. imp_returns (m s)) \<Longrightarrow> imp_returns (imp_get m)"
  by (simp add: imp_returns_def imp_get_def)

lemma returns_cases:
  "(b \<Longrightarrow> imp_returns m1) \<Longrightarrow> (\<not> b \<Longrightarrow> imp_returns m2) \<Longrightarrow> imp_returns (if b then m1 else m2)"
  "imp_returns m1 \<Longrightarrow> (\<And>a. imp_returns (m3 a)) \<Longrightarrow> imp_returns (case x of None \<Rightarrow> m1 | Some a \<Rightarrow> m3 a)"
  "(\<And>e. imp_returns (m4 e)) \<Longrightarrow> (\<And>a. imp_returns (m5 a)) \<Longrightarrow> imp_returns (case r of Inl e \<Rightarrow> m4 e | Inr a \<Rightarrow> m5 a)"
  by (auto split: option.splits sum.splits)

lemma returns_each: "(\<And>x. imp_returns (f x)) \<Longrightarrow> imp_returns (imp_each f xs)"
  by (induction xs) (auto intro: returns_basic returns_bind)

lemma returns_fold: "(\<And>b x. imp_returns (f b x)) \<Longrightarrow> imp_returns (imp_fold f b xs)"
  by (induction xs arbitrary: b) (auto intro!: returns_basic returns_bind)

lemma returns_with_note: "imp_returns (with_note f a)"
  unfolding with_note_def by (intro returns_bind returns_basic)

lemmas returns_rules = returns_basic returns_bind returns_get returns_cases returns_each returns_fold returns_with_note

lemma bind_lift_Ok: "imp_bind (imp_lift (Inr a)) f = f a"
  by (simp add: imp_bind_def imp_lift_def fun_eq_iff)

lemma returns_reply:
  assumes "plane_answers D" "\<And>rows. is_ok (f (Ok rows))"
  shows "imp_returns (imp_bind (send D key q) (\<lambda>r. imp_lift (f (reply_rows (qx_ext D) r))))"
  unfolding imp_returns_def
proof
  fix s :: import_state
  obtain r t where "qx_reply D key (is_trace s) q = Ok r" "status_ok (qy_status r)" "qy_text r = Ok t"
    using assms(1) unfolding plane_answers_def by blast
  moreover obtain c where "f (Ok (rows_of (qx_ext D) t)) = Inr c"
    using assms(2) [of "rows_of (qx_ext D) t"] by (auto simp: is_ok_def split: sum.splits)
  ultimately show "\<exists>a s'. imp_bind (send D key q) (\<lambda>r. imp_lift (f (reply_rows (qx_ext D) r))) s = (Inr a, s')"
    by (simp add: imp_bind_def send_def imp_lift_def reply_rows_def)
qed

lemma returns_requests:
  assumes "plane_answers D"
  shows "imp_returns (send D key q)" "imp_returns (post_rows_with_prefer D key u payload prefer)"
    "imp_returns (find_account_id D key base code)" "imp_returns (exists_by_name D key base table name)"
proof -
  show "imp_returns (send D key q)"
    using assms unfolding plane_answers_def imp_returns_def send_def by metis
  show "imp_returns (post_rows_with_prefer D key u payload prefer)"
    unfolding post_rows_with_prefer_def using returns_reply [OF assms, of "\<lambda>x. x"] by simp
  show "imp_returns (find_account_id D key base code)"
    unfolding find_account_id_def
    using returns_reply [OF assms, of "\<lambda>x. try_result x (\<lambda>rows. Ok (first_id rows))"] by simp
  show "imp_returns (exists_by_name D key base table name)"
    unfolding exists_by_name_def
    using returns_reply [OF assms, of "\<lambda>x. try_result x (\<lambda>rows. Ok (rows \<noteq> []))"] by simp
qed

lemma returns_purge:
  assumes "plane_answers D" "qb_supabase_env (qx_vars D) = Ok (base, key)" "qx_client D key = Ok ()"
  shows "imp_returns (run_purge D dry_run)"
proof -
  have "imp_returns (purge_table D key base dry_run out table)" for out table
    unfolding purge_table_def Let_def by (intro returns_rules returns_requests assms)
  then show ?thesis
    unfolding run_purge_def by (simp add: assms(2,3) bind_lift_Ok returns_fold)
qed

lemma returns_import:
  assumes "plane_answers D" "qb_supabase_env (qx_vars D) = Ok (base, key)" "qx_client D key = Ok ()"
  shows "imp_returns (run_import D p dry_run)" "imp_returns (purge_first D fm)"
proof -
  note parts = returns_requests [OF assms(1)]
  have post: "imp_returns (post_journal D key base idx e payloads)" for idx e payloads
    unfolding post_journal_def post_ledger_def Let_def by (intro returns_rules)
  have "imp_returns (import_entry D key base acc dry_run ie)" for acc ie
    unfolding import_entry_def Let_def by (cases ie) (auto intro!: returns_rules post)
  then have "imp_returns (import_journal D key base p acc dry_run)" for acc
    unfolding import_journal_def by (intro returns_rules)
  moreover have "imp_returns (import_bank_accounts D key base acc dry_run)" for acc
    unfolding import_bank_accounts_def import_bank_account_def by (intro returns_rules parts)
  moreover have "imp_returns (import_contact D key base dry_run upd table noun err_noun c)" for upd table noun err_noun c
    unfolding import_contact_def by (intro returns_rules parts)
  moreover have "imp_returns (setup_accounts D key base dry_run)"
    unfolding setup_accounts_def setup_account_def by (intro returns_rules parts)
  ultimately show "imp_returns (run_import D p dry_run)"
    unfolding run_import_def import_customers_def import_suppliers_def
    by (simp add: assms(2,3) bind_lift_Ok split del: if_split) (intro returns_rules)
  show "imp_returns (purge_first D fm)"
    unfolding purge_first_def by (intro returns_rules returns_purge [OF assms])
qed

lemma import_completes:
  assumes "plane_answers D" "qb_supabase_env (qx_vars D) = Ok (base, key)" "qx_client D key = Ok ()"
  shows "\<exists>rp tr. import_parsed D fm p = ((200, Reported rp), tr)"
proof -
  let ?s0 = "\<lparr>is_trace = [], is_report = base_report p (if_dry_run fm)\<rparr>"
  obtain pr s1 where "purge_first D fm ?s0 = (Inr pr, s1)"
    using returns_import(2) [OF assms] unfolding imp_returns_def by blast
  moreover obtain s2 where "run_import D p (if_dry_run fm) s1 = (Inr (), s2)"
    using returns_import(1) [OF assms] unfolding imp_returns_def by (metis (full_types) old.unit.exhaust)
  ultimately show ?thesis by (simp add: import_parsed_def import_answer_def)
qed

text \<open>
  An import ends with a report. When the upload has a file, the data plane is
  configured and answers every request with success, the handler answers 200 with
  the report of that file, for every content of the file.
\<close>

theorem import_reports:
  assumes "plane_answers D" "qb_supabase_env (qx_vars D) = Ok (base, key)" "qx_client D key = Ok ()"
    and "read_form empty_form fds = Ok fm" "if_file fm = Some data"
  shows "\<exists>rp tr. greenbooks_import_quickbooks D fds = ((200, Reported rp), tr)
     \<and> greenbooks_import_quickbooks D fds = import_parsed D fm (parse_qb_blob (qx_ext D) (qx_readers D) data)"
  using import_completes [OF assms(1-3)] assms(4,5) by (simp add: greenbooks_import_quickbooks_def)

section \<open>Witnesses\<close>

text \<open>A data plane that answers every request with an empty list of rows.\<close>

definition wit_qx :: qb_env where
  "wit_qx = \<lparr>
     qx_ext = \<lparr>hv_to_str = Some, hv_from_str = Some, url_parse = (\<lambda>s. Err []), url_string = u_text,
       json_from_str = (\<lambda>s. Ok (JArr [])), json_to_string = (\<lambda>v. []), to_lowercase = (\<lambda>s. s),
       form_parse = (\<lambda>s. []), default_hash = length, hash_order = (\<lambda>xs. xs), f64_string = (\<lambda>x. []), utf8_lossy = (\<lambda>s. s)\<rparr>,
     qx_vars = (\<lambda>k. if k = ''SUPABASE_URL'' then Some ''http://d/'' else if k = ''SUPABASE_SERVICE_ROLE_KEY'' then Some ''k''
       else None),
     qx_readers = \<lparr>qr_workbook = (\<lambda>d. Err ''not a workbook''), qr_zip = (\<lambda>d. None)\<rparr>,
     qx_client = (\<lambda>k. Ok ()),
     qx_reply = (\<lambda>k tr q. Ok \<lparr>qy_status = 200, qy_content_range = None, qy_text = Ok ''[]''\<rparr>),
     qx_now = (\<lambda>tr. ''now''), qx_encode = (\<lambda>s. s), qx_fixed2 = (\<lambda>v. ''0.00''), qx_order = (\<lambda>xs. xs)\<rparr>"

lemma wit_qx_ready:
  "plane_answers wit_qx" "qb_supabase_env (qx_vars wit_qx) = Ok (''http://d'', ''k'')" "qx_client wit_qx ''k'' = Ok ()"
  by (simp add: wit_qx_def plane_answers_def status_ok_def, code_simp, simp add: wit_qx_def)

definition wit_entry :: journal_entry where
  "wit_entry = \<lparr>je_date = ''2025-01-31'', je_kind = ''Invoice'', je_num = None, je_name = None,
     je_lines = [\<lparr>jl_memo = None, jl_account = ''Sales'', jl_debit = Finite 0, jl_credit = Finite 5\<rparr>,
                 \<lparr>jl_memo = None, jl_account = ''RBC USD'', jl_debit = Finite 5, jl_credit = Finite 0\<rparr>]\<rparr>"

definition wit_parsed :: parsed_data where
  "wit_parsed = parsed_default\<lparr>pd_journal := [wit_entry], pd_customers := [\<lparr>cr_name = ''Ann'', cr_phone = None,
     cr_email = None, cr_full_name = None, cr_billing_address = None\<rparr>]\<rparr>"

definition wit_state :: import_state where
  "wit_state = \<lparr>is_trace = [], is_report = base_report wit_parsed False\<rparr>"

definition wit_fields :: "multipart_field list" where
  "wit_fields = [\<lparr>mf_name = Some ''file'', mf_bytes = Ok ''data'', mf_text = Err []\<rparr>,
     \<lparr>mf_name = Some ''dryRun'', mf_bytes = Err [], mf_text = Ok ''True''\<rparr>]"

theorem dry_run_writes_nothing_witness:
  "list_all (\<lambda>q. qh_method q = ''GET'') (snd (greenbooks_import_quickbooks wit_qx wit_fields))"
proof -
  have "asks_dry_run wit_fields" by code_simp
  then show ?thesis by (rule dry_run_writes_nothing)
qed

lemma wit_entry_balanced: "\<not> unbalanced (total_debit wit_entry) (total_credit wit_entry)"
proof -
  have "total_debit wit_entry = Finite 5" "total_credit wit_entry = Finite 5"
    using f64_of_int [of 5] f64_of_int [of 0]
    by (simp_all add: total_debit_def total_credit_def f64_sum_def wit_entry_def)
  then show ?thesis using cent_not_below_0 f64_of_int [of 0]
    by (simp add: unbalanced_def f64_sub_def f64_neg_def f64_abs_def)
qed


theorem import_report_adds_up_witness:
  "\<exists>rp tr. import_parsed wit_qx \<lparr>if_file = None, if_dry_run = False, if_purge = True\<rparr> wit_parsed = ((200, Reported rp), tr)
   \<and> er_imported (ir_customers (rp_report rp)) + er_skipped (ir_customers (rp_report rp)) = 1
   \<and> jr_imported (ir_journal_entries (rp_report rp)) + jr_errors (ir_journal_entries (rp_report rp)) = 1"
proof -
  obtain rp tr where r: "import_parsed wit_qx \<lparr>if_file = None, if_dry_run = False, if_purge = True\<rparr> wit_parsed =
      ((200, Reported rp), tr)"
    using import_completes [OF wit_qx_ready] by blast
  then show ?thesis using import_report_adds_up [OF r] by (auto simp: wit_parsed_def)
qed

theorem purge_in_order_witness:
  "\<exists>out s'. run_purge wit_qx False wit_state = (Ok out, s') \<and> set (map fst out) = set purge_order"
proof -
  have "imp_returns (run_purge wit_qx False)" by (rule returns_purge [OF wit_qx_ready])
  then obtain out s' where r: "run_purge wit_qx False wit_state = (Ok out, s')" unfolding imp_returns_def by blast
  then show ?thesis using purge_in_order [OF wit_qx_ready(2) r] by blast
qed

theorem import_reports_witness:
  "\<exists>rp tr. greenbooks_import_quickbooks wit_qx wit_fields = ((200, Reported rp), tr)"
proof -
  let ?fm = "\<lparr>if_file = Some ''data'', if_dry_run = True, if_purge = False\<rparr>"
  have f: "read_form empty_form wit_fields = Ok ?fm" by code_simp
  have "if_file ?fm = Some ''data''" by simp
  from import_reports [OF wit_qx_ready f this] show ?thesis by blast
qed

end
