(* ===== verification/Daisy.thy ===== *)
theory Daisy
  imports World "HOL-Library.Multiset" "HOL-Library.Option_ord" "HOL-Library.List_Lexorder" "HOL-Library.Char_ord"
begin

text \<open>
  The notes API of \<^verbatim>\<open>daisy.rs\<close>: who may see a note, who may change who sees it,
  and the requests the gateway makes to the data plane for that.
\<close>

section \<open>Data\<close>

datatype daisy_access_role = Owner | Editor | Viewer

definition can_edit :: "daisy_access_role \<Rightarrow> bool" where
  "can_edit r = (r = Owner \<or> r = Editor)"

definition can_share :: "daisy_access_role \<Rightarrow> bool" where
  "can_share r = (r = Owner)"

definition role_str :: "daisy_access_role \<Rightarrow> string" where
  "role_str r = (case r of Owner \<Rightarrow> ''owner'' | Editor \<Rightarrow> ''editor'' | Viewer \<Rightarrow> ''viewer'')"

record daisy_actor_scope =
  ds_user_id :: string
  ds_email :: "string option"

record daisy_share_target =
  dt_user_id :: "string option"
  dt_email :: "string option"

record daisy_share_payload =
  sp_permission :: "string option"
  sp_shared_with_user_id :: "string option"
  sp_shared_with_email :: "string option"
  sp_public :: "bool option"
  sp_public_link :: "bool option"
  sp_scope :: "string option"

record daisy_note_row =
  dn_id :: string
  dn_title :: string
  dn_content :: string
  dn_tags :: "string list"
  dn_pinned :: bool
  dn_archived :: bool
  dn_created_at :: "string option"
  dn_updated_at :: "string option"
  dn_owner_user_id :: "string option"
  dn_owner_email :: "string option"

record daisy_share_row =
  sr_id :: "string option"
  sr_note_id :: string
  sr_shared_with_user_id :: "string option"
  sr_shared_with_email :: "string option"
  sr_permission :: "string option"
  sr_created_at :: "string option"
  sr_updated_at :: "string option"

record daisy_share_permission_row =
  pr_note_id :: string
  pr_permission :: string
  pr_created_at :: "string option"

record daisy_resolved_note_access =
  ra_note :: daisy_note_row
  ra_role :: daisy_access_role

definition MAX_DAISY_BODY_BYTES :: nat where
  "MAX_DAISY_BODY_BYTES = 64 * 1024"

definition NOTE_SELECT_FIELDS :: string where
  "NOTE_SELECT_FIELDS =
     ''id,title,content,tags,pinned,archived,created_at,updated_at,owner_user_id,owner_email''"

definition SHARE_SELECT_FIELDS :: string where
  "SHARE_SELECT_FIELDS =
     ''id,note_id,shared_with_user_id,shared_with_email,permission,created_at,updated_at''"

section \<open>Responses\<close>

definition daisy_ok :: "string \<Rightarrow> nat \<Rightarrow> json \<Rightarrow> response" where
  "daisy_ok rid status data = json_response status
     (JObj [(''ok'', JBool True), (''requestId'', JStr rid), (''data'', data), (''error'', JNull)])"

definition daisy_error :: "string \<Rightarrow> nat \<Rightarrow> string \<Rightarrow> string \<Rightarrow> json \<Rightarrow> response" where
  "daisy_error rid status code message details = json_response status
     (JObj [(''ok'', JBool False), (''requestId'', JStr rid), (''data'', JNull),
            (''error'', JObj [(''code'', JStr code), (''message'', JStr message), (''details'', details)])])"

definition data_plane_error :: "string \<Rightarrow> string \<Rightarrow> string \<Rightarrow> json \<Rightarrow> response" where
  "data_plane_error rid code message details = daisy_error rid 502 code message details"

definition note_not_found :: "string \<Rightarrow> string \<Rightarrow> response" where
  "note_not_found rid note_id = daisy_error rid 404 ''DAISY_NOTE_NOT_FOUND'' ''Note not found''
     (JObj [(''noteId'', JStr note_id)])"

definition require_principal :: "principal option \<Rightarrow> string \<Rightarrow> (response, principal) result" where
  "require_principal p rid = ok_or (daisy_error rid 401 ''DAISY_UNAUTHORIZED'' ''Authenticated session required''
     (JObj [(''authContext'', JStr ''better-auth-session'')])) p"

definition ensure_owner_for_acl :: "daisy_access_role \<Rightarrow> string \<Rightarrow> string \<Rightarrow> (response, unit) result" where
  "ensure_owner_for_acl role rid note_id =
     (if can_share role then Ok ()
      else Err (daisy_error rid 403 ''DAISY_FORBIDDEN'' ''Only note owners can manage ACLs''
        (JObj [(''requiredRole'', JStr ''owner''), (''resolvedRole'', JStr (role_str role)),
               (''noteId'', JStr note_id)])))"

section \<open>Normalisation\<close>

definition normalize_permission :: "string option \<Rightarrow> string option" where
  "normalize_permission v = (case map_option (\<lambda>s. to_ascii_lowercase (trim s)) v of
     Some s \<Rightarrow> if s = ''viewer'' then Some ''viewer'' else if s = ''editor'' then Some ''editor'' else None
   | None \<Rightarrow> None)"

definition normalize_permission_role :: "string option \<Rightarrow> daisy_access_role option" where
  "normalize_permission_role v = (case normalize_permission v of
     Some s \<Rightarrow> if s = ''editor'' then Some Editor else if s = ''viewer'' then Some Viewer else None
   | None \<Rightarrow> None)"

definition normalize_target :: "daisy_share_payload \<Rightarrow> daisy_share_target option" where
  "normalize_target p =
     (let user_id = opt_filter (\<lambda>v. v \<noteq> []) (map_option trim (sp_shared_with_user_id p));
          mail = opt_filter (\<lambda>v. v \<noteq> []) (map_option (\<lambda>v. to_ascii_lowercase (trim v)) (sp_shared_with_email p))
      in case user_id of
           Some i \<Rightarrow> Some \<lparr>dt_user_id = Some i, dt_email = None\<rparr>
         | None \<Rightarrow> (case mail of
             Some addr \<Rightarrow> Some \<lparr>dt_user_id = None, dt_email = Some addr\<rparr>
           | None \<Rightarrow> None))"

definition target_as_value :: "daisy_share_target \<Rightarrow> json" where
  "target_as_value t = JObj [(''sharedWithUserId'', jopt_str (dt_user_id t)), (''sharedWithEmail'', jopt_str (dt_email t))]"

definition reject_public_link_payload :: "daisy_share_payload \<Rightarrow> string \<Rightarrow> response option" where
  "reject_public_link_payload p rid =
     (let explicit_public = (unwrap_or False (sp_public p) \<or> unwrap_or False (sp_public_link p));
          scope_public = unwrap_or False (map_option (\<lambda>v. eq_ignore_ascii_case (trim v) ''public'') (sp_scope p))
      in if explicit_public \<or> scope_public
         then Some (daisy_error rid 400 ''DAISY_PUBLIC_LINK_DISABLED''
                ''Public note links are not supported for internal Daisy API'' (JObj [(''noPublicLinks'', JBool True)]))
         else None)"

definition query_param_is_truthy :: "ext \<Rightarrow> request \<Rightarrow> string \<Rightarrow> bool" where
  "query_param_is_truthy X rq key = (case rq_query rq of
     None \<Rightarrow> False
   | Some q \<Rightarrow> list_ex (\<lambda>(k, v). k = key \<and>
       to_ascii_lowercase (trim v) \<in> set [''1'', ''true'', ''yes'', ''on'']) (form_parse X q))"

definition header_value :: "ext \<Rightarrow> header_map \<Rightarrow> string \<Rightarrow> string option" where
  "header_value X h name = opt_filter (\<lambda>v. v \<noteq> []) (map_option trim (header_str X h name))"

definition normalize_user_id :: "string option \<Rightarrow> string option" where
  "normalize_user_id v = opt_filter (\<lambda>s. s \<noteq> []) (map_option trim v)"

definition daisy_normalize_email :: "string option \<Rightarrow> string option" where
  "daisy_normalize_email v = map_option to_ascii_lowercase (opt_filter (\<lambda>s. s \<noteq> []) (map_option trim v))"

definition compatibility_email :: "ext \<Rightarrow> string \<Rightarrow> header_map \<Rightarrow> string option" where
  "compatibility_email X uid h =
     (case (normalize_user_id (header_value X h ''x-daisy-session-user-id''),
            daisy_normalize_email (header_value X h ''x-daisy-session-user-email'')) of
        (Some forwarded_user_id, Some mail) \<Rightarrow> if forwarded_user_id = uid then Some mail else None
      | _ \<Rightarrow> None)"

definition scope_from_headers :: "ext \<Rightarrow> principal \<Rightarrow> header_map \<Rightarrow> daisy_actor_scope" where
  "scope_from_headers X p h =
     (let uid = unwrap_or [] (normalize_user_id (Some (user_id p)))
      in \<lparr>ds_user_id = uid,
          ds_email = opt_or (daisy_normalize_email (email p)) (compatibility_email X uid h)\<rparr>)"

definition opt_same :: "string option \<Rightarrow> string option \<Rightarrow> bool" where
  "opt_same a b = unwrap_or False (map_option (\<lambda>(x, y). x = y) (opt_zip a b))"

definition scope_owns_note :: "daisy_actor_scope \<Rightarrow> daisy_note_row \<Rightarrow> bool" where
  "scope_owns_note sc n \<longleftrightarrow>
     unwrap_or False (map_option (\<lambda>owner. owner = ds_user_id sc) (normalize_user_id (dn_owner_user_id n)))
     \<or> opt_same (daisy_normalize_email (ds_email sc)) (daisy_normalize_email (dn_owner_email n))"

section \<open>The data plane\<close>

text \<open>
  The gateway talks to a REST service it does not control. A computation of this
  API takes the list of requests sent so far and extends it; it either goes on
  with a value or answers the client early. The service's reply to a request may
  depend on everything sent before it.
\<close>

record plane_request =
  pq_method :: string
  pq_url :: url
  pq_key :: "string option"
  pq_prefer :: "string option"
  pq_body :: "json option"

text \<open>
  The service, \<^verbatim>\<open>serde_json\<close> at the row and payload types, the error text of the
  URL parser's caller aside, and the iteration order of the three hash maps.
\<close>

record daisy_env =
  dx_ext :: ext
  dx_vars :: environment
  dx_reply :: "plane_request list \<Rightarrow> plane_request \<Rightarrow> (string, nat \<times> string) result"
  dx_notes :: "string \<Rightarrow> (string, daisy_note_row list) result"
  dx_shares :: "string \<Rightarrow> (string, daisy_share_row list) result"
  dx_permissions :: "string \<Rightarrow> (string, daisy_share_permission_row list) result"
  dx_payload :: "string \<Rightarrow> (string, daisy_share_payload) result"
  dx_order :: "nat \<Rightarrow> string list \<Rightarrow> string list"

type_synonym 'a daisy = "plane_request list \<Rightarrow> (response, 'a) result \<times> plane_request list"

definition dz_lift :: "(response, 'a) result \<Rightarrow> 'a daisy" where
  "dz_lift r tr = (r, tr)"

definition dz_bind :: "'a daisy \<Rightarrow> ('a \<Rightarrow> 'b daisy) \<Rightarrow> 'b daisy" where
  "dz_bind m f tr = (case m tr of (Inl r, tr') \<Rightarrow> (Inl r, tr') | (Inr a, tr') \<Rightarrow> f a tr')"

definition dz_when :: "bool \<Rightarrow> 'a \<Rightarrow> 'a daisy \<Rightarrow> 'a daisy" where
  "dz_when b a m = (if b then m else dz_lift (Ok a))"

definition supabase_env :: "environment \<Rightarrow> string \<Rightarrow> (response, string \<times> string) result" where
  "supabase_env env rid =
     (let base = trim_end_matches (CHR ''/'')
            (trim (unwrap_or [] (opt_or (env ''SUPABASE_URL'') (env ''NEXT_PUBLIC_SUPABASE_URL''))));
          key = trim (unwrap_or [] (env ''SUPABASE_SERVICE_ROLE_KEY''))
      in if base = [] \<or> key = []
         then Err (daisy_error rid 500 ''DAISY_CONFIG_ERROR'' ''Supabase env not configured in gateway''
           (JObj [(''required'', JArr [JStr ''SUPABASE_URL'', JStr ''SUPABASE_SERVICE_ROLE_KEY''])]))
         else Ok (base, key))"

text \<open>The key a client sends with every request, if it makes a header value.\<close>

definition supabase_client_with_key :: "ext \<Rightarrow> string \<Rightarrow> string option" where
  "supabase_client_with_key X key = hv_from_str X key"

definition table_url :: "ext \<Rightarrow> string \<Rightarrow> string \<Rightarrow> string \<Rightarrow> (response, url) result" where
  "table_url X base table rid =
     map_err (\<lambda>e. daisy_error rid 500 ''DAISY_CONFIG_ERROR'' ''Failed to build Daisy data-plane URL''
        (JObj [(''table'', JStr table), (''reason'', JStr e)]))
       (url_parse X (base @ ''/rest/v1/'' @ table))"

definition with_pairs :: "(string \<times> string) list \<Rightarrow> url \<Rightarrow> url" where
  "with_pairs ps u = fold (\<lambda>(k, v). append_pair k v) ps (query_pairs_mut u)"

text \<open>\<^verbatim>\<open>chars().take(n)\<close> on UTF-8 bytes: a continuation byte belongs to the character before it.\<close>

fun take_chars :: "nat \<Rightarrow> string \<Rightarrow> string" where
  "take_chars n [] = []"
| "take_chars n (c # s) =
     (if continuation_byte c then c # take_chars n s
      else case n of 0 \<Rightarrow> [] | Suc m \<Rightarrow> c # take_chars m s)"

definition supabase_error_message :: "ext \<Rightarrow> string \<Rightarrow> string" where
  "supabase_error_message X raw =
     (if trim raw = [] then ''empty upstream response''
      else case Option.bind (result_ok (json_from_str X raw)) (\<lambda>v.
             opt_or (get_str ''message'' v) (opt_or (get_str ''error'' v) (opt_or (get_str ''details'' v)
               (Option.bind (Option.bind (jget ''error'' v) as_object) (\<lambda>ms. Option.bind (map_of ms ''message'') as_str))))) of
           Some message \<Rightarrow> message
         | None \<Rightarrow> take_chars 240 raw)"

definition supabase_request_text :: "daisy_env \<Rightarrow> string \<Rightarrow> string \<Rightarrow> plane_request \<Rightarrow> (nat \<times> string) daisy" where
  "supabase_request_text D rid context q tr =
     (map_err (\<lambda>e. data_plane_error rid ''DAISY_DATA_PLANE_UNAVAILABLE'' ''Unable to reach Daisy data plane''
        (JObj [(''context'', JStr context), (''reason'', JStr e)])) (dx_reply D tr q), tr @ [q])"

definition parse_json_rows ::
  "(string \<Rightarrow> (string, 'a list) result) \<Rightarrow> string \<Rightarrow> string \<Rightarrow> string \<Rightarrow> (response, 'a list) result" where
  "parse_json_rows parse rid context raw =
     (if trim raw = [] then Ok []
      else map_err (\<lambda>e. data_plane_error rid ''DAISY_DATA_PLANE_ERROR'' ''Daisy data plane returned invalid JSON''
             (JObj [(''context'', JStr context), (''reason'', JStr e)])) (parse raw))"

definition plane_ok :: "nat \<Rightarrow> bool" where
  "plane_ok status = (200 \<le> status \<and> status < 300)"

definition supabase_get_rows ::
  "daisy_env \<Rightarrow> (string \<Rightarrow> (string, 'a list) result) \<Rightarrow> string option \<Rightarrow> url \<Rightarrow> string \<Rightarrow> string \<Rightarrow> 'a list daisy" where
  "supabase_get_rows D parse client u rid context =
     dz_bind (supabase_request_text D rid context
        \<lparr>pq_method = ''GET'', pq_url = u, pq_key = client, pq_prefer = None, pq_body = None\<rparr>) (\<lambda>(status, body).
       dz_lift (if \<not> plane_ok status
         then Err (data_plane_error rid ''DAISY_DATA_PLANE_ERROR'' ''Daisy data plane query failed''
           (JObj [(''context'', JStr context), (''upstreamStatus'', jnat status),
                  (''upstreamError'', JStr (supabase_error_message (dx_ext D) body))]))
         else parse_json_rows parse rid context body))"

definition share_write_error :: "ext \<Rightarrow> string \<Rightarrow> string \<Rightarrow> nat \<Rightarrow> string \<Rightarrow> response" where
  "share_write_error X rid context status raw =
     (let details = JObj [(''context'', JStr context), (''upstreamStatus'', jnat status),
            (''upstreamError'', JStr (supabase_error_message X raw))]
      in if status = 400 \<or> status = 422
         then daisy_error rid 400 ''DAISY_SHARE_WRITE_REJECTED'' ''Share write rejected by Daisy data plane'' details
         else if status = 409
         then daisy_error rid 409 ''DAISY_SHARE_WRITE_CONFLICT'' ''Share write conflicted with existing ACL state'' details
         else data_plane_error rid ''DAISY_SHARE_WRITE_FAILED'' ''Daisy data plane share write failed'' details)"

definition share_write_empty_result_error :: "string \<Rightarrow> string \<Rightarrow> response" where
  "share_write_empty_result_error rid context =
     data_plane_error rid ''DAISY_SHARE_WRITE_EMPTY_RESULT'' ''Daisy data plane share write returned no rows''
       (JObj [(''context'', JStr context)])"

definition add_archived_filter :: "bool \<Rightarrow> url \<Rightarrow> url" where
  "add_archived_filter include_archived u =
     (if include_archived then u else append_pair ''archived'' ''eq.false'' (query_pairs_mut u))"

section \<open>Queries\<close>

text \<open>
  \<^verbatim>\<open>entry(key).or_insert(value)\<close> keeps the first value of a key; the values of a
  hash map come in the order of the map.
\<close>

definition first_by :: "('a \<Rightarrow> string) \<Rightarrow> 'a list \<Rightarrow> (string \<times> 'a) list" where
  "first_by key xs = foldl (\<lambda>m x. if key x \<in> set (map fst m) then m else m @ [(key x, x)]) [] xs"

definition hash_values :: "daisy_env \<Rightarrow> nat \<Rightarrow> (string \<times> 'a) list \<Rightarrow> 'a list" where
  "hash_values D site m = filter_map (map_of m) (dx_order D site (map fst m))"

text \<open>A stable sort by a key, greatest first.\<close>

definition sort_desc :: "('a \<Rightarrow> 'k::linorder) \<Rightarrow> 'a list \<Rightarrow> 'a list" where
  "sort_desc f xs = rev (sort_key f (rev xs))"

definition notes_query :: "daisy_env \<Rightarrow> string option \<Rightarrow> string \<Rightarrow> (string \<times> string) list \<Rightarrow> bool \<Rightarrow> string \<Rightarrow> string
     \<Rightarrow> daisy_note_row list daisy" where
  "notes_query D client base pairs include_archived rid context =
     dz_bind (dz_lift (table_url (dx_ext D) base ''daisy_notes'' rid)) (\<lambda>u.
       supabase_get_rows D (dx_notes D) client (add_archived_filter include_archived (with_pairs pairs u)) rid context)"

definition fetch_notes_for_owner ::
  "daisy_env \<Rightarrow> string option \<Rightarrow> string \<Rightarrow> daisy_actor_scope \<Rightarrow> bool \<Rightarrow> string \<Rightarrow> daisy_note_row list daisy" where
  "fetch_notes_for_owner D client base sc include_archived rid =
     dz_bind (dz_when (ds_user_id sc \<noteq> []) []
        (notes_query D client base [(''select'', NOTE_SELECT_FIELDS),
           (''owner_user_id'', ''eq.'' @ ds_user_id sc), (''order'', ''updated_at.desc'')]
           include_archived rid ''list_owner_notes_by_user'')) (\<lambda>by_user.
     dz_bind (case ds_email sc of
        None \<Rightarrow> dz_lift (Ok [])
      | Some mail \<Rightarrow> notes_query D client base [(''select'', NOTE_SELECT_FIELDS),
           (''owner_email'', ''eq.'' @ mail), (''order'', ''updated_at.desc'')]
           include_archived rid ''list_owner_notes_by_email'') (\<lambda>by_email.
       dz_lift (Ok (hash_values D 0 (first_by dn_id (by_user @ by_email))))))"

definition shares_query ::
  "daisy_env \<Rightarrow> (string \<Rightarrow> (string, 'a list) result) \<Rightarrow> string option \<Rightarrow> string \<Rightarrow> (string \<times> string) list \<Rightarrow> string \<Rightarrow> string
     \<Rightarrow> 'a list daisy" where
  "shares_query D parse client base pairs rid context =
     dz_bind (dz_lift (table_url (dx_ext D) base ''daisy_note_shares'' rid)) (\<lambda>u.
       supabase_get_rows D parse client (with_pairs pairs u) rid context)"

definition fetch_share_permissions_by_target ::
  "daisy_env \<Rightarrow> string option \<Rightarrow> string \<Rightarrow> string \<Rightarrow> string \<Rightarrow> string \<Rightarrow> string \<Rightarrow> daisy_share_permission_row list daisy" where
  "fetch_share_permissions_by_target D client base field v rid context =
     shares_query D (dx_permissions D) client base
       [(''select'', ''note_id,permission,created_at''), (field, ''eq.'' @ v), (''order'', ''created_at.desc'')] rid context"

text \<open>The newest share with a valid permission decides, per note.\<close>

definition role_map :: "daisy_share_permission_row list \<Rightarrow> (string \<times> daisy_access_role) list" where
  "role_map entries = foldl (\<lambda>m e.
     if pr_note_id e \<in> set (map fst m) then m
     else case normalize_permission_role (Some (pr_permission e)) of
       Some role \<Rightarrow> m @ [(pr_note_id e, role)]
     | None \<Rightarrow> m) [] (sort_desc pr_created_at entries)"

definition fetch_shared_permissions_for_scope ::
  "daisy_env \<Rightarrow> string option \<Rightarrow> string \<Rightarrow> daisy_actor_scope \<Rightarrow> string \<Rightarrow> (string \<times> daisy_access_role) list daisy" where
  "fetch_shared_permissions_for_scope D client base sc rid =
     dz_bind (dz_when (ds_user_id sc \<noteq> []) []
        (fetch_share_permissions_by_target D client base ''shared_with_user_id'' (ds_user_id sc) rid
           ''list_share_permissions_by_user'')) (\<lambda>by_user.
     dz_bind (case ds_email sc of
        None \<Rightarrow> dz_lift (Ok [])
      | Some mail \<Rightarrow> fetch_share_permissions_by_target D client base ''shared_with_email'' mail rid
           ''list_share_permissions_by_email'') (\<lambda>by_email.
       dz_lift (Ok (role_map (by_user @ by_email)))))"

definition fetch_notes_by_ids ::
  "daisy_env \<Rightarrow> string option \<Rightarrow> string \<Rightarrow> string list \<Rightarrow> bool \<Rightarrow> string \<Rightarrow> daisy_note_row list daisy" where
  "fetch_notes_by_ids D client base ids include_archived rid =
     dz_when (ids \<noteq> []) []
       (notes_query D client base [(''select'', NOTE_SELECT_FIELDS),
          (''id'', ''in.('' @ str_join '','' ids @ '')''), (''order'', ''updated_at.desc'')]
          include_archived rid ''list_shared_notes'')"

definition fetch_note_by_id ::
  "daisy_env \<Rightarrow> string option \<Rightarrow> string \<Rightarrow> string \<Rightarrow> string \<Rightarrow> daisy_note_row option daisy" where
  "fetch_note_by_id D client base note_id rid =
     dz_bind (notes_query D client base [(''select'', NOTE_SELECT_FIELDS), (''id'', ''eq.'' @ note_id),
        (''limit'', ''1'')] True rid ''get_note_by_id'') (\<lambda>rows. dz_lift (Ok (head_opt rows)))"

definition fetch_note_share_role_by_target ::
  "daisy_env \<Rightarrow> string option \<Rightarrow> string \<Rightarrow> string \<Rightarrow> string \<Rightarrow> string \<Rightarrow> string \<Rightarrow> string
     \<Rightarrow> daisy_share_permission_row option daisy" where
  "fetch_note_share_role_by_target D client base note_id field v rid context =
     dz_bind (shares_query D (dx_permissions D) client base
       [(''select'', ''note_id,permission,created_at''), (''note_id'', ''eq.'' @ note_id), (field, ''eq.'' @ v),
        (''order'', ''created_at.desc''), (''limit'', ''1'')] rid context) (\<lambda>rows. dz_lift (Ok (head_opt rows)))"

definition opt_list :: "'a option \<Rightarrow> 'a list" where
  "opt_list x = (case x of None \<Rightarrow> [] | Some a \<Rightarrow> [a])"

definition first_role :: "daisy_share_permission_row list \<Rightarrow> daisy_access_role option" where
  "first_role candidates = find_map (\<lambda>e. normalize_permission_role (Some (pr_permission e)))
     (sort_desc pr_created_at candidates)"

definition fetch_direct_share_role_for_note ::
  "daisy_env \<Rightarrow> string option \<Rightarrow> string \<Rightarrow> daisy_actor_scope \<Rightarrow> string \<Rightarrow> string \<Rightarrow> daisy_access_role option daisy" where
  "fetch_direct_share_role_for_note D client base sc note_id rid =
     dz_bind (dz_when (ds_user_id sc \<noteq> []) None
        (fetch_note_share_role_by_target D client base note_id ''shared_with_user_id'' (ds_user_id sc) rid
           ''resolve_note_access_by_user'')) (\<lambda>by_user.
     dz_bind (case ds_email sc of
        None \<Rightarrow> dz_lift (Ok None)
      | Some mail \<Rightarrow> fetch_note_share_role_by_target D client base note_id ''shared_with_email'' mail rid
           ''resolve_note_access_by_email'') (\<lambda>by_email.
       dz_lift (Ok (first_role (opt_list by_user @ opt_list by_email)))))"

definition resolve_note_access ::
  "daisy_env \<Rightarrow> string option \<Rightarrow> string \<Rightarrow> daisy_actor_scope \<Rightarrow> string \<Rightarrow> string \<Rightarrow> daisy_resolved_note_access option daisy" where
  "resolve_note_access D client base sc note_id rid =
     dz_bind (fetch_note_by_id D client base note_id rid) (\<lambda>found. case found of
        None \<Rightarrow> dz_lift (Ok None)
      | Some note \<Rightarrow>
          if scope_owns_note sc note then dz_lift (Ok (Some \<lparr>ra_note = note, ra_role = Owner\<rparr>))
          else dz_bind (fetch_direct_share_role_for_note D client base sc note_id rid) (\<lambda>r.
            dz_lift (Ok (map_option (\<lambda>role. \<lparr>ra_note = note, ra_role = role\<rparr>) r))))"

section \<open>Representations\<close>

definition note_row_to_response :: "daisy_note_row \<Rightarrow> daisy_access_role \<Rightarrow> json" where
  "note_row_to_response n role = JObj
     [(''id'', JStr (dn_id n)), (''title'', JStr (dn_title n)), (''content'', JStr (dn_content n)),
      (''tags'', JArr (map JStr (dn_tags n))), (''pinned'', JBool (dn_pinned n)),
      (''archived'', JBool (dn_archived n)), (''createdAt'', jopt_str (dn_created_at n)),
      (''updatedAt'', jopt_str (dn_updated_at n)),
      (''access'', JObj [(''role'', JStr (role_str role)), (''canEdit'', JBool (can_edit role)),
         (''canShare'', JBool (can_share role))])]"

definition share_row_to_response :: "daisy_share_row \<Rightarrow> json" where
  "share_row_to_response s = JObj
     [(''id'', jopt_str (sr_id s)), (''noteId'', JStr (sr_note_id s)),
      (''sharedWithUserId'', jopt_str (sr_shared_with_user_id s)),
      (''sharedWithEmail'', jopt_str (sr_shared_with_email s)),
      (''permission'', jopt_str (normalize_permission (sr_permission s))),
      (''createdAt'', jopt_str (sr_created_at s)), (''updatedAt'', jopt_str (sr_updated_at s))]"

section \<open>Writes\<close>

definition fetch_note_shares :: "daisy_env \<Rightarrow> string option \<Rightarrow> string \<Rightarrow> string \<Rightarrow> string \<Rightarrow> daisy_share_row list daisy" where
  "fetch_note_shares D client base note_id rid =
     shares_query D (dx_shares D) client base [(''select'', SHARE_SELECT_FIELDS), (''note_id'', ''eq.'' @ note_id),
       (''order'', ''created_at.desc'')] rid ''list_note_shares''"

definition target_pairs :: "daisy_share_target \<Rightarrow> (string \<times> string) list" where
  "target_pairs t =
     map (\<lambda>v. (''shared_with_user_id'', ''eq.'' @ v)) (opt_list (dt_user_id t))
     @ map (\<lambda>v. (''shared_with_email'', ''eq.'' @ v)) (opt_list (dt_email t))"

definition upsert_note_share_in_data_plane ::
  "daisy_env \<Rightarrow> string option \<Rightarrow> string \<Rightarrow> string \<Rightarrow> daisy_share_target \<Rightarrow> string \<Rightarrow> string \<Rightarrow> daisy_share_row daisy" where
  "upsert_note_share_in_data_plane D client base note_id target permission rid =
     dz_bind (dz_lift (table_url (dx_ext D) base ''daisy_note_shares'' rid)) (\<lambda>u.
     dz_bind (supabase_request_text D rid ''update_note_share''
        \<lparr>pq_method = ''PATCH'',
         pq_url = with_pairs ([(''select'', SHARE_SELECT_FIELDS), (''note_id'', ''eq.'' @ note_id)] @ target_pairs target) u,
         pq_key = client, pq_prefer = Some ''return=representation'',
         pq_body = Some (JObj [(''permission'', JStr permission)])\<rparr>) (\<lambda>(ustatus, ubody).
       if \<not> plane_ok ustatus
       then dz_lift (Err (share_write_error (dx_ext D) rid ''update_note_share'' ustatus ubody))
       else dz_bind (dz_lift (parse_json_rows (dx_shares D) rid ''update_note_share'' ubody)) (\<lambda>rows.
         case rows of
           existing # _ \<Rightarrow> dz_lift (Ok existing)
         | [] \<Rightarrow>
             dz_bind (dz_lift (table_url (dx_ext D) base ''daisy_note_shares'' rid)) (\<lambda>v.
             dz_bind (supabase_request_text D rid ''insert_note_share''
                \<lparr>pq_method = ''POST'', pq_url = with_pairs [(''select'', SHARE_SELECT_FIELDS)] v,
                 pq_key = client, pq_prefer = Some ''return=representation'',
                 pq_body = Some (JObj [(''note_id'', JStr note_id), (''shared_with_user_id'', jopt_str (dt_user_id target)),
                   (''shared_with_email'', jopt_str (dt_email target)), (''permission'', JStr permission)])\<rparr>) (\<lambda>(istatus, ibody).
               if \<not> plane_ok istatus
               then dz_lift (Err (share_write_error (dx_ext D) rid ''insert_note_share'' istatus ibody))
               else dz_bind (dz_lift (parse_json_rows (dx_shares D) rid ''insert_note_share'' ibody)) (\<lambda>inserted.
                 dz_lift (ok_or (share_write_empty_result_error rid ''insert_note_share'') (head_opt inserted))))))))"

definition remove_note_share_in_data_plane ::
  "daisy_env \<Rightarrow> string option \<Rightarrow> string \<Rightarrow> string \<Rightarrow> daisy_share_target \<Rightarrow> string \<Rightarrow> unit daisy" where
  "remove_note_share_in_data_plane D client base note_id target rid =
     dz_bind (dz_lift (table_url (dx_ext D) base ''daisy_note_shares'' rid)) (\<lambda>u.
     dz_bind (supabase_request_text D rid ''remove_note_share''
        \<lparr>pq_method = ''DELETE'', pq_url = with_pairs ([(''note_id'', ''eq.'' @ note_id)] @ target_pairs target) u,
         pq_key = client, pq_prefer = Some ''return=minimal'', pq_body = None\<rparr>) (\<lambda>(status, body).
       dz_lift (if \<not> plane_ok status
         then Err (data_plane_error rid ''DAISY_DATA_PLANE_ERROR'' ''Daisy data plane share removal failed''
           (JObj [(''upstreamStatus'', jnat status), (''upstreamError'', JStr (supabase_error_message (dx_ext D) body))]))
         else Ok ())))"

section \<open>Handlers\<close>

text \<open>A handler answers with the value it ends with or with the early response.\<close>

definition dz_run :: "response daisy \<Rightarrow> plane_request list \<Rightarrow> response \<times> plane_request list" where
  "dz_run m tr = (case m tr of (Inl r, tr') \<Rightarrow> (r, tr') | (Inr r, tr') \<Rightarrow> (r, tr'))"

definition daisy_request_id :: "ext \<Rightarrow> request \<Rightarrow> string" where
  "daisy_request_id X rq = unwrap_or ''unknown'' (Option.bind (rq_request_id rq) (hv_to_str X))"

definition parse_json_payload :: "daisy_env \<Rightarrow> request \<Rightarrow> daisy_share_payload option" where
  "parse_json_payload D rq = Option.bind (opt_filter (\<lambda>b. length b \<le> MAX_DAISY_BODY_BYTES) (rq_body rq))
     (\<lambda>b. result_ok (dx_payload D b))"

text \<open>The listed notes: the first row per id, those the scope may see, newest first.\<close>

definition note_role :: "daisy_actor_scope \<Rightarrow> (string \<times> daisy_access_role) list \<Rightarrow> daisy_note_row \<Rightarrow> daisy_access_role option" where
  "note_role sc perms n = (if scope_owns_note sc n then Some Owner else map_of perms (dn_id n))"

definition visible_notes ::
  "daisy_env \<Rightarrow> daisy_actor_scope \<Rightarrow> (string \<times> daisy_access_role) list \<Rightarrow> daisy_note_row list
     \<Rightarrow> (daisy_note_row \<times> daisy_access_role) list" where
  "visible_notes D sc perms rows =
     sort_desc (\<lambda>(n, _). unwrap_or [] (dn_updated_at n))
       (filter_map (\<lambda>n. map_option (Pair n) (note_role sc perms n)) (hash_values D 2 (first_by dn_id rows)))"

definition list_notes :: "daisy_env \<Rightarrow> request \<Rightarrow> plane_request list \<Rightarrow> response \<times> plane_request list" where
  "list_notes D rq =
     (let X = dx_ext D; rid = daisy_request_id X rq
      in dz_run (dz_bind (dz_lift (require_principal (rq_principal rq) rid)) (\<lambda>p.
         let include_archived = query_param_is_truthy X rq ''includeArchived'';
             sc = scope_from_headers X p (rq_headers rq)
         in dz_bind (dz_lift (supabase_env (dx_vars D) rid)) (\<lambda>(base, key).
            let client = supabase_client_with_key X key
            in dz_bind (fetch_notes_for_owner D client base sc include_archived rid) (\<lambda>owner_notes.
               dz_bind (fetch_shared_permissions_for_scope D client base sc rid) (\<lambda>perms.
               dz_bind (fetch_notes_by_ids D client base (dx_order D 1 (map fst perms)) include_archived rid) (\<lambda>shared.
                 dz_lift (Ok (daisy_ok rid 200 (JObj [(''notes'',
                   JArr (map (\<lambda>(n, role). note_row_to_response n role)
                     (visible_notes D sc perms (owner_notes @ shared))))]))))))))))"

definition get_note_by_id :: "daisy_env \<Rightarrow> string \<Rightarrow> request \<Rightarrow> plane_request list \<Rightarrow> response \<times> plane_request list" where
  "get_note_by_id D note_id0 rq =
     (let X = dx_ext D; rid = daisy_request_id X rq
      in dz_run (dz_bind (dz_lift (require_principal (rq_principal rq) rid)) (\<lambda>p.
         let note_id = trim note_id0
         in if note_id = [] then dz_lift (Err (note_not_found rid []))
            else let sc = scope_from_headers X p (rq_headers rq)
              in dz_bind (dz_lift (supabase_env (dx_vars D) rid)) (\<lambda>(base, key).
                 dz_bind (resolve_note_access D (supabase_client_with_key X key) base sc note_id rid) (\<lambda>access.
                   case access of
                     None \<Rightarrow> dz_lift (Err (note_not_found rid note_id))
                   | Some a \<Rightarrow> dz_lift (Ok (daisy_ok rid 200
                       (JObj [(''note'', note_row_to_response (ra_note a) (ra_role a))]))))))))"

text \<open>The part the three ACL handlers share: the access of the caller, who must own the note.\<close>

definition owner_access ::
  "daisy_env \<Rightarrow> string option \<Rightarrow> string \<Rightarrow> daisy_actor_scope \<Rightarrow> string \<Rightarrow> string \<Rightarrow> daisy_resolved_note_access daisy" where
  "owner_access D client base sc note_id rid =
     dz_bind (resolve_note_access D client base sc note_id rid) (\<lambda>access. case access of
        None \<Rightarrow> dz_lift (Err (note_not_found rid note_id))
      | Some a \<Rightarrow> dz_bind (dz_lift (ensure_owner_for_acl (ra_role a) rid note_id)) (\<lambda>_. dz_lift (Ok a)))"

definition list_note_shares :: "daisy_env \<Rightarrow> string \<Rightarrow> request \<Rightarrow> plane_request list \<Rightarrow> response \<times> plane_request list" where
  "list_note_shares D note_id0 rq =
     (let X = dx_ext D; rid = daisy_request_id X rq
      in dz_run (dz_bind (dz_lift (require_principal (rq_principal rq) rid)) (\<lambda>p.
         let note_id = trim note_id0
         in if note_id = [] then dz_lift (Err (note_not_found rid []))
            else let sc = scope_from_headers X p (rq_headers rq)
              in dz_bind (dz_lift (supabase_env (dx_vars D) rid)) (\<lambda>(base, key).
                 let client = supabase_client_with_key X key
                 in dz_bind (owner_access D client base sc note_id rid) (\<lambda>_.
                    dz_bind (fetch_note_shares D client base note_id rid) (\<lambda>shares.
                      dz_lift (Ok (daisy_ok rid 200 (JObj [(''shares'', JArr (map share_row_to_response shares))])))))))))"

definition target_is_owner :: "daisy_share_target \<Rightarrow> daisy_note_row \<Rightarrow> bool" where
  "target_is_owner t n \<longleftrightarrow>
     opt_same (normalize_user_id (dt_user_id t)) (normalize_user_id (dn_owner_user_id n))
     \<or> opt_same (daisy_normalize_email (dt_email t)) (daisy_normalize_email (dn_owner_email n))"

definition invalid_share :: "string \<Rightarrow> string \<Rightarrow> json \<Rightarrow> response" where
  "invalid_share rid message details = daisy_error rid 400 ''DAISY_INVALID_SHARE_PAYLOAD'' message details"

text \<open>The checks on a share payload, in the order of the code.\<close>

definition check_share_payload ::
  "daisy_env \<Rightarrow> request \<Rightarrow> string \<Rightarrow> (response, string \<times> daisy_share_target) result" where
  "check_share_payload D rq rid =
     try_result (ok_or (invalid_share rid ''Share payload must be valid JSON object''
         (JObj [(''expected'', JArr [JStr ''permission'', JStr ''sharedWithUserId|sharedWithEmail''])]))
         (parse_json_payload D rq)) (\<lambda>payload.
       case reject_public_link_payload payload rid of
         Some r \<Rightarrow> Err r
       | None \<Rightarrow>
           try_result (ok_or (invalid_share rid ''permission must be viewer or editor''
               (JObj [(''permission'', jopt_str (sp_permission payload))])) (normalize_permission (sp_permission payload))) (\<lambda>permission.
           try_result (ok_or (invalid_share rid ''sharedWithUserId or sharedWithEmail is required''
               (JObj [(''target'', JStr ''missing'')])) (normalize_target payload)) (\<lambda>target.
             Ok (permission, target))))"

definition upsert_note_share :: "daisy_env \<Rightarrow> string \<Rightarrow> request \<Rightarrow> plane_request list \<Rightarrow> response \<times> plane_request list" where
  "upsert_note_share D note_id0 rq =
     (let X = dx_ext D; rid = daisy_request_id X rq
      in dz_run (dz_bind (dz_lift (require_principal (rq_principal rq) rid)) (\<lambda>p.
         let note_id = trim note_id0
         in if note_id = [] then dz_lift (Err (note_not_found rid []))
            else let sc = scope_from_headers X p (rq_headers rq)
              in dz_bind (dz_lift (check_share_payload D rq rid)) (\<lambda>(permission, target).
                 dz_bind (dz_lift (supabase_env (dx_vars D) rid)) (\<lambda>(base, key).
                 let client = supabase_client_with_key X key
                 in dz_bind (owner_access D client base sc note_id rid) (\<lambda>a.
                    if target_is_owner target (ra_note a)
                    then dz_lift (Err (invalid_share rid ''Note owner already has access''
                           (JObj [(''target'', target_as_value target)])))
                    else dz_bind (upsert_note_share_in_data_plane D client base note_id target permission rid) (\<lambda>share.
                      dz_lift (Ok (daisy_ok rid 200 (JObj [(''share'', share_row_to_response share)]))))))))))"

definition remove_note_share :: "daisy_env \<Rightarrow> string \<Rightarrow> request \<Rightarrow> plane_request list \<Rightarrow> response \<times> plane_request list" where
  "remove_note_share D note_id0 rq =
     (let X = dx_ext D; rid = daisy_request_id X rq
      in dz_run (dz_bind (dz_lift (require_principal (rq_principal rq) rid)) (\<lambda>p.
         let note_id = trim note_id0
         in if note_id = [] then dz_lift (Err (note_not_found rid []))
            else let sc = scope_from_headers X p (rq_headers rq)
              in dz_bind (dz_lift (ok_or (invalid_share rid ''Share removal payload must be valid JSON object''
                    (JObj [(''expected'', JArr [JStr ''sharedWithUserId|sharedWithEmail''])])) (parse_json_payload D rq))) (\<lambda>payload.
                 dz_bind (dz_lift (ok_or (invalid_share rid ''sharedWithUserId or sharedWithEmail is required''
                    (JObj [(''target'', JStr ''missing'')])) (normalize_target payload))) (\<lambda>target.
                 dz_bind (dz_lift (supabase_env (dx_vars D) rid)) (\<lambda>(base, key).
                 let client = supabase_client_with_key X key
                 in dz_bind (owner_access D client base sc note_id rid) (\<lambda>_.
                    dz_bind (remove_note_share_in_data_plane D client base note_id target rid) (\<lambda>_.
                      dz_lift (Ok (daisy_ok rid 200 (JObj [(''removed'', JBool True), (''noteId'', JStr note_id),
                        (''target'', target_as_value target)])))))))))))"

section \<open>What a computation sends\<close>

definition sends :: "(plane_request \<Rightarrow> bool) \<Rightarrow> 'a daisy \<Rightarrow> bool" where
  "sends P m \<longleftrightarrow> (\<forall>tr. \<exists>qs. snd (m tr) = tr @ qs \<and> (\<forall>q\<in>set qs. P q))"

definition is_get :: "plane_request \<Rightarrow> bool" where
  "is_get q \<longleftrightarrow> pq_method q = ''GET''"

named_theorems sends_intros

lemma dz_lift_eq [simp]: "dz_lift r tr = (r, tr)"
  by (simp add: dz_lift_def)

lemma dz_bind_eq [simp]:
  "m tr = (Inl r, tr') \<Longrightarrow> dz_bind m f tr = (Inl r, tr')"
  "m tr = (Inr a, tr') \<Longrightarrow> dz_bind m f tr = f a tr'"
  by (simp_all add: dz_bind_def)

lemma dz_bind_lift [simp]: "dz_bind (dz_lift r) f tr = (case r of Inl e \<Rightarrow> (Inl e, tr) | Inr a \<Rightarrow> f a tr)"
  by (simp add: dz_bind_def dz_lift_def split: sum.split)

lemma dz_bind_Ok: "dz_bind m f tr = (Inr b, tr') \<longleftrightarrow> (\<exists>a tr1. m tr = (Inr a, tr1) \<and> f a tr1 = (Inr b, tr'))"
  by (auto simp: dz_bind_def split: prod.splits sum.splits)

lemma sends_lift [sends_intros]: "sends P (dz_lift r)"
  by (simp add: sends_def)

lemma sends_bind [sends_intros]:
  assumes "sends P m" "\<And>a. sends P (f a)"
  shows "sends P (dz_bind m f)"
  unfolding sends_def
proof
  fix tr
  obtain r tr1 where m: "m tr = (r, tr1)" by (cases "m tr")
  obtain qs where qs: "tr1 = tr @ qs" "\<forall>q\<in>set qs. P q" using assms(1) m unfolding sends_def by (metis snd_conv)
  show "\<exists>qs. snd (dz_bind m f tr) = tr @ qs \<and> (\<forall>q\<in>set qs. P q)"
  proof (cases r)
    case (Inr a)
    obtain qs' where "snd (f a tr1) = tr1 @ qs'" "\<forall>q\<in>set qs'. P q" using assms(2) unfolding sends_def by metis
    with qs m Inr show ?thesis by (auto intro!: exI [of _ "qs @ qs'"])
  qed (use m qs in auto)
qed

lemma sends_when [sends_intros]: "sends P m \<Longrightarrow> sends P (dz_when b a m)"
  by (simp add: dz_when_def sends_lift)

lemma sends_request [sends_intros]: "P q \<Longrightarrow> sends P (supabase_request_text D rid ctx q)"
  by (simp add: sends_def supabase_request_text_def)

lemma sends_get_rows [sends_intros]: "sends is_get (supabase_get_rows D parse client u rid ctx)"
  unfolding supabase_get_rows_def
  by (intro sends_intros) (auto simp: is_get_def split_beta intro: sends_intros)

lemma sends_queries [sends_intros]:
  "sends is_get (notes_query D client base ps ia rid ctx)"
  "sends is_get (shares_query D parse client base ps rid ctx)"
  by (auto simp: notes_query_def shares_query_def intro: sends_intros)

lemma sends_resolve [sends_intros]: "sends is_get (resolve_note_access D client base sc note_id rid)"
  by (auto simp: resolve_note_access_def fetch_note_by_id_def fetch_direct_share_role_for_note_def
      fetch_note_share_role_by_target_def split: option.split intro!: sends_intros)

lemma sends_owner_access [sends_intros]: "sends is_get (owner_access D client base sc note_id rid)"
  by (auto simp: owner_access_def split: option.split intro!: sends_intros)

section \<open>Ownership\<close>

lemma role_not_owner: "normalize_permission_role v \<noteq> Some Owner"
  by (auto simp: normalize_permission_role_def split: option.splits if_splits)

lemma find_map_range: "find_map f xs = Some y \<Longrightarrow> \<exists>x. f x = Some y"
  using find_map_Some by fast

lemma first_role_not_owner: "first_role es \<noteq> Some Owner"
  using role_not_owner by (auto simp: first_role_def dest: find_map_range)

lemma share_role_not_owner:
  "fetch_direct_share_role_for_note D client base sc note_id rid tr = (Inr r, tr') \<Longrightarrow> r \<noteq> Some Owner"
  using first_role_not_owner by (auto simp: fetch_direct_share_role_for_note_def dz_bind_Ok)

lemma resolve_owner:
  assumes "resolve_note_access D client base sc note_id rid tr = (Inr (Some a), tr')" "ra_role a = Owner"
  shows "scope_owns_note sc (ra_note a)
    \<and> (\<exists>tr1. fetch_note_by_id D client base note_id rid tr = (Inr (Some (ra_note a)), tr1))"
  using assms share_role_not_owner
  by (fastforce simp: resolve_note_access_def dz_bind_Ok split: option.splits if_splits)

lemma owner_access_Ok:
  assumes "owner_access D client base sc note_id rid tr = (Inr a, tr')"
  shows "scope_owns_note sc (ra_note a)
    \<and> (\<exists>tr1. fetch_note_by_id D client base note_id rid tr = (Inr (Some (ra_note a)), tr1))"
proof -
  from assms have "resolve_note_access D client base sc note_id rid tr = (Inr (Some a), tr')" "ra_role a = Owner"
    by (auto simp: owner_access_def dz_bind_Ok ensure_owner_for_acl_def can_share_def split: option.splits if_splits)
  then show ?thesis by (rule resolve_owner)
qed

lemma snd_dz_run [simp]: "snd (dz_run m tr) = snd (m tr)"
  by (auto simp: dz_run_def split: prod.splits sum.splits)

lemma sends_new: "sends P m \<Longrightarrow> q \<in> set (drop (length tr) (snd (m tr))) \<Longrightarrow> P q"
  unfolding sends_def by (metis append_eq_conv_conj)

text \<open>Behind the owner check, a request that is not a query means the check passed.\<close>

lemma guarded_write:
  assumes "q \<in> set (drop (length tr) (snd (dz_bind (owner_access D client base sc note_id rid) f tr)))" "\<not> is_get q"
  shows "\<exists>a tr1. owner_access D client base sc note_id rid tr = (Inr a, tr1)"
proof (cases "owner_access D client base sc note_id rid tr")
  case (Pair r tr1)
  show ?thesis
  proof (cases r)
    case (Inl e)
    then have "q \<in> set (drop (length tr) (snd (owner_access D client base sc note_id rid tr)))"
      using assms(1) Pair by simp
    from sends_new [OF sends_owner_access this] assms(2) show ?thesis by simp
  qed (use Pair in auto)
qed

lemmas daisy_paths = dz_bind_lift require_principal_def Let_def


text \<open>A data plane with one note of one owner, and requests to it.\<close>

definition wit_note :: daisy_note_row where
  "wit_note = \<lparr>dn_id = ''n'', dn_title = ''t'', dn_content = [], dn_tags = [], dn_pinned = False, dn_archived = False,
     dn_created_at = None, dn_updated_at = None, dn_owner_user_id = Some ''u'', dn_owner_email = None\<rparr>"

definition wit_payload :: daisy_share_payload where
  "wit_payload = \<lparr>sp_permission = Some ''editor'', sp_shared_with_user_id = Some ''v'', sp_shared_with_email = None,
     sp_public = None, sp_public_link = None, sp_scope = None\<rparr>"

definition wit_share :: daisy_share_row where
  "wit_share = \<lparr>sr_id = None, sr_note_id = ''n'', sr_shared_with_user_id = Some ''v'', sr_shared_with_email = None,
     sr_permission = Some ''editor'', sr_created_at = None, sr_updated_at = None\<rparr>"

definition wit_daisy :: daisy_env where
  "wit_daisy = \<lparr>dx_ext = wit_ext\<lparr>url_parse := (\<lambda>s. Inr \<lparr>u_scheme = ''https'', u_host = Some ''d'', u_port = None,
       u_text = s, u_query = None\<rparr>)\<rparr>,
     dx_vars = (\<lambda>k. if k = ''SUPABASE_URL'' \<or> k = ''SUPABASE_SERVICE_ROLE_KEY'' then Some ''k'' else None),
     dx_reply = (\<lambda>_ _. Ok (200, ''x'')), dx_notes = (\<lambda>_. Ok [wit_note]), dx_shares = (\<lambda>_. Ok [wit_share]),
     dx_permissions = (\<lambda>_. Ok []), dx_payload = (\<lambda>_. Ok wit_payload), dx_order = (\<lambda>_ ks. ks)\<rparr>"

definition wit_daisy_request :: request where
  "wit_daisy_request = (wit_request ''POST'' no_headers)\<lparr>rq_principal := Some \<lparr>user_id = ''u'', email = None,
     org_id = None, roles = [], session_id = ''s'', auth_method = Cookie\<rparr>\<rparr>"

lemma wit_trims [simp]:
  "trim ''u'' = ''u''" "trim ''n'' = ''n''" "trim ''k'' = ''k''" "trim ''v'' = ''v''" "trim ''x'' = ''x''"
  "trim ''editor'' = ''editor''" "to_ascii_lowercase ''editor'' = ''editor''"
  by (simp_all add: trim_graphic) code_simp

lemmas daisy_eval = upsert_note_share_def remove_note_share_def owner_access_def resolve_note_access_def
  fetch_note_by_id_def notes_query_def supabase_get_rows_def supabase_request_text_def table_url_def
  parse_json_rows_def plane_ok_def check_share_payload_def parse_json_payload_def ensure_owner_for_acl_def
  upsert_note_share_in_data_plane_def reject_public_link_payload_def normalize_permission_def
  normalize_target_def supabase_env_def trim_end_matches_def scope_from_headers_def scope_owns_note_def
  normalize_user_id_def daisy_normalize_email_def opt_same_def target_is_owner_def can_share_def
  require_principal_def

lemma wit_upsert: "pq_method (last (snd (upsert_note_share wit_daisy ''n'' wit_daisy_request []))) = ''PATCH''
  \<and> length (snd (upsert_note_share wit_daisy ''n'' wit_daisy_request [])) = 2"
  by (simp add: daisy_eval wit_daisy_def wit_daisy_request_def wit_request_def wit_ext_def Let_def dz_bind_def
      dz_run_def wit_note_def wit_payload_def MAX_DAISY_BODY_BYTES_def)


section \<open>Visibility\<close>

text \<open>
  Who may see a note, by what the data plane answered: the owner, or someone the
  data plane returned a share with a valid permission for.
\<close>

definition entitled ::
  "daisy_env \<Rightarrow> string option \<Rightarrow> string \<Rightarrow> daisy_actor_scope \<Rightarrow> string \<Rightarrow> string \<Rightarrow> plane_request list
     \<Rightarrow> daisy_note_row \<Rightarrow> daisy_access_role \<Rightarrow> bool" where
  "entitled D client base sc note_id rid tr n role \<longleftrightarrow>
     (\<exists>tr1. fetch_note_by_id D client base note_id rid tr = (Ok (Some n), tr1)
        \<and> (if scope_owns_note sc n then role = Owner
           else \<exists>tr2. fetch_direct_share_role_for_note D client base sc note_id rid tr1 = (Ok (Some role), tr2)))"

lemma resolve_Some:
  "resolve_note_access D client base sc note_id rid tr = (Inr (Some a), tr')
     \<Longrightarrow> entitled D client base sc note_id rid tr (ra_note a) (ra_role a)"
  by (fastforce simp: resolve_note_access_def entitled_def dz_bind_Ok split: option.splits if_splits)

lemma daisy_error_status [simp]: "rs_status (daisy_error rid st code m d) = st"
  by (simp add: daisy_error_def json_response_def)

lemma data_plane_status [simp]: "rs_status (data_plane_error rid code m d) = 502"
  by (simp add: data_plane_error_def)

text \<open>No early response of a query is a success.\<close>

definition fails :: "'a daisy \<Rightarrow> bool" where
  "fails m \<longleftrightarrow> (\<forall>tr r tr'. m tr = (Inl r, tr') \<longrightarrow> rs_status r \<noteq> 200)"

lemma fails_bind: "fails m \<Longrightarrow> (\<And>a. fails (f a)) \<Longrightarrow> fails (dz_bind m f)"
  unfolding fails_def by (auto simp: dz_bind_def split: prod.splits sum.splits)

lemma fails_lift: "(\<And>r. x = Inl r \<Longrightarrow> rs_status r \<noteq> 200) \<Longrightarrow> fails (dz_lift x)"
  by (auto simp: fails_def)

lemma fails_when: "fails m \<Longrightarrow> fails (dz_when b a m)"
  by (auto simp: dz_when_def fails_def)

lemma fails_request: "fails (supabase_request_text D rid ctx q)"
  by (auto simp: fails_def supabase_request_text_def result_simps)

lemma fails_table: "fails (dz_lift (table_url X base t rid))"
  by (auto simp: table_url_def result_simps intro!: fails_lift)

lemma fails_get_rows: "fails (supabase_get_rows D parse client u rid ctx)"
  unfolding supabase_get_rows_def
  by (intro fails_bind fails_request)
     (auto simp: parse_json_rows_def result_simps intro!: fails_lift split: if_splits)

lemma fails_resolve: "fails (resolve_note_access D client base sc note_id rid)"
  by (auto simp: resolve_note_access_def fetch_note_by_id_def fetch_direct_share_role_for_note_def
      fetch_note_share_role_by_target_def notes_query_def shares_query_def split: option.split
      intro!: fails_bind fails_table fails_get_rows fails_when fails_lift)



section \<open>The list of notes\<close>

lemma find_append: "find P (xs @ ys) = opt_or (find P xs) (find P ys)"
  by (induction xs) auto

lemma first_by_snoc:
  "first_by key (xs @ [x]) =
     (if key x \<in> set (map fst (first_by key xs)) then first_by key xs else first_by key xs @ [(key x, x)])"
  by (simp add: first_by_def)

lemma first_by_keys:
  "distinct (map fst (first_by key xs)) \<and> set (map fst (first_by key xs)) = key ` set xs"
  by (induction xs rule: rev_induct) (auto simp: first_by_snoc, simp_all add: first_by_def)

lemma first_by_map_of: "map_of (first_by key xs) k = find (\<lambda>x. key x = k) xs"
proof (induction xs rule: rev_induct)
  case (snoc x xs)
  show ?case
  proof (cases "key x \<in> key ` set xs")
    case True
    have "find (\<lambda>y. key y = k) (xs @ [x]) = find (\<lambda>y. key y = k) xs"
    proof (cases "find (\<lambda>y. key y = k) xs")
      case None
      then have "key x \<noteq> k" using True by (auto simp: find_None_iff)
      then show ?thesis using None by (simp add: find_append)
    qed (simp add: find_append)
    then show ?thesis using True snoc first_by_keys [of key xs] by (simp add: first_by_snoc)
  next
    case False
    then show ?thesis using snoc first_by_keys [of key xs]
      by (auto simp: first_by_snoc find_append map_add_def split: option.splits)
  qed
qed (simp add: first_by_def)

text \<open>The order of a hash map is some order of its keys.\<close>

definition order_ok :: "daisy_env \<Rightarrow> bool" where
  "order_ok D \<longleftrightarrow> (\<forall>site ks. distinct ks \<longrightarrow> distinct (dx_order D site ks) \<and> set (dx_order D site ks) = set ks)"

lemma sort_desc_simps [simp]:
  "set (sort_desc f xs) = set xs" "length (sort_desc f xs) = length xs"
  by (simp_all add: sort_desc_def)

lemma sort_desc_sorted: "sorted_wrt (\<lambda>a b. f b \<le> f a) (sort_desc f xs)"
  using sorted_sort_key [of f "rev xs"]
  by (simp add: sort_desc_def sorted_wrt_rev sorted_map)

lemma sort_desc_distinct: "distinct (map g (sort_desc f xs)) = distinct (map g xs)"
proof -
  have "mset (map g (sort_desc f xs)) = mset (map g xs)" by (simp add: sort_desc_def)
  then show ?thesis by (rule mset_eq_imp_distinct_iff)
qed

lemma map_key_filter_map:
  "(\<And>k. k \<in> set ks \<Longrightarrow> \<exists>v. f k = Some v \<and> key v = k) \<Longrightarrow> map key (filter_map f ks) = ks"
proof (induction ks)
  case (Cons k ks)
  then obtain v where "f k = Some v" "key v = k" by (meson list.set_intros(1))
  with Cons show ?case by simp
qed simp

lemma find_first_key: "find (\<lambda>x. key x = k) xs = Some v \<Longrightarrow> key v = k"
  by (auto simp: find_Some_iff)

lemma hash_values_ids:
  assumes "order_ok D"
  shows "map key (hash_values D site (first_by key rows)) = dx_order D site (map fst (first_by key rows))"
  unfolding hash_values_def
proof (rule map_key_filter_map)
  fix k assume "k \<in> set (dx_order D site (map fst (first_by key rows)))"
  then have "k \<in> key ` set rows" using assms first_by_keys [of key rows] by (auto simp: order_ok_def)
  then obtain v where "find (\<lambda>x. key x = k) rows = Some v" by (cases "find (\<lambda>x. key x = k) rows") (auto simp: find_None_iff)
  then show "\<exists>v. map_of (first_by key rows) k = Some v \<and> key v = k"
    using find_first_key [of key k rows v] by (simp add: first_by_map_of)
qed

lemma hash_values_set:
  assumes "order_ok D"
  shows "n \<in> set (hash_values D site (first_by key rows)) \<longleftrightarrow> find (\<lambda>m. key m = key n) rows = Some n"
proof -
  have "set (dx_order D site (map fst (first_by key rows))) = key ` set rows"
    using assms first_by_keys [of key rows] by (simp add: order_ok_def)
  moreover have "key n \<in> key ` set rows" if "find (\<lambda>m. key m = key n) rows = Some n"
    using that by (auto simp: find_Some_iff)
  ultimately show ?thesis
    unfolding hash_values_def set_filter_map first_by_map_of using find_first_key [of key _ rows n] by blast
qed

lemma distinct_filter_map:
  "distinct (map g ns) \<Longrightarrow> distinct (map (\<lambda>x. g (fst x)) (filter_map (\<lambda>n. map_option (Pair n) (r n)) ns))"
proof (induction ns)
  case (Cons n ns)
  then show ?case by (cases "r n") (auto simp: image_iff)
qed simp

text \<open>
  The list of notes. Whatever order the hash maps yield, the notes listed are
  exactly the first row of each id that the caller owns or has a share for, with
  owner as the role of owned notes and the share's role otherwise; no id appears
  twice and the most recently updated come first.
\<close>

theorem note_list_contract:
  assumes "order_ok D"
  shows "sorted_wrt (\<lambda>a b. unwrap_or [] (dn_updated_at (fst b)) \<le> unwrap_or [] (dn_updated_at (fst a)))
      (visible_notes D sc perms rows)
    \<and> distinct (map (\<lambda>x. dn_id (fst x)) (visible_notes D sc perms rows))
    \<and> (\<forall>n role. (n, role) \<in> set (visible_notes D sc perms rows) \<longleftrightarrow>
         find (\<lambda>m. dn_id m = dn_id n) rows = Some n
         \<and> (if scope_owns_note sc n then role = Owner else map_of perms (dn_id n) = Some role))"
proof (intro conjI allI)
  show "sorted_wrt (\<lambda>a b. unwrap_or [] (dn_updated_at (fst b)) \<le> unwrap_or [] (dn_updated_at (fst a)))
      (visible_notes D sc perms rows)"
    unfolding visible_notes_def
    using sort_desc_sorted [of "\<lambda>x. unwrap_or [] (dn_updated_at (fst x))"] by (simp add: case_prod_beta')
  have "distinct (map dn_id (hash_values D 2 (first_by dn_id rows)))"
    using assms first_by_keys [of dn_id rows] by (simp add: hash_values_ids order_ok_def)
  then show "distinct (map (\<lambda>x. dn_id (fst x)) (visible_notes D sc perms rows))"
    unfolding visible_notes_def sort_desc_distinct by (rule distinct_filter_map)
  show "((n, role) \<in> set (visible_notes D sc perms rows)) =
      (find (\<lambda>m. dn_id m = dn_id n) rows = Some n
       \<and> (if scope_owns_note sc n then role = Owner else map_of perms (dn_id n) = Some role))" for n role
    using hash_values_set [OF assms, of n 2 dn_id rows]
    by (auto simp: visible_notes_def note_role_def)
qed

theorem note_list_contract_witness:
  "visible_notes wit_daisy \<lparr>ds_user_id = ''u'', ds_email = None\<rparr> [] [wit_note, wit_note] = [(wit_note, Owner)]"
proof -
  have o: "order_ok wit_daisy" by (simp add: order_ok_def wit_daisy_def)
  let ?v = "visible_notes wit_daisy \<lparr>ds_user_id = ''u'', ds_email = None\<rparr> [] [wit_note, wit_note]"
  have w: "scope_owns_note \<lparr>ds_user_id = ''u'', ds_email = None\<rparr> wit_note"
    by (simp add: scope_owns_note_def normalize_user_id_def wit_note_def)
  have "(wit_note, Owner) \<in> set ?v" and "distinct (map (\<lambda>x. dn_id (fst x)) ?v)"
    using note_list_contract [OF o, of "\<lparr>ds_user_id = ''u'', ds_email = None\<rparr>" "[]" "[wit_note, wit_note]"] w by simp_all
  then show ?thesis
    by (simp add: visible_notes_def hash_values_def first_by_def wit_daisy_def note_role_def w sort_desc_def)
qed

text \<open>
  Notes have no public links. A share request that asks for one, by a flag or
  by a scope spelt in any case, is refused with 400 before the data plane is
  asked anything.
\<close>

theorem public_link_refused:
  assumes "rq_principal rq = Some p" "trim note_id \<noteq> []" "parse_json_payload D rq = Some pl"
    and "sp_public pl = Some True \<or> sp_public_link pl = Some True
      \<or> (\<exists>s. sp_scope pl = Some s \<and> to_ascii_lowercase (trim s) = ''public'')"
  shows "snd (upsert_note_share D note_id rq tr) = tr \<and> rs_status (fst (upsert_note_share D note_id rq tr)) = 400"
proof -
  have "to_ascii_lowercase ''public'' = ''public''" by code_simp
  with assms(4) obtain d where "reject_public_link_payload pl (daisy_request_id (dx_ext D) rq) =
      Some (daisy_error (daisy_request_id (dx_ext D) rq) 400 ''DAISY_PUBLIC_LINK_DISABLED''
        ''Public note links are not supported for internal Daisy API'' d)"
    by (auto simp: reject_public_link_payload_def eq_ignore_ascii_case_def)
  then show ?thesis
    using assms(1-3) by (simp add: upsert_note_share_def daisy_paths check_share_payload_def dz_run_def)
qed

theorem public_link_refused_witness:
  "snd (upsert_note_share (wit_daisy\<lparr>dx_payload := (\<lambda>_. Ok (wit_payload\<lparr>sp_public := Some True\<rparr>))\<rparr>) ''n'' wit_daisy_request []) = []"
  using public_link_refused [of wit_daisy_request "the (rq_principal wit_daisy_request)" "''n''"
      "wit_daisy\<lparr>dx_payload := (\<lambda>_. Ok (wit_payload\<lparr>sp_public := Some True\<rparr>))\<rparr>" "wit_payload\<lparr>sp_public := Some True\<rparr>" "[]"]
  by (simp add: wit_daisy_request_def wit_request_def parse_json_payload_def MAX_DAISY_BODY_BYTES_def)

section \<open>Observations\<close>

text \<open>
  A principal without an email takes it from a request header: naming one's own
  user id in the other header is enough to own every note of any email.
\<close>

lemma session_email_from_header:
  assumes "email p = None" "normalize_user_id (Some (user_id p)) = Some uid"
    and "header_value X h ''x-daisy-session-user-id'' = Some uid" "trim uid = uid" "uid \<noteq> []"
    and "header_value X h ''x-daisy-session-user-email'' = Some e" "daisy_normalize_email (Some e) = Some e"
    and "dn_owner_email n = Some e"
  shows "scope_owns_note (scope_from_headers X p h) n"
proof -
  have "normalize_user_id (Some uid) = Some uid" using assms(4,5) by (simp add: normalize_user_id_def)
  moreover have "daisy_normalize_email None = None" by (simp add: daisy_normalize_email_def)
  ultimately show ?thesis
    using assms by (simp add: scope_from_headers_def compatibility_email_def scope_owns_note_def opt_same_def Let_def)
qed

end
