(* ===== verification/Lib_Plane.thy ===== *)
theory Lib_Plane
  imports Daisy F64_Value "HOL-Library.Sublist"
begin

text \<open>
  What the handlers of \<^verbatim>\<open>lib.rs\<close> share: the world they run in, the error
  responses, the configuration of the data plane, and the requests they send to it.
\<close>

section \<open>The environment and error responses\<close>

text \<open>
  From outside: the third-party functions, the environment, the data plane's reply
  (its text empty when it cannot be read) with its \<^verbatim>\<open>content-range\<close> header, the order
  of a hash set, fresh identifiers, the clock in milliseconds, and the texts of a status,
  of the HTTP client's refusal of a URL and of a body that cannot be read.
\<close>

record lib_env =
  mx_ext :: ext
  mx_vars :: environment
  mx_reply :: "plane_request list \<Rightarrow> plane_request \<Rightarrow> (string, nat \<times> string) result"
  mx_order :: "string list \<Rightarrow> string list"
  mx_uuid :: "plane_request list \<Rightarrow> string"
  mx_status :: "nat \<Rightarrow> string"
  mx_bad_url :: "string \<Rightarrow> string"
  mx_range :: "plane_request list \<Rightarrow> plane_request \<Rightarrow> string option"
  mx_millis :: "plane_request list \<Rightarrow> nat"
  mx_body_error :: "request \<Rightarrow> string"

definition standard_error_kind :: "nat \<Rightarrow> string" where
  "standard_error_kind st =
     (if st = 400 then ''bad_request'' else if st = 401 then ''unauthorized'' else if st = 403 then ''forbidden''
      else if st = 404 then ''not_found'' else if st = 429 then ''rate_limited'' else if st = 502 then ''upstream_error''
      else if st = 503 then ''service_unavailable'' else if 500 \<le> st \<and> st < 600 then ''internal'' else ''bad_request'')"

definition standard_error_response :: "nat \<Rightarrow> string \<Rightarrow> response" where
  "standard_error_response st message = json_response st
     (JObj [(''error'', JObj [(''code'', jnat st), (''kind'', JStr (standard_error_kind st)), (''message'', JStr message)])])"

text \<open>The reply of the data plane handed on.\<close>

definition raw_response :: "nat \<Rightarrow> string \<Rightarrow> response" where
  "raw_response st body = \<lparr>rs_status = st, rs_headers = no_headers, rs_body = Raw body, rs_actor = None, rs_upstream = None\<rparr>"

definition internal :: "string \<Rightarrow> response" where
  "internal m = into_response (app_err (Internal m))"

section \<open>The data plane\<close>

definition lib_supabase_env :: "environment \<Rightarrow> (response, string \<times> string) result" where
  "lib_supabase_env env =
     (let base = trim_end_matches (CHR ''/'')
            (trim (unwrap_or [] (opt_or (env ''SUPABASE_URL'') (env ''NEXT_PUBLIC_SUPABASE_URL''))));
          key = trim (unwrap_or [] (env ''SUPABASE_SERVICE_ROLE_KEY''))
      in if base = [] \<or> key = []
         then Err (json_response 500 (JObj [(''error'', JStr ''Supabase env not configured in gateway'')]))
         else Ok (base, key))"

definition plane_send :: "lib_env \<Rightarrow> plane_request \<Rightarrow> (nat \<times> string) daisy" where
  "plane_send E q tr = (map_err internal (mx_reply E tr q), tr @ [q])"

definition plane_url :: "lib_env \<Rightarrow> string \<Rightarrow> string \<Rightarrow> (string \<times> string) list \<Rightarrow> (response, url) result" where
  "plane_url E base table pairs =
     try_result (map_err internal (url_parse (mx_ext E) (base @ ''/rest/v1/'' @ table))) (\<lambda>u.
       Ok (if pairs = [] then u else with_pairs pairs u))"

definition plane_query :: "lib_env \<Rightarrow> string \<Rightarrow> string \<Rightarrow> string \<Rightarrow> string \<Rightarrow> (string \<times> string) list
     \<Rightarrow> string option \<Rightarrow> json option \<Rightarrow> (nat \<times> string) daisy" where
  "plane_query E base key method table pairs prefer body =
     dz_bind (dz_lift (plane_url E base table pairs)) (\<lambda>u.
       plane_send E \<lparr>pq_method = method, pq_url = u, pq_key = supabase_client_with_key (mx_ext E) key,
         pq_prefer = prefer, pq_body = body\<rparr>)"

definition json_rows :: "ext \<Rightarrow> string \<Rightarrow> json list" where
  "json_rows X txt = (case json_from_str X txt of Inr (JArr rs) \<Rightarrow> rs | _ \<Rightarrow> [])"

text \<open>A helper that does nothing when the data plane is not configured.\<close>

definition with_plane :: "lib_env \<Rightarrow> 'a \<Rightarrow> (string \<Rightarrow> string \<Rightarrow> 'a daisy) \<Rightarrow> 'a daisy" where
  "with_plane E d f = (case lib_supabase_env (mx_vars E) of
     Inl _ \<Rightarrow> dz_lift (Ok d)
   | Inr (base, key) \<Rightarrow> f base key)"

section \<open>Calls whose failure the handler sees\<close>

definition legacy_error_response :: "nat \<Rightarrow> string \<Rightarrow> response" where
  "legacy_error_response st message = json_response st (JObj [(''error'', JStr message)])"

definition lib_supabase_error_message :: "ext \<Rightarrow> string \<Rightarrow> string" where
  "lib_supabase_error_message X body =
     unwrap_or body (Option.bind (result_ok (json_from_str X body)) (\<lambda>v.
       opt_or (get_str ''message'' v) (get_str ''error'' v)))"

definition parse_bool_query_param :: "string option \<Rightarrow> (string, bool option) result" where
  "parse_bool_query_param raw = (case map_option (\<lambda>v. to_ascii_lowercase (trim v)) raw of
     None \<Rightarrow> Ok None
   | Some v \<Rightarrow> if v = ''true'' then Ok (Some True) else if v = ''false'' then Ok (Some False)
       else Err ''active must be true or false'')"

definition parse_upstream_url_or_500 :: "ext \<Rightarrow> string \<Rightarrow> (response, url) result" where
  "parse_upstream_url_or_500 X raw =
     map_err (\<lambda>e. standard_error_response 500 (''invalid upstream URL: '' @ e)) (url_parse X raw)"

definition request_id_from_extension :: "ext \<Rightarrow> request \<Rightarrow> string" where
  "request_id_from_extension X rq = unwrap_or ''unknown'' (Option.bind (rq_request_id rq) (hv_to_str X))"

definition json_ok :: "json \<Rightarrow> response" where
  "json_ok v = json_response 200 v"

text \<open>\<^verbatim>\<open>parse_one\<close>, and the value or rows a text holds with a default.\<close>

definition parse_one :: "ext \<Rightarrow> string \<Rightarrow> json option" where
  "parse_one X txt = head_opt (json_rows X txt)"

definition json_or :: "ext \<Rightarrow> json \<Rightarrow> string \<Rightarrow> json" where
  "json_or X d txt = (case json_from_str X txt of Inl _ \<Rightarrow> d | Inr v \<Rightarrow> v)"

text \<open>The last row, as \<^verbatim>\<open>rows.pop()\<close> takes it.\<close>

definition last_row :: "ext \<Rightarrow> string \<Rightarrow> json option" where
  "last_row X txt = head_opt (rev (json_rows X txt))"

text \<open>
  One request on a table. The failure to reach the data plane is a value the handler
  looks at; a URL the gateway builds itself and cannot parse ends the handler. The
  second form hands the text of the URL to the HTTP client, which reports a URL it
  cannot parse like any other failure.
\<close>

type_synonym handler_run = "plane_request list \<Rightarrow> response \<times> plane_request list"

type_synonym reply = "(string, nat \<times> string) result"

definition lib_send :: "lib_env \<Rightarrow> plane_request \<Rightarrow> reply daisy" where
  "lib_send E q tr = (Ok (mx_reply E tr q), tr @ [q])"

definition lib_request :: "lib_env \<Rightarrow> string \<Rightarrow> string \<Rightarrow> url \<Rightarrow> string option \<Rightarrow> json option \<Rightarrow> plane_request" where
  "lib_request E key method u prefer body =
     \<lparr>pq_method = method, pq_url = u, pq_key = supabase_client_with_key (mx_ext E) key, pq_prefer = prefer, pq_body = body\<rparr>"

definition lib_call :: "lib_env \<Rightarrow> string \<times> string \<Rightarrow> string \<Rightarrow> string \<Rightarrow> (string \<times> string) list
     \<Rightarrow> string option \<Rightarrow> json option \<Rightarrow> reply daisy" where
  "lib_call E pl method table pairs prefer body = (case pl of (base, key) \<Rightarrow>
     dz_bind (dz_lift (parse_upstream_url_or_500 (mx_ext E) (base @ ''/rest/v1/'' @ table))) (\<lambda>u.
       lib_send E (lib_request E key method (with_pairs pairs u) prefer body)))"

definition lib_post :: "lib_env \<Rightarrow> string \<times> string \<Rightarrow> string \<Rightarrow> string option \<Rightarrow> json \<Rightarrow> reply daisy" where
  "lib_post E pl table prefer body = (case pl of (base, key) \<Rightarrow>
     (case url_parse (mx_ext E) (base @ ''/rest/v1/'' @ table) of
        Inl _ \<Rightarrow> dz_lift (Ok (Err (mx_bad_url E (base @ ''/rest/v1/'' @ table))))
      | Inr u \<Rightarrow> lib_send E (lib_request E key ''POST'' u prefer (Some body))))"

text \<open>The same call when the handler also looks at the \<^verbatim>\<open>content-range\<close> of the reply.\<close>

definition lib_call_range :: "lib_env \<Rightarrow> string \<times> string \<Rightarrow> string \<Rightarrow> string \<Rightarrow> (string \<times> string) list
     \<Rightarrow> string option \<Rightarrow> json option \<Rightarrow> (reply \<times> string option) daisy" where
  "lib_call_range E pl method table pairs prefer body = (case pl of (base, key) \<Rightarrow>
     dz_bind (dz_lift (parse_upstream_url_or_500 (mx_ext E) (base @ ''/rest/v1/'' @ table))) (\<lambda>u tr.
       let q = lib_request E key method (with_pairs pairs u) prefer body
       in (Ok (mx_reply E tr q, mx_range E tr q), tr @ [q])))"

definition lib_plane :: "lib_env \<Rightarrow> (string \<times> string) daisy" where
  "lib_plane E = dz_lift (lib_supabase_env (mx_vars E))"

text \<open>A call whose early answer the handler looks at instead of handing it on.\<close>

definition dz_try :: "'a daisy \<Rightarrow> (response, 'a) result daisy" where
  "dz_try m tr = (case m tr of (r, tr') \<Rightarrow> (Ok r, tr'))"

text \<open>A handler's last statement.\<close>

definition respond :: "response \<Rightarrow> response daisy" where
  "respond r = dz_lift (Ok r)"

definition require_session :: "principal option \<Rightarrow> principal daisy" where
  "require_session p = dz_lift (ok_or (standard_error_response 401 ''Unauthorized'') p)"

text \<open>\<^verbatim>\<open>to_bytes\<close> with a limit, then \<^verbatim>\<open>serde_json::from_slice\<close>.\<close>

definition body_within :: "nat \<Rightarrow> request \<Rightarrow> string option" where
  "body_within n rq = opt_filter (\<lambda>b. length b \<le> n) (rq_body rq)"

definition json_body_or_400 :: "lib_env \<Rightarrow> nat \<Rightarrow> request \<Rightarrow> json daisy" where
  "json_body_or_400 E n rq = dz_lift (
     try_result (ok_or (legacy_error_response 400 (''invalid body: '' @ mx_body_error E rq)) (body_within n rq)) (\<lambda>b.
       map_err (\<lambda>_. legacy_error_response 400 ''Invalid JSON'') (json_from_str (mx_ext E) b)))"

definition MIB :: nat where
  "MIB = 1024 * 1024"

text \<open>Query parameters and the pairs of a filter.\<close>

type_synonym query = "string \<Rightarrow> string option"

definition trimmed :: "string option \<Rightarrow> string option" where
  "trimmed v = opt_filter (\<lambda>s. s \<noteq> []) (map_option trim v)"

definition bool_str :: "bool \<Rightarrow> string" where
  "bool_str b = (if b then ''true'' else ''false'')"

definition opt_pair :: "string \<Rightarrow> ('a \<Rightarrow> string) \<Rightarrow> 'a option \<Rightarrow> (string \<times> string) list" where
  "opt_pair k f v = (case v of None \<Rightarrow> [] | Some x \<Rightarrow> [(k, f x)])"

abbreviation eq_str :: "string \<Rightarrow> string" where
  "eq_str v \<equiv> ''eq.'' @ v"

abbreviation eq_bool :: "bool \<Rightarrow> string" where
  "eq_bool b \<equiv> ''eq.'' @ bool_str b"

definition query_i64 :: "query \<Rightarrow> string \<Rightarrow> int option" where
  "query_i64 q k = Option.bind (q k) parse_i64"

definition clamp_int :: "int \<Rightarrow> int \<Rightarrow> int \<Rightarrow> int" where
  "clamp_int lo hi i = max lo (min hi i)"

definition jopt :: "('a \<Rightarrow> json) \<Rightarrow> 'a option \<Rightarrow> json" where
  "jopt f v = (case v of None \<Rightarrow> JNull | Some x \<Rightarrow> f x)"

definition jrat :: "rat \<Rightarrow> json" where
  "jrat x = JNum (Float x)"

text \<open>\<^verbatim>\<open>json!\<close> of a float: JSON has no infinity and no not-a-number.\<close>

definition json_f64 :: "f64 \<Rightarrow> json" where
  "json_f64 v = (case v of Finite x \<Rightarrow> jrat x | _ \<Rightarrow> JNull)"

definition get_array :: "string \<Rightarrow> json \<Rightarrow> json list" where
  "get_array k v = unwrap_or [] (Option.bind (jget k v) as_array)"

text \<open>\<^verbatim>\<open>v.get(k).cloned().unwrap_or(d)\<close>.\<close>

definition jget_or :: "json \<Rightarrow> string \<Rightarrow> json \<Rightarrow> json" where
  "jget_or d k v = unwrap_or d (jget k v)"

section \<open>Reasoning about handlers\<close>

lemma sends_plane [sends_intros]:
  assumes "\<And>u. plane_url E base table pairs = Ok u \<Longrightarrow>
     P \<lparr>pq_method = method, pq_url = u, pq_key = supabase_client_with_key (mx_ext E) key, pq_prefer = prefer, pq_body = b\<rparr>"
  shows "sends P (plane_query E base key method table pairs prefer b)"
  using assms unfolding plane_query_def sends_def
  by (cases "plane_url E base table pairs") (auto simp: plane_send_def)

lemma sends_with_plane [sends_intros]: "(\<And>base key. sends P (f base key)) \<Longrightarrow> sends P (with_plane E d f)"
  unfolding with_plane_def by (auto simp: sends_lift split: sum.splits)

lemma sends_cases [sends_intros]:
  "(b \<Longrightarrow> sends P m) \<Longrightarrow> (\<not> b \<Longrightarrow> sends P n) \<Longrightarrow> sends P (if b then m else n)"
  "(\<And>a c. sends P (g a c)) \<Longrightarrow> sends P (case z of (a, c) \<Rightarrow> g a c)"
  "(x = None \<Longrightarrow> sends P m1) \<Longrightarrow> (\<And>a. x = Some a \<Longrightarrow> sends P (m2 a)) \<Longrightarrow> sends P (case x of None \<Rightarrow> m1 | Some a \<Rightarrow> m2 a)"
  by (auto split: prod.splits option.splits)

lemma status_simps [simp]:
  "rs_status (standard_error_response st m) = st" "rs_status (internal m) = 500"
  "rs_status (raw_response st b) = st"
  by (simp_all add: standard_error_response_def json_response_def internal_def raw_response_def)

lemma fails_plane: "fails (plane_query E base key method table pairs prefer b)"
  unfolding plane_query_def plane_send_def fails_def dz_bind_def dz_lift_def plane_url_def
  by (auto simp: try_result_Err map_err_eq split: sum.splits)

lemma fails_with_plane: "(\<And>base key. fails (f base key)) \<Longrightarrow> fails (with_plane E d f)"
  unfolding with_plane_def by (auto simp: fails_def split: sum.splits)

lemma fails_cases:
  "fails m \<Longrightarrow> fails n \<Longrightarrow> fails (if b then m else n)"
  "(\<And>a c. fails (g a c)) \<Longrightarrow> fails (case z of (a, c) \<Rightarrow> g a c)"
  by (auto split: prod.splits)

text \<open>Where a request goes, what it does there, and under which key.\<close>

definition plane_target :: "lib_env \<Rightarrow> string \<times> string \<Rightarrow> string \<Rightarrow> plane_request \<Rightarrow> bool" where
  "plane_target E pl table q \<longleftrightarrow> (\<exists>u. url_parse (mx_ext E) (fst pl @ ''/rest/v1/'' @ table) = Ok u
     \<and> (pq_url q = u \<or> (\<exists>pairs. pq_url q = with_pairs pairs u)) \<and> pq_key q = supabase_client_with_key (mx_ext E) (snd pl))"

lemma lib_request_simps [simp]:
  "pq_method (lib_request E key m u p b) = m" "pq_url (lib_request E key m u p b) = u"
  "pq_prefer (lib_request E key m u p b) = p" "pq_body (lib_request E key m u p b) = b"
  "pq_key (lib_request E key m u p b) = supabase_client_with_key (mx_ext E) key"
  by (simp_all add: lib_request_def)

lemma sends_lib_call [sends_intros]:
  assumes "\<And>u. url_parse (mx_ext E) (fst pl @ ''/rest/v1/'' @ table) = Ok u \<Longrightarrow>
     P (lib_request E (snd pl) m (with_pairs pairs u) prefer b)"
  shows "sends P (lib_call E pl m table pairs prefer b)"
  using assms unfolding lib_call_def sends_def parse_upstream_url_or_500_def
  by (cases pl; cases "url_parse (mx_ext E) (fst pl @ ''/rest/v1/'' @ table)") (auto simp: lib_send_def map_err_eq)

lemma sends_lib_call_range [sends_intros]:
  assumes "\<And>u. url_parse (mx_ext E) (fst pl @ ''/rest/v1/'' @ table) = Ok u \<Longrightarrow>
     P (lib_request E (snd pl) m (with_pairs pairs u) prefer b)"
  shows "sends P (lib_call_range E pl m table pairs prefer b)"
  using assms unfolding lib_call_range_def sends_def parse_upstream_url_or_500_def
  by (cases pl; cases "url_parse (mx_ext E) (fst pl @ ''/rest/v1/'' @ table)") (auto simp: map_err_eq Let_def)

lemma sends_lib_post [sends_intros]:
  assumes "\<And>u. url_parse (mx_ext E) (fst pl @ ''/rest/v1/'' @ table) = Ok u \<Longrightarrow>
     P (lib_request E (snd pl) ''POST'' u prefer (Some b))"
  shows "sends P (lib_post E pl table prefer b)"
  using assms unfolding lib_post_def sends_def
  by (cases pl) (auto simp: lib_send_def split: sum.splits)

lemma lib_post_returns: "\<exists>r tr1. lib_post E pl table prefer v tr = (Ok r, tr1)"
  by (cases pl; cases "url_parse (mx_ext E) (fst pl @ ''/rest/v1/'' @ table)") (simp_all add: lib_post_def lib_send_def)

lemma sends_simple [sends_intros]:
  "sends P (respond r)" "sends P (require_session p)" "sends P (lib_plane E)" "sends P (json_body_or_400 E n rq)"
  by (simp_all add: respond_def require_session_def lib_plane_def json_body_or_400_def sends_lift)

lemma sends_sum [sends_intros]:
  "(\<And>a. x = Inl a \<Longrightarrow> sends P (f a)) \<Longrightarrow> (\<And>a. x = Inr a \<Longrightarrow> sends P (g a)) \<Longrightarrow>
   sends P (case x of Inl a \<Rightarrow> f a | Inr a \<Rightarrow> g a)"
  by (auto split: sum.splits)

lemma sends_try [sends_intros]: "sends P m \<Longrightarrow> sends P (dz_try m)"
  by (auto simp: sends_def dz_try_def split_beta)

lemma plane_target_call:
  "url_parse (mx_ext E) (fst pl @ ''/rest/v1/'' @ table) = Ok u \<Longrightarrow>
   plane_target E pl table (lib_request E (snd pl) m (with_pairs pairs u) prefer b)"
  "url_parse (mx_ext E) (fst pl @ ''/rest/v1/'' @ table) = Ok u \<Longrightarrow>
   plane_target E pl table (lib_request E (snd pl) m u prefer b)"
  by (auto simp: plane_target_def)

text \<open>No session, no request: the answer is 401.\<close>

lemma no_session: "dz_run (dz_bind (require_session None) f) tr = (standard_error_response 401 ''Unauthorized'', tr)"
  by (simp add: dz_run_def require_session_def ok_or_def)

lemma sends_bind_lift: "(\<And>a. r = Ok a \<Longrightarrow> sends P (f a)) \<Longrightarrow> sends P (dz_bind (dz_lift r) f)"
  by (auto simp: sends_def split: sum.splits)

lemma sends_plane_bind:
  "(\<And>pl. lib_supabase_env (mx_vars E) = Ok pl \<Longrightarrow> sends P (f pl)) \<Longrightarrow> sends P (dz_bind (lib_plane E) f)"
  unfolding lib_plane_def by (rule sends_bind_lift)

lemma sends_try_plane_bind:
  "(\<And>r. lib_supabase_env (mx_vars E) = r \<Longrightarrow> sends P (f r)) \<Longrightarrow> sends P (dz_bind (dz_try (lib_plane E)) f)"
  by (simp add: sends_def dz_try_def lib_plane_def dz_bind_def)

lemma sends_run: "sends P m \<Longrightarrow> \<exists>qs. snd (dz_run m tr) = tr @ qs \<and> (\<forall>q\<in>set qs. P q)"
  by (simp add: sends_def)

text \<open>Where a request of a sequence comes from.\<close>

definition extends_trace :: "'a daisy \<Rightarrow> bool" where
  "extends_trace m = sends (\<lambda>_. True) m"

lemma sends_weaken: "sends P m \<Longrightarrow> extends_trace m"
  unfolding extends_trace_def sends_def by blast

lemma extends_trace_bind: "extends_trace m \<Longrightarrow> (\<And>a. extends_trace (f a)) \<Longrightarrow> extends_trace (dz_bind m f)"
  unfolding extends_trace_def by (rule sends_bind)

lemma new_bind:
  assumes "q \<in> set (drop (length tr) (snd (dz_bind m f tr)))" "extends_trace m" "\<And>a. extends_trace (f a)"
  shows "q \<in> set (drop (length tr) (snd (m tr)))
    \<or> (\<exists>a tr1. m tr = (Ok a, tr1) \<and> q \<in> set (drop (length tr1) (snd (f a tr1))))"
proof -
  obtain r tr1 where m: "m tr = (r, tr1)" by (cases "m tr")
  obtain qs where qs: "tr1 = tr @ qs" using assms(2) m unfolding extends_trace_def sends_def by (metis snd_conv)
  show ?thesis
  proof (cases r)
    case (Inr a)
    obtain qs' where "snd (f a tr1) = tr1 @ qs'" using assms(3) [of a] unfolding extends_trace_def sends_def by blast
    then show ?thesis using assms(1) m Inr qs by auto
  qed (use assms(1) m in auto)
qed

lemma new_lift: "q \<in> set (drop (length tr) (snd (dz_bind (dz_lift r) f tr))) \<Longrightarrow>
  \<exists>a. r = Ok a \<and> q \<in> set (drop (length tr) (snd (f a tr)))"
  by (auto split: sum.splits)

section \<open>The order of requests\<close>

text \<open>The requests a computation sends match a subsequence of the given steps, in their order.\<close>

definition follows :: "(plane_request \<Rightarrow> bool) list \<Rightarrow> 'a daisy \<Rightarrow> bool" where
  "follows steps m \<longleftrightarrow> (\<forall>tr. \<exists>qs ks. snd (m tr) = tr @ qs \<and> subseq ks steps \<and> list_all2 (\<lambda>k q. k q) ks qs)"

named_theorems follows_intros

lemma follows_lift [follows_intros]: "follows [] (dz_lift r)"
  by (simp add: follows_def)

lemma follows_bind [follows_intros]:
  assumes "follows ks m" "\<And>a. follows ls (f a)"
  shows "follows (ks @ ls) (dz_bind m f)"
  unfolding follows_def
proof
  fix tr
  obtain r tr1 where m: "m tr = (r, tr1)" by (cases "m tr")
  obtain qs ks' where qs: "tr1 = tr @ qs" "subseq ks' ks" "list_all2 (\<lambda>k q. k q) ks' qs"
    using assms(1) m unfolding follows_def by (metis snd_conv)
  show "\<exists>qs ms. snd (dz_bind m f tr) = tr @ qs \<and> subseq ms (ks @ ls) \<and> list_all2 (\<lambda>k q. k q) ms qs"
  proof (cases r)
    case (Inl e)
    have "subseq ks' (ks @ ls)" using list_emb_append_mono [OF qs(2), of "[]" ls] by simp
    then show ?thesis using m qs Inl by auto
  next
    case (Inr a)
    obtain qs' ls' where "snd (f a tr1) = tr1 @ qs'" "subseq ls' ls" "list_all2 (\<lambda>k q. k q) ls' qs'"
      using assms(2) unfolding follows_def by metis
    then show ?thesis using m qs Inr
      by (auto intro!: exI [of _ "qs @ qs'"] exI [of _ "ks' @ ls'"] list_emb_append_mono list_all2_appendI)
  qed
qed

lemma follows_bind_lift: "(\<And>a. r = Ok a \<Longrightarrow> follows ks (f a)) \<Longrightarrow> follows ks (dz_bind (dz_lift r) f)"
  by (auto simp: follows_def split: sum.splits)

lemma follows_shorter: "follows ks m \<Longrightarrow> subseq ks ls \<Longrightarrow> follows ls m"
  unfolding follows_def by (meson subseq_order.order_trans)

lemma follows_when [follows_intros]: "follows ks m \<Longrightarrow> follows ks (dz_when b a m)"
  using follows_shorter [OF follows_lift, of ks "Ok a"] by (auto simp: dz_when_def)

lemma follows_try [follows_intros]: "follows ks m \<Longrightarrow> follows ks (dz_try m)"
  by (auto simp: follows_def dz_try_def split_beta)

lemma follows_one:
  assumes "follows [k] m" "\<And>a. follows [] (f a)"
  shows "follows [k] (dz_bind m f)"
  using follows_bind [OF assms] by simp

lemma follows_eq: "follows ks m \<Longrightarrow> ks = ls \<Longrightarrow> follows ls m"
  by simp

lemma follows_prod [follows_intros]: "(\<And>a b. follows ks (g a b)) \<Longrightarrow> follows ks (case z of (a, b) \<Rightarrow> g a b)"
  by (cases z) simp

lemma follows_none [follows_intros]:
  "follows [] (respond r)" "follows [] (require_session p)" "follows [] (lib_plane E)" "follows [] (json_body_or_400 E n rq)"
  by (simp_all add: respond_def require_session_def lib_plane_def json_body_or_400_def follows_lift)

lemma follows_call [follows_intros]:
  assumes "\<And>u. url_parse (mx_ext E) (fst pl @ ''/rest/v1/'' @ table) = Ok u \<Longrightarrow>
     P (lib_request E (snd pl) m (with_pairs pairs u) prefer b)"
  shows "follows [P] (lib_call E pl m table pairs prefer b)"
proof (cases "url_parse (mx_ext E) (fst pl @ ''/rest/v1/'' @ table)")
  case (Inr u)
  then have "snd (lib_call E pl m table pairs prefer b tr) = tr @ [lib_request E (snd pl) m (with_pairs pairs u) prefer b]" for tr
    by (cases pl) (simp add: lib_call_def parse_upstream_url_or_500_def lib_send_def)
  with assms [OF Inr] show ?thesis by (auto simp: follows_def intro!: exI [of _ "[P]"])
next
  case (Inl e)
  then show ?thesis
    by (cases pl) (auto simp: follows_def lib_call_def parse_upstream_url_or_500_def)
qed

lemma follows_run: "follows ks m \<Longrightarrow>
  \<exists>qs ls. snd (dz_run m tr) = tr @ qs \<and> subseq ls ks \<and> list_all2 (\<lambda>k q. k q) ls qs"
  by (simp add: follows_def)

lemma follows_steps:
  assumes "follows (map f steps) m"
  shows "\<exists>qs ls. snd (dz_run m tr) = tr @ qs \<and> subseq ls steps \<and> list_all2 f ls qs"
proof -
  obtain qs ks where q: "snd (dz_run m tr) = tr @ qs" "subseq ks (map f steps)" "list_all2 (\<lambda>k q. k q) ks qs"
    using follows_run [OF assms] by blast
  then obtain N where "ks = map f (nths steps N)" by (auto simp: subseq_conv_nths nths_map)
  then show ?thesis using q by (auto simp: list_all2_map1 subseq_conv_nths)
qed

section \<open>Interfaces behind a session\<close>

text \<open>
  Several requests served one after the other. What the interfaces below promise: the
  caller needs a session, and all they send are requests of one kind.
\<close>

fun serve :: "('a \<Rightarrow> request \<Rightarrow> handler_run) \<Rightarrow> ('a \<times> request) list \<Rightarrow> plane_request list \<Rightarrow> response list \<times> plane_request list" where
  "serve run [] tr = ([], tr)"
| "serve run ((a, rq) # rs) tr =
     (case run a rq tr of (resp, tr1) \<Rightarrow> (case serve run rs tr1 of (resps, tr2) \<Rightarrow> (resp # resps, tr2)))"

definition has_session :: "'a \<times> request \<Rightarrow> bool" where
  "has_session = (\<lambda>(a, rq). rq_principal rq \<noteq> None)"

locale confined_api =
  fixes routes :: "'a set" and run :: "'a \<Rightarrow> request \<Rightarrow> handler_run" and allowed :: "plane_request \<Rightarrow> bool"
  assumes confined: "a \<in> routes \<Longrightarrow> \<exists>qs. snd (run a rq tr) = tr @ qs \<and> (\<forall>q\<in>set qs. allowed q)"
begin

lemma serve_confined:
  "fst ` set rs \<subseteq> routes \<Longrightarrow> \<exists>qs. snd (serve run rs tr) = tr @ qs \<and> (\<forall>q\<in>set qs. allowed q)"
proof (induction rs arbitrary: tr)
  case (Cons r rs)
  obtain a rq where r: "r = (a, rq)" by (cases r)
  obtain resp tr1 where x: "run a rq tr = (resp, tr1)" by (cases "run a rq tr")
  have "a \<in> routes" using Cons.prems r by simp
  with confined [of a rq tr] obtain qs where qs: "tr1 = tr @ qs" "\<forall>q\<in>set qs. allowed q" using x by auto
  have "fst ` set rs \<subseteq> routes" using Cons.prems by simp
  from Cons.IH [OF this, of tr1] obtain qs' where "snd (serve run rs tr1) = tr1 @ qs'" "\<forall>q\<in>set qs'. allowed q" by blast
  with qs r x show ?case by (auto simp: split_beta intro!: exI [of _ "qs @ qs'"])
qed simp

end

locale session_api = confined_api +
  assumes refuses: "a \<in> routes \<Longrightarrow> rq_principal rq = None \<Longrightarrow>
    run a rq tr = (standard_error_response 401 ''Unauthorized'', tr)"
begin

text \<open>Callers without a session are invisible to the data plane and to the other callers.\<close>

lemma serve_without_session:
  "fst ` set rs \<subseteq> routes \<Longrightarrow>
   serve run (filter has_session rs) tr =
     (map snd (filter (\<lambda>(r, resp). has_session r) (zip rs (fst (serve run rs tr)))), snd (serve run rs tr))"
proof (induction rs arbitrary: tr)
  case (Cons r rs)
  obtain a rq where r: "r = (a, rq)" by (cases r)
  have rs: "a \<in> routes" "fst ` set rs \<subseteq> routes" using Cons.prems r by simp_all
  then show ?case
    using Cons.IH [OF rs(2)] r refuses [OF rs(1), of rq tr]
    by (cases "run a rq tr") (auto simp: has_session_def split_beta)
qed simp

end

section \<open>A world for witnesses\<close>

definition wit_lib :: lib_env where
  "wit_lib = \<lparr>mx_ext = dx_ext wit_daisy, mx_vars = dx_vars wit_daisy, mx_reply = (\<lambda>_ _. Ok (200, ''x'')), mx_order = (\<lambda>xs. xs),
     mx_uuid = (\<lambda>_. ''u''), mx_status = (\<lambda>_. []), mx_bad_url = (\<lambda>_. []), mx_range = (\<lambda>_ _. None), mx_millis = length,
     mx_body_error = (\<lambda>_. [])\<rparr>"

lemma wit_lib_env: "lib_supabase_env (mx_vars wit_lib) = Ok (''k'', ''k'')"
  by (simp add: lib_supabase_env_def wit_lib_def wit_daisy_def trim_end_matches_def Let_def)

lemma wit_lib_call: "lib_call wit_lib (''k'', ''k'') m t pairs prefer b tr =
  (Ok (Ok (200, ''x'')), tr @ [lib_request wit_lib ''k'' m (with_pairs pairs \<lparr>u_scheme = ''https'', u_host = Some ''d'', u_port = None,
     u_text = ''k/rest/v1/'' @ t, u_query = None\<rparr>) prefer b])"
  by (simp add: lib_call_def parse_upstream_url_or_500_def lib_send_def wit_lib_def wit_daisy_def)

text \<open>The same world when an empty text is the JSON value \<open>v\<close> and any other text the array of it.\<close>

definition wit_json_lib :: "json \<Rightarrow> lib_env" where
  "wit_json_lib v = wit_lib\<lparr>mx_ext := (mx_ext wit_lib)\<lparr>json_from_str := (\<lambda>s. Ok (if s = [] then v else JArr [v]))\<rparr>\<rparr>"

definition wit_url_of :: "string \<Rightarrow> url" where
  "wit_url_of s = \<lparr>u_scheme = ''https'', u_host = Some ''d'', u_port = None, u_text = s, u_query = None\<rparr>"

lemma wit_json_env: "lib_supabase_env (mx_vars (wit_json_lib v)) = Ok (''k'', ''k'')"
  using wit_lib_env by (simp add: wit_json_lib_def)

lemma wit_json_calls:
  "lib_call (wit_json_lib v) (''k'', ''k'') m t pairs prefer b tr =
     (Ok (Ok (200, ''x'')), tr @ [lib_request (wit_json_lib v) ''k'' m (with_pairs pairs (wit_url_of (''k/rest/v1/'' @ t))) prefer b])"
  "lib_post (wit_json_lib v) (''k'', ''k'') t prefer c tr =
     (Ok (Ok (200, ''x'')), tr @ [lib_request (wit_json_lib v) ''k'' ''POST'' (wit_url_of (''k/rest/v1/'' @ t)) prefer (Some c)])"
  by (simp_all add: lib_call_def lib_post_def parse_upstream_url_or_500_def lib_send_def wit_json_lib_def wit_lib_def wit_daisy_def
      wit_url_of_def)

lemma wit_json_body:
  "rq_body rq = Some [] \<Longrightarrow> json_body_or_400 (wit_json_lib v) n rq tr = (Ok v, tr)"
  by (simp add: json_body_or_400_def body_within_def wit_json_lib_def ok_or_def)

definition wit_post :: request where
  "wit_post = wit_daisy_request\<lparr>rq_body := Some []\<rparr>"

lemma wit_post_simps: "rq_body wit_post = Some []" "rq_principal wit_post = rq_principal wit_daisy_request"
  "rq_principal wit_daisy_request \<noteq> None"
  by (simp_all add: wit_post_def wit_daisy_request_def)

lemma wit_session:
  "require_session (rq_principal wit_daisy_request) tr = (Ok (the (rq_principal wit_daisy_request)), tr)"
  by (simp add: require_session_def ok_or_def wit_daisy_request_def)

end
