(* ===== verification/Module_Admin.thy ===== *)
theory Module_Admin
  imports Lib_Plane Access_Middleware "HOL-Library.Countable"
begin

text \<open>
  The administration of module access in \<^verbatim>\<open>lib.rs\<close>: listing the users with their
  modules, granting and replacing them, inviting a user, and what a user is told
  about their own modules. The handlers are computations over the requests they send to
  the data plane, as in the notes API; an \<^verbatim>\<open>AppError\<close> that leaves a handler is
  turned into its response at once.
\<close>

section \<open>Requests and answers\<close>

record set_user_module_access_request =
  sm_modules :: "string list"
  sm_role :: "string option"

record admin_invite_user_request =
  iu_email :: string
  iu_first_name :: "string option"
  iu_last_name :: "string option"
  iu_role :: "string option"
  iu_modules :: "string list"

definition MODULE_KEYS :: "string list" where
  "MODULE_KEYS = [''exponential'', ''greenbooks'', ''greenspot'', ''marketing'', ''soc2'', ''security'', ''tools'']"

definition VALID_ROLES :: "string list" where
  "VALID_ROLES = [''owner'', ''admin'', ''member'', ''user'']"

definition is_admin_principal :: "principal \<Rightarrow> bool" where
  "is_admin_principal p = list_ex (\<lambda>r. r = ''admin'' \<or> r = ''owner'') (roles p)"

text \<open>The two tests every administration handler starts with.\<close>

definition admin_principal :: "principal option \<Rightarrow> (response, principal) result" where
  "admin_principal p = (case p of
     None \<Rightarrow> Err (standard_error_response 401 ''Unauthorized'')
   | Some a \<Rightarrow> if is_admin_principal a then Ok a else Err (standard_error_response 403 ''Forbidden''))"

definition org_of :: "principal \<Rightarrow> string" where
  "org_of p = unwrap_or EXPONENTIAL_ORG_ID (org_id p)"

section \<open>The data plane\<close>

definition load_module_access_for_user :: "lib_env \<Rightarrow> string \<Rightarrow> string \<Rightarrow> string list daisy" where
  "load_module_access_for_user E org uid = with_plane E [] (\<lambda>base key.
     dz_bind (plane_query E base key ''GET'' ''user_module_access''
         [(''select'', ''module_key''), (''org_id'', ''eq.'' @ org), (''user_id'', ''eq.'' @ uid), (''granted'', ''eq.true'')]
         None None) (\<lambda>(status, txt).
       dz_lift (Ok (if \<not> plane_ok status then [] else module_keys_of (json_rows (mx_ext E) txt)))))"

definition set_user_role :: "lib_env \<Rightarrow> string \<Rightarrow> string \<Rightarrow> unit daisy" where
  "set_user_role E uid role = with_plane E () (\<lambda>base key.
     dz_bind (plane_query E base key ''PATCH'' ''users'' [(''id'', ''eq.'' @ uid)] (Some ''return=minimal'')
         (Some (JObj [(''role'', JStr role)]))) (\<lambda>(status, txt).
       dz_lift (if \<not> plane_ok status then Err (internal ''failed to update user role'') else Ok ())))"

definition grant_row :: "string \<Rightarrow> string \<Rightarrow> string \<Rightarrow> json" where
  "grant_row org uid module_key = JObj [(''org_id'', JStr org), (''user_id'', JStr uid), (''module_key'', JStr module_key),
     (''granted'', JBool True)]"

definition replace_module_access_for_user :: "lib_env \<Rightarrow> string \<Rightarrow> string \<Rightarrow> string list \<Rightarrow> unit daisy" where
  "replace_module_access_for_user E org uid modules = with_plane E () (\<lambda>base key.
     dz_bind (plane_query E base key ''DELETE'' ''user_module_access''
         [(''org_id'', ''eq.'' @ org), (''user_id'', ''eq.'' @ uid)] (Some ''return=minimal'') None) (\<lambda>(status, txt).
       if \<not> plane_ok status then dz_lift (Err (internal ''failed to clear existing module access''))
       else if modules = [] then dz_lift (Ok ())
       else dz_bind (plane_query E base key ''POST'' ''user_module_access'' [] (Some ''return=minimal'')
              (Some (JArr (map (grant_row org uid) modules)))) (\<lambda>(status, txt).
            dz_lift (if \<not> plane_ok status then Err (internal ''failed to insert module access rows'') else Ok ()))))"

section \<open>Handlers\<close>

definition push_grant :: "json \<Rightarrow> (string \<Rightarrow> string list) \<Rightarrow> string \<Rightarrow> string list" where
  "push_grant g m = (case (get_str ''user_id'' g, get_str ''module_key'' g) of
     (Some uid, Some k) \<Rightarrow> m(uid := m uid @ [k])
   | _ \<Rightarrow> m)"

definition field_or_null :: "string \<Rightarrow> json \<Rightarrow> json" where
  "field_or_null k u = unwrap_or JNull (jget k u)"

text \<open>\<^verbatim>\<open>grants_by_user.remove(&uid)\<close>: only the first row of a user gets the modules.\<close>

fun user_rows :: "(string \<Rightarrow> string list) \<Rightarrow> json list \<Rightarrow> json list" where
  "user_rows m [] = []"
| "user_rows m (u # us) =
     (let uid = unwrap_or [] (get_str ''id'' u)
      in JObj [(''id'', JStr uid), (''email'', field_or_null ''email'' u), (''first_name'', field_or_null ''first_name'' u),
           (''last_name'', field_or_null ''last_name'' u), (''role'', field_or_null ''role'' u),
           (''modules'', JArr (map JStr (m uid)))] # user_rows (m(uid := [])) us)"

definition list_admin_module_access_users :: "lib_env \<Rightarrow> principal option \<Rightarrow> plane_request list \<Rightarrow> response \<times> plane_request list" where
  "list_admin_module_access_users E who = dz_run (
     dz_bind (dz_lift (admin_principal who)) (\<lambda>p.
     dz_bind (dz_lift (lib_supabase_env (mx_vars E))) (\<lambda>(base, key).
     dz_bind (plane_query E base key ''GET'' ''users''
         [(''select'', ''id,email,first_name,last_name,role''), (''order'', ''created_at.desc''), (''limit'', ''500'')]
         None None) (\<lambda>(status, txt).
       if \<not> plane_ok status then dz_lift (Ok (raw_response status txt))
       else dz_bind (plane_query E base key ''GET'' ''user_module_access''
           [(''select'', ''user_id,module_key,granted''), (''org_id'', ''eq.'' @ org_of p), (''granted'', ''eq.true'')]
           None None) (\<lambda>(gstatus, gtxt).
         let m = (if plane_ok gstatus then fold push_grant (json_rows (mx_ext E) gtxt) (\<lambda>_. []) else (\<lambda>_. []))
         in dz_lift (Ok (json_response 200 (JObj [(''users'', JArr (user_rows m (json_rows (mx_ext E) txt)))]))))))))"

definition get_admin_module_access_for_user ::
  "lib_env \<Rightarrow> principal option \<Rightarrow> string \<Rightarrow> plane_request list \<Rightarrow> response \<times> plane_request list" where
  "get_admin_module_access_for_user E who uid = dz_run (
     dz_bind (dz_lift (admin_principal who)) (\<lambda>p.
     dz_bind (load_module_access_for_user E (org_of p) uid) (\<lambda>ks.
       dz_lift (Ok (json_response 200 (JObj [(''user_id'', JStr uid), (''modules'', JArr (map JStr ks))]))))))"

definition invalid_modules :: "string list \<Rightarrow> bool" where
  "invalid_modules modules = (\<not> list_all (\<lambda>m. m \<in> set MODULE_KEYS) modules)"

definition requested_modules :: "lib_env \<Rightarrow> string list \<Rightarrow> string list" where
  "requested_modules E modules = mx_order E (remdups modules)"

definition set_admin_module_access_for_user ::
  "lib_env \<Rightarrow> principal option \<Rightarrow> string \<Rightarrow> set_user_module_access_request \<Rightarrow> plane_request list
     \<Rightarrow> response \<times> plane_request list" where
  "set_admin_module_access_for_user E who uid body = dz_run (
     dz_bind (dz_lift (admin_principal who)) (\<lambda>p.
       if invalid_modules (sm_modules body) then dz_lift (Ok (standard_error_response 400 ''Invalid module key''))
       else if \<not> unwrap_or True (map_option (\<lambda>r. r \<in> set VALID_ROLES) (sm_role body))
       then dz_lift (Ok (standard_error_response 400 ''Invalid role''))
       else dz_bind (replace_module_access_for_user E (org_of p) uid (requested_modules E (sm_modules body))) (\<lambda>_.
            dz_bind (case sm_role body of None \<Rightarrow> dz_lift (Ok ()) | Some role \<Rightarrow> set_user_role E uid role) (\<lambda>_.
              dz_lift (Ok (json_response 200 (JObj [(''ok'', JBool True), (''user_id'', JStr uid)])))))))"

definition new_user :: "string \<Rightarrow> string \<Rightarrow> admin_invite_user_request \<Rightarrow> string \<Rightarrow> json" where
  "new_user i mail body role = JObj [(''id'', JStr i), (''email'', JStr mail),
     (''first_name'', jopt_str (iu_first_name body)), (''last_name'', jopt_str (iu_last_name body)),
     (''role'', JStr role)]"

definition invite_user_id ::
  "lib_env \<Rightarrow> string \<Rightarrow> string \<Rightarrow> string \<Rightarrow> admin_invite_user_request \<Rightarrow> string \<Rightarrow> json list \<Rightarrow> string daisy" where
  "invite_user_id E base key mail body role rows tr = (case rows of
     row # _ \<Rightarrow>
       let uid = unwrap_or [] (get_str ''id'' row)
       in dz_bind (set_user_role E uid role) (\<lambda>_. dz_lift (Ok uid)) tr
   | [] \<Rightarrow>
       let new_id = mx_uuid E tr
       in dz_bind (plane_query E base key ''POST'' ''users'' [] (Some ''return=representation'')
              (Some (new_user new_id mail body role))) (\<lambda>(status, txt).
            dz_lift (if \<not> plane_ok status then Err (raw_response status txt) else Ok new_id)) tr)"

definition invite_admin_module_access_user ::
  "lib_env \<Rightarrow> principal option \<Rightarrow> admin_invite_user_request \<Rightarrow> plane_request list \<Rightarrow> response \<times> plane_request list" where
  "invite_admin_module_access_user E who body = dz_run (
     dz_bind (dz_lift (admin_principal who)) (\<lambda>p.
       let mail = to_lowercase (mx_ext E) (trim (iu_email body)); role = unwrap_or ''user'' (iu_role body)
       in if mail = [] \<or> CHR ''@'' \<notin> set mail then dz_lift (Ok (standard_error_response 400 ''Valid email is required''))
          else if invalid_modules (iu_modules body) then dz_lift (Ok (standard_error_response 400 ''Invalid module key''))
          else if role \<notin> set VALID_ROLES then dz_lift (Ok (standard_error_response 400 ''Invalid role''))
          else dz_bind (dz_lift (lib_supabase_env (mx_vars E))) (\<lambda>(base, key).
               dz_bind (plane_query E base key ''GET'' ''users''
                   [(''select'', ''id,email''), (''email'', ''eq.'' @ mail), (''limit'', ''1'')] None None) (\<lambda>(status, txt).
               if \<not> plane_ok status then dz_lift (Ok (raw_response status txt))
               else dz_bind (invite_user_id E base key mail body role (json_rows (mx_ext E) txt)) (\<lambda>uid.
                    dz_bind (replace_module_access_for_user E (org_of p) uid (requested_modules E (iu_modules body))) (\<lambda>_.
                      dz_lift (Ok (json_response 200 (JObj [(''ok'', JBool True), (''user_id'', JStr uid), (''email'', JStr mail),
                        (''magic_link'', JObj [(''enabled'', JBool True),
                          (''next_step'', JStr ''User signs in via /auth/signin email magic link'')])])))))))))"

text \<open>The data plane as the module layer reads it: the state is the history of requests.\<close>

definition plane_of :: "lib_env \<Rightarrow> plane_request list data_plane" where
  "plane_of E = \<lparr>dp_env = result_ok (lib_supabase_env (mx_vars E)),
     dp_get = (\<lambda>u tr. mx_reply E tr \<lparr>pq_method = ''GET'', pq_url = u,
        pq_key = Option.bind (result_ok (lib_supabase_env (mx_vars E))) (\<lambda>(base, key). supabase_client_with_key (mx_ext E) key),
        pq_prefer = None, pq_body = None\<rparr>),
     dp_status_display = mx_status E\<rparr>"

definition get_my_module_access :: "lib_env \<Rightarrow> principal option \<Rightarrow> plane_request list \<Rightarrow> (app_error, response) result" where
  "get_my_module_access E who tr = (case who of
     None \<Rightarrow> Ok (standard_error_response 401 ''Unauthorized'')
   | Some p \<Rightarrow> try_result (load_module_access_for_principal (mx_ext E) (plane_of E) p tr) (\<lambda>granted.
       Ok (json_response 200 (case granted of
           Some ks \<Rightarrow> JObj [(''modules'', JArr (map JStr (filter (\<lambda>k. k \<in> set ks) MODULE_KEYS))), (''restricted'', JBool True)]
         | None \<Rightarrow> JObj [(''modules'', JArr [JStr ''*'']), (''restricted'', JBool False)]))))"

section \<open>Who may write, and what\<close>

text \<open>The writes an administrator may cause: valid modules in their own organisation, valid roles.\<close>

definition admin_write :: "principal \<Rightarrow> plane_request \<Rightarrow> bool" where
  "admin_write p q = (pq_method q = ''GET''
     \<or> (pq_method q = ''DELETE'' \<and> (\<exists>u uid. pq_url q = with_pairs [(''org_id'', ''eq.'' @ org_of p), (''user_id'', ''eq.'' @ uid)] u))
     \<or> (pq_method q = ''POST'' \<and> (\<exists>uid ms. set ms \<subseteq> set MODULE_KEYS \<and> pq_body q = Some (JArr (map (grant_row (org_of p) uid) ms))))
     \<or> (pq_method q = ''PATCH'' \<and> (\<exists>role\<in>set VALID_ROLES. pq_body q = Some (JObj [(''role'', JStr role)])))
     \<or> (pq_method q = ''POST'' \<and> (\<exists>i mail b. \<exists>role\<in>set VALID_ROLES. pq_body q = Some (new_user i mail b role))))"

lemma admin_write_delete:
  assumes "plane_url E base t [(''org_id'', ''eq.'' @ org_of p), (''user_id'', ''eq.'' @ uid)] = Ok u"
    and "pq_method q = ''DELETE''" "pq_url q = u"
  shows "admin_write p q"
proof -
  obtain v where "u = with_pairs [(''org_id'', ''eq.'' @ org_of p), (''user_id'', ''eq.'' @ uid)] v"
    using assms(1) by (auto simp: plane_url_def try_result_Ok)
  then show ?thesis unfolding admin_write_def using assms(2,3) by blast
qed

lemma admin_write_create:
  "role \<in> set VALID_ROLES \<Longrightarrow> pq_method q = ''POST'' \<Longrightarrow> pq_body q = Some (new_user i mail b role) \<Longrightarrow> admin_write p q"
  unfolding admin_write_def by blast

lemma admin_write_insert:
  "set ms \<subseteq> set MODULE_KEYS \<Longrightarrow> pq_method q = ''POST'' \<Longrightarrow>
   pq_body q = Some (JArr (map (grant_row (org_of p) uid) ms)) \<Longrightarrow> admin_write p q"
  unfolding admin_write_def by blast

lemma writes_role: "role \<in> set VALID_ROLES \<Longrightarrow> sends (admin_write p) (set_user_role E uid role)"
  unfolding set_user_role_def by (intro sends_intros) (auto simp: admin_write_def)

lemma writes_load: "sends (admin_write p) (load_module_access_for_user E org uid)"
  unfolding load_module_access_for_user_def by (intro sends_intros) (auto simp: admin_write_def)

lemma writes_replace:
  "set ms \<subseteq> set MODULE_KEYS \<Longrightarrow> sends (admin_write p) (replace_module_access_for_user E (org_of p) uid ms)"
  unfolding replace_module_access_for_user_def
  by (intro sends_intros) (auto intro: admin_write_delete admin_write_insert)

lemma writes_invite_id:
  assumes "role \<in> set VALID_ROLES"
  shows "sends (admin_write p) (invite_user_id E base key mail b role rows)"
proof (cases rows)
  case Nil
  have "sends (admin_write p) (dz_bind (plane_query E base key ''POST'' ''users'' [] (Some ''return=representation'')
      (Some (new_user i mail b role))) (\<lambda>(status, txt).
        dz_lift (if \<not> plane_ok status then Err (raw_response status txt) else Ok i)))" for i
    by (intro sends_intros) (auto intro: admin_write_create [OF assms])
  then show ?thesis unfolding sends_def invite_user_id_def Nil by (simp add: Let_def)
next
  case (Cons row rs)
  have "sends (admin_write p) (dz_bind (set_user_role E uid role) (\<lambda>_. dz_lift (Ok uid)))" for uid
    by (intro sends_intros writes_role assms)
  then show ?thesis unfolding sends_def invite_user_id_def Cons by (simp add: Let_def)
qed

definition order_sets :: "lib_env \<Rightarrow> bool" where
  "order_sets E = (\<forall>xs. set (mx_order E xs) = set xs)"

lemma requested_valid:
  "order_sets E \<Longrightarrow> \<not> invalid_modules ms \<Longrightarrow> set (requested_modules E ms) \<subseteq> set MODULE_KEYS"
  by (auto simp: order_sets_def requested_modules_def invalid_modules_def list_all_iff)

text \<open>The body of each handler once the caller is known to be an administrator.\<close>

lemma admin_gate_sends:
  assumes "\<And>p. who = Some p \<Longrightarrow> is_admin_principal p \<Longrightarrow> sends (admin_write p) (f p)"
    and "q \<in> set (drop (length tr) (snd (dz_run (dz_bind (dz_lift (admin_principal who)) f) tr)))"
  shows "\<exists>p. who = Some p \<and> is_admin_principal p \<and> admin_write p q"
proof (cases "admin_principal who")
  case (Inr p)
  then have p: "who = Some p" "is_admin_principal p"
    by (auto simp: admin_principal_def split: option.splits if_splits)
  then have "q \<in> set (drop (length tr) (snd (f p tr)))" using assms(2) Inr by simp
  then show ?thesis using p sends_new [OF assms(1) [OF p]] by blast
qed (use assms(2) in simp)


section \<open>What is granted is what the module layer enforces\<close>

text \<open>
  The three requests on the table of grants, and what the data plane documents of
  them: the table is a list of rows; a deletion that succeeds removes the matching
  rows, an insertion that succeeds adds its rows and one that fails adds none, a
  change of another table does not touch it, and a read answers the modules of the
  matching rows.
\<close>

definition grants_delete :: "lib_env \<Rightarrow> string \<Rightarrow> url \<Rightarrow> string \<Rightarrow> string \<Rightarrow> plane_request" where
  "grants_delete E key u org uid = \<lparr>pq_method = ''DELETE'',
     pq_url = with_pairs [(''org_id'', ''eq.'' @ org), (''user_id'', ''eq.'' @ uid)] u,
     pq_key = supabase_client_with_key (mx_ext E) key, pq_prefer = Some ''return=minimal'', pq_body = None\<rparr>"

definition grants_insert :: "lib_env \<Rightarrow> string \<Rightarrow> url \<Rightarrow> string \<Rightarrow> string \<Rightarrow> string list \<Rightarrow> plane_request" where
  "grants_insert E key u org uid ms = \<lparr>pq_method = ''POST'', pq_url = u,
     pq_key = supabase_client_with_key (mx_ext E) key, pq_prefer = Some ''return=minimal'',
     pq_body = Some (JArr (map (grant_row org uid) ms))\<rparr>"

definition grants_read :: "lib_env \<Rightarrow> string \<Rightarrow> url \<Rightarrow> string \<Rightarrow> string \<Rightarrow> plane_request" where
  "grants_read E key u org uid = \<lparr>pq_method = ''GET'',
     pq_url = with_pairs [(''select'', ''module_key''), (''user_id'', ''eq.'' @ uid), (''granted'', ''eq.true''),
       (''org_id'', ''eq.'' @ org)] u,
     pq_key = supabase_client_with_key (mx_ext E) key, pq_prefer = None, pq_body = None\<rparr>"

definition reply_ok :: "lib_env \<Rightarrow> plane_request list \<Rightarrow> plane_request \<Rightarrow> bool" where
  "reply_ok E tr q = (case mx_reply E tr q of Inl _ \<Rightarrow> False | Inr (st, _) \<Rightarrow> plane_ok st)"

type_synonym grant_rows = "plane_request list \<Rightarrow> (string \<times> string \<times> string) list"

definition modules_in :: "string \<Rightarrow> string \<Rightarrow> (string \<times> string \<times> string) list \<Rightarrow> string list" where
  "modules_in org uid rows = filter_map (\<lambda>(a, b, m). if a = org \<and> b = uid then Some m else None) rows"

definition other_row :: "string \<Rightarrow> string \<Rightarrow> string \<times> string \<times> string \<Rightarrow> bool" where
  "other_row org uid = (\<lambda>(a, b, m). \<not> (a = org \<and> b = uid))"

definition grant_plane :: "lib_env \<Rightarrow> string \<Rightarrow> url \<Rightarrow> grant_rows \<Rightarrow> bool" where
  "grant_plane E key u rows \<longleftrightarrow>
     (\<forall>tr org uid. reply_ok E tr (grants_delete E key u org uid) \<longrightarrow>
        rows (tr @ [grants_delete E key u org uid]) = filter (other_row org uid) (rows tr))
   \<and> (\<forall>tr org uid ms. rows (tr @ [grants_insert E key u org uid ms]) =
        rows tr @ (if reply_ok E tr (grants_insert E key u org uid ms) then map (\<lambda>m. (org, uid, m)) ms else []))
   \<and> (\<forall>tr q. pq_method q = ''PATCH'' \<longrightarrow> rows (tr @ [q]) = rows tr)
   \<and> (\<forall>tr org uid. \<exists>t. mx_reply E tr (grants_read E key u org uid) = Ok (200, t) \<and>
        json_from_str (mx_ext E) t = Ok (JArr (map (\<lambda>m. JObj [(''module_key'', JStr m)]) (modules_in org uid (rows tr)))))"

lemma modules_in_simps [simp]:
  "modules_in org uid (filter (other_row org uid) rows) = []"
  "modules_in org uid (map (\<lambda>m. (org, uid, m)) ms) = ms"
  "modules_in org uid (rows @ rows') = modules_in org uid rows @ modules_in org uid rows'"
proof -
  show "modules_in org uid (filter (other_row org uid) rows) = []"
    by (induction rows) (auto simp: modules_in_def other_row_def)
  show "modules_in org uid (map (\<lambda>m. (org, uid, m)) ms) = ms"
    by (induction ms) (simp_all add: modules_in_def)
  show "modules_in org uid (rows @ rows') = modules_in org uid rows @ modules_in org uid rows'"
    by (induction rows) (auto simp: modules_in_def split: option.splits)
qed

lemma module_keys_rows: "module_keys_of (map (\<lambda>m. JObj [(''module_key'', JStr m)]) ms) = ms"
  by (induction ms) (simp_all add: module_keys_of_def)

text \<open>The setting the round trip is about.\<close>

definition plane_ready :: "lib_env \<Rightarrow> string \<Rightarrow> string \<Rightarrow> url \<Rightarrow> bool" where
  "plane_ready E base key u \<longleftrightarrow> lib_supabase_env (mx_vars E) = Ok (base, key)
     \<and> url_parse (mx_ext E) (base @ ''/rest/v1/user_module_access'') = Ok u"

lemma load_reads_grants:
  assumes "plane_ready E base key u" "grant_plane E key u rows"
  shows "load_module_access_for_principal (mx_ext E) (plane_of E) p tr =
     Ok (let ks = modules_in (org_of p) (user_id p) (rows tr) in if ks = [] then None else Some ks)"
proof -
  have env: "lib_supabase_env (mx_vars E) = Ok (base, key)"
    and url: "url_parse (mx_ext E) (base @ ''/rest/v1/user_module_access'') = Ok u"
    using assms(1) by (simp_all add: plane_ready_def)
  have g: "grants_url (mx_ext E) base p = Ok (pq_url (grants_read E key u (org_of p) (user_id p)))"
    using url by (simp add: grants_url_def grants_read_def with_pairs_def append_pair_def query_pairs_mut_def org_of_def)
  obtain t where t: "mx_reply E tr (grants_read E key u (org_of p) (user_id p)) = Ok (200, t)"
    "json_from_str (mx_ext E) t =
       Ok (JArr (map (\<lambda>m. JObj [(''module_key'', JStr m)]) (modules_in (org_of p) (user_id p) (rows tr))))"
    using assms(2) unfolding grant_plane_def by blast
  have "dp_get (plane_of E) (pq_url (grants_read E key u (org_of p) (user_id p))) tr = Ok (200, t)"
    using t(1) env by (simp add: plane_of_def grants_read_def)
  then show ?thesis using env g t(2)
    by (simp add: load_module_access_for_principal_def plane_of_def is_success_def module_keys_rows Let_def)
qed

lemma replace_effect:
  assumes "plane_ready E base key u" "grant_plane E key u rows"
    and "replace_module_access_for_user E org uid ms tr = (Inr (), tr')"
  shows "modules_in org uid (rows tr') = ms"
proof -
  let ?d = "grants_delete E key u org uid" and ?i = "grants_insert E key u org uid ms"
  have q: "replace_module_access_for_user E org uid ms tr =
     (case mx_reply E tr ?d of
        Inl e \<Rightarrow> (Inl (internal e), tr @ [?d])
      | Inr (st, t) \<Rightarrow>
          if \<not> plane_ok st then (Inl (internal ''failed to clear existing module access''), tr @ [?d])
          else if ms = [] then (Inr (), tr @ [?d])
          else (case mx_reply E (tr @ [?d]) ?i of
             Inl e \<Rightarrow> (Inl (internal e), (tr @ [?d]) @ [?i])
           | Inr (st, t) \<Rightarrow> (if \<not> plane_ok st then Inl (internal ''failed to insert module access rows'') else Inr (),
               (tr @ [?d]) @ [?i])))"
    using assms(1)
    by (simp add: replace_module_access_for_user_def with_plane_def plane_ready_def plane_query_def plane_url_def
        plane_send_def grants_delete_def grants_insert_def split: sum.splits prod.splits)
  have d: "reply_ok E tr ?d" and i: "ms \<noteq> [] \<Longrightarrow> reply_ok E (tr @ [?d]) ?i \<and> tr' = (tr @ [?d]) @ [?i]"
    and n: "ms = [] \<Longrightarrow> tr' = tr @ [?d]"
    using assms(3) unfolding q by (auto simp: reply_ok_def split: sum.splits prod.splits if_splits)
  have "rows (tr @ [?d]) = filter (other_row org uid) (rows tr)"
    using assms(2) d by (simp add: grant_plane_def)
  moreover have "ms \<noteq> [] \<Longrightarrow> rows tr' = rows (tr @ [?d]) @ map (\<lambda>m. (org, uid, m)) ms"
    using assms(2) i unfolding grant_plane_def by presburger
  ultimately show ?thesis using n by (cases "ms = []") simp_all
qed

lemma fails_writes:
  "fails (replace_module_access_for_user E org uid ms)" "fails (set_user_role E uid role)"
  unfolding replace_module_access_for_user_def set_user_role_def
  by (intro fails_with_plane fails_bind fails_plane fails_cases fails_lift; auto split: if_splits)+

lemma role_keeps_grants:
  assumes "set_user_role E uid role tr = (r, tr')" "grant_plane E key u rows"
  shows "rows tr' = rows tr"
  using assms unfolding set_user_role_def with_plane_def plane_query_def plane_send_def
  by (auto simp: dz_bind_def grant_plane_def split: sum.splits prod.splits)

lemma set_handler_done:
  assumes "set_admin_module_access_for_user E (Some a) uid body tr = (resp, tr')" "rs_status resp = 200"
    and "grant_plane E key u rows"
  shows "\<exists>tr1. replace_module_access_for_user E (org_of a) uid (requested_modules E (sm_modules body)) tr = (Inr (), tr1)
     \<and> rows tr' = rows tr1"
proof -
  let ?m = "replace_module_access_for_user E (org_of a) uid (requested_modules E (sm_modules body))"
  obtain r1 tr1 where m: "?m tr = (r1, tr1)" by fastforce
  have "is_admin_principal a" "\<not> invalid_modules (sm_modules body)"
    "unwrap_or True (map_option (\<lambda>r. r \<in> set VALID_ROLES) (sm_role body))"
    using assms(1,2)
    by (auto simp: set_admin_module_access_for_user_def admin_principal_def dz_run_def split: if_splits)
  then have eq: "(resp, tr') = dz_run (dz_bind ?m (\<lambda>_.
      dz_bind (case sm_role body of None \<Rightarrow> dz_lift (Ok ()) | Some role \<Rightarrow> set_user_role E uid role) (\<lambda>_.
        dz_lift (Ok (json_response 200 (JObj [(''ok'', JBool True), (''user_id'', JStr uid)])))))) tr"
    using assms(1) by (simp add: set_admin_module_access_for_user_def admin_principal_def dz_run_def)
  show ?thesis
  proof (cases r1)
    case (Inl r)
    then have "rs_status r \<noteq> 200" using fails_writes(1) m unfolding fails_def by blast
    then show ?thesis using eq m Inl assms(2) by (simp add: dz_run_def dz_bind_def)
  next
    case (Inr x)
    then show ?thesis using eq m role_keeps_grants [OF _ assms(3)]
      by (auto simp: dz_run_def dz_bind_def split: option.splits sum.splits prod.splits)
  qed
qed


section \<open>Observations\<close>

text \<open>Taking all modules from a user leaves no row, which the module layer reads as unrestricted access.\<close>

lemma revoking_all_unrestricts:
  assumes "plane_ready E base key u" "grant_plane E key u rows" "order_sets E"
    and "set_admin_module_access_for_user E (Some a) uid body tr = (resp, tr')" "rs_status resp = 200"
    and "sm_modules body = []" "user_id p = uid" "org_of p = org_of a"
  shows "load_module_access_for_principal (mx_ext E) (plane_of E) p tr' = Ok None"
proof -
  obtain tr1 where r: "replace_module_access_for_user E (org_of a) uid (requested_modules E (sm_modules body)) tr = (Inr (), tr1)"
    "rows tr' = rows tr1"
    using set_handler_done [OF assms(4,5,2)] by blast
  have "set (requested_modules E (sm_modules body)) = {}"
    using assms(3,6) by (simp add: order_sets_def requested_modules_def)
  then have "modules_in (org_of p) (user_id p) (rows tr') = []"
    using replace_effect [OF assms(1,2) r(1)] r(2) assms(7,8) by simp
  then show ?thesis using load_reads_grants [OF assms(1,2)] by (simp add: Let_def)
qed

text \<open>The same happens when the insertion fails after the deletion has succeeded.\<close>

lemma failed_insert_unrestricts:
  assumes "plane_ready E base key u" "grant_plane E key u rows"
    and "reply_ok E tr (grants_delete E key u org uid)"
    and "\<not> reply_ok E (tr @ [grants_delete E key u org uid]) (grants_insert E key u org uid ms)"
    and "user_id p = uid" "org_of p = org"
  shows "load_module_access_for_principal (mx_ext E) (plane_of E) p
     (tr @ [grants_delete E key u org uid, grants_insert E key u org uid ms]) = Ok None"
proof -
  have "rows ((tr @ [grants_delete E key u org uid]) @ [grants_insert E key u org uid ms]) =
      filter (other_row org uid) (rows tr)"
  proof -
    have "rows (tr @ [grants_delete E key u org uid]) = filter (other_row org uid) (rows tr)"
      using assms(2,3) by (simp add: grant_plane_def)
    moreover have "rows ((tr @ [grants_delete E key u org uid]) @ [grants_insert E key u org uid ms]) =
        rows (tr @ [grants_delete E key u org uid]) @ []"
      using assms(2,4) unfolding grant_plane_def by presburger
    ultimately show ?thesis by simp
  qed
  then have "modules_in org uid (rows (tr @ [grants_delete E key u org uid, grants_insert E key u org uid ms])) = []"
    by simp
  then show ?thesis using load_reads_grants [OF assms(1,2)] assms(5,6) by (simp add: Let_def)
qed

section \<open>Witnesses\<close>

text \<open>
  A data plane that answers every request, and the table of grants it keeps, replayed
  from the history. The text of a reply is a number that codes the list of modules.
\<close>

definition wit_url :: url where
  "wit_url = \<lparr>u_scheme = ''http'', u_host = Some ''d'', u_port = None, u_text = ''http://d'', u_query = None\<rparr>"

definition eq_value :: "string \<Rightarrow> url \<Rightarrow> string" where
  "eq_value k u = drop 3 (unwrap_or [] (Option.bind (u_query u) (\<lambda>ps. map_of ps k)))"

definition row_of :: "json \<Rightarrow> string \<times> string \<times> string" where
  "row_of v = (unwrap_or [] (get_str ''org_id'' v), unwrap_or [] (get_str ''user_id'' v), unwrap_or [] (get_str ''module_key'' v))"

definition apply_request :: "plane_request \<Rightarrow> (string \<times> string \<times> string) list \<Rightarrow> (string \<times> string \<times> string) list" where
  "apply_request q rows =
     (if pq_method q = ''DELETE''
      then filter (other_row (eq_value ''org_id'' (pq_url q)) (eq_value ''user_id'' (pq_url q))) rows
      else if pq_method q = ''POST''
      then rows @ (case pq_body q of Some (JArr vs) \<Rightarrow> map row_of vs | _ \<Rightarrow> [])
      else rows)"

definition wit_rows :: grant_rows where
  "wit_rows tr = fold apply_request tr []"

definition wit_admin :: lib_env where
  "wit_admin = \<lparr>
     mx_ext = \<lparr>hv_to_str = Some, hv_from_str = Some, url_parse = (\<lambda>s. Ok wit_url), url_string = u_text,
       json_from_str = (\<lambda>s. Ok (JArr (map (\<lambda>m. JObj [(''module_key'', JStr m)]) (from_nat (digits_val s))))),
       json_to_string = (\<lambda>v. []), to_lowercase = (\<lambda>s. s), form_parse = (\<lambda>s. []), default_hash = length,
       hash_order = (\<lambda>xs. xs), f64_string = (\<lambda>x. []), utf8_lossy = (\<lambda>s. s)\<rparr>,
     mx_vars = (\<lambda>k. if k = ''SUPABASE_URL'' then Some ''http://d'' else if k = ''SUPABASE_SERVICE_ROLE_KEY'' then Some ''k''
       else None),
     mx_reply = (\<lambda>tr q. Ok (200, dec_str (to_nat (modules_in (eq_value ''org_id'' (pq_url q)) (eq_value ''user_id'' (pq_url q))
       (wit_rows tr))))),
     mx_order = (\<lambda>xs. xs), mx_uuid = (\<lambda>tr. ''u''), mx_status = (\<lambda>n. []),
     mx_bad_url = (\<lambda>s. []), mx_range = (\<lambda>tr q. None), mx_millis = length, mx_body_error = (\<lambda>rq. [])\<rparr>"

lemma wit_plane_ready: "plane_ready wit_admin ''http://d'' ''k'' wit_url"
proof -
  have "trim_end_matches (CHR ''/'') (trim ''http://d'') = ''http://d''" "trim ''k'' = ''k''" by code_simp+
  then have "lib_supabase_env (mx_vars wit_admin) = Ok (''http://d'', ''k'')"
    by (simp add: lib_supabase_env_def wit_admin_def)
  then show ?thesis by (simp add: plane_ready_def wit_admin_def)
qed

lemma wit_urls:
  "eq_value ''org_id'' (pq_url (grants_delete E key wit_url org uid)) = org"
  "eq_value ''user_id'' (pq_url (grants_delete E key wit_url org uid)) = uid"
  "eq_value ''org_id'' (pq_url (grants_read E key wit_url org uid)) = org"
  "eq_value ''user_id'' (pq_url (grants_read E key wit_url org uid)) = uid"
  by (simp_all add: eq_value_def grants_delete_def grants_read_def with_pairs_def append_pair_def query_pairs_mut_def
      wit_url_def)

lemma wit_grant_plane: "grant_plane wit_admin ''k'' wit_url wit_rows"
proof -
  have rows: "wit_rows (tr @ [q]) = apply_request q (wit_rows tr)" for tr q by (simp add: wit_rows_def)
  have ok: "reply_ok wit_admin tr q" for tr q by (simp add: reply_ok_def wit_admin_def plane_ok_def)
  have ins: "map row_of (map (grant_row org uid) ms) = map (\<lambda>m. (org, uid, m)) ms" for org uid ms
    by (simp add: row_of_def grant_row_def get_str_def)
  have "\<exists>t. mx_reply wit_admin tr (grants_read wit_admin ''k'' wit_url org uid) = Ok (200, t) \<and>
      json_from_str (mx_ext wit_admin) t =
        Ok (JArr (map (\<lambda>m. JObj [(''module_key'', JStr m)]) (modules_in org uid (wit_rows tr))))" for tr org uid
    using wit_urls(3,4) [of wit_admin "''k''" org uid] digits_val_dec_str by (simp add: wit_admin_def)
  moreover have "wit_rows (tr @ [grants_delete wit_admin ''k'' wit_url org uid]) = filter (other_row org uid) (wit_rows tr)"
    for tr org uid
    unfolding rows apply_request_def wit_urls(1,2) by (simp add: grants_delete_def)
  moreover have "wit_rows (tr @ [grants_insert wit_admin ''k'' wit_url org uid ms]) =
      wit_rows tr @ map (\<lambda>m. (org, uid, m)) ms" for tr org uid ms
    unfolding rows apply_request_def using ins by (simp add: grants_insert_def)
  moreover have "wit_rows (tr @ [q]) = wit_rows tr" if "pq_method q = ''PATCH''" for tr q
    using that by (simp add: rows apply_request_def)
  ultimately show ?thesis unfolding grant_plane_def using ok by simp
qed

definition wit_admin_principal :: principal where
  "wit_admin_principal = \<lparr>user_id = ''a'', email = None, org_id = None, roles = [''owner''], session_id = [], auth_method = Cookie\<rparr>"

definition wit_member :: principal where
  "wit_member = \<lparr>user_id = ''u'', email = None, org_id = None, roles = [], session_id = [], auth_method = Cookie\<rparr>"

definition wit_grant :: set_user_module_access_request where
  "wit_grant = \<lparr>sm_modules = [''tools''], sm_role = Some ''member''\<rparr>"

lemma wit_set_ok:
  "rs_status (fst (set_admin_module_access_for_user wit_admin (Some wit_admin_principal) ''u'' wit_grant [])) = 200"
  "length (snd (set_admin_module_access_for_user wit_admin (Some wit_admin_principal) ''u'' wit_grant [])) = 3"
proof -
  have "lib_supabase_env (mx_vars wit_admin) = Ok (''http://d'', ''k'')"
    using wit_plane_ready by (simp add: plane_ready_def)
  then show "rs_status (fst (set_admin_module_access_for_user wit_admin (Some wit_admin_principal) ''u'' wit_grant [])) = 200"
    "length (snd (set_admin_module_access_for_user wit_admin (Some wit_admin_principal) ''u'' wit_grant [])) = 3"
    by (simp_all add: set_admin_module_access_for_user_def admin_principal_def wit_admin_principal_def is_admin_principal_def
        wit_grant_def invalid_modules_def MODULE_KEYS_def VALID_ROLES_def dz_run_def replace_module_access_for_user_def
        with_plane_def plane_query_def plane_url_def plane_send_def set_user_role_def requested_modules_def dz_bind_def
        wit_admin_def plane_ok_def json_response_def)
qed



end
