(* ===== verification/Greenspot.thy ===== *)
theory Greenspot
  imports Lib_Plane
begin

text \<open>
  The customer-relations API of \<^verbatim>\<open>lib.rs\<close>: the generic list, create, read, patch and
  delete operations on the \<^verbatim>\<open>crm_\<close> tables, the dashboard, the deal pipelines with their
  stages, and the customisation of fields and layouts.
\<close>

section \<open>Answers\<close>

definition greenspot_mode_from_query :: "ext \<Rightarrow> string option \<Rightarrow> string" where
  "greenspot_mode_from_query X query = (case query of
     None \<Rightarrow> ''detail''
   | Some q \<Rightarrow> if list_ex (\<lambda>(k, v). k = ''mode'' \<and> v = ''compact'') (form_parse X q) then ''compact'' else ''detail'')"

definition greenspot_ok :: "string \<Rightarrow> string \<Rightarrow> json \<Rightarrow> nat \<Rightarrow> response" where
  "greenspot_ok rid mode data status = json_response status
     (JObj [(''ok'', JBool True), (''mode'', JStr mode), (''requestId'', JStr rid), (''data'', data)])"

definition greenspot_error :: "string \<Rightarrow> string \<Rightarrow> nat \<Rightarrow> string \<Rightarrow> string \<Rightarrow> response" where
  "greenspot_error rid mode status code message = json_response status
     (JObj [(''ok'', JBool False), (''mode'', JStr mode), (''requestId'', JStr rid), (''data'', JNull),
            (''error'', JObj [(''code'', JStr code), (''message'', JStr message)])])"

section \<open>One request\<close>

definition greenspot_rest_call ::
  "lib_env \<Rightarrow> string \<Rightarrow> string \<Rightarrow> (string \<times> string) list \<Rightarrow> json option \<Rightarrow> (nat \<times> string) daisy" where
  "greenspot_rest_call E method table query body =
     dz_bind (lib_plane E) (\<lambda>pl.
     dz_bind (lib_call E pl method table query
         (case body of None \<Rightarrow> None | Some _ \<Rightarrow> Some ''return=representation'') body) (\<lambda>r.
       dz_lift (map_err (\<lambda>e. standard_error_response 502 (''failed to reach Supabase REST: '' @ e)) r)))"

text \<open>The end of the five generic handlers: the value of a success, or the upstream's status and message.\<close>

definition greenspot_result ::
  "lib_env \<Rightarrow> string \<Rightarrow> string \<Rightarrow> nat \<Rightarrow> (string \<Rightarrow> json) \<Rightarrow> nat \<times> string \<Rightarrow> response daisy" where
  "greenspot_result E rid mode done f r = (case r of (status, txt) \<Rightarrow>
     respond (if plane_ok status then greenspot_ok rid mode (f txt) done
       else greenspot_error rid mode status ''GS_INTERNAL_ERROR'' (lib_supabase_error_message (mx_ext E) txt)))"

definition first_item :: "lib_env \<Rightarrow> string \<Rightarrow> json" where
  "first_item E txt = JObj [(''item'', unwrap_or JNull (parse_one (mx_ext E) txt))]"

section \<open>Generic handlers\<close>

text \<open>
  The scan of the query of a list: the limit pairs pushed so far, whether a limit was
  set, whether archived rows are wanted, and the text searched for.
\<close>

type_synonym list_scan = "(string \<times> string) list \<times> bool \<times> bool \<times> string option"

definition list_scan_step :: "string \<times> string \<Rightarrow> list_scan \<Rightarrow> list_scan" where
  "list_scan_step kv s = (case kv of (k, v) \<Rightarrow> (case s of (params, limit_set, include_archived, search_val) \<Rightarrow>
     if k = ''limit'' then
       (case parse_uint 64 v of
          Some n \<Rightarrow> (params @ [(''limit'', dec_str (max 1 (min 200 n)))], True, include_archived, search_val)
        | None \<Rightarrow> s)
     else if k = ''includeArchived'' \<and> v = ''true'' then (params, limit_set, True, search_val)
     else if k = ''search'' then (params, limit_set, include_archived, Some v)
     else s))"

definition archivable :: "string \<Rightarrow> bool" where
  "archivable table = (table = ''crm_contacts'' \<or> table = ''crm_companies'')"

definition search_pairs :: "string \<Rightarrow> string option \<Rightarrow> (string \<times> string) list" where
  "search_pairs table search_val = (case search_val of
     None \<Rightarrow> []
   | Some search \<Rightarrow>
       let esc = map (\<lambda>c. if c = CHR '','' then CHR '' '' else c) search
       in if table = ''crm_contacts''
          then [(''or'', ''first_name.ilike.%'' @ esc @ ''%,last_name.ilike.%'' @ esc @ ''%,email.ilike.%'' @ esc @ ''%'')]
          else if table = ''crm_companies''
          then [(''or'', ''name.ilike.%'' @ esc @ ''%,domain.ilike.%'' @ esc @ ''%'')]
          else [])"

definition list_params :: "ext \<Rightarrow> string \<Rightarrow> string \<Rightarrow> string option \<Rightarrow> (string \<times> string) list" where
  "list_params X table ord query =
     [(''select'', ''*''), (''order'', ord)] @
     (case query of
        Some q \<Rightarrow>
          (case fold list_scan_step (form_parse X q) ([], False, False, None) of
             (limits, limit_set, include_archived, search_val) \<Rightarrow>
               limits
               @ (if \<not> include_archived \<and> archivable table then [(''archived_at'', ''is.null'')] else [])
               @ (if \<not> limit_set then [(''limit'', ''50'')] else [])
               @ search_pairs table search_val)
      | None \<Rightarrow> [(''limit'', ''50'')] @ (if archivable table then [(''archived_at'', ''is.null'')] else []))"

definition greenspot_list :: "lib_env \<Rightarrow> request \<Rightarrow> string \<Rightarrow> string \<Rightarrow> handler_run" where
  "greenspot_list E rq table ord = dz_run (
     dz_bind (require_session (rq_principal rq)) (\<lambda>_.
       let mode = greenspot_mode_from_query (mx_ext E) (rq_query rq); rid = request_id_from_extension (mx_ext E) rq
       in dz_bind (greenspot_rest_call E ''GET'' table (list_params (mx_ext E) table ord (rq_query rq)) None)
            (greenspot_result E rid mode 200 (\<lambda>txt. JObj [(''items'', json_or (mx_ext E) (JArr []) txt)]))))"

text \<open>The body of a create or patch request, at most \<open>n\<close> bytes of JSON.\<close>

definition greenspot_body :: "lib_env \<Rightarrow> request \<Rightarrow> nat \<Rightarrow> json daisy" where
  "greenspot_body E rq n =
     (let rid = request_id_from_extension (mx_ext E) rq;
          bad = greenspot_error rid ''detail'' 400 ''GS_VALIDATION_FAILED''
      in dz_lift (try_result (ok_or (bad ''Request body too large'') (body_within n rq)) (\<lambda>b.
           map_err (\<lambda>_. bad ''Invalid JSON body'') (json_from_str (mx_ext E) b))))"

definition greenspot_create :: "lib_env \<Rightarrow> request \<Rightarrow> string \<Rightarrow> handler_run" where
  "greenspot_create E rq table = dz_run (
     dz_bind (require_session (rq_principal rq)) (\<lambda>_.
     dz_bind (greenspot_body E rq MIB) (\<lambda>v.
     dz_bind (greenspot_rest_call E ''POST'' table [(''select'', ''*'')] (Some (JArr [v])))
       (greenspot_result E (request_id_from_extension (mx_ext E) rq) ''detail'' 201 (first_item E)))))"

definition greenspot_get_by_id :: "lib_env \<Rightarrow> request \<Rightarrow> string \<Rightarrow> string \<Rightarrow> string \<Rightarrow> handler_run" where
  "greenspot_get_by_id E rq table id_col i = dz_run (
     dz_bind (require_session (rq_principal rq)) (\<lambda>_.
       let mode = greenspot_mode_from_query (mx_ext E) (rq_query rq); rid = request_id_from_extension (mx_ext E) rq
       in dz_bind (greenspot_rest_call E ''GET'' table [(''select'', ''*''), (id_col, eq_str i), (''limit'', ''1'')] None)
            (greenspot_result E rid mode 200 (first_item E))))"

definition greenspot_patch_by_id :: "lib_env \<Rightarrow> request \<Rightarrow> string \<Rightarrow> string \<Rightarrow> string \<Rightarrow> handler_run" where
  "greenspot_patch_by_id E rq table id_col i = dz_run (
     dz_bind (require_session (rq_principal rq)) (\<lambda>_.
     dz_bind (greenspot_body E rq MIB) (\<lambda>v.
     dz_bind (greenspot_rest_call E ''PATCH'' table [(''select'', ''*''), (id_col, eq_str i)] (Some v))
       (greenspot_result E (request_id_from_extension (mx_ext E) rq) ''detail'' 200 (first_item E)))))"

definition greenspot_delete_by_id :: "lib_env \<Rightarrow> request \<Rightarrow> string \<Rightarrow> string \<Rightarrow> string \<Rightarrow> handler_run" where
  "greenspot_delete_by_id E rq table id_col i = dz_run (
     dz_bind (require_session (rq_principal rq)) (\<lambda>_.
     dz_bind (greenspot_rest_call E ''DELETE'' table [(''select'', ''*''), (id_col, eq_str i)] None)
       (greenspot_result E (request_id_from_extension (mx_ext E) rq) ''detail'' 200 (first_item E))))"

section \<open>Dashboard\<close>

definition rows_if_ok :: "lib_env \<Rightarrow> (response, nat \<times> string) result \<Rightarrow> json list" where
  "rows_if_ok E r = (case r of
     Inr (st, txt) \<Rightarrow> if plane_ok st then json_rows (mx_ext E) txt else []
   | Inl _ \<Rightarrow> [])"

definition value_if_ok :: "lib_env \<Rightarrow> (response, nat \<times> string) result \<Rightarrow> json" where
  "value_if_ok E r = (case r of
     Inr (st, txt) \<Rightarrow> if plane_ok st then json_or (mx_ext E) (JArr []) txt else JArr []
   | Inl _ \<Rightarrow> JArr [])"

definition greenspot_dashboard :: "lib_env \<Rightarrow> request \<Rightarrow> handler_run" where
  "greenspot_dashboard E rq = dz_run (
     dz_bind (require_session (rq_principal rq)) (\<lambda>_.
     let mode = greenspot_mode_from_query (mx_ext E) (rq_query rq); rid = request_id_from_extension (mx_ext E) rq;
         ids = (\<lambda>table. dz_try (greenspot_rest_call E ''GET'' table [(''select'', ''id'')] None));
         count = (\<lambda>r. jnat (length (rows_if_ok E r)))
     in dz_bind (ids ''crm_contacts'') (\<lambda>contacts.
        dz_bind (ids ''crm_companies'') (\<lambda>companies.
        dz_bind (ids ''crm_deals'') (\<lambda>deals.
        dz_bind (ids ''crm_tasks'') (\<lambda>tasks.
        dz_bind (dz_try (greenspot_rest_call E ''GET'' ''crm_audit_events''
            [(''select'', ''*''), (''order'', ''created_at.desc''), (''limit'', ''5'')] None)) (\<lambda>recent.
          respond (greenspot_ok rid mode (JObj [
            (''stats'', JObj [(''contacts'', count contacts), (''companies'', count companies), (''deals'', count deals),
               (''tasks'', count tasks)]),
            (''recentActivity'', value_if_ok E recent)]) 200))))))))"

definition greenspot_audit_events :: "lib_env \<Rightarrow> request \<Rightarrow> handler_run" where
  "greenspot_audit_events E rq = greenspot_list E rq ''crm_audit_events'' ''created_at.desc''"

section \<open>Pipelines\<close>

text \<open>\<^verbatim>\<open>stage_map\<close>: the stages of each pipeline, in the order of the rows.\<close>

definition stage_view :: "json \<Rightarrow> json" where
  "stage_view st = JObj [(''key'', jget_or JNull ''stage_key'' st), (''label'', jget_or JNull ''label'' st),
     (''order'', jget_or (jnat 0) ''order'' st), (''isClosedWon'', jget_or (JBool False) ''is_closed_won'' st),
     (''isClosedLost'', jget_or (JBool False) ''is_closed_lost'' st), (''isActive'', jget_or (JBool True) ''is_active'' st)]"

definition push_stage :: "json \<Rightarrow> (string \<Rightarrow> json list) \<Rightarrow> string \<Rightarrow> json list" where
  "push_stage st m = (case get_str ''pipeline_id'' st of
     Some pid \<Rightarrow> m(pid := m pid @ [stage_view st])
   | None \<Rightarrow> m)"

text \<open>\<^verbatim>\<open>stage_map.remove(&id)\<close>: a second pipeline with the same id gets no stages.\<close>

fun pipeline_items :: "(string \<Rightarrow> json list) \<Rightarrow> json list \<Rightarrow> json list" where
  "pipeline_items m [] = []"
| "pipeline_items m (p # ps) =
     (let i = unwrap_or [] (get_str ''id'' p)
      in JObj [(''id'', JStr i), (''name'', jget_or JNull ''name'' p), (''description'', jget_or (JStr []) ''description'' p),
           (''stages'', JArr (m i))] # pipeline_items (m(i := [])) ps)"

definition greenspot_pipelines_get :: "lib_env \<Rightarrow> request \<Rightarrow> handler_run" where
  "greenspot_pipelines_get E rq = dz_run (
     dz_bind (require_session (rq_principal rq)) (\<lambda>_.
     let mode = greenspot_mode_from_query (mx_ext E) (rq_query rq); rid = request_id_from_extension (mx_ext E) rq
     in dz_bind (dz_try (greenspot_rest_call E ''GET'' ''crm_deal_pipelines''
            [(''select'', ''*''), (''order'', ''created_at.asc'')] None)) (\<lambda>pipelines.
        dz_bind (dz_try (greenspot_rest_call E ''GET'' ''crm_deal_pipeline_stages''
            [(''select'', ''*''), (''order'', ''order.asc'')] None)) (\<lambda>stages.
          let stage_map = fold push_stage (rows_if_ok E stages) (\<lambda>_. [])
          in respond (greenspot_ok rid mode
               (JObj [(''items'', JArr (pipeline_items stage_map (rows_if_ok E pipelines)))]) 200)))))"

definition in_filter :: "string list \<Rightarrow> string" where
  "in_filter ids = ''in.('' @ str_join '','' ids @ '')''"

definition row_ids :: "json list \<Rightarrow> string list" where
  "row_ids = filter_map (get_str ''id'')"

definition str_or :: "string \<Rightarrow> string \<Rightarrow> json \<Rightarrow> string" where
  "str_or d k v = unwrap_or d (get_str k v)"

definition pipeline_valid :: "json \<Rightarrow> bool" where
  "pipeline_valid p = (str_or [] ''id'' p \<noteq> [] \<and> str_or [] ''name'' p \<noteq> [])"

definition pipeline_row :: "json \<Rightarrow> json" where
  "pipeline_row p = JObj [(''id'', JStr (str_or [] ''id'' p)), (''name'', JStr (str_or [] ''name'' p)),
     (''description'', JStr (str_or [] ''description'' p))]"

definition stage_row :: "json \<Rightarrow> json \<Rightarrow> json option" where
  "stage_row p s = (case get_str ''key'' s of
     None \<Rightarrow> None
   | Some key \<Rightarrow> if key = [] then None else Some (JObj [
       (''pipeline_id'', jopt (\<lambda>v. v) (jget ''id'' p)), (''stage_key'', JStr key), (''label'', JStr (str_or [] ''label'' s)),
       (''order'', jint (unwrap_or 0 (get_i64 ''order'' s))),
       (''is_closed_won'', JBool (unwrap_or False (get_bool ''isClosedWon'' s))),
       (''is_closed_lost'', JBool (unwrap_or False (get_bool ''isClosedLost'' s))),
       (''is_active'', JBool (unwrap_or True (get_bool ''isActive'' s)))]))"

definition pipeline_rows :: "json list \<Rightarrow> json list" where
  "pipeline_rows ps = map pipeline_row (filter pipeline_valid ps)"

definition stage_rows :: "json list \<Rightarrow> json list" where
  "stage_rows ps = concat (map (\<lambda>p. filter_map (stage_row p) (get_array ''stages'' p)) (filter pipeline_valid ps))"

text \<open>\<^verbatim>\<open>if let Ok((status, txt))\<close>: a refusal is answered, a call that does not get through is passed over.\<close>

definition greenspot_insert :: "lib_env \<Rightarrow> string \<Rightarrow> string \<Rightarrow> json list \<Rightarrow> unit daisy" where
  "greenspot_insert E rid table rows =
     dz_when (rows \<noteq> []) () (
       dz_bind (dz_try (greenspot_rest_call E ''POST'' table [] (Some (JArr rows)))) (\<lambda>r. dz_lift (case r of
          Inr (status, txt) \<Rightarrow>
            if plane_ok status then Ok ()
            else Err (greenspot_error rid ''detail'' status ''GS_INTERNAL_ERROR'' (lib_supabase_error_message (mx_ext E) txt))
        | Inl _ \<Rightarrow> Ok ())))"

definition greenspot_large_body :: "lib_env \<Rightarrow> request \<Rightarrow> json daisy" where
  "greenspot_large_body E rq = dz_lift (try_result
     (ok_or (greenspot_error (request_id_from_extension (mx_ext E) rq) ''detail'' 400
        ''GS_VALIDATION_FAILED'' ''Request body too large'') (body_within (2 * MIB) rq))
     (\<lambda>b. Ok (json_or (mx_ext E) (JObj []) b)))"

definition greenspot_delete_where :: "lib_env \<Rightarrow> bool \<Rightarrow> string \<Rightarrow> string \<Rightarrow> string \<Rightarrow> unit daisy" where
  "greenspot_delete_where E b table col flt =
     dz_when b () (dz_bind (dz_try (greenspot_rest_call E ''DELETE'' table [(col, flt)] None)) (\<lambda>_. dz_lift (Ok ())))"

definition greenspot_pipelines_post :: "lib_env \<Rightarrow> request \<Rightarrow> handler_run" where
  "greenspot_pipelines_post E rq = dz_run (
     dz_bind (require_session (rq_principal rq)) (\<lambda>_.
     dz_bind (greenspot_large_body E rq) (\<lambda>body.
     let rid = request_id_from_extension (mx_ext E) rq; pipelines = get_array ''pipelines'' body
     in dz_bind (dz_try (greenspot_rest_call E ''GET'' ''crm_deal_pipelines'' [(''select'', ''id'')] None)) (\<lambda>existing.
        let existing_ids = row_ids (rows_if_ok E existing)
        in dz_bind (greenspot_delete_where E (existing_ids \<noteq> []) ''crm_deal_pipeline_stages'' ''pipeline_id''
               (in_filter existing_ids)) (\<lambda>_.
           dz_bind (greenspot_delete_where E (existing_ids \<noteq> []) ''crm_deal_pipelines'' ''id'' (in_filter existing_ids)) (\<lambda>_.
           dz_bind (greenspot_insert E rid ''crm_deal_pipelines'' (pipeline_rows pipelines)) (\<lambda>_.
           dz_bind (greenspot_insert E rid ''crm_deal_pipeline_stages'' (stage_rows pipelines)) (\<lambda>_.
             respond (greenspot_ok rid ''detail'' (JObj [(''items'', JArr pipelines)]) 200)))))))))"

section \<open>Customisation\<close>

definition customization_entity_to_object_type :: "string \<Rightarrow> string option" where
  "customization_entity_to_object_type entity =
     (if entity = ''contacts'' then Some ''contact'' else if entity = ''companies'' then Some ''company''
      else if entity = ''deals'' then Some ''deal'' else if entity = ''tasks'' then Some ''task'' else None)"

definition customization_object :: "string \<Rightarrow> string \<Rightarrow> string \<Rightarrow> string daisy" where
  "customization_object rid mode entity_id = dz_lift (ok_or (greenspot_error rid mode 400 ''GS_VALIDATION_FAILED''
     ''Invalid customization entity id'') (customization_entity_to_object_type entity_id))"

definition push_layout :: "json \<Rightarrow> (string \<Rightarrow> string list) \<Rightarrow> string \<Rightarrow> string list" where
  "push_layout row m = (case (get_str ''section_id'' row, get_str ''field_definition_id'' row) of
     (Some sec, Some fid) \<Rightarrow> m(sec := m sec @ [fid])
   | _ \<Rightarrow> m)"

definition field_view :: "json \<Rightarrow> json" where
  "field_view f = JObj [(''id'', jget_or JNull ''id'' f), (''label'', jget_or JNull ''label'' f),
     (''fieldKey'', jget_or JNull ''field_key'' f), (''type'', jget_or JNull ''field_type'' f),
     (''required'', jget_or (JBool False) ''required'' f), (''placeholder'', jget_or JNull ''placeholder'' f),
     (''description'', jget_or JNull ''help_text'' f), (''defaultValue'', jget_or JNull ''default_value'' f)]"

definition section_view :: "(string \<Rightarrow> string list) \<Rightarrow> json \<Rightarrow> json" where
  "section_view layout s = JObj [(''id'', jget_or JNull ''id'' s), (''name'', jget_or JNull ''name'' s),
     (''label'', jget_or JNull ''label'' s), (''fieldIds'', JArr (map JStr (layout (str_or [] ''id'' s))))]"

definition greenspot_customization_get :: "lib_env \<Rightarrow> request \<Rightarrow> string \<Rightarrow> handler_run" where
  "greenspot_customization_get E rq entity_id = dz_run (
     dz_bind (require_session (rq_principal rq)) (\<lambda>_.
     let mode = greenspot_mode_from_query (mx_ext E) (rq_query rq); rid = request_id_from_extension (mx_ext E) rq
     in dz_bind (customization_object rid mode entity_id) (\<lambda>object_type.
        dz_bind (dz_try (greenspot_rest_call E ''GET'' ''crm_field_definitions''
            [(''select'', ''id,field_key,label,field_type,required,placeholder,help_text,default_value,validation,display_order''),
             (''object_type'', eq_str object_type), (''order'', ''display_order.asc'')] None)) (\<lambda>defs.
        dz_bind (dz_try (greenspot_rest_call E ''GET'' ''crm_layout_sections''
            [(''select'', ''id,name,label,description,display_order''), (''object_type'', eq_str object_type),
             (''order'', ''display_order.asc'')] None)) (\<lambda>sections.
          let fields_arr = rows_if_ok E defs; sections_arr = rows_if_ok E sections; section_ids = row_ids sections_arr
          in dz_bind (if section_ids = [] then dz_lift (Ok [])
                 else dz_bind (dz_try (greenspot_rest_call E ''GET'' ''crm_layout_fields''
                   [(''select'', ''section_id,field_definition_id''), (''section_id'', in_filter section_ids),
                    (''order'', ''display_order.asc'')] None)) (\<lambda>r. dz_lift (Ok (rows_if_ok E r)))) (\<lambda>layout_rows.
               let layout_map = fold push_layout layout_rows (\<lambda>_. [])
               in respond (greenspot_ok rid mode (JObj [(''item'', JObj [
                    (''fields'', JArr (map field_view fields_arr)),
                    (''sections'', JArr (map (section_view layout_map) sections_arr))])]) 200)))))))"

definition field_row :: "string \<Rightarrow> nat \<times> json \<Rightarrow> json option" where
  "field_row object_type = (\<lambda>(idx, f).
     let key = str_or [] ''fieldKey'' f; label = str_or [] ''label'' f; field_type = str_or ''text'' ''type'' f
     in if key = [] \<or> label = [] then None
        else Some (JObj [(''object_type'', JStr object_type), (''field_key'', JStr key), (''label'', JStr label),
          (''field_type'', JStr field_type), (''required'', JBool (unwrap_or False (get_bool ''required'' f))),
          (''placeholder'', jopt_str (get_str ''placeholder'' f)), (''help_text'', jopt_str (get_str ''description'' f)),
          (''default_value'', jget_or JNull ''defaultValue'' f), (''display_order'', jnat idx)]))"

definition section_row :: "string \<Rightarrow> nat \<times> json \<Rightarrow> json" where
  "section_row object_type = (\<lambda>(idx, s). JObj [(''object_type'', JStr object_type),
     (''name'', JStr (str_or ''section'' ''name'' s)), (''label'', JStr (str_or ''Section'' ''label'' s)),
     (''display_order'', jnat idx)])"

text \<open>\<^verbatim>\<open>field_id_by_key\<close> and \<^verbatim>\<open>section_id_by_name\<close>: the last row of a key wins.\<close>

definition id_by :: "string \<Rightarrow> json list \<Rightarrow> string \<Rightarrow> string option" where
  "id_by k rows = fold (\<lambda>f m. case (get_str ''id'' f, get_str k f) of
     (Some i, Some key) \<Rightarrow> m(key \<mapsto> i)
   | _ \<Rightarrow> m) rows Map.empty"

definition layout_row :: "string \<Rightarrow> (string \<Rightarrow> string option) \<Rightarrow> nat \<times> json \<Rightarrow> json option" where
  "layout_row sid field_id_by_key = (\<lambda>(idx, fid).
     map_option (\<lambda>field_id. JObj [(''section_id'', JStr sid), (''field_definition_id'', JStr field_id), (''display_order'', jnat idx)])
       (field_id_by_key (unwrap_or [] (as_str fid))))"

definition layout_rows :: "(string \<Rightarrow> string option) \<Rightarrow> (string \<Rightarrow> string option) \<Rightarrow> json list \<Rightarrow> json list" where
  "layout_rows section_id_by_name field_id_by_key sections = concat (map (\<lambda>s.
     case section_id_by_name (str_or ''section'' ''name'' s) of
       None \<Rightarrow> []
     | Some sid \<Rightarrow> filter_map (layout_row sid field_id_by_key) (enumerate 0 (get_array ''fieldIds'' s))) sections)"

text \<open>An insertion whose rows the handler goes on with; every failure is answered.\<close>

definition greenspot_insert_rows ::
  "lib_env \<Rightarrow> string \<Rightarrow> string \<Rightarrow> string \<Rightarrow> json list \<Rightarrow> json list daisy" where
  "greenspot_insert_rows E rid table sel rows =
     dz_when (rows \<noteq> []) [] (
       dz_bind (greenspot_rest_call E ''POST'' table [(''select'', sel)] (Some (JArr rows))) (\<lambda>(st, txt).
         dz_lift (if plane_ok st then Ok (json_rows (mx_ext E) txt)
           else Err (greenspot_error rid ''detail'' st ''GS_INTERNAL_ERROR'' (lib_supabase_error_message (mx_ext E) txt)))))"

definition greenspot_customization_patch :: "lib_env \<Rightarrow> request \<Rightarrow> string \<Rightarrow> handler_run" where
  "greenspot_customization_patch E rq entity_id = dz_run (
     dz_bind (require_session (rq_principal rq)) (\<lambda>_.
     let rid = request_id_from_extension (mx_ext E) rq
     in dz_bind (customization_object rid ''detail'' entity_id) (\<lambda>object_type.
        dz_bind (greenspot_large_body E rq) (\<lambda>body.
        let settings = jget_or body ''settings'' body; defs = get_array ''fields'' settings;
            sections = get_array ''sections'' settings; of_type = eq_str object_type;
            ids = (\<lambda>table. dz_bind (dz_try (greenspot_rest_call E ''GET'' table
              [(''select'', ''id''), (''object_type'', of_type)] None)) (\<lambda>r. dz_lift (Ok (row_ids (rows_if_ok E r)))))
        in dz_bind (ids ''crm_field_definitions'') (\<lambda>field_ids.
           dz_bind (ids ''crm_layout_sections'') (\<lambda>section_ids.
           dz_bind (greenspot_delete_where E (section_ids \<noteq> []) ''crm_layout_fields'' ''section_id'' (in_filter section_ids)) (\<lambda>_.
           dz_bind (greenspot_delete_where E True ''crm_layout_sections'' ''object_type'' of_type) (\<lambda>_.
           dz_bind (greenspot_delete_where E (field_ids \<noteq> []) ''crm_field_options'' ''field_definition_id''
               (in_filter field_ids)) (\<lambda>_.
           dz_bind (greenspot_delete_where E True ''crm_field_definitions'' ''object_type'' of_type) (\<lambda>_.
           dz_bind (greenspot_insert_rows E rid ''crm_field_definitions'' ''id,field_key''
               (filter_map (field_row object_type) (enumerate 0 defs))) (\<lambda>inserted_fields.
           dz_bind (greenspot_insert_rows E rid ''crm_layout_sections'' ''id,name''
               (map (section_row object_type) (enumerate 0 sections))) (\<lambda>inserted_sections.
             let layout = (if inserted_sections = [] then []
                   else layout_rows (id_by ''name'' inserted_sections) (id_by ''field_key'' inserted_fields) sections)
             in dz_bind (dz_when (layout \<noteq> []) () (dz_bind (dz_try (greenspot_rest_call E ''POST'' ''crm_layout_fields'' []
                    (Some (JArr layout)))) (\<lambda>_. dz_lift (Ok ())))) (\<lambda>_.
                  respond (greenspot_ok rid ''detail'' (JObj [(''item'', settings)]) 200))))))))))))))"

section \<open>Routes\<close>

definition greenspot_companies_get :: "lib_env \<Rightarrow> request \<Rightarrow> handler_run" where
  "greenspot_companies_get E rq = greenspot_list E rq ''crm_companies'' ''updated_at.desc''"

definition greenspot_companies_post :: "lib_env \<Rightarrow> request \<Rightarrow> handler_run" where
  "greenspot_companies_post E rq = greenspot_create E rq ''crm_companies''"

definition greenspot_company_get :: "lib_env \<Rightarrow> request \<Rightarrow> string \<Rightarrow> handler_run" where
  "greenspot_company_get E rq i = greenspot_get_by_id E rq ''crm_companies'' ''id'' i"

definition greenspot_company_patch :: "lib_env \<Rightarrow> request \<Rightarrow> string \<Rightarrow> handler_run" where
  "greenspot_company_patch E rq i = greenspot_patch_by_id E rq ''crm_companies'' ''id'' i"

definition greenspot_contacts_get :: "lib_env \<Rightarrow> request \<Rightarrow> handler_run" where
  "greenspot_contacts_get E rq = greenspot_list E rq ''crm_contacts'' ''updated_at.desc''"

definition greenspot_contacts_post :: "lib_env \<Rightarrow> request \<Rightarrow> handler_run" where
  "greenspot_contacts_post E rq = greenspot_create E rq ''crm_contacts''"

definition greenspot_contact_get :: "lib_env \<Rightarrow> request \<Rightarrow> string \<Rightarrow> handler_run" where
  "greenspot_contact_get E rq i = greenspot_get_by_id E rq ''crm_contacts'' ''id'' i"

definition greenspot_contact_patch :: "lib_env \<Rightarrow> request \<Rightarrow> string \<Rightarrow> handler_run" where
  "greenspot_contact_patch E rq i = greenspot_patch_by_id E rq ''crm_contacts'' ''id'' i"

definition greenspot_contact_delete :: "lib_env \<Rightarrow> request \<Rightarrow> string \<Rightarrow> handler_run" where
  "greenspot_contact_delete E rq i = greenspot_delete_by_id E rq ''crm_contacts'' ''id'' i"

definition greenspot_deals_get :: "lib_env \<Rightarrow> request \<Rightarrow> handler_run" where
  "greenspot_deals_get E rq = greenspot_list E rq ''crm_deals'' ''updated_at.desc''"

definition greenspot_deals_post :: "lib_env \<Rightarrow> request \<Rightarrow> handler_run" where
  "greenspot_deals_post E rq = greenspot_create E rq ''crm_deals''"

definition greenspot_deal_get :: "lib_env \<Rightarrow> request \<Rightarrow> string \<Rightarrow> handler_run" where
  "greenspot_deal_get E rq i = greenspot_get_by_id E rq ''crm_deals'' ''id'' i"

definition greenspot_deal_patch :: "lib_env \<Rightarrow> request \<Rightarrow> string \<Rightarrow> handler_run" where
  "greenspot_deal_patch E rq i = greenspot_patch_by_id E rq ''crm_deals'' ''id'' i"

definition greenspot_tasks_get :: "lib_env \<Rightarrow> request \<Rightarrow> handler_run" where
  "greenspot_tasks_get E rq = greenspot_list E rq ''crm_tasks'' ''updated_at.desc''"

definition greenspot_tasks_post :: "lib_env \<Rightarrow> request \<Rightarrow> handler_run" where
  "greenspot_tasks_post E rq = greenspot_create E rq ''crm_tasks''"

definition greenspot_task_get :: "lib_env \<Rightarrow> request \<Rightarrow> string \<Rightarrow> handler_run" where
  "greenspot_task_get E rq i = greenspot_get_by_id E rq ''crm_tasks'' ''id'' i"

definition greenspot_task_patch :: "lib_env \<Rightarrow> request \<Rightarrow> string \<Rightarrow> handler_run" where
  "greenspot_task_patch E rq i = greenspot_patch_by_id E rq ''crm_tasks'' ''id'' i"

definition greenspot_activities_get :: "lib_env \<Rightarrow> request \<Rightarrow> handler_run" where
  "greenspot_activities_get E rq = greenspot_list E rq ''crm_activities'' ''occurred_at.desc''"

definition greenspot_activities_post :: "lib_env \<Rightarrow> request \<Rightarrow> handler_run" where
  "greenspot_activities_post E rq = greenspot_create E rq ''crm_activities''"

definition greenspot_activity_get :: "lib_env \<Rightarrow> request \<Rightarrow> string \<Rightarrow> handler_run" where
  "greenspot_activity_get E rq i = greenspot_get_by_id E rq ''crm_activities'' ''id'' i"

definition greenspot_activity_patch :: "lib_env \<Rightarrow> request \<Rightarrow> string \<Rightarrow> handler_run" where
  "greenspot_activity_patch E rq i = greenspot_patch_by_id E rq ''crm_activities'' ''id'' i"

definition greenspot_deal_stages_get :: "lib_env \<Rightarrow> request \<Rightarrow> handler_run" where
  "greenspot_deal_stages_get E rq = greenspot_list E rq ''crm_deal_stages'' ''order.asc''"

definition greenspot_deal_stages_post :: "lib_env \<Rightarrow> request \<Rightarrow> handler_run" where
  "greenspot_deal_stages_post E rq = greenspot_create E rq ''crm_deal_stages''"

definition greenspot_deal_stage_patch :: "lib_env \<Rightarrow> request \<Rightarrow> string \<Rightarrow> handler_run" where
  "greenspot_deal_stage_patch E rq i = greenspot_patch_by_id E rq ''crm_deal_stages'' ''key'' i"

definition greenspot_customization_get_route :: "lib_env \<Rightarrow> request \<Rightarrow> string \<Rightarrow> handler_run" where
  "greenspot_customization_get_route E rq entity_id = greenspot_customization_get E rq entity_id"

definition greenspot_customization_patch_route :: "lib_env \<Rightarrow> request \<Rightarrow> string \<Rightarrow> handler_run" where
  "greenspot_customization_patch_route E rq entity_id = greenspot_customization_patch E rq entity_id"

text \<open>
  The routes of the router of \<^verbatim>\<open>app\<close> under \<^verbatim>\<open>/api/greenspot\<close>: the path after that
  prefix, the method, and the handler, whose last argument is the path parameter, if there is one.
\<close>

definition greenspot_routes :: "(string \<times> string \<times> (lib_env \<Rightarrow> request \<Rightarrow> string \<Rightarrow> handler_run)) list" where
  "greenspot_routes = [
     (''/dashboard'', ''GET'', (\<lambda>E rq _. greenspot_dashboard E rq)),
     (''/companies'', ''GET'', (\<lambda>E rq _. greenspot_companies_get E rq)),
     (''/companies'', ''POST'', (\<lambda>E rq _. greenspot_companies_post E rq)),
     (''/companies/{id}'', ''GET'', greenspot_company_get),
     (''/companies/{id}'', ''PATCH'', greenspot_company_patch),
     (''/contacts'', ''GET'', (\<lambda>E rq _. greenspot_contacts_get E rq)),
     (''/contacts'', ''POST'', (\<lambda>E rq _. greenspot_contacts_post E rq)),
     (''/contacts/{id}'', ''GET'', greenspot_contact_get),
     (''/contacts/{id}'', ''PATCH'', greenspot_contact_patch),
     (''/contacts/{id}'', ''DELETE'', greenspot_contact_delete),
     (''/deals'', ''GET'', (\<lambda>E rq _. greenspot_deals_get E rq)),
     (''/deals'', ''POST'', (\<lambda>E rq _. greenspot_deals_post E rq)),
     (''/deals/{id}'', ''GET'', greenspot_deal_get),
     (''/deals/{id}'', ''PATCH'', greenspot_deal_patch),
     (''/tasks'', ''GET'', (\<lambda>E rq _. greenspot_tasks_get E rq)),
     (''/tasks'', ''POST'', (\<lambda>E rq _. greenspot_tasks_post E rq)),
     (''/tasks/{id}'', ''GET'', greenspot_task_get),
     (''/tasks/{id}'', ''PATCH'', greenspot_task_patch),
     (''/activities'', ''GET'', (\<lambda>E rq _. greenspot_activities_get E rq)),
     (''/activities'', ''POST'', (\<lambda>E rq _. greenspot_activities_post E rq)),
     (''/activities/{id}'', ''GET'', greenspot_activity_get),
     (''/activities/{id}'', ''PATCH'', greenspot_activity_patch),
     (''/deal-stages'', ''GET'', (\<lambda>E rq _. greenspot_deal_stages_get E rq)),
     (''/deal-stages'', ''POST'', (\<lambda>E rq _. greenspot_deal_stages_post E rq)),
     (''/deal-stages/{key}'', ''PATCH'', greenspot_deal_stage_patch),
     (''/pipelines'', ''GET'', (\<lambda>E rq _. greenspot_pipelines_get E rq)),
     (''/pipelines'', ''POST'', (\<lambda>E rq _. greenspot_pipelines_post E rq)),
     (''/pipelines'', ''PUT'', (\<lambda>E rq _. greenspot_pipelines_post E rq)),
     (''/audit-events'', ''GET'', (\<lambda>E rq _. greenspot_audit_events E rq)),
     (''/customization/{entity_id}'', ''GET'', greenspot_customization_get_route),
     (''/customization/{entity_id}'', ''PATCH'', greenspot_customization_patch_route),
     (''/customization/{entity_id}'', ''PUT'', greenspot_customization_patch_route)]"

section \<open>Every route is behind a session and stays on its tables\<close>

definition CRM_TABLES :: "string list" where
  "CRM_TABLES = [''crm_companies'', ''crm_contacts'', ''crm_deals'', ''crm_tasks'', ''crm_activities'', ''crm_deal_stages'',
     ''crm_audit_events'', ''crm_deal_pipelines'', ''crm_deal_pipeline_stages'', ''crm_field_definitions'',
     ''crm_field_options'', ''crm_layout_sections'', ''crm_layout_fields'']"

definition crm_request :: "lib_env \<Rightarrow> plane_request \<Rightarrow> bool" where
  "crm_request E q \<longleftrightarrow> (\<exists>pl. lib_supabase_env (mx_vars E) = Ok pl \<and> list_ex (\<lambda>t. plane_target E pl t q) CRM_TABLES)"

lemma crm_requestI: "lib_supabase_env (mx_vars E) = Ok pl \<Longrightarrow> t \<in> set CRM_TABLES \<Longrightarrow> plane_target E pl t q \<Longrightarrow> crm_request E q"
  by (auto simp: crm_request_def list_ex_iff)

lemma sends_rest [sends_intros]: "table \<in> set CRM_TABLES \<Longrightarrow> sends (crm_request E) (greenspot_rest_call E m table pairs b)"
  unfolding greenspot_rest_call_def lib_plane_def
  by (intro sends_bind_lift sends_bind sends_lib_call sends_lift) (rule crm_requestI, assumption+, rule plane_target_call(1))

lemma sends_result [sends_intros]: "sends P (greenspot_result E rid mode st f r)"
  by (cases r) (simp add: greenspot_result_def sends_intros)

lemma sends_parts [sends_intros]:
  "sends P (greenspot_body E rq n)" "sends P (greenspot_large_body E rq)" "sends P (customization_object rid mode i)"
  by (simp_all add: greenspot_body_def greenspot_large_body_def customization_object_def Let_def sends_lift)

lemma sends_writes [sends_intros]:
  "t \<in> set CRM_TABLES \<Longrightarrow> sends (crm_request E) (greenspot_insert E rid t rows)"
  "t \<in> set CRM_TABLES \<Longrightarrow> sends (crm_request E) (greenspot_insert_rows E rid t sel rows)"
  "t \<in> set CRM_TABLES \<Longrightarrow> sends (crm_request E) (greenspot_delete_where E b t c flt)"
  unfolding greenspot_insert_def greenspot_insert_rows_def greenspot_delete_where_def by (intro sends_intros; simp)+

lemma confined_generic:
  "t \<in> set CRM_TABLES \<Longrightarrow> \<exists>qs. snd (greenspot_list E rq t ord tr) = tr @ qs \<and> (\<forall>q\<in>set qs. crm_request E q)"
  "t \<in> set CRM_TABLES \<Longrightarrow> \<exists>qs. snd (greenspot_create E rq t tr) = tr @ qs \<and> (\<forall>q\<in>set qs. crm_request E q)"
  "t \<in> set CRM_TABLES \<Longrightarrow> \<exists>qs. snd (greenspot_get_by_id E rq t c i tr) = tr @ qs \<and> (\<forall>q\<in>set qs. crm_request E q)"
  "t \<in> set CRM_TABLES \<Longrightarrow> \<exists>qs. snd (greenspot_patch_by_id E rq t c i tr) = tr @ qs \<and> (\<forall>q\<in>set qs. crm_request E q)"
  "t \<in> set CRM_TABLES \<Longrightarrow> \<exists>qs. snd (greenspot_delete_by_id E rq t c i tr) = tr @ qs \<and> (\<forall>q\<in>set qs. crm_request E q)"
  unfolding greenspot_list_def greenspot_create_def greenspot_get_by_id_def greenspot_patch_by_id_def
    greenspot_delete_by_id_def Let_def
  by (intro sends_run sends_intros; assumption)+

lemma confined_special:
  "\<exists>qs. snd (greenspot_dashboard E rq tr) = tr @ qs \<and> (\<forall>q\<in>set qs. crm_request E q)"
  "\<exists>qs. snd (greenspot_pipelines_get E rq tr) = tr @ qs \<and> (\<forall>q\<in>set qs. crm_request E q)"
  "\<exists>qs. snd (greenspot_pipelines_post E rq tr) = tr @ qs \<and> (\<forall>q\<in>set qs. crm_request E q)"
  "\<exists>qs. snd (greenspot_customization_get E rq i tr) = tr @ qs \<and> (\<forall>q\<in>set qs. crm_request E q)"
  "\<exists>qs. snd (greenspot_customization_patch E rq i tr) = tr @ qs \<and> (\<forall>q\<in>set qs. crm_request E q)"
  unfolding greenspot_dashboard_def greenspot_pipelines_get_def greenspot_pipelines_post_def
    greenspot_customization_get_def greenspot_customization_patch_def Let_def
  by (intro sends_run sends_intros; simp add: CRM_TABLES_def)+

lemma refuses_all:
  assumes "rq_principal rq = None"
  shows "greenspot_list E rq t ord tr = (standard_error_response 401 ''Unauthorized'', tr)"
    "greenspot_create E rq t tr = (standard_error_response 401 ''Unauthorized'', tr)"
    "greenspot_get_by_id E rq t c i tr = (standard_error_response 401 ''Unauthorized'', tr)"
    "greenspot_patch_by_id E rq t c i tr = (standard_error_response 401 ''Unauthorized'', tr)"
    "greenspot_delete_by_id E rq t c i tr = (standard_error_response 401 ''Unauthorized'', tr)"
    "greenspot_dashboard E rq tr = (standard_error_response 401 ''Unauthorized'', tr)"
    "greenspot_pipelines_get E rq tr = (standard_error_response 401 ''Unauthorized'', tr)"
    "greenspot_pipelines_post E rq tr = (standard_error_response 401 ''Unauthorized'', tr)"
    "greenspot_customization_get E rq i tr = (standard_error_response 401 ''Unauthorized'', tr)"
    "greenspot_customization_patch E rq i tr = (standard_error_response 401 ''Unauthorized'', tr)"
  unfolding greenspot_list_def greenspot_create_def greenspot_get_by_id_def greenspot_patch_by_id_def
    greenspot_delete_by_id_def greenspot_dashboard_def greenspot_pipelines_get_def greenspot_pipelines_post_def
    greenspot_customization_get_def greenspot_customization_patch_def Let_def assms
  by (rule no_session)+

lemmas greenspot_wrappers = greenspot_audit_events_def greenspot_companies_get_def greenspot_companies_post_def
  greenspot_company_get_def greenspot_company_patch_def greenspot_contacts_get_def greenspot_contacts_post_def
  greenspot_contact_get_def greenspot_contact_patch_def greenspot_contact_delete_def greenspot_deals_get_def
  greenspot_deals_post_def greenspot_deal_get_def greenspot_deal_patch_def greenspot_tasks_get_def
  greenspot_tasks_post_def greenspot_task_get_def greenspot_task_patch_def greenspot_activities_get_def
  greenspot_activities_post_def greenspot_activity_get_def greenspot_activity_patch_def greenspot_deal_stages_get_def
  greenspot_deal_stages_post_def greenspot_deal_stage_patch_def greenspot_customization_get_route_def
  greenspot_customization_patch_route_def

definition greenspot_run ::
  "lib_env \<Rightarrow> (string \<times> string \<times> (lib_env \<Rightarrow> request \<Rightarrow> string \<Rightarrow> handler_run)) \<times> string \<Rightarrow> request \<Rightarrow> handler_run" where
  "greenspot_run E = (\<lambda>((path, method, h), i) rq. h E rq i)"

definition greenspot_route_ok :: "lib_env \<Rightarrow> (lib_env \<Rightarrow> request \<Rightarrow> string \<Rightarrow> handler_run) \<Rightarrow> bool" where
  "greenspot_route_ok E h \<longleftrightarrow> (\<forall>rq i tr. (\<exists>qs. snd (h E rq i tr) = tr @ qs \<and> (\<forall>q\<in>set qs. crm_request E q))
    \<and> (rq_principal rq = None \<longrightarrow> h E rq i tr = (standard_error_response 401 ''Unauthorized'', tr)))"

lemma greenspot_routes_ok: "list_all (\<lambda>(path, method, h). greenspot_route_ok E h) greenspot_routes"
  unfolding greenspot_routes_def list.pred_inject prod.case greenspot_route_ok_def greenspot_wrappers
  by (intro conjI allI impI confined_special confined_generic refuses_all TrueI; simp add: CRM_TABLES_def)

lemma greenspot_route_cases:
  assumes "(path, method, h) \<in> set greenspot_routes"
  shows "(\<exists>qs. snd (h E rq i tr) = tr @ qs \<and> (\<forall>q\<in>set qs. crm_request E q))
    \<and> (rq_principal rq = None \<longrightarrow> h E rq i tr = (standard_error_response 401 ''Unauthorized'', tr))"
proof -
  have "greenspot_route_ok E h" using assms greenspot_routes_ok [of E] by (force simp: list_all_iff)
  then show ?thesis unfolding greenspot_route_ok_def by blast
qed

interpretation gs: session_api "set greenspot_routes \<times> UNIV" "greenspot_run E" "crm_request E" for E
proof
  fix a rq tr
  assume a: "a \<in> set greenspot_routes \<times> (UNIV :: string set)"
  then obtain path mth h i where r: "a = ((path, mth, h), i)" "(path, mth, h) \<in> set greenspot_routes"
    by (cases a) auto
  show "\<exists>qs. snd (greenspot_run E a rq tr) = tr @ qs \<and> (\<forall>q\<in>set qs. crm_request E q)"
    using greenspot_route_cases [OF r(2)] by (simp add: greenspot_run_def r(1))
  assume "rq_principal rq = None"
  then show "greenspot_run E a rq tr = (standard_error_response 401 ''Unauthorized'', tr)"
    using greenspot_route_cases [OF r(2)] by (simp add: greenspot_run_def r(1))
qed

text \<open>
  Whatever requests are made to the routes of the customer-relations API, by
  whomever, the data plane sees exactly what the requests with a session
  cause, and all of it goes to a CRM table, under the service key of the configuration.
\<close>

theorem greenspot_confined:
  assumes "fst ` set rs \<subseteq> set greenspot_routes \<times> UNIV"
  shows "\<exists>qs. snd (serve (greenspot_run E) rs tr) = tr @ qs
    \<and> snd (serve (greenspot_run E) (filter has_session rs) tr) = tr @ qs \<and> list_all (crm_request E) qs"
  using gs.serve_confined [OF assms, of E tr] gs.serve_without_session [OF assms, of E tr]
  by (auto simp: list_all_iff)

section \<open>Lists are bounded\<close>

definition limit_ok :: "string \<Rightarrow> bool" where
  "limit_ok v \<longleftrightarrow> (\<exists>n. v = dec_str n \<and> 1 \<le> n \<and> n \<le> 200)"

lemma limit_ok_dec: "1 \<le> n \<Longrightarrow> n \<le> 200 \<Longrightarrow> limit_ok (dec_str n)"
  by (auto simp: limit_ok_def)

lemma scan_limits:
  assumes "fold list_scan_step kvs (ps, b, a, s) = (ps', b', a', s')"
    and "\<forall>(k, v)\<in>set ps. k = ''limit'' \<and> limit_ok v" "b \<longleftrightarrow> ps \<noteq> []"
  shows "(\<forall>(k, v)\<in>set ps'. k = ''limit'' \<and> limit_ok v) \<and> (b' \<longleftrightarrow> ps' \<noteq> [])"
  using assms
proof (induction kvs arbitrary: ps b a s)
  case (Cons kv kvs)
  obtain ps1 b1 a1 s1 where st: "list_scan_step kv (ps, b, a, s) = (ps1, b1, a1, s1)"
    by (cases "list_scan_step kv (ps, b, a, s)")
  have l: "limit_ok (dec_str (max 1 (min 200 n)))" for n by (rule limit_ok_dec) simp_all
  have "(\<forall>(k, v)\<in>set ps1. k = ''limit'' \<and> limit_ok v) \<and> (b1 \<longleftrightarrow> ps1 \<noteq> [])"
    using st Cons.prems(2,3) l
    by (cases kv) (auto simp: list_scan_step_def split: if_splits option.splits)
  then show ?case using Cons.IH Cons.prems(1) st by simp
qed simp

lemma limit_50: "limit_ok ''50''"
proof -
  have "''50'' = dec_str 50" by code_simp
  then show ?thesis using limit_ok_dec [of 50] by simp
qed

text \<open>
  A list request always carries a limit, and no limit it carries is zero or above 200,
  whatever the client asked for.
\<close>

theorem greenspot_list_limits:
  "''limit'' \<in> fst ` set (list_params X table ord query)
   \<and> (\<forall>v. (''limit'', v) \<in> set (list_params X table ord query) \<longrightarrow> limit_ok v)"
proof (cases query)
  case None
  then show ?thesis using limit_50 by (auto simp: list_params_def)
next
  case (Some q)
  obtain ps b a s where f: "fold list_scan_step (form_parse X q) ([], False, False, None) = (ps, b, a, s)"
    by (cases "fold list_scan_step (form_parse X q) ([], False, False, None)")
  have p: "(\<forall>(k, v)\<in>set ps. k = ''limit'' \<and> limit_ok v) \<and> (b \<longleftrightarrow> ps \<noteq> [])"
    by (rule scan_limits [OF f]) simp_all
  then have "''limit'' \<in> fst ` set (ps @ (if \<not> b then [(''limit'', ''50'')] else []))"
    by (cases ps) force+
  then show ?thesis using p f Some limit_50
    by (auto simp: list_params_def search_pairs_def Let_def split: option.splits if_splits)
qed

section \<open>Pipelines survive being written and read\<close>

text \<open>A stage and a pipeline as a client sends them.\<close>

record crm_stage =
  cs_key :: string
  cs_label :: string
  cs_order :: int
  cs_won :: bool
  cs_lost :: bool
  cs_active :: bool

record crm_pipeline =
  cp_id :: string
  cp_name :: string
  cp_description :: string
  cp_stages :: "crm_stage list"

definition stage_json :: "crm_stage \<Rightarrow> json" where
  "stage_json s = JObj [(''key'', JStr (cs_key s)), (''label'', JStr (cs_label s)), (''order'', jint (cs_order s)),
     (''isClosedWon'', JBool (cs_won s)), (''isClosedLost'', JBool (cs_lost s)), (''isActive'', JBool (cs_active s))]"

definition pipeline_json :: "crm_pipeline \<Rightarrow> json" where
  "pipeline_json p = JObj [(''id'', JStr (cp_id p)), (''name'', JStr (cp_name p)),
     (''description'', JStr (cp_description p)), (''stages'', JArr (map stage_json (cp_stages p)))]"

definition stage_ok :: "crm_stage \<Rightarrow> bool" where
  "stage_ok s = (cs_key s \<noteq> [] \<and> - (2 ^ 63) \<le> cs_order s \<and> cs_order s < 2 ^ 63)"

definition pipeline_ok :: "crm_pipeline \<Rightarrow> bool" where
  "pipeline_ok p = (cp_id p \<noteq> [] \<and> cp_name p \<noteq> [] \<and> list_all stage_ok (cp_stages p))"

definition stored_stage :: "crm_pipeline \<Rightarrow> crm_stage \<Rightarrow> json" where
  "stored_stage p s = JObj [(''pipeline_id'', JStr (cp_id p)), (''stage_key'', JStr (cs_key s)), (''label'', JStr (cs_label s)),
     (''order'', jint (cs_order s)), (''is_closed_won'', JBool (cs_won s)), (''is_closed_lost'', JBool (cs_lost s)),
     (''is_active'', JBool (cs_active s))]"

lemma stage_row_stored: "stage_ok s \<Longrightarrow> stage_row (pipeline_json p) (stage_json s) = Some (stored_stage p s)"
  by (simp add: stage_row_def stage_json_def pipeline_json_def stored_stage_def stage_ok_def get_str_def get_i64_def
      get_bool_def as_bool_def str_or_def jopt_def)

lemma push_stored: "push_stage (stored_stage p s) m = m(cp_id p := m (cp_id p) @ [stage_json s])"
  by (simp add: push_stage_def stored_stage_def get_str_def stage_view_def stage_json_def jget_or_def)

lemma rows_of_pipelines:
  assumes "list_all pipeline_ok ps"
  shows "stage_rows (map pipeline_json ps) = concat (map (\<lambda>p. map (stored_stage p) (cp_stages p)) ps)"
    and "filter pipeline_valid (map pipeline_json ps) = map pipeline_json ps"
proof -
  have f: "filter_map (stage_row (pipeline_json p)) (map stage_json ss) = map (stored_stage p) ss" if "list_all stage_ok ss" for p ss
    using that by (induction ss) (simp_all add: stage_row_stored)
  show v: "filter pipeline_valid (map pipeline_json ps) = map pipeline_json ps"
    using assms by (induction ps) (simp_all add: pipeline_ok_def pipeline_valid_def pipeline_json_def str_or_def get_str_def)
  have a: "get_array ''stages'' (pipeline_json p) = map stage_json (cp_stages p)" for p
    by (simp add: get_array_def pipeline_json_def as_array_def)
  have "concat (map (\<lambda>p. filter_map (stage_row p) (get_array ''stages'' p)) (map pipeline_json ps))
      = concat (map (\<lambda>p. map (stored_stage p) (cp_stages p)) ps)"
    using assms by (induction ps) (simp_all add: a f pipeline_ok_def)
  then show "stage_rows (map pipeline_json ps) = concat (map (\<lambda>p. map (stored_stage p) (cp_stages p)) ps)"
    unfolding stage_rows_def v .
qed

lemma push_pipeline:
  "fold push_stage (map (stored_stage p) ss) m = m(cp_id p := m (cp_id p) @ map stage_json ss)"
  by (induction ss arbitrary: m) (simp_all add: push_stored)

lemma push_pipelines_other:
  "i \<notin> cp_id ` set ps \<Longrightarrow> fold push_stage (concat (map (\<lambda>p. map (stored_stage p) (cp_stages p)) ps)) m i = m i"
  by (induction ps arbitrary: m) (simp_all add: push_pipeline)

lemma push_pipelines:
  assumes "distinct (map cp_id ps)" "p \<in> set ps"
  shows "fold push_stage (concat (map (\<lambda>p. map (stored_stage p) (cp_stages p)) ps)) m (cp_id p) =
    m (cp_id p) @ map stage_json (cp_stages p)"
  using assms
proof (induction ps arbitrary: m)
  case (Cons r ps)
  show ?case
  proof (cases "p = r")
    case True
    then show ?thesis using Cons.prems push_pipelines_other by (simp add: push_pipeline)
  next
    case False
    then have "p \<in> set ps" "cp_id p \<noteq> cp_id r" using Cons.prems by (auto simp: image_iff)
    then show ?thesis using Cons by (simp add: push_pipeline)
  qed
qed simp

lemma pipeline_items_stored:
  assumes "distinct (map cp_id ps)" "\<forall>p\<in>set ps. m (cp_id p) = map stage_json (cp_stages p)"
  shows "pipeline_items m (map (pipeline_row \<circ> pipeline_json) ps) = map pipeline_json ps"
  using assms
proof (induction ps arbitrary: m)
  case (Cons p ps)
  have "\<forall>r\<in>set ps. (m(cp_id p := [])) (cp_id r) = map stage_json (cp_stages r)"
    using Cons.prems by (auto simp: image_iff)
  then show ?case using Cons
    by (simp add: pipeline_row_def pipeline_json_def str_or_def get_str_def jget_or_def Let_def fun_upd_def)
qed simp


section \<open>The order of a replacement\<close>

definition crm_step :: "lib_env \<Rightarrow> string \<times> string \<Rightarrow> plane_request \<Rightarrow> bool" where
  "crm_step E = (\<lambda>(method, table) q. pq_method q = method
     \<and> (\<exists>pl. lib_supabase_env (mx_vars E) = Ok pl \<and> plane_target E pl table q))"

lemma follows_rest [follows_intros]: "follows [crm_step E (m, table)] (greenspot_rest_call E m table pairs b)"
  unfolding greenspot_rest_call_def lib_plane_def
  by (intro follows_bind_lift follows_one follows_call follows_lift) (auto simp: crm_step_def intro: plane_target_call(1))

lemma follows_parts [follows_intros]:
  "follows [] (greenspot_large_body E rq)" "follows [] (customization_object rid mode i)"
  by (simp_all add: greenspot_large_body_def customization_object_def follows_lift)

lemma follows_writes [follows_intros]:
  "follows [crm_step E (''POST'', t)] (greenspot_insert E rid t rows)"
  "follows [crm_step E (''POST'', t)] (greenspot_insert_rows E rid t sel rows)"
  "follows [crm_step E (''DELETE'', t)] (greenspot_delete_where E b t c flt)"
  unfolding greenspot_insert_def greenspot_insert_rows_def greenspot_delete_where_def
  by (intro follows_when follows_one follows_try follows_rest follows_prod follows_lift)+

definition PIPELINE_STEPS :: "(string \<times> string) list" where
  "PIPELINE_STEPS = [(''GET'', ''crm_deal_pipelines''), (''DELETE'', ''crm_deal_pipeline_stages''),
     (''DELETE'', ''crm_deal_pipelines''), (''POST'', ''crm_deal_pipelines''), (''POST'', ''crm_deal_pipeline_stages'')]"

text \<open>
  A replacement of the pipelines is at most five requests, in this order: read
  the ids, delete the stages, delete the pipelines, insert the pipelines, insert the
  stages; so stages never outlive their pipeline and never precede it.
\<close>

theorem pipelines_replaced_in_order:
  "\<exists>qs steps. snd (greenspot_pipelines_post E rq tr) = tr @ qs \<and> subseq steps PIPELINE_STEPS
     \<and> list_all2 (crm_step E) steps qs"
  unfolding greenspot_pipelines_post_def Let_def
  by (rule follows_steps, rule follows_eq, (rule follows_intros)+, simp add: PIPELINE_STEPS_def)

section \<open>Observations\<close>

text \<open>An insertion that does not get through is taken for done, after the old rows are gone.\<close>

lemma insert_failure_ignored:
  assumes "lib_supabase_env (mx_vars E) = Ok (base, key)" "url_parse (mx_ext E) (base @ ''/rest/v1/'' @ table) = Ok u"
    and "\<And>q. mx_reply E tr q = Err e"
  shows "fst (greenspot_insert E rid table rows tr) = Ok ()"
  using assms by (simp add: greenspot_insert_def greenspot_rest_call_def lib_plane_def lib_call_def lib_send_def
      parse_upstream_url_or_500_def dz_when_def dz_try_def dz_bind_def)

text \<open>
  A layout names its fields by key when it is written and by id when it is read: written back as it
  was read, it places no field, unless an id happens to be a key.
\<close>

lemma layout_row_unknown: "keys (unwrap_or [] (as_str fid)) = None \<Longrightarrow> layout_row sid keys (n, fid) = None"
  by (simp add: layout_row_def)

lemma layout_by_id_lost:
  assumes "\<forall>s\<in>set sections. \<forall>f\<in>set (get_array ''fieldIds'' s). keys (unwrap_or [] (as_str f)) = None"
  shows "layout_rows names keys sections = []"
proof -
  have f: "filter_map (layout_row sid keys) (enumerate n fs) = []"
    if "\<forall>f\<in>set fs. keys (unwrap_or [] (as_str f)) = None" for sid fs n
    using that by (induction fs arbitrary: n) (simp_all add: layout_row_unknown)
  show ?thesis using assms f by (auto simp: layout_rows_def split: option.splits)
qed

section \<open>Witnesses\<close>

lemma wit_rest: "greenspot_rest_call wit_lib m t pairs b tr = (Ok (200, ''x''), tr @ [lib_request wit_lib ''k'' m
    (with_pairs pairs \<lparr>u_scheme = ''https'', u_host = Some ''d'', u_port = None, u_text = ''k/rest/v1/'' @ t, u_query = None\<rparr>)
    (case b of None \<Rightarrow> None | Some _ \<Rightarrow> Some ''return=representation'') b])"
  by (simp add: greenspot_rest_call_def lib_plane_def wit_lib_env wit_lib_call dz_bind_def)

theorem greenspot_confined_witness:
  "\<exists>qs. length qs = 5 \<and> list_all (crm_request wit_lib) qs
     \<and> snd (serve (greenspot_run wit_lib) [((hd greenspot_routes, []), wit_daisy_request)] []) = qs"
proof -
  let ?rs = "[((hd greenspot_routes, []), wit_daisy_request)] :: (_ \<times> request) list"
  have r: "fst ` set ?rs \<subseteq> set greenspot_routes \<times> UNIV" by (simp add: greenspot_routes_def)
  have "rq_principal wit_daisy_request \<noteq> None" by (simp add: wit_daisy_request_def)
  then have n: "length (snd (serve (greenspot_run wit_lib) ?rs [])) = 5"
    by (auto simp: greenspot_routes_def greenspot_run_def greenspot_dashboard_def Let_def dz_bind_def dz_try_def wit_rest
        require_session_def ok_or_def respond_def dz_run_def split_beta)
  obtain qs where "snd (serve (greenspot_run wit_lib) ?rs []) = [] @ qs" "list_all (crm_request wit_lib) qs"
    using greenspot_confined [OF r, of wit_lib "[]"] by blast
  with n show ?thesis by auto
qed

theorem greenspot_list_limits_witness:
  "\<exists>v. limit_ok v \<and> (''limit'', v) \<in> set (list_params (mx_ext wit_lib) ''crm_deals'' ''updated_at.desc'' None)"
proof -
  have "(''limit'', ''50'') \<in> set (list_params (mx_ext wit_lib) ''crm_deals'' ''updated_at.desc'' None)"
    by (simp add: list_params_def)
  then show ?thesis
    using greenspot_list_limits [of "mx_ext wit_lib" "''crm_deals''" "''updated_at.desc''" None] by blast
qed

definition wit_pipeline :: crm_pipeline where
  "wit_pipeline = \<lparr>cp_id = ''p'', cp_name = ''Sales'', cp_description = [],
     cp_stages = [\<lparr>cs_key = ''new'', cs_label = ''New'', cs_order = 0, cs_won = False, cs_lost = False, cs_active = True\<rparr>]\<rparr>"


end
