(* ===== verification/Greenbooks.thy ===== *)
theory Greenbooks
  imports Lib_Plane
begin

text \<open>
  The bookkeeping API of \<^verbatim>\<open>lib.rs\<close> over the \<^verbatim>\<open>gb_\<close> tables: lists, single rows, settings,
  and the creation and change of customers, vendors, tax codes, accounts, items and invoices.
  Payments, postings and reconciliations follow in \<open>Greenbooks_Ledger\<close>.
\<close>

section \<open>Constants\<close>

definition GREENBOOKS_DEFAULT_ORG_ID :: string where
  "GREENBOOKS_DEFAULT_ORG_ID = ''cd861b76-f85c-4afc-b3e8-8f85945c3132''"

definition GREENBOOKS_ACCOUNT_TYPES :: "string list" where
  "GREENBOOKS_ACCOUNT_TYPES = [''asset'', ''liability'', ''equity'', ''revenue'', ''expense'']"

definition GREENBOOKS_INVOICE_STATUSES :: "string list" where
  "GREENBOOKS_INVOICE_STATUSES = [''draft'', ''sent'', ''partially_paid'', ''paid'', ''overdue'', ''void'']"

definition GREENBOOKS_ACCOUNT_SELECT :: string where
  "GREENBOOKS_ACCOUNT_SELECT = ''id,org_id,code,name,account_type,sub_type,parent_id,description,is_active,is_system,normal_balance,currency,created_at,updated_at''"

definition GREENBOOKS_CUSTOMER_SELECT :: string where
  "GREENBOOKS_CUSTOMER_SELECT = ''id,org_id,name,email,phone,company,company_name,address,city,state,postal_code,country,tax_number,currency,payment_terms,is_active,notes,created_at,updated_at''"

definition GREENBOOKS_INVOICE_SELECT :: string where
  "GREENBOOKS_INVOICE_SELECT = ''id,org_id,invoice_number,contact_id,company_id,issue_date,due_date,status,subtotal,tax_amount,total,amount_paid,balance_due,currency,notes,terms,journal_entry_id,created_by,created_at,updated_at''"

definition GREENBOOKS_INVOICE_ITEM_SELECT :: string where
  "GREENBOOKS_INVOICE_ITEM_SELECT = ''id,invoice_id,item_id,description,quantity,unit_price,amount,account_id,tax_rate,tax_amount,sort_order,created_at''"

definition GREENBOOKS_PAYMENT_SELECT :: string where
  "GREENBOOKS_PAYMENT_SELECT = ''id,org_id,payment_number,invoice_id,amount,payment_date,payment_method,reference,notes,journal_entry_id,created_at''"

section \<open>Typed rows\<close>

text \<open>
  The derived deserialisation of the row types and the serialisation that follows it: a
  field of an option type is null or of its type, absent counts as null, and the
  members the type does not name are kept. A row of another shape makes the whole
  list unreadable. (A text that repeats a member, which the data plane does not send,
  is not told apart here.)
\<close>

datatype dto_type = TId | TStr | TBool | TI64 | TF64

definition dto_field :: "dto_type \<Rightarrow> json option \<Rightarrow> json option" where
  "dto_field ty v = (case (ty, v) of
     (TId, Some (JStr s)) \<Rightarrow> Some (JStr s)
   | (TId, _) \<Rightarrow> None
   | (_, None) \<Rightarrow> Some JNull
   | (_, Some JNull) \<Rightarrow> Some JNull
   | (TStr, Some x) \<Rightarrow> map_option JStr (as_str x)
   | (TBool, Some x) \<Rightarrow> map_option JBool (as_bool x)
   | (TI64, Some x) \<Rightarrow> map_option jint (as_i64 x)
   | (TF64, Some x) \<Rightarrow> map_option jrat (as_f64 x))"

definition dto_known :: "(string \<times> dto_type) list \<Rightarrow> json \<Rightarrow> (string \<times> json) list option" where
  "dto_known spec v = those (map (\<lambda>(k, ty). map_option (Pair k) (dto_field ty (jget k v))) spec)"

definition dto_extras :: "string list \<Rightarrow> (string \<times> json) list \<Rightarrow> (string \<times> json) list" where
  "dto_extras names ms = filter (\<lambda>(k, _). k \<notin> set names) ms"

definition dto_row :: "(string \<times> dto_type) list \<Rightarrow> json \<Rightarrow> json option" where
  "dto_row spec v = Option.bind (as_object v) (\<lambda>ms.
     map_option (\<lambda>known. JObj (known @ dto_extras (map fst spec) ms)) (dto_known spec v))"

definition strs :: "string list \<Rightarrow> (string \<times> dto_type) list" where
  "strs ks = map (\<lambda>k. (k, TStr)) ks"

definition GreenbooksAccountDto :: "(string \<times> dto_type) list" where
  "GreenbooksAccountDto = [(''id'', TId)] @ strs [''org_id'', ''code'', ''name'', ''account_type'', ''sub_type'', ''parent_id'',
     ''description''] @ [(''is_active'', TBool), (''is_system'', TBool)] @ strs [''normal_balance'', ''currency'', ''created_at'',
     ''updated_at'']"

definition GreenbooksCustomerDto :: "(string \<times> dto_type) list" where
  "GreenbooksCustomerDto = [(''id'', TId)] @ strs [''org_id'', ''name'', ''email'', ''phone'', ''company'', ''company_name'',
     ''address'', ''city'', ''state'', ''postal_code'', ''country'', ''tax_number'', ''currency''] @ [(''payment_terms'', TI64),
     (''is_active'', TBool)] @ strs [''notes'', ''created_at'', ''updated_at'']"

definition GreenbooksInvoiceItemDto :: "(string \<times> dto_type) list" where
  "GreenbooksInvoiceItemDto = strs [''id'', ''invoice_id'', ''item_id'', ''description''] @ [(''quantity'', TF64),
     (''unit_price'', TF64), (''amount'', TF64)] @ strs [''account_id''] @ [(''tax_rate'', TF64), (''tax_amount'', TF64),
     (''sort_order'', TI64)] @ strs [''created_at'']"

definition GreenbooksInvoiceDto :: "(string \<times> dto_type) list" where
  "GreenbooksInvoiceDto = [(''id'', TId)] @ strs [''org_id'', ''invoice_number'', ''contact_id'', ''company_id'', ''issue_date'',
     ''due_date'', ''status''] @ [(''subtotal'', TF64), (''tax_amount'', TF64), (''total'', TF64), (''amount_paid'', TF64),
     (''balance_due'', TF64)] @ strs [''currency'', ''notes'', ''terms'', ''journal_entry_id'', ''created_by'', ''created_at'',
     ''updated_at'']"

definition GreenbooksPaymentDto :: "(string \<times> dto_type) list" where
  "GreenbooksPaymentDto = strs [''id'', ''org_id'', ''payment_number'', ''invoice_id''] @ [(''amount'', TF64)]
     @ strs [''payment_date'', ''payment_method'', ''reference'', ''notes'', ''journal_entry_id'', ''created_at'']"

text \<open>The items of an invoice are a list, empty when they are absent.\<close>

definition invoice_dto :: "json \<Rightarrow> json option" where
  "invoice_dto v = Option.bind (as_object v) (\<lambda>ms.
     Option.bind (dto_known GreenbooksInvoiceDto v) (\<lambda>known.
       map_option (\<lambda>its. JObj (known @ [(''items'', JArr its)] @ dto_extras (''items'' # map fst GreenbooksInvoiceDto) ms))
         (case jget ''items'' v of
            None \<Rightarrow> Some []
          | Some (JArr rs) \<Rightarrow> those (map (dto_row GreenbooksInvoiceItemDto) rs)
          | Some _ \<Rightarrow> None)))"

definition parse_rows :: "ext \<Rightarrow> (json \<Rightarrow> json option) \<Rightarrow> string \<Rightarrow> json list" where
  "parse_rows X dto txt = unwrap_or [] (those (map dto (json_rows X txt)))"

section \<open>Answers\<close>

definition gb_answer :: "lib_env \<Rightarrow> (string \<Rightarrow> response) \<Rightarrow> reply \<Rightarrow> response" where
  "gb_answer E f r = (case r of
     Inl e \<Rightarrow> legacy_error_response 500 e
   | Inr (st, txt) \<Rightarrow> if plane_ok st then f txt else legacy_error_response 500 (lib_supabase_error_message (mx_ext E) txt))"

text \<open>The rows a list answers with, of type \<^verbatim>\<open>Value\<close> or of a row type.\<close>

definition rows_answer :: "lib_env \<Rightarrow> (json \<Rightarrow> json option) \<Rightarrow> string \<Rightarrow> response" where
  "rows_answer E dto txt = json_ok (JArr (parse_rows (mx_ext E) dto txt))"

definition row_or_404 :: "string \<Rightarrow> json option \<Rightarrow> response" where
  "row_or_404 missing row = (case row of Some v \<Rightarrow> json_ok v | None \<Rightarrow> legacy_error_response 404 missing)"

definition row_or_empty :: "lib_env \<Rightarrow> string \<Rightarrow> response" where
  "row_or_empty E txt = json_ok (unwrap_or (JObj []) (parse_one (mx_ext E) txt))"

definition gb_get :: "lib_env \<Rightarrow> string \<Rightarrow> (string \<times> string) list \<Rightarrow> (string \<Rightarrow> response) \<Rightarrow> response daisy" where
  "gb_get E table pairs f =
     dz_bind (lib_plane E) (\<lambda>pl.
     dz_bind (lib_call E pl ''GET'' table pairs None None) (\<lambda>r. respond (gb_answer E f r)))"

abbreviation eq_org :: "string \<times> string" where
  "eq_org \<equiv> (''org_id'', ''eq.'' @ GREENBOOKS_DEFAULT_ORG_ID)"

text \<open>\<^verbatim>\<open>q.get(\"active\").map(|v| v == \"true\")\<close> and \<^verbatim>\<open>s.replace(\",\", \"\\\\,\")\<close>.\<close>

definition flag :: "query \<Rightarrow> string \<Rightarrow> bool option" where
  "flag q k = map_option (\<lambda>v. v = ''true'') (q k)"

definition escape_commas :: "string \<Rightarrow> string" where
  "escape_commas s = concat (map (\<lambda>c. if c = CHR '','' then [CHR 92, CHR '',''] else [c]) s)"

definition ilike :: "string list \<Rightarrow> string \<Rightarrow> string" where
  "ilike cols s = (let e = escape_commas s in str_join '','' (map (\<lambda>c. c @ ''.ilike.*'' @ e @ ''*'') cols))"

section \<open>Lists\<close>

definition greenbooks_list_accounts :: "lib_env \<Rightarrow> query \<Rightarrow> handler_run" where
  "greenbooks_list_accounts E q = dz_run (
     let account_type = trimmed (q ''type'')
     in case opt_filter (\<lambda>t. t \<notin> set GREENBOOKS_ACCOUNT_TYPES) account_type of
          Some t \<Rightarrow> respond (legacy_error_response 400 (''Invalid account type: '' @ t))
        | None \<Rightarrow> (case parse_bool_query_param (q ''active'') of
            Inl msg \<Rightarrow> respond (legacy_error_response 400 msg)
          | Inr active \<Rightarrow> gb_get E ''gb_accounts''
              ([(''select'', GREENBOOKS_ACCOUNT_SELECT), eq_org, (''order'', ''code.asc'')]
               @ opt_pair ''account_type'' (\<lambda>t. eq_str t) account_type @ opt_pair ''is_active'' (\<lambda>b. eq_bool b) active)
              (rows_answer E (dto_row GreenbooksAccountDto))))"

definition greenbooks_get_account :: "lib_env \<Rightarrow> string \<Rightarrow> handler_run" where
  "greenbooks_get_account E i = dz_run (gb_get E ''gb_accounts''
     [(''select'', GREENBOOKS_ACCOUNT_SELECT), (''id'', eq_str i), (''limit'', ''1'')]
     (\<lambda>txt. row_or_404 ''Account not found'' (head_opt (parse_rows (mx_ext E) (dto_row GreenbooksAccountDto) txt))))"

definition relation_missing :: "string \<Rightarrow> bool" where
  "relation_missing msg = (let m = to_ascii_lowercase msg
     in str_contains ''relation'' m \<and> str_contains ''gb_customers'' m \<and> str_contains ''does not exist'' m)"

definition rpc_missing :: "string \<Rightarrow> bool" where
  "rpc_missing msg = (let m = to_ascii_lowercase msg
     in str_contains ''gb_customers_list_with_open_balance'' m \<and> str_contains ''does not exist'' m)"

text \<open>The plain query of the table, when the stored procedure does not exist.\<close>

definition list_customers_fallback ::
  "lib_env \<Rightarrow> string \<times> string \<Rightarrow> string option \<Rightarrow> bool option \<Rightarrow> int option \<Rightarrow> response daisy" where
  "list_customers_fallback E pl search active limit =
     dz_bind (lib_call E pl ''GET'' ''gb_customers''
       ([(''select'', GREENBOOKS_CUSTOMER_SELECT), eq_org, (''order'', ''name.asc'')]
        @ opt_pair ''is_active'' (\<lambda>b. eq_bool b) active
        @ opt_pair ''or'' (ilike [''name'', ''email'', ''company'', ''company_name'']) search
        @ opt_pair ''limit'' int_str limit) None None) (\<lambda>r. respond (case r of
       Inl e \<Rightarrow> legacy_error_response 500 e
     | Inr (st, txt) \<Rightarrow>
         if plane_ok st then rows_answer E (dto_row GreenbooksCustomerDto) txt
         else let msg = lib_supabase_error_message (mx_ext E) txt
           in if relation_missing msg then json_ok (JArr []) else legacy_error_response 500 msg))"

definition greenbooks_list_customers :: "lib_env \<Rightarrow> query \<Rightarrow> handler_run" where
  "greenbooks_list_customers E q = dz_run (
     let search = trimmed (q ''search'')
     in case parse_bool_query_param (q ''active'') of
          Inl msg \<Rightarrow> respond (legacy_error_response 400 msg)
        | Inr active \<Rightarrow>
            let limit = map_option (clamp_int 1 500) (query_i64 q ''limit'')
            in dz_bind (lib_plane E) (\<lambda>pl.
               dz_bind (lib_post E pl ''rpc/gb_customers_list_with_open_balance'' None
                   (JObj [(''p_org_id'', JStr GREENBOOKS_DEFAULT_ORG_ID), (''p_search'', jopt_str search),
                          (''p_active'', jopt JBool active), (''p_limit'', jopt jint limit)])) (\<lambda>r. case r of
                 Inl e \<Rightarrow> respond (legacy_error_response 500 e)
               | Inr (st, txt) \<Rightarrow>
                   if plane_ok st then respond (rows_answer E (dto_row GreenbooksCustomerDto) txt)
                   else let msg = lib_supabase_error_message (mx_ext E) txt
                     in if rpc_missing msg then list_customers_fallback E pl search active limit
                        else if relation_missing msg then respond (json_ok (JArr []))
                        else respond (legacy_error_response 500 msg))))"

definition greenbooks_get_customer :: "lib_env \<Rightarrow> string \<Rightarrow> handler_run" where
  "greenbooks_get_customer E i = dz_run (gb_get E ''gb_customers''
     [(''select'', GREENBOOKS_CUSTOMER_SELECT), (''id'', eq_str i), (''limit'', ''1'')]
     (\<lambda>txt. row_or_404 ''Customer not found'' (head_opt (parse_rows (mx_ext E) (dto_row GreenbooksCustomerDto) txt))))"

definition greenbooks_list_journal_entries :: "lib_env \<Rightarrow> query \<Rightarrow> handler_run" where
  "greenbooks_list_journal_entries E q = dz_run (
     let status_filter = trimmed (q ''status'')
     in case opt_filter (\<lambda>s. s \<notin> set [''draft'', ''posted'', ''void'']) status_filter of
          Some s \<Rightarrow> respond (legacy_error_response 400 (''Invalid status: '' @ s))
        | None \<Rightarrow> gb_get E ''gb_journal_entries''
            ([(''select'', ''*''), eq_org, (''order'', ''entry_date.desc,created_at.desc'')]
             @ opt_pair ''status'' (\<lambda>s. eq_str s) status_filter @ opt_pair ''source'' (\<lambda>s. eq_str s) (trimmed (q ''source''))
             @ opt_pair ''source_id'' (\<lambda>s. eq_str s) (trimmed (q ''source_id'')) @ opt_pair ''limit'' int_str (query_i64 q ''limit''))
            (rows_answer E Some))"

definition greenbooks_list_tax_codes :: "lib_env \<Rightarrow> query \<Rightarrow> handler_run" where
  "greenbooks_list_tax_codes E q = dz_run (gb_get E ''gb_tax_codes''
     ([(''select'', ''*''), eq_org, (''order'', ''code.asc'')] @ opt_pair ''is_active'' (\<lambda>b. eq_bool b) (flag q ''active''))
     (rows_answer E Some))"

definition greenbooks_list_vendors :: "lib_env \<Rightarrow> query \<Rightarrow> handler_run" where
  "greenbooks_list_vendors E q = dz_run (gb_get E ''gb_vendors''
     ([(''select'', ''*''), eq_org, (''order'', ''name.asc'')] @ opt_pair ''is_active'' (\<lambda>b. eq_bool b) (flag q ''active'')
      @ opt_pair ''or'' (ilike [''name'', ''email'', ''company'']) (trimmed (q ''search'')))
     (rows_answer E Some))"

definition greenbooks_list_items :: "lib_env \<Rightarrow> query \<Rightarrow> handler_run" where
  "greenbooks_list_items E q = dz_run (gb_get E ''gb_items''
     ([(''select'', ''*''), eq_org, (''order'', ''name.asc'')]
      @ opt_pair ''is_active'' (\<lambda>b. eq_bool b) (opt_or (flag q ''active'') (Some True))
      @ opt_pair ''limit'' int_str (query_i64 q ''limit'')
      @ opt_pair ''or'' (ilike [''name'', ''description'']) (trimmed (q ''q'')))
     (rows_answer E Some))"

definition greenbooks_list_fiscal_periods :: "lib_env \<Rightarrow> handler_run" where
  "greenbooks_list_fiscal_periods E = dz_run (gb_get E ''gb_fiscal_periods''
     [(''select'', ''*''), eq_org, (''order'', ''start_date.desc'')] (rows_answer E Some))"

definition greenbooks_list_fx_rates :: "lib_env \<Rightarrow> query \<Rightarrow> handler_run" where
  "greenbooks_list_fx_rates E q = dz_run (gb_get E ''gb_fx_rates''
     ([(''select'', ''*''), eq_org, (''order'', ''effective_date.desc,created_at.desc''),
       (''limit'', int_str (unwrap_or 100 (query_i64 q ''limit'')))]
      @ opt_pair ''from_currency'' (\<lambda>v. eq_str v) (trimmed (q ''from'')) @ opt_pair ''to_currency'' (\<lambda>v. eq_str v) (trimmed (q ''to'')))
     (rows_answer E Some))"

definition audit_missing :: "string \<Rightarrow> bool" where
  "audit_missing msg = (let m = to_ascii_lowercase msg
     in str_contains ''gb_audit_trail'' m
        \<and> (str_contains ''does not exist'' m \<or> str_contains ''could not find the table'' m \<or> str_contains ''schema cache'' m))"

definition range_total :: "ext \<Rightarrow> string option \<Rightarrow> int" where
  "range_total X h = unwrap_or 0 (Option.bind (Option.bind h (hv_to_str X)) (\<lambda>s.
     Option.bind (head_opt (drop 1 (split_on (CHR ''/'') s))) parse_i64))"

definition greenbooks_list_audit :: "lib_env \<Rightarrow> query \<Rightarrow> handler_run" where
  "greenbooks_list_audit E q = dz_run (
     dz_bind (lib_plane E) (\<lambda>pl.
     dz_bind (lib_call_range E pl ''GET'' ''gb_audit_trail''
       ([(''select'', ''*''), eq_org, (''order'', ''created_at.desc''),
         (''limit'', int_str (unwrap_or 50 (query_i64 q ''limit''))), (''offset'', int_str (unwrap_or 0 (query_i64 q ''offset'')))]
        @ opt_pair ''entity_type'' (\<lambda>v. eq_str v) (trimmed (q ''entity_type''))
        @ opt_pair ''action'' (\<lambda>v. eq_str v) (trimmed (q ''action''))) (Some ''count=exact'') None) (\<lambda>(r, h).
       respond (case r of
         Inl e \<Rightarrow> legacy_error_response 500 e
       | Inr (st, txt) \<Rightarrow>
           if plane_ok st then
             let entries = json_rows (mx_ext E) txt; total = range_total (mx_ext E) h
             in json_ok (JObj [(''entries'', JArr entries), (''total'', jint (if total = 0 then int (length entries) else total))])
           else let msg = lib_supabase_error_message (mx_ext E) txt
             in if audit_missing msg then json_ok (JObj [(''entries'', JArr []), (''total'', jnat 0)])
                else legacy_error_response 500 msg))))"

definition greenbooks_list_bank_accounts :: "lib_env \<Rightarrow> handler_run" where
  "greenbooks_list_bank_accounts E = dz_run (gb_get E ''gb_bank_accounts''
     [(''select'', ''*''), eq_org, (''order'', ''name.asc'')] (rows_answer E Some))"

definition greenbooks_list_currencies :: "lib_env \<Rightarrow> query \<Rightarrow> handler_run" where
  "greenbooks_list_currencies E q = dz_run (gb_get E ''gb_currencies''
     ([(''select'', ''*''), (''order'', ''code.asc'')] @ opt_pair ''is_active'' (\<lambda>b. eq_bool b) (flag q ''active''))
     (rows_answer E Some))"

definition greenbooks_list_bills :: "lib_env \<Rightarrow> query \<Rightarrow> handler_run" where
  "greenbooks_list_bills E q = dz_run (gb_get E ''gb_bills''
     ([(''select'', ''*''), eq_org, (''order'', ''issue_date.desc,created_at.desc'')]
      @ opt_pair ''status'' (\<lambda>v. eq_str v) (trimmed (q ''status'')) @ opt_pair ''vendor_id'' (\<lambda>v. eq_str v) (trimmed (q ''vendor_id''))
      @ opt_pair ''limit'' int_str (query_i64 q ''limit''))
     (rows_answer E Some))"

definition greenbooks_list_invoices :: "lib_env \<Rightarrow> query \<Rightarrow> handler_run" where
  "greenbooks_list_invoices E q = dz_run (
     let status_filter = trimmed (q ''status'')
     in case opt_filter (\<lambda>s. s \<notin> set GREENBOOKS_INVOICE_STATUSES) status_filter of
          Some s \<Rightarrow> respond (legacy_error_response 400 (''Invalid status: '' @ s))
        | None \<Rightarrow> gb_get E ''gb_invoices''
            ([(''select'', GREENBOOKS_INVOICE_SELECT), eq_org, (''order'', ''issue_date.desc'')]
             @ opt_pair ''status'' (\<lambda>s. eq_str s) status_filter
             @ opt_pair ''contact_id'' (\<lambda>s. eq_str s) (trimmed (q ''contact_id'')) @ opt_pair ''limit'' int_str (query_i64 q ''limit''))
            (rows_answer E invoice_dto))"

text \<open>The invoice, then its items: a failure of either is answered as not found.\<close>

definition or_404 :: "lib_env \<Rightarrow> reply \<Rightarrow> string daisy" where
  "or_404 E r = dz_lift (case r of
     Inl e \<Rightarrow> Err (legacy_error_response 404 e)
   | Inr (st, txt) \<Rightarrow>
       if plane_ok st then Ok txt else Err (legacy_error_response 404 (lib_supabase_error_message (mx_ext E) txt)))"

definition greenbooks_get_invoice :: "lib_env \<Rightarrow> string \<Rightarrow> handler_run" where
  "greenbooks_get_invoice E i = dz_run (
     dz_bind (lib_plane E) (\<lambda>pl.
     dz_bind (lib_call E pl ''GET'' ''gb_invoices''
        [(''select'', GREENBOOKS_INVOICE_SELECT), (''id'', eq_str i), (''limit'', ''1'')] None None) (\<lambda>inv_resp.
     dz_bind (or_404 E inv_resp) (\<lambda>inv_text.
     dz_bind (dz_lift (ok_or (legacy_error_response 404 ''Invoice not found'')
        (head_opt (parse_rows (mx_ext E) invoice_dto inv_text)))) (\<lambda>invoice.
     dz_bind (lib_call E pl ''GET'' ''gb_invoice_items''
        [(''select'', GREENBOOKS_INVOICE_ITEM_SELECT), (''invoice_id'', eq_str i), (''order'', ''sort_order.asc'')] None None) (\<lambda>items_resp.
     dz_bind (or_404 E items_resp) (\<lambda>items_text.
       respond (json_ok (jset ''items''
         (JArr (parse_rows (mx_ext E) (dto_row GreenbooksInvoiceItemDto) items_text)) invoice)))))))))"

section \<open>Settings\<close>

definition default_settings :: json where
  "default_settings = JObj [(''org_id'', JStr GREENBOOKS_DEFAULT_ORG_ID), (''fiscal_year_start_month'', jnat 1),
     (''default_currency'', JStr ''CAD''), (''tax_registration_number'', JNull), (''company_name'', JNull),
     (''company_address'', JNull), (''invoice_prefix'', JStr ''INV-''), (''bill_prefix'', JStr ''BILL-''),
     (''payment_terms_days'', jnat 30), (''lock_completed_periods'', JBool False),
     (''require_approval_for_posting'', JBool False), (''auto_generate_period_locks'', JBool False)]"

definition greenbooks_get_settings :: "lib_env \<Rightarrow> handler_run" where
  "greenbooks_get_settings E = dz_run (
     dz_bind (dz_try (lib_plane E)) (\<lambda>env. case env of
        Inl _ \<Rightarrow> respond (json_ok default_settings)
      | Inr pl \<Rightarrow> dz_bind (dz_try (lib_call E pl ''GET'' ''gb_settings'' [(''select'', ''*''), eq_org, (''limit'', ''1'')] None None)) (\<lambda>r.
          respond (json_ok (case r of
             Inr (Inr (st, txt)) \<Rightarrow> if plane_ok st then unwrap_or default_settings (parse_one (mx_ext E) txt) else default_settings
           | _ \<Rightarrow> default_settings)))))"

definition json_object :: "json \<Rightarrow> (string \<times> json) list daisy" where
  "json_object v = dz_lift (ok_or (legacy_error_response 400 ''JSON object expected'') (as_object v))"

definition greenbooks_put_settings :: "lib_env \<Rightarrow> request \<Rightarrow> handler_run" where
  "greenbooks_put_settings E rq = dz_run (
     dz_bind (json_body_or_400 E MIB rq) (\<lambda>parsed.
     dz_bind (json_object parsed) (\<lambda>ms.
     dz_bind (lib_plane E) (\<lambda>pl.
     dz_bind (lib_call E pl ''POST'' ''gb_settings'' [(''on_conflict'', ''org_id'')]
        (Some ''resolution=merge-duplicates,return=representation'')
        (Some (JArr [JObj (alist_set ''org_id'' (JStr GREENBOOKS_DEFAULT_ORG_ID) ms)]))) (\<lambda>r.
       respond (gb_answer E (row_or_empty E) r))))))"

section \<open>Creation\<close>

text \<open>\<^verbatim>\<open>parsed.get(k).and_then(|v| v.as_str()).map(|s| s.trim()).filter(|s| !s.is_empty())\<close>.\<close>

definition clean :: "string \<Rightarrow> json \<Rightarrow> string option" where
  "clean k v = trimmed (get_str k v)"

definition trimmed_name :: "string \<Rightarrow> json \<Rightarrow> string" where
  "trimmed_name k v = trim (unwrap_or [] (get_str k v))"

definition currency_ok :: "string \<Rightarrow> bool" where
  "currency_ok c = (length c = 3 \<and> list_all is_ascii_alphabetic c)"

definition bad_currency :: response where
  "bad_currency = legacy_error_response 400 ''currency_code must be a 3-letter ISO code (e.g. CAD)''"

definition customer_currency :: "json \<Rightarrow> string" where
  "customer_currency parsed = to_ascii_uppercase (trim (unwrap_or ''CAD'' (get_str ''currency_code'' parsed)))"

definition customer_insert :: "json \<Rightarrow> json" where
  "customer_insert parsed =
     (let company_name = trimmed (Option.bind (opt_or (jget ''company_name'' parsed) (jget ''company'' parsed)) as_str)
      in JObj [(''org_id'', JStr GREENBOOKS_DEFAULT_ORG_ID), (''name'', JStr (trimmed_name ''name'' parsed)),
           (''email'', jopt_str (clean ''email'' parsed)), (''phone'', jopt_str (clean ''phone'' parsed)),
           (''company_name'', jopt_str company_name), (''company'', jopt_str company_name),
           (''currency_code'', JStr (customer_currency parsed)),
           (''address_line1'', jopt_str (clean ''address_line1'' parsed)), (''address_line2'', jopt_str (clean ''address_line2'' parsed)),
           (''city'', jopt_str (clean ''city'' parsed)), (''province'', jopt_str (clean ''province'' parsed)),
           (''postal_code'', jopt_str (clean ''postal_code'' parsed)),
           (''country'', JStr (unwrap_or ''CA'' (clean ''country'' parsed))), (''tax_number'', jopt_str (clean ''tax_number'' parsed)),
           (''notes'', jopt_str (clean ''notes'' parsed)),
           (''payment_terms_days'', jint (clamp_int 0 365 (unwrap_or 30 (get_i64 ''payment_terms_days'' parsed)))),
           (''is_active'', JBool (unwrap_or True (get_bool ''is_active'' parsed)))])"

definition greenbooks_create_customer :: "lib_env \<Rightarrow> request \<Rightarrow> handler_run" where
  "greenbooks_create_customer E rq = dz_run (
     dz_bind (lib_plane E) (\<lambda>pl.
     dz_bind (json_body_or_400 E MIB rq) (\<lambda>parsed.
       if trimmed_name ''name'' parsed = [] then respond (legacy_error_response 400 ''name is required'')
       else if \<not> currency_ok (customer_currency parsed) then respond bad_currency
       else dz_bind (lib_post E pl ''gb_customers'' (Some ''return=representation'') (JArr [customer_insert parsed])) (\<lambda>r.
         respond (gb_answer E (\<lambda>txt. json_response 201 (unwrap_or (JObj []) (parse_one (mx_ext E) txt))) r)))))"

text \<open>The tail of three creations.\<close>

definition gb_create :: "lib_env \<Rightarrow> string \<Rightarrow> json \<Rightarrow> response daisy" where
  "gb_create E table row =
     dz_bind (lib_plane E) (\<lambda>pl.
     dz_bind (lib_post E pl table (Some ''return=representation'') (JArr [row])) (\<lambda>r.
       respond (gb_answer E (row_or_empty E) r)))"

definition vendor_row :: "json \<Rightarrow> json" where
  "vendor_row parsed = JObj [(''org_id'', JStr GREENBOOKS_DEFAULT_ORG_ID), (''name'', JStr (trimmed_name ''name'' parsed)),
     (''email'', jopt_str (clean ''email'' parsed)), (''phone'', jopt_str (clean ''phone'' parsed)),
     (''company'', jopt_str (clean ''company'' parsed)), (''address_line1'', jopt_str (get_str ''address_line1'' parsed)),
     (''address_line2'', jopt_str (get_str ''address_line2'' parsed)), (''city'', jopt_str (get_str ''city'' parsed)),
     (''province'', jopt_str (get_str ''province'' parsed)), (''postal_code'', jopt_str (get_str ''postal_code'' parsed)),
     (''country'', JStr (unwrap_or ''CA'' (get_str ''country'' parsed))), (''tax_number'', jopt_str (get_str ''tax_number'' parsed)),
     (''notes'', jopt_str (get_str ''notes'' parsed)),
     (''payment_terms_days'', jint (unwrap_or 30 (get_i64 ''payment_terms_days'' parsed))),
     (''default_expense_account_id'', jopt_str (get_str ''default_expense_account_id'' parsed)),
     (''is_active'', JBool (unwrap_or True (get_bool ''is_active'' parsed)))]"

definition greenbooks_create_vendor :: "lib_env \<Rightarrow> request \<Rightarrow> handler_run" where
  "greenbooks_create_vendor E rq = dz_run (
     dz_bind (json_body_or_400 E MIB rq) (\<lambda>parsed.
       if trimmed_name ''name'' parsed = [] then respond (legacy_error_response 400 ''name is required'')
       else gb_create E ''gb_vendors'' (vendor_row parsed)))"

definition tax_code_row :: "json \<Rightarrow> json" where
  "tax_code_row parsed = JObj [(''org_id'', JStr GREENBOOKS_DEFAULT_ORG_ID), (''code'', JStr (trimmed_name ''code'' parsed)),
     (''name'', JStr (trimmed_name ''name'' parsed)), (''rate'', jrat (unwrap_or 0 (get_f64 ''rate'' parsed))),
     (''tax_type'', JStr (unwrap_or ''exclusive'' (get_str ''tax_type'' parsed))),
     (''description'', jopt_str (get_str ''description'' parsed)),
     (''collection_account_id'', jopt_str (get_str ''collection_account_id'' parsed)),
     (''input_credit_account_id'', jopt_str (get_str ''input_credit_account_id'' parsed)),
     (''is_compound'', JBool (unwrap_or False (get_bool ''is_compound'' parsed))),
     (''is_active'', JBool (unwrap_or True (get_bool ''is_active'' parsed)))]"

definition greenbooks_create_tax_code :: "lib_env \<Rightarrow> request \<Rightarrow> handler_run" where
  "greenbooks_create_tax_code E rq = dz_run (
     dz_bind (json_body_or_400 E MIB rq) (\<lambda>parsed.
       if trimmed_name ''code'' parsed = [] \<or> trimmed_name ''name'' parsed = [] \<or> get_f64 ''rate'' parsed = None
       then respond (legacy_error_response 400 ''code, name, and rate are required'')
       else gb_create E ''gb_tax_codes'' (tax_code_row parsed)))"

definition item_row :: "json \<Rightarrow> json" where
  "item_row parsed = JObj [(''org_id'', JStr GREENBOOKS_DEFAULT_ORG_ID), (''name'', JStr (trimmed_name ''name'' parsed)),
     (''item_type'', JStr (unwrap_or ''service'' (get_str ''item_type'' parsed))),
     (''description'', jopt_str (get_str ''description'' parsed)), (''unit_price'', jrat (unwrap_or 0 (get_f64 ''unit_price'' parsed))),
     (''income_account_id'', jopt_str (get_str ''income_account_id'' parsed)),
     (''default_tax_rate'', jrat (unwrap_or 0 (get_f64 ''default_tax_rate'' parsed))), (''is_active'', JBool True)]"

definition greenbooks_create_item :: "lib_env \<Rightarrow> request \<Rightarrow> handler_run" where
  "greenbooks_create_item E rq = dz_run (
     dz_bind (json_body_or_400 E MIB rq) (\<lambda>parsed.
       if trimmed_name ''name'' parsed = [] then respond (legacy_error_response 400 ''name is required'')
       else gb_create E ''gb_items'' (item_row parsed)))"

section \<open>Change and deletion\<close>

definition gb_patch_by_id :: "lib_env \<Rightarrow> string \<times> string \<Rightarrow> string \<Rightarrow> string \<Rightarrow> string \<Rightarrow> string \<Rightarrow> json \<Rightarrow> response daisy" where
  "gb_patch_by_id E pl table i sel missing v =
     dz_bind (lib_call E pl ''PATCH'' table [(''id'', eq_str i), (''select'', sel)] (Some ''return=representation'') (Some v)) (\<lambda>r.
       respond (gb_answer E (\<lambda>txt. row_or_404 missing (parse_one (mx_ext E) txt)) r))"

text \<open>The checks of a changed customer, in order, and the body that is sent.\<close>

definition terms_ok :: "(string \<times> json) list \<Rightarrow> bool" where
  "terms_ok ms = (case map_of ms ''payment_terms_days'' of
     None \<Rightarrow> True
   | Some v \<Rightarrow> (case as_i64 v of Some days \<Rightarrow> 0 \<le> days \<and> days \<le> 365 | None \<Rightarrow> False))"

definition patched_currency :: "(string \<times> json) list \<Rightarrow> (response, (string \<times> json) list) result" where
  "patched_currency ms = (case Option.bind (map_of ms ''currency_code'') as_str of
     None \<Rightarrow> Ok ms
   | Some code \<Rightarrow>
       let c = to_ascii_uppercase (trim code)
       in if currency_ok c then Ok (alist_set ''currency_code'' (JStr c) ms) else Err bad_currency)"

definition patched_company :: "(string \<times> json) list \<Rightarrow> (string \<times> json) list" where
  "patched_company ms = (case (map_of ms ''company_name'', map_of ms ''company'') of
     (Some v, None) \<Rightarrow> alist_set ''company'' v ms
   | _ \<Rightarrow> ms)"

definition greenbooks_patch_customer :: "lib_env \<Rightarrow> string \<Rightarrow> request \<Rightarrow> handler_run" where
  "greenbooks_patch_customer E i rq = dz_run (
     dz_bind (lib_plane E) (\<lambda>pl.
     dz_bind (json_body_or_400 E MIB rq) (\<lambda>v.
     dz_bind (json_object v) (\<lambda>ms.
       if \<not> terms_ok ms then respond (legacy_error_response 400 ''payment_terms_days must be 0-365'')
       else dz_bind (dz_lift (patched_currency ms)) (\<lambda>ms'.
         gb_patch_by_id E pl ''gb_customers'' i ''*'' ''Customer not found'' (JObj (patched_company ms')))))))"

text \<open>Three handlers send the body as it is.\<close>

definition gb_patch :: "lib_env \<Rightarrow> string \<Rightarrow> string \<Rightarrow> string \<Rightarrow> string \<Rightarrow> request \<Rightarrow> handler_run" where
  "gb_patch E table sel missing i rq = dz_run (
     dz_bind (json_body_or_400 E MIB rq) (\<lambda>parsed.
     dz_bind (lib_plane E) (\<lambda>pl. gb_patch_by_id E pl table i sel missing parsed)))"

definition greenbooks_patch_vendor :: "lib_env \<Rightarrow> string \<Rightarrow> request \<Rightarrow> handler_run" where
  "greenbooks_patch_vendor E = gb_patch E ''gb_vendors'' ''*'' ''Vendor not found''"

definition greenbooks_patch_tax_code :: "lib_env \<Rightarrow> string \<Rightarrow> request \<Rightarrow> handler_run" where
  "greenbooks_patch_tax_code E = gb_patch E ''gb_tax_codes'' ''*'' ''Tax code not found''"

definition greenbooks_patch_account :: "lib_env \<Rightarrow> string \<Rightarrow> request \<Rightarrow> handler_run" where
  "greenbooks_patch_account E = gb_patch E ''gb_accounts'' GREENBOOKS_ACCOUNT_SELECT ''Account not found''"

definition greenbooks_patch_item :: "lib_env \<Rightarrow> request \<Rightarrow> handler_run" where
  "greenbooks_patch_item E rq = dz_run (
     dz_bind (json_body_or_400 E MIB rq) (\<lambda>parsed.
       case opt_filter (\<lambda>s. trim s \<noteq> []) (get_str ''id'' parsed) of
         None \<Rightarrow> respond (legacy_error_response 400 ''id is required'')
       | Some i \<Rightarrow> dz_bind (lib_plane E) (\<lambda>pl. gb_patch_by_id E pl ''gb_items'' i ''*'' ''Item not found'' parsed)))"

definition greenbooks_patch_invoice :: "lib_env \<Rightarrow> string \<Rightarrow> request \<Rightarrow> handler_run" where
  "greenbooks_patch_invoice E i rq = dz_run (
     dz_bind (json_body_or_400 E (2 * MIB) rq) (\<lambda>parsed.
     dz_bind (lib_plane E) (\<lambda>pl.
     dz_bind (json_object parsed) (\<lambda>ms.
       gb_patch_by_id E pl ''gb_invoices'' i GREENBOOKS_INVOICE_SELECT ''Invoice not found''
         (JObj (filter (\<lambda>(k, _). k \<noteq> ''items'') ms))))))"

definition gb_delete :: "lib_env \<Rightarrow> string \<Rightarrow> string \<Rightarrow> string \<Rightarrow> handler_run" where
  "gb_delete E table missing i = dz_run (
     dz_bind (lib_plane E) (\<lambda>pl.
     dz_bind (lib_call E pl ''DELETE'' table [(''id'', eq_str i)] (Some ''return=representation'') None) (\<lambda>r.
       respond (gb_answer E (\<lambda>txt. if parse_one (mx_ext E) txt \<noteq> None then raw_response 204 []
         else legacy_error_response 404 missing) r))))"

definition greenbooks_delete_vendor :: "lib_env \<Rightarrow> string \<Rightarrow> handler_run" where
  "greenbooks_delete_vendor E = gb_delete E ''gb_vendors'' ''Vendor not found''"

definition greenbooks_delete_tax_code :: "lib_env \<Rightarrow> string \<Rightarrow> handler_run" where
  "greenbooks_delete_tax_code E = gb_delete E ''gb_tax_codes'' ''Tax code not found''"

section \<open>Derived views\<close>

definition ledger_line :: "json \<Rightarrow> json" where
  "ledger_line r =
     (let je = jget_or JNull ''journal_entry'' r
      in JObj [(''id'', jget_or JNull ''id'' r), (''account_id'', jget_or JNull ''account_id'' r),
           (''journal_entry_id'', jget_or JNull ''journal_entry_id'' r), (''entry_date'', jget_or JNull ''entry_date'' je),
           (''debit'', jget_or (jnat 0) ''debit'' r), (''credit'', jget_or (jnat 0) ''credit'' r),
           (''created_at'', jget_or JNull ''created_at'' r), (''journal_entry'', je)])"

definition greenbooks_get_account_ledger :: "lib_env \<Rightarrow> string \<Rightarrow> query \<Rightarrow> handler_run" where
  "greenbooks_get_account_ledger E i q = dz_run (
     let date = (\<lambda>k. opt_filter (\<lambda>v. trim v \<noteq> []) (q k))
     in gb_get E ''gb_journal_lines''
       ([(''account_id'', eq_str i),
         (''select'', ''id,account_id,journal_entry_id,debit,credit,created_at,journal_entry:gb_journal_entries(id,entry_number,entry_date,description,reference,status)''),
         (''order'', ''created_at.desc'')]
        @ opt_pair ''journal_entry.entry_date'' (\<lambda>sd. ''gte.'' @ sd) (date ''start_date'')
        @ opt_pair ''journal_entry.entry_date'' (\<lambda>ed. ''lte.'' @ ed) (date ''end_date''))
       (\<lambda>txt. json_ok (JArr (map ledger_line (json_rows (mx_ext E) txt)))))"

text \<open>The text of a reply whose status nobody looks at.\<close>

definition reply_text :: "reply \<Rightarrow> string option" where
  "reply_text r = map_option snd (result_ok r)"

definition is_open :: "json \<Rightarrow> bool" where
  "is_open r = (unwrap_or 0 (get_f64 ''balance_due'' r) > 0)"

definition greenbooks_get_customer_hub :: "lib_env \<Rightarrow> string \<Rightarrow> handler_run" where
  "greenbooks_get_customer_hub E i = dz_run (
     dz_bind (lib_plane E) (\<lambda>pl.
     dz_bind (lib_call E pl ''GET'' ''gb_customers'' [(''id'', eq_str i), (''limit'', ''1'')] None None) (\<lambda>c.
     dz_bind (dz_lift (ok_or (legacy_error_response 404 ''Customer not found'')
        (Option.bind (reply_text c) (parse_one (mx_ext E))))) (\<lambda>customer.
     dz_bind (lib_call E pl ''GET'' ''gb_invoices''
        [(''contact_id'', eq_str i), (''select'', ''id,invoice_number,issue_date,due_date,total,balance_due,status,currency''),
         (''order'', ''due_date.asc'')] None None) (\<lambda>inv.
       let inv_rows = (case reply_text inv of None \<Rightarrow> [] | Some txt \<Rightarrow> json_rows (mx_ext E) txt)
       in respond (json_ok (JObj [(''customer'', customer),
            (''summary'', JObj [(''customer_id'', JStr i), (''open_balance'', jrat 0), (''overdue_amount'', jrat 0),
               (''last_payment_date'', JNull), (''currency_code'', jget_or (JStr ''CAD'') ''currency_code'' customer)]),
            (''open_invoices'', JArr (filter is_open inv_rows)), (''payments'', JArr [])])))))))"

definition csv_response :: "string \<Rightarrow> response" where
  "csv_response body = \<lparr>rs_status = 200, rs_headers = hm_insert ''content-type'' ''text/csv; charset=utf-8'' no_headers,
     rs_body = Raw body, rs_actor = None, rs_upstream = None\<rparr>"

definition newline :: string where
  "newline = [CHR 0x0A]"

definition greenbooks_get_customer_statement :: "string \<Rightarrow> query \<Rightarrow> response" where
  "greenbooks_get_customer_statement i q =
     (if eq_ignore_ascii_case (unwrap_or ''json'' (q ''format'')) ''csv''
      then csv_response (''entry_date,entry_type,doc_id,doc_number,description,amount'' @ newline)
      else json_ok (JObj [(''from'', JStr (unwrap_or ''1970-01-01'' (q ''from''))), (''to'', JStr (unwrap_or ''2099-12-31'' (q ''to''))),
        (''opening_balance'', jrat 0), (''ending_balance'', jrat 0), (''lines'', JArr [])]))"

definition fx_answer :: "f64 \<Rightarrow> rat \<Rightarrow> response" where
  "fx_answer amount rate = json_ok (JObj [(''rate'', jrat rate), (''converted_amount'', json_f64 (f64_mul amount (Finite rate)))])"

definition greenbooks_convert_fx :: "lib_env \<Rightarrow> query \<Rightarrow> handler_run" where
  "greenbooks_convert_fx E q = dz_run (
     let from = unwrap_or [] (q ''from''); to = unwrap_or [] (q ''to'');
         amount = unwrap_or (Finite 0) (Option.bind (q ''amount'') parse_f64)
     in if from = [] \<or> to = [] then respond (legacy_error_response 400 ''from and to are required'')
        else if from = to then respond (json_ok (JObj [(''rate'', jrat 1), (''converted_amount'', json_f64 amount)]))
        else gb_get E ''gb_fx_rates''
          [(''from_currency'', eq_str from), (''to_currency'', eq_str to),
           (''effective_date'', ''lte.'' @ unwrap_or ''2099-12-31'' (q ''date'')), (''select'', ''id,rate''),
           (''order'', ''effective_date.desc''), (''limit'', ''1'')]
          (\<lambda>txt. case parse_one (mx_ext E) txt of
             Some row \<Rightarrow> fx_answer amount (unwrap_or 0 (get_f64 ''rate'' row))
           | None \<Rightarrow> legacy_error_response 404 ''No FX rate found''))"

definition empty_bucket :: "string \<Rightarrow> string \<Rightarrow> json" where
  "empty_bucket docs label = JObj [(''label'', JStr label), (''total'', jrat 0), (''count'', jnat 0), (docs, JArr [])]"

definition aging :: "string \<Rightarrow> string \<Rightarrow> string \<Rightarrow> json" where
  "aging as_of counter docs = JObj [(''as_of_date'', JStr as_of), (''total_outstanding'', jrat 0), (''total_overdue'', jrat 0),
     (counter, jnat 0), (''buckets'', JArr (map (empty_bucket docs) [''Current'', ''1-30'', ''31-60'', ''61+'']))]"

definition report_payload :: "string \<Rightarrow> string \<Rightarrow> string \<Rightarrow> string \<Rightarrow> json option" where
  "report_payload t as_of start end_date =
     (if t = ''trial-balance'' then Some (JObj [(''as_of_date'', JStr as_of), (''accounts'', JArr []),
        (''total_debits'', jrat 0), (''total_credits'', jrat 0)])
      else if t = ''profit-and-loss'' then Some (JObj [(''start_date'', JStr start), (''end_date'', JStr end_date),
        (''revenue'', JArr []), (''expenses'', JArr []), (''total_revenue'', jrat 0), (''total_expenses'', jrat 0),
        (''net_income'', jrat 0)])
      else if t = ''balance-sheet'' then Some (JObj [(''as_of_date'', JStr as_of), (''assets'', JArr []), (''liabilities'', JArr []),
        (''equity'', JArr []), (''total_assets'', jrat 0), (''total_liabilities'', jrat 0), (''total_equity'', jrat 0)])
      else if t = ''ar-aging'' then Some (aging as_of ''invoice_count'' ''invoices'')
      else if t = ''ap-aging'' then Some (aging as_of ''bill_count'' ''bills'')
      else if t = ''gst-summary'' then Some (JObj [(''period_start'', JStr start), (''period_end'', JStr end_date),
        (''gst_collected'', jrat 0), (''itc_claimed'', jrat 0), (''net_payable'', jrat 0), (''details'', JArr [])])
      else None)"

definition greenbooks_reports :: "query \<Rightarrow> response" where
  "greenbooks_reports q = (case report_payload (unwrap_or ''trial-balance'' (q ''type'')) (unwrap_or ''2099-12-31'' (q ''asOfDate''))
       (unwrap_or ''1970-01-01'' (q ''startDate'')) (unwrap_or ''2099-12-31'' (q ''endDate'')) of
     None \<Rightarrow> legacy_error_response 400 ''Unknown report type''
   | Some v \<Rightarrow>
       if eq_ignore_ascii_case (unwrap_or ''json'' (q ''format'')) ''csv''
       then csv_response (''report_type,message'' @ newline @ ''placeholder,CSV export not implemented for this report yet'' @ newline)
       else json_ok v)"

section \<open>Routes\<close>

text \<open>
  The extractor \<^verbatim>\<open>Query<HashMap<String, String>>\<close>: the last value of a repeated name. The
  routes of \<^verbatim>\<open>app\<close> under \<^verbatim>\<open>/api/greenbooks\<close> whose handlers are in this theory: the path after
  that prefix, the method, and the handler with the path parameter, if there is one.
\<close>

definition query_of :: "lib_env \<Rightarrow> request \<Rightarrow> query" where
  "query_of E rq = (case rq_query rq of None \<Rightarrow> Map.empty | Some s \<Rightarrow> map_of (rev (form_parse (mx_ext E) s)))"

definition greenbooks_routes :: "(string \<times> string \<times> (lib_env \<Rightarrow> request \<Rightarrow> string \<Rightarrow> handler_run)) list" where
  "greenbooks_routes = [
     (''/accounts'', ''GET'', \<lambda>E rq _. greenbooks_list_accounts E (query_of E rq)),
     (''/accounts/{id}'', ''GET'', \<lambda>E rq i. greenbooks_get_account E i),
     (''/accounts/{id}'', ''PATCH'', \<lambda>E rq i. greenbooks_patch_account E i rq),
     (''/accounts/{id}/ledger'', ''GET'', \<lambda>E rq i. greenbooks_get_account_ledger E i (query_of E rq)),
     (''/journal-entries'', ''GET'', \<lambda>E rq _. greenbooks_list_journal_entries E (query_of E rq)),
     (''/tax-codes'', ''GET'', \<lambda>E rq _. greenbooks_list_tax_codes E (query_of E rq)),
     (''/tax-codes'', ''POST'', \<lambda>E rq _. greenbooks_create_tax_code E rq),
     (''/tax-codes/{id}'', ''PATCH'', \<lambda>E rq i. greenbooks_patch_tax_code E i rq),
     (''/tax-codes/{id}'', ''DELETE'', \<lambda>E rq i. greenbooks_delete_tax_code E i),
     (''/settings'', ''GET'', \<lambda>E rq _. greenbooks_get_settings E),
     (''/settings'', ''PUT'', \<lambda>E rq _. greenbooks_put_settings E rq),
     (''/vendors'', ''GET'', \<lambda>E rq _. greenbooks_list_vendors E (query_of E rq)),
     (''/vendors'', ''POST'', \<lambda>E rq _. greenbooks_create_vendor E rq),
     (''/vendors/{id}'', ''PATCH'', \<lambda>E rq i. greenbooks_patch_vendor E i rq),
     (''/vendors/{id}'', ''DELETE'', \<lambda>E rq i. greenbooks_delete_vendor E i),
     (''/fiscal-periods'', ''GET'', \<lambda>E rq _. greenbooks_list_fiscal_periods E),
     (''/fx-rates'', ''GET'', \<lambda>E rq _. greenbooks_list_fx_rates E (query_of E rq)),
     (''/audit'', ''GET'', \<lambda>E rq _. greenbooks_list_audit E (query_of E rq)),
     (''/bank-accounts'', ''GET'', \<lambda>E rq _. greenbooks_list_bank_accounts E),
     (''/currencies'', ''GET'', \<lambda>E rq _. greenbooks_list_currencies E (query_of E rq)),
     (''/bills'', ''GET'', \<lambda>E rq _. greenbooks_list_bills E (query_of E rq)),
     (''/customers'', ''GET'', \<lambda>E rq _. greenbooks_list_customers E (query_of E rq)),
     (''/customers'', ''POST'', \<lambda>E rq _. greenbooks_create_customer E rq),
     (''/customers/{id}'', ''GET'', \<lambda>E rq i. greenbooks_get_customer E i),
     (''/customers/{id}'', ''PATCH'', \<lambda>E rq i. greenbooks_patch_customer E i rq),
     (''/customers/{id}/hub'', ''GET'', \<lambda>E rq i. greenbooks_get_customer_hub E i),
     (''/customers/{id}/statement'', ''GET'', \<lambda>E rq i. Pair (greenbooks_get_customer_statement i (query_of E rq))),
     (''/invoices'', ''GET'', \<lambda>E rq _. greenbooks_list_invoices E (query_of E rq)),
     (''/invoices/{id}'', ''GET'', \<lambda>E rq i. greenbooks_get_invoice E i),
     (''/invoices/{id}'', ''PATCH'', \<lambda>E rq i. greenbooks_patch_invoice E i rq),
     (''/items'', ''GET'', \<lambda>E rq _. greenbooks_list_items E (query_of E rq)),
     (''/items'', ''POST'', \<lambda>E rq _. greenbooks_create_item E rq),
     (''/items'', ''PATCH'', \<lambda>E rq _. greenbooks_patch_item E rq),
     (''/fx-rates/convert'', ''GET'', \<lambda>E rq _. greenbooks_convert_fx E (query_of E rq)),
     (''/reports'', ''GET'', \<lambda>E rq _. Pair (greenbooks_reports (query_of E rq)))]"

definition greenbooks_run ::
  "lib_env \<Rightarrow> (string \<times> string \<times> (lib_env \<Rightarrow> request \<Rightarrow> string \<Rightarrow> handler_run)) \<times> string \<Rightarrow> request \<Rightarrow> handler_run" where
  "greenbooks_run E = (\<lambda>((path, method, h), i) rq. h E rq i)"

section \<open>Every request is scoped\<close>

text \<open>
  What the data plane may be asked: rows of the organisation, the row with an id or the
  rows that belong to one, the two tables read without a filter on the organisation; the insertion
  of one row with the organisation's id; the change or deletion of the row with an id.
\<close>

definition GB_TABLES :: "string list" where
  "GB_TABLES = [''gb_accounts'', ''gb_customers'', ''rpc/gb_customers_list_with_open_balance'', ''gb_journal_entries'',
     ''gb_journal_lines'', ''gb_tax_codes'', ''gb_settings'', ''gb_vendors'', ''gb_fiscal_periods'', ''gb_fx_rates'',
     ''gb_audit_trail'', ''gb_bank_accounts'', ''gb_currencies'', ''gb_bills'', ''gb_invoices'', ''gb_invoice_items'', ''gb_items'']"

definition pairs_of :: "plane_request \<Rightarrow> (string \<times> string) list" where
  "pairs_of q = unwrap_or [] (u_query (pq_url q))"

definition one_row_filter :: "(string \<times> string) list \<Rightarrow> bool" where
  "one_row_filter ps = list_ex (\<lambda>(k, v). k \<in> set [''id'', ''account_id'', ''contact_id'', ''invoice_id''] \<and> take 3 v = ''eq.'') ps"

definition read_scoped :: "string \<Rightarrow> (string \<times> string) list \<Rightarrow> bool" where
  "read_scoped table ps \<longleftrightarrow> eq_org \<in> set ps \<or> one_row_filter ps \<or> table = ''gb_currencies'' \<or> table = ''gb_fx_rates''"

definition stamped :: "json option \<Rightarrow> bool" where
  "stamped b \<longleftrightarrow> (\<exists>row. b = Some (JArr [row]) \<and> get_str ''org_id'' row = Some GREENBOOKS_DEFAULT_ORG_ID)
     \<or> (\<exists>v. b = Some v \<and> get_str ''p_org_id'' v = Some GREENBOOKS_DEFAULT_ORG_ID)"

definition write_scoped :: "plane_request \<Rightarrow> bool" where
  "write_scoped q \<longleftrightarrow> (pq_method q = ''POST'' \<and> stamped (pq_body q))
     \<or> ((pq_method q = ''PATCH'' \<or> pq_method q = ''DELETE'') \<and> one_row_filter (pairs_of q))"

definition gb_request :: "lib_env \<Rightarrow> plane_request \<Rightarrow> bool" where
  "gb_request E q \<longleftrightarrow> (\<exists>pl table. lib_supabase_env (mx_vars E) = Ok pl \<and> table \<in> set GB_TABLES \<and> plane_target E pl table q
     \<and> (if pq_method q = ''GET'' then read_scoped table (pairs_of q) else write_scoped q))"

lemma u_query_with_pairs [simp]: "u_query (with_pairs ps u) = Some (unwrap_or [] (u_query u) @ ps)"
proof -
  have "u_query (fold (\<lambda>(k, v). append_pair k v) ps w) = Some (unwrap_or [] (u_query w) @ ps)" if "u_query w \<noteq> None" for w
    using that by (induction ps arbitrary: w) (auto simp: append_pair_def)
  then show ?thesis by (simp add: with_pairs_def query_pairs_mut_def)
qed

lemma scoped_append:
  "read_scoped t ps \<Longrightarrow> read_scoped t (qs @ ps)" "one_row_filter ps \<Longrightarrow> one_row_filter (qs @ ps)"
  by (auto simp: read_scoped_def one_row_filter_def)

lemma gb_read:
  assumes "lib_supabase_env (mx_vars E) = Ok pl" "t \<in> set GB_TABLES" "read_scoped t pairs"
    and "url_parse (mx_ext E) (fst pl @ ''/rest/v1/'' @ t) = Ok u"
  shows "gb_request E (lib_request E (snd pl) ''GET'' (with_pairs pairs u) prefer b)"
  unfolding gb_request_def
  using assms(1,2) plane_target_call(1) [OF assms(4)] scoped_append(1) [OF assms(3)]
  by (intro exI [of _ pl] exI [of _ t]) (auto simp: pairs_of_def)

lemma gb_write:
  assumes "lib_supabase_env (mx_vars E) = Ok pl" "t \<in> set GB_TABLES" "m \<in> {''PATCH'', ''DELETE''}"
    and "url_parse (mx_ext E) (fst pl @ ''/rest/v1/'' @ t) = Ok u" "one_row_filter pairs"
  shows "gb_request E (lib_request E (snd pl) m (with_pairs pairs u) prefer b)"
  unfolding gb_request_def
  using assms(1-3) plane_target_call(1) [OF assms(4)] scoped_append(2) [OF assms(5)]
  by (intro exI [of _ pl] exI [of _ t]) (auto simp: pairs_of_def write_scoped_def)

lemma gb_insert:
  assumes "lib_supabase_env (mx_vars E) = Ok pl" "t \<in> set GB_TABLES" "stamped b"
    and "url_parse (mx_ext E) (fst pl @ ''/rest/v1/'' @ t) = Ok u"
  shows "gb_request E (lib_request E (snd pl) ''POST'' u prefer b)"
    and "gb_request E (lib_request E (snd pl) ''POST'' (with_pairs pairs u) prefer b)"
  unfolding gb_request_def
  using assms(1-3) plane_target_call [OF assms(4)]
  by (auto intro!: exI [of _ pl] exI [of _ t] simp: write_scoped_def)

lemma stamped_rows [simp]:
  "stamped (Some (JArr [customer_insert v]))" "stamped (Some (JArr [vendor_row v]))" "stamped (Some (JArr [tax_code_row v]))"
  "stamped (Some (JArr [item_row v]))" "stamped (Some (JArr [JObj (alist_set ''org_id'' (JStr GREENBOOKS_DEFAULT_ORG_ID) ms)]))"
  "stamped (Some (JObj ((''p_org_id'', JStr GREENBOOKS_DEFAULT_ORG_ID) # ms)))"
  by (simp_all add: stamped_def customer_insert_def vendor_row_def tax_code_row_def item_row_def Let_def get_str_def)

lemma sends_gb_get [sends_intros]:
  "t \<in> set GB_TABLES \<Longrightarrow> read_scoped t pairs \<Longrightarrow> sends (gb_request E) (gb_get E t pairs f)"
  unfolding gb_get_def by (intro sends_plane_bind sends_intros gb_read)

lemma sends_patch [sends_intros]:
  "lib_supabase_env (mx_vars E) = Ok pl \<Longrightarrow> t \<in> set GB_TABLES \<Longrightarrow> sends (gb_request E) (gb_patch_by_id E pl t i sel missing v)"
  unfolding gb_patch_by_id_def by (intro sends_intros gb_write) (simp_all add: one_row_filter_def)

lemma sends_create [sends_intros]:
  "t \<in> set GB_TABLES \<Longrightarrow> stamped (Some (JArr [row])) \<Longrightarrow> sends (gb_request E) (gb_create E t row)"
  unfolding gb_create_def by (intro sends_plane_bind sends_intros gb_insert(1))

lemma sends_gb_parts [sends_intros]: "sends P (json_object v)" "sends P (or_404 E r)"
  by (simp_all add: json_object_def or_404_def sends_lift)

lemma eq_org_read: "eq_org \<in> set ps \<Longrightarrow> read_scoped t ps"
  by (simp add: read_scoped_def)

lemma one_row_read: "one_row_filter ps \<Longrightarrow> read_scoped t ps"
  by (simp add: read_scoped_def)

lemma confined_lists:
  "\<exists>qs. snd (greenbooks_list_journal_entries E q tr) = tr @ qs \<and> (\<forall>r\<in>set qs. gb_request E r)"
  "\<exists>qs. snd (greenbooks_list_tax_codes E q tr) = tr @ qs \<and> (\<forall>r\<in>set qs. gb_request E r)"
  "\<exists>qs. snd (greenbooks_list_vendors E q tr) = tr @ qs \<and> (\<forall>r\<in>set qs. gb_request E r)"
  "\<exists>qs. snd (greenbooks_list_items E q tr) = tr @ qs \<and> (\<forall>r\<in>set qs. gb_request E r)"
  "\<exists>qs. snd (greenbooks_list_fiscal_periods E tr) = tr @ qs \<and> (\<forall>r\<in>set qs. gb_request E r)"
  "\<exists>qs. snd (greenbooks_list_fx_rates E q tr) = tr @ qs \<and> (\<forall>r\<in>set qs. gb_request E r)"
  "\<exists>qs. snd (greenbooks_list_bank_accounts E tr) = tr @ qs \<and> (\<forall>r\<in>set qs. gb_request E r)"
  "\<exists>qs. snd (greenbooks_list_bills E q tr) = tr @ qs \<and> (\<forall>r\<in>set qs. gb_request E r)"
  "\<exists>qs. snd (greenbooks_list_invoices E q tr) = tr @ qs \<and> (\<forall>r\<in>set qs. gb_request E r)"
  unfolding greenbooks_list_journal_entries_def greenbooks_list_tax_codes_def greenbooks_list_vendors_def
    greenbooks_list_items_def greenbooks_list_fiscal_periods_def greenbooks_list_fx_rates_def
    greenbooks_list_bank_accounts_def greenbooks_list_bills_def greenbooks_list_invoices_def Let_def
  by (intro sends_run sends_intros eq_org_read; simp add: GB_TABLES_def)+

lemma confined_accounts:
  "\<exists>qs. snd (greenbooks_list_accounts E q tr) = tr @ qs \<and> (\<forall>r\<in>set qs. gb_request E r)"
  unfolding greenbooks_list_accounts_def Let_def
  by (intro sends_run sends_intros eq_org_read; simp add: GB_TABLES_def)

lemma confined_currencies:
  "\<exists>qs. snd (greenbooks_list_currencies E q tr) = tr @ qs \<and> (\<forall>r\<in>set qs. gb_request E r)"
  "\<exists>qs. snd (greenbooks_convert_fx E q tr) = tr @ qs \<and> (\<forall>r\<in>set qs. gb_request E r)"
  unfolding greenbooks_list_currencies_def greenbooks_convert_fx_def Let_def
  by (intro sends_run sends_intros; simp add: GB_TABLES_def read_scoped_def)+

lemma confined_rows:
  "\<exists>qs. snd (greenbooks_get_account E i tr) = tr @ qs \<and> (\<forall>r\<in>set qs. gb_request E r)"
  "\<exists>qs. snd (greenbooks_get_customer E i tr) = tr @ qs \<and> (\<forall>r\<in>set qs. gb_request E r)"
  "\<exists>qs. snd (greenbooks_get_account_ledger E i q tr) = tr @ qs \<and> (\<forall>r\<in>set qs. gb_request E r)"
  unfolding greenbooks_get_account_def greenbooks_get_customer_def greenbooks_get_account_ledger_def Let_def
  by (intro sends_run sends_intros one_row_read; simp add: GB_TABLES_def one_row_filter_def)+

lemma confined_joined:
  "\<exists>qs. snd (greenbooks_get_invoice E i tr) = tr @ qs \<and> (\<forall>r\<in>set qs. gb_request E r)"
  "\<exists>qs. snd (greenbooks_get_customer_hub E i tr) = tr @ qs \<and> (\<forall>r\<in>set qs. gb_request E r)"
  unfolding greenbooks_get_invoice_def greenbooks_get_customer_hub_def Let_def
  by (intro sends_run sends_plane_bind sends_intros gb_read one_row_read; simp add: GB_TABLES_def one_row_filter_def)+

lemma confined_audit_settings:
  "\<exists>qs. snd (greenbooks_list_audit E q tr) = tr @ qs \<and> (\<forall>r\<in>set qs. gb_request E r)"
  "\<exists>qs. snd (greenbooks_put_settings E rq tr) = tr @ qs \<and> (\<forall>r\<in>set qs. gb_request E r)"
  unfolding greenbooks_list_audit_def greenbooks_put_settings_def Let_def
  by (intro sends_run sends_plane_bind sends_intros gb_read gb_insert eq_org_read; simp add: GB_TABLES_def)+

lemma confined_writes:
  "\<exists>qs. snd (greenbooks_create_customer E rq tr) = tr @ qs \<and> (\<forall>r\<in>set qs. gb_request E r)"
  "\<exists>qs. snd (greenbooks_create_vendor E rq tr) = tr @ qs \<and> (\<forall>r\<in>set qs. gb_request E r)"
  "\<exists>qs. snd (greenbooks_create_tax_code E rq tr) = tr @ qs \<and> (\<forall>r\<in>set qs. gb_request E r)"
  "\<exists>qs. snd (greenbooks_create_item E rq tr) = tr @ qs \<and> (\<forall>r\<in>set qs. gb_request E r)"
  "\<exists>qs. snd (greenbooks_patch_customer E i rq tr) = tr @ qs \<and> (\<forall>r\<in>set qs. gb_request E r)"
  "\<exists>qs. snd (greenbooks_patch_invoice E i rq tr) = tr @ qs \<and> (\<forall>r\<in>set qs. gb_request E r)"
  "\<exists>qs. snd (greenbooks_patch_item E rq tr) = tr @ qs \<and> (\<forall>r\<in>set qs. gb_request E r)"
  unfolding greenbooks_create_customer_def greenbooks_create_vendor_def greenbooks_create_tax_code_def
    greenbooks_create_item_def greenbooks_patch_customer_def greenbooks_patch_invoice_def greenbooks_patch_item_def
  by (intro sends_run sends_plane_bind sends_intros gb_insert; simp add: GB_TABLES_def)+

lemma confined_patches:
  "t \<in> set GB_TABLES \<Longrightarrow> \<exists>qs. snd (gb_patch E t sel missing i rq tr) = tr @ qs \<and> (\<forall>r\<in>set qs. gb_request E r)"
  "t \<in> set GB_TABLES \<Longrightarrow> \<exists>qs. snd (gb_delete E t missing i tr) = tr @ qs \<and> (\<forall>r\<in>set qs. gb_request E r)"
  unfolding gb_patch_def gb_delete_def
  by (intro sends_run sends_plane_bind sends_intros gb_write; simp add: one_row_filter_def)+

lemma confined_settings: "\<exists>qs. snd (greenbooks_get_settings E tr) = tr @ qs \<and> (\<forall>r\<in>set qs. gb_request E r)"
  unfolding greenbooks_get_settings_def
  by (intro sends_run sends_try_plane_bind sends_intros gb_read eq_org_read) (simp_all add: GB_TABLES_def)

lemma sends_fallback [sends_intros]:
  "lib_supabase_env (mx_vars E) = Ok pl \<Longrightarrow> sends (gb_request E) (list_customers_fallback E pl search active limit)"
  unfolding list_customers_fallback_def
  by (intro sends_intros gb_read eq_org_read) (simp_all add: GB_TABLES_def)

lemma confined_customers: "\<exists>qs. snd (greenbooks_list_customers E q tr) = tr @ qs \<and> (\<forall>r\<in>set qs. gb_request E r)"
  unfolding greenbooks_list_customers_def Let_def
  by (intro sends_run sends_plane_bind sends_intros gb_insert; simp add: GB_TABLES_def)

lemma greenbooks_routes_ok:
  "list_all (\<lambda>(path, method, h). \<forall>rq i tr. \<exists>qs. snd (h E rq i tr) = tr @ qs \<and> (\<forall>r\<in>set qs. gb_request E r)) greenbooks_routes"
  unfolding greenbooks_routes_def list.pred_inject prod.case greenbooks_patch_vendor_def greenbooks_patch_tax_code_def
    greenbooks_patch_account_def greenbooks_delete_vendor_def greenbooks_delete_tax_code_def
  by (intro conjI allI confined_lists confined_accounts confined_currencies confined_rows confined_joined
      confined_audit_settings confined_writes confined_patches confined_settings confined_customers TrueI; simp add: GB_TABLES_def)

interpretation gb: confined_api "set greenbooks_routes \<times> UNIV" "greenbooks_run E" "gb_request E" for E
proof
  fix a rq tr
  assume "a \<in> set greenbooks_routes \<times> (UNIV :: string set)"
  then obtain path mth h i where r: "a = ((path, mth, h), i)" "(path, mth, h) \<in> set greenbooks_routes"
    by (cases a) auto
  have "\<forall>rq i tr. \<exists>qs. snd (h E rq i tr) = tr @ qs \<and> (\<forall>r\<in>set qs. gb_request E r)"
    using greenbooks_routes_ok [of E] r(2) by (force simp: list_all_iff)
  then show "\<exists>qs. snd (greenbooks_run E a rq tr) = tr @ qs \<and> (\<forall>q\<in>set qs. gb_request E q)"
    by (simp add: greenbooks_run_def r(1))
qed


section \<open>What is stored of a customer\<close>

definition upper_letter :: "char \<Rightarrow> bool" where
  "upper_letter c \<longleftrightarrow> (let n = (of_char c :: nat) in 65 \<le> n \<and> n \<le> 90)"

definition customer_values_ok :: "json \<Rightarrow> bool" where
  "customer_values_ok v \<longleftrightarrow>
     (case jget ''payment_terms_days'' v of None \<Rightarrow> True
      | Some t \<Rightarrow> (case as_i64 t of None \<Rightarrow> False | Some d \<Rightarrow> 0 \<le> d \<and> d \<le> 365))
   \<and> (case get_str ''currency_code'' v of None \<Rightarrow> True | Some c \<Rightarrow> length c = 3 \<and> list_all upper_letter c)"

lemma upper_alphabetic: "is_ascii_alphabetic (ascii_upper c) \<Longrightarrow> upper_letter (ascii_upper c)"
  by (auto simp: is_ascii_alphabetic_def ascii_upper_def upper_letter_def Let_def split: if_splits)

lemma currency_upper: "currency_ok (to_ascii_uppercase s) \<Longrightarrow> length s = 3 \<and> list_all upper_letter (to_ascii_uppercase s)"
  by (auto simp: currency_ok_def to_ascii_uppercase_def list_all_iff upper_alphabetic)

lemma customer_insert_ok: "currency_ok (customer_currency v) \<Longrightarrow> customer_values_ok (customer_insert v)"
proof -
  assume "currency_ok (customer_currency v)"
  then have "length (customer_currency v) = 3 \<and> list_all upper_letter (customer_currency v)"
    using currency_upper unfolding customer_currency_def by (simp add: to_ascii_uppercase_def)
  moreover have "as_i64 (jint (clamp_int 0 365 d)) = Some (clamp_int 0 365 d)" for d
    by (rule as_i64_jint) (simp_all add: clamp_int_def)
  ultimately show ?thesis
    by (simp add: customer_values_ok_def customer_insert_def Let_def get_str_def clamp_int_def)
qed

lemma patched_ok:
  assumes "terms_ok ms" "patched_currency ms = Ok ms'"
  shows "customer_values_ok (JObj (patched_company ms'))"
proof -
  have c: "map_of (patched_company ms') k = map_of ms' k" if "k \<noteq> ''company''" for k
    using that by (simp add: patched_company_def split: option.splits)
  have t: "map_of ms' ''payment_terms_days'' = map_of ms ''payment_terms_days''"
    using assms(2) by (auto simp: patched_currency_def Let_def split: option.splits if_splits)
  have u: "case Option.bind (map_of ms' ''currency_code'') as_str of None \<Rightarrow> True | Some c \<Rightarrow> length c = 3 \<and> list_all upper_letter c"
    using assms(2) currency_upper
    by (auto simp: patched_currency_def Let_def to_ascii_uppercase_def split: option.splits if_splits)
  show ?thesis
    using assms(1) u by (simp add: customer_values_ok_def terms_ok_def c t get_str_def split: option.splits)
qed

text \<open>
  Whatever the client sends, the terms of payment the gateway stores for a customer, by
  creation or change, are a number of days from 0 to 365, and a currency stored as text is three capital letters.
\<close>

theorem customer_writes_valid:
  assumes "h \<in> {greenbooks_create_customer E rq, greenbooks_patch_customer E i rq}"
    and "q \<in> set (drop (length tr) (snd (h tr)))"
  shows "\<exists>v. (pq_body q = Some (JArr [v]) \<or> pq_body q = Some v) \<and> customer_values_ok v"
proof -
  let ?P = "\<lambda>q. \<exists>v. (pq_body q = Some (JArr [v]) \<or> pq_body q = Some v) \<and> customer_values_ok v"
  have c: "\<exists>qs. snd (greenbooks_create_customer E rq tr) = tr @ qs \<and> (\<forall>q\<in>set qs. ?P q)"
    unfolding greenbooks_create_customer_def
    by (intro sends_run sends_intros) (auto intro: customer_insert_ok)
  have p: "\<exists>qs. snd (greenbooks_patch_customer E i rq tr) = tr @ qs \<and> (\<forall>q\<in>set qs. ?P q)"
    unfolding greenbooks_patch_customer_def gb_patch_by_id_def
    by (intro sends_run sends_bind_lift sends_intros) (auto intro: patched_ok)
  show ?thesis using assms c p by auto
qed

section \<open>Observations\<close>

text \<open>One row of an unexpected shape makes a list answer with no rows at all.\<close>

lemma one_bad_row_hides_all: "v \<in> set vs \<Longrightarrow> dto v = None \<Longrightarrow> json_rows X txt = vs \<Longrightarrow> parse_rows X dto txt = []"
proof -
  have n: "v \<in> set vs \<Longrightarrow> dto v = None \<Longrightarrow> those (map dto vs) = None"
    by (induction vs) (auto split: option.splits)
  assume "v \<in> set vs" "dto v = None" "json_rows X txt = vs"
  then show ?thesis using n by (simp add: parse_rows_def)
qed

text \<open>The summary of a customer says nothing of what is due, and a report is empty whatever is in the books.\<close>

lemma report_is_constant:
  "report_payload ''trial-balance'' d s e = Some (JObj [(''as_of_date'', JStr d), (''accounts'', JArr []),
     (''total_debits'', jrat 0), (''total_credits'', jrat 0)])"
  by (simp add: report_payload_def)

section \<open>Witnesses\<close>


definition wit_customer :: json where
  "wit_customer = JObj [(''name'', JStr ''n'')]"

theorem customer_writes_valid_witness:
  "\<exists>q v. snd (greenbooks_create_customer (wit_json_lib wit_customer) wit_post []) = [q] \<and> pq_body q \<noteq> None
     \<and> (pq_body q = Some (JArr [v]) \<or> pq_body q = Some v) \<and> customer_values_ok v"
proof -
  let ?h = "greenbooks_create_customer (wit_json_lib wit_customer) wit_post"
  have c: "currency_ok (customer_currency wit_customer)" "trimmed_name ''name'' wit_customer \<noteq> []"
    by code_simp+
  have b: "rq_body wit_post = Some []" by (simp add: wit_post_def)
  obtain q where q: "snd (?h []) = [q]" "pq_body q \<noteq> None"
    using c b by (simp add: greenbooks_create_customer_def lib_plane_def wit_json_env wit_json_body wit_json_calls dz_bind_def dz_run_def respond_def)
  then obtain v where "(pq_body q = Some (JArr [v]) \<or> pq_body q = Some v) \<and> customer_values_ok v"
    using customer_writes_valid [of ?h "wit_json_lib wit_customer" wit_post "[]" q "[]"] by auto
  with q show ?thesis by blast
qed

end
