(* ===== verification/Greenbooks_Ledger.thy ===== *)
theory Greenbooks_Ledger
  imports Greenbooks
begin

text \<open>
  The part of the bookkeeping API of \<^verbatim>\<open>lib.rs\<close> that moves money: payments of invoices, posting
  an invoice to the general ledger, reconciliation of a bank account, and transfers.
\<close>

section \<open>Payments\<close>

definition greenbooks_list_payments :: "lib_env \<Rightarrow> int option \<Rightarrow> request \<Rightarrow> handler_run" where
  "greenbooks_list_payments E limit rq = dz_run (
     dz_bind (require_session (rq_principal rq)) (\<lambda>_.
       gb_get E ''gb_payments'' ([(''select'', GREENBOOKS_PAYMENT_SELECT), eq_org, (''order'', ''payment_date.desc'')]
         @ opt_pair ''limit'' (\<lambda>l. int_str (clamp_int 1 500 l)) limit)
         (rows_answer E (dto_row GreenbooksPaymentDto))))"

definition greenbooks_list_invoice_payments :: "lib_env \<Rightarrow> string \<Rightarrow> request \<Rightarrow> handler_run" where
  "greenbooks_list_invoice_payments E i rq = dz_run (
     dz_bind (require_session (rq_principal rq)) (\<lambda>_.
       gb_get E ''gb_payments'' [(''select'', GREENBOOKS_PAYMENT_SELECT), eq_org, (''invoice_id'', eq_str i),
           (''order'', ''payment_date.desc'')]
         (rows_answer E (dto_row GreenbooksPaymentDto))))"

text \<open>A reply whose status is not looked at: its text, or the failure answered with 400.\<close>

definition text_or_400 :: "reply \<Rightarrow> string daisy" where
  "text_or_400 r = dz_lift (case r of Inl e \<Rightarrow> Err (legacy_error_response 400 e) | Inr (st, txt) \<Rightarrow> Ok txt)"

text \<open>The invoice the data plane returns for an id.\<close>

definition fetch_invoice :: "lib_env \<Rightarrow> string \<times> string \<Rightarrow> string \<Rightarrow> json daisy" where
  "fetch_invoice E pl i =
     dz_bind (lib_call E pl ''GET'' ''gb_invoices''
        [(''select'', GREENBOOKS_INVOICE_SELECT), (''id'', eq_str i), (''limit'', ''1'')] None None) (\<lambda>r.
     dz_bind (text_or_400 r) (\<lambda>txt.
       dz_lift (ok_or (legacy_error_response 400 ''Invoice not found'') (parse_one (mx_ext E) txt))))"

definition patch_invoice_row :: "lib_env \<Rightarrow> string \<times> string \<Rightarrow> string \<Rightarrow> json \<Rightarrow> string daisy" where
  "patch_invoice_row E pl i v =
     dz_bind (lib_call E pl ''PATCH'' ''gb_invoices'' [(''id'', eq_str i)] (Some ''return=representation'') (Some v)) text_or_400"

section \<open>Posting an invoice\<close>

text \<open>The answer of the stored procedure: an object, or the first element of an array.\<close>

definition rpc_object :: "lib_env \<Rightarrow> reply \<Rightarrow> json option" where
  "rpc_object E r = (case r of
     Inl _ \<Rightarrow> None
   | Inr (st, txt) \<Rightarrow>
       if \<not> plane_ok st then None
       else (case json_or (mx_ext E) JNull txt of
          JObj ms \<Rightarrow> Some (JObj ms)
        | JArr vs \<Rightarrow> head_opt vs
        | _ \<Rightarrow> None))"

definition already_posted :: "json \<Rightarrow> bool" where
  "already_posted invoice = unwrap_or False (map_option (\<lambda>v. v \<noteq> JNull) (jget ''journal_entry_id'' invoice))"

definition greenbooks_post_invoice_to_gl :: "lib_env \<Rightarrow> string \<Rightarrow> request \<Rightarrow> handler_run" where
  "greenbooks_post_invoice_to_gl E i rq = dz_run (
     dz_bind (require_session (rq_principal rq)) (\<lambda>_.
     dz_bind (lib_plane E) (\<lambda>pl.
     dz_bind (lib_post E pl ''rpc/gb_post_invoice_to_gl'' None
        (JObj [(''p_invoice_id'', JStr i), (''p_org_id'', JStr GREENBOOKS_DEFAULT_ORG_ID)])) (\<lambda>r.
       case rpc_object E r of
         Some v \<Rightarrow> respond (json_ok v)
       | None \<Rightarrow>
           dz_bind (fetch_invoice E pl i) (\<lambda>invoice.
             if already_posted invoice then respond (legacy_error_response 400 ''Invoice already posted to GL'')
             else dz_bind (patch_invoice_row E pl i (JObj [(''status'', JStr ''sent'')])) (\<lambda>txt.
               respond (json_ok (unwrap_or invoice (last_row (mx_ext E) txt)))))))))"

section \<open>Paying an invoice\<close>

definition f64_le :: "f64 \<Rightarrow> f64 \<Rightarrow> bool" where
  "f64_le a b = (a \<noteq> NaN \<and> b \<noteq> NaN \<and> \<not> f64_gt a b)"

definition em_dash :: string where
  "em_dash = [CHR 0xE2, CHR 0x80, CHR 0x94]"

definition amount_of :: "string \<Rightarrow> json \<Rightarrow> rat" where
  "amount_of k v = unwrap_or 0 (get_f64 k v)"

text \<open>The checks on the body, then those on the invoice, in order.\<close>

definition payment_input :: "json \<Rightarrow> (response, unit) result" where
  "payment_input parsed =
     (if amount_of ''amount'' parsed \<le> 0 then Err (legacy_error_response 400 ''amount must be a positive number'')
      else if trim (unwrap_or [] (get_str ''payment_date'' parsed)) = []
      then Err (legacy_error_response 400 ''payment_date is required (YYYY-MM-DD)'')
      else Ok ())"

definition payment_allowed :: "ext \<Rightarrow> rat \<Rightarrow> json \<Rightarrow> (response, unit) result" where
  "payment_allowed X amount invoice =
     (let status = unwrap_or [] (get_str ''status'' invoice); balance_due = amount_of ''balance_due'' invoice
      in if status = ''void'' then Err (legacy_error_response 400 ''Cannot pay a voided invoice'')
         else if status = ''draft''
         then Err (legacy_error_response 400 (''Cannot pay a draft invoice '' @ em_dash @ '' post to GL first''))
         else if balance_due \<le> 0 then Err (legacy_error_response 400 ''Invoice already fully paid'')
         else if amount > balance_due
         then Err (legacy_error_response 400 (''Payment ($'' @ f64_string X amount @ '') exceeds balance due ($''
           @ f64_string X balance_due @ '')''))
         else Ok ())"

definition trim_quotes :: "string \<Rightarrow> string" where
  "trim_quotes s = trim_end_matches (CHR 34) (dropWhile (\<lambda>c. c = CHR 34) s)"

definition next_payment_number :: "lib_env \<Rightarrow> string \<times> string \<Rightarrow> string daisy" where
  "next_payment_number E pl =
     dz_bind (lib_post E pl ''rpc/gb_next_payment_number'' None (JObj [(''p_org_id'', JStr GREENBOOKS_DEFAULT_ORG_ID)])) (\<lambda>r tr.
       (Ok (case r of
          Inr (st, txt) \<Rightarrow> if plane_ok st then trim_quotes txt else ''PMT-'' @ dec_str (mx_millis E tr)
        | Inl _ \<Rightarrow> ''PMT-'' @ dec_str (mx_millis E tr)), tr))"

definition payment_row :: "string \<Rightarrow> string \<Rightarrow> json \<Rightarrow> json" where
  "payment_row number i parsed = JObj [(''org_id'', JStr GREENBOOKS_DEFAULT_ORG_ID), (''payment_number'', JStr number),
     (''invoice_id'', JStr i), (''amount'', jrat (amount_of ''amount'' parsed)),
     (''payment_date'', JStr (unwrap_or [] (get_str ''payment_date'' parsed))),
     (''payment_method'', jget_or JNull ''payment_method'' parsed), (''reference'', jget_or JNull ''reference'' parsed),
     (''notes'', jget_or JNull ''notes'' parsed)]"

definition new_amount_paid :: "rat \<Rightarrow> json \<Rightarrow> f64" where
  "new_amount_paid amount invoice = f64_add (Finite (amount_of ''amount_paid'' invoice)) (Finite amount)"

definition new_balance_due :: "rat \<Rightarrow> json \<Rightarrow> f64" where
  "new_balance_due amount invoice =
     f64_max (f64_sub (Finite (amount_of ''total'' invoice)) (new_amount_paid amount invoice)) (Finite 0)"

definition new_status :: "rat \<Rightarrow> json \<Rightarrow> string" where
  "new_status amount invoice = (if f64_le (new_balance_due amount invoice) (f64_of_rat (1 / 1000)) then ''paid'' else ''partially_paid'')"

definition invoice_update :: "rat \<Rightarrow> json \<Rightarrow> json" where
  "invoice_update amount invoice = JObj [(''amount_paid'', json_f64 (new_amount_paid amount invoice)),
     (''balance_due'', json_f64 (new_balance_due amount invoice)), (''status'', JStr (new_status amount invoice))]"

text \<open>The number, the payment, the invoice.\<close>

definition record_payment :: "lib_env \<Rightarrow> string \<times> string \<Rightarrow> string \<Rightarrow> json \<Rightarrow> json \<Rightarrow> response daisy" where
  "record_payment E pl i parsed invoice =
     dz_bind (next_payment_number E pl) (\<lambda>number.
     dz_bind (lib_post E pl ''gb_payments'' (Some ''return=representation'') (JArr [payment_row number i parsed])) (\<lambda>p.
     dz_bind (text_or_400 p) (\<lambda>pmt_txt.
     dz_bind (patch_invoice_row E pl i (invoice_update (amount_of ''amount'' parsed) invoice)) (\<lambda>upd_txt.
       respond (json_response 201 (JObj [(''payment'', unwrap_or (JObj []) (last_row (mx_ext E) pmt_txt)),
         (''invoice'', unwrap_or (JObj []) (last_row (mx_ext E) upd_txt))]))))))"

definition greenbooks_create_invoice_payment :: "lib_env \<Rightarrow> string \<Rightarrow> request \<Rightarrow> handler_run" where
  "greenbooks_create_invoice_payment E i rq = dz_run (
     dz_bind (require_session (rq_principal rq)) (\<lambda>_.
     dz_bind (json_body_or_400 E MIB rq) (\<lambda>parsed.
     dz_bind (dz_lift (payment_input parsed)) (\<lambda>_.
     dz_bind (lib_plane E) (\<lambda>pl.
     dz_bind (fetch_invoice E pl i) (\<lambda>invoice.
     dz_bind (dz_lift (payment_allowed (mx_ext E) (amount_of ''amount'' parsed) invoice)) (\<lambda>_.
       record_payment E pl i parsed invoice)))))))"

section \<open>Reconciliation and transfers\<close>

definition greenbooks_reconcile_history :: "lib_env \<Rightarrow> string \<Rightarrow> request \<Rightarrow> handler_run" where
  "greenbooks_reconcile_history E i rq = dz_run (
     dz_bind (require_session (rq_principal rq)) (\<lambda>_.
     dz_bind (lib_plane E) (\<lambda>pl.
     dz_bind (lib_call E pl ''GET'' ''gb_reconciliations''
        [(''select'', ''*''), eq_org, (''bank_account_id'', eq_str i), (''order'', ''statement_date.desc'')] None None) (\<lambda>r.
       respond (case r of
          Inl e \<Rightarrow> legacy_error_response 500 e
        | Inr (st, txt) \<Rightarrow> json_ok (json_or (mx_ext E) (JArr []) txt))))))"

definition greenbooks_reconcile_post :: "lib_env \<Rightarrow> string \<Rightarrow> request \<Rightarrow> handler_run" where
  "greenbooks_reconcile_post E i rq = dz_run (
     dz_bind (require_session (rq_principal rq)) (\<lambda>_.
     dz_bind (json_body_or_400 E MIB rq) (\<lambda>parsed.
     dz_bind (lib_plane E) (\<lambda>pl.
       if get_str ''action'' parsed = Some ''complete'' \<and> get_str ''reconciliation_id'' parsed \<noteq> None then
         dz_bind (lib_post E pl ''rpc/gb_complete_reconciliation'' None
            (JObj [(''p_reconciliation_id'', JStr (unwrap_or [] (get_str ''reconciliation_id'' parsed)))])) (\<lambda>r.
           respond (case r of
              Inr (st, txt) \<Rightarrow> if plane_ok st then json_ok (json_or (mx_ext E) JNull txt)
                else legacy_error_response 400 ''Unable to complete reconciliation in this environment''
            | Inl _ \<Rightarrow> legacy_error_response 400 ''Unable to complete reconciliation in this environment''))
       else
         let statement_date = unwrap_or [] (get_str ''statement_date'' parsed); statement_balance = get_f64 ''statement_balance'' parsed
         in if statement_date = [] \<or> statement_balance = None
            then respond (legacy_error_response 400 ''statement_date and statement_balance are required'')
            else dz_bind (lib_post E pl ''gb_reconciliations'' (Some ''return=representation'') (JArr [JObj [
                (''org_id'', JStr GREENBOOKS_DEFAULT_ORG_ID), (''bank_account_id'', JStr i), (''statement_date'', JStr statement_date),
                (''statement_balance'', jrat (unwrap_or 0 statement_balance)),
                (''opening_balance'', jrat (amount_of ''opening_balance'' parsed)), (''status'', JStr ''in_progress'')]])) (\<lambda>r.
              respond (case r of
                 Inl e \<Rightarrow> legacy_error_response 400 e
               | Inr (st, txt) \<Rightarrow>
                   let status = (if plane_ok st then 201 else 400)
                   in case last_row (mx_ext E) txt of
                        Some row \<Rightarrow> json_response status row
                      | None \<Rightarrow> legacy_error_response status (lib_supabase_error_message (mx_ext E) txt)))))))"

definition greenbooks_reconcile_patch :: "lib_env \<Rightarrow> request \<Rightarrow> handler_run" where
  "greenbooks_reconcile_patch E rq = dz_run (
     dz_bind (require_session (rq_principal rq)) (\<lambda>_.
     dz_bind (json_body_or_400 E MIB rq) (\<lambda>parsed.
     let recon_id = unwrap_or [] (get_str ''reconciliation_id'' parsed); txn_id = unwrap_or [] (get_str ''transaction_id'' parsed);
         cleared = get_bool ''cleared'' parsed
     in if recon_id = [] \<or> txn_id = [] \<or> cleared = None
        then respond (legacy_error_response 400 ''reconciliation_id, transaction_id, and cleared are required'')
        else dz_bind (lib_plane E) (\<lambda>pl.
             dz_bind (lib_call E pl ''POST'' ''gb_reconciliation_items'' [(''on_conflict'', ''reconciliation_id,bank_transaction_id'')]
                (Some ''resolution=merge-duplicates,return=representation'')
                (Some (JArr [JObj [(''reconciliation_id'', JStr recon_id), (''bank_transaction_id'', JStr txn_id),
                   (''transaction_id'', JStr txn_id), (''cleared'', JBool (unwrap_or False cleared))]]))) (\<lambda>r.
               respond (case r of
                  Inl e \<Rightarrow> legacy_error_response 400 e
                | Inr (st, txt) \<Rightarrow> if plane_ok st then json_ok (JObj [(''success'', JBool True)])
                    else legacy_error_response 400 (lib_supabase_error_message (mx_ext E) txt)))))))"

definition transfer_ok :: "json \<Rightarrow> bool" where
  "transfer_ok parsed = (unwrap_or [] (get_str ''from_bank_id'' parsed) \<noteq> [] \<and> unwrap_or [] (get_str ''to_bank_id'' parsed) \<noteq> []
     \<and> amount_of ''amount'' parsed > 0)"

definition fx_rate_of :: "json \<Rightarrow> rat" where
  "fx_rate_of parsed = unwrap_or 1 (get_f64 ''fx_rate'' parsed)"

definition transfer_rpc :: "json \<Rightarrow> json" where
  "transfer_rpc parsed = JObj [(''p_org_id'', JStr GREENBOOKS_DEFAULT_ORG_ID),
     (''p_from_bank_id'', JStr (unwrap_or [] (get_str ''from_bank_id'' parsed))),
     (''p_to_bank_id'', JStr (unwrap_or [] (get_str ''to_bank_id'' parsed))), (''p_amount'', jrat (amount_of ''amount'' parsed)),
     (''p_fx_rate'', jrat (fx_rate_of parsed)), (''p_date'', jopt_str (get_str ''date'' parsed)),
     (''p_notes'', jopt_str (get_str ''notes'' parsed))]"

definition transfer_fallback :: "json \<Rightarrow> json" where
  "transfer_fallback parsed = JObj [(''journal_entry_id'', JNull), (''from_amount'', jrat (amount_of ''amount'' parsed)),
     (''to_amount'', jrat (amount_of ''amount'' parsed)), (''fx_rate'', jrat (fx_rate_of parsed))]"

definition greenbooks_bank_transfer :: "lib_env \<Rightarrow> request \<Rightarrow> handler_run" where
  "greenbooks_bank_transfer E rq = dz_run (
     dz_bind (require_session (rq_principal rq)) (\<lambda>_.
     dz_bind (json_body_or_400 E MIB rq) (\<lambda>parsed.
       if \<not> transfer_ok parsed
       then respond (legacy_error_response 400 ''from_bank_id, to_bank_id, and positive amount are required'')
       else dz_bind (lib_plane E) (\<lambda>pl.
            dz_bind (lib_post E pl ''rpc/gb_bank_transfer'' None (transfer_rpc parsed)) (\<lambda>r.
              respond (json_response 201 (case r of
                 Inr (st, txt) \<Rightarrow> if plane_ok st then json_or (mx_ext E) (JObj []) txt else transfer_fallback parsed
               | Inl _ \<Rightarrow> transfer_fallback parsed)))))))"

section \<open>A payment stays within the balance\<close>

lemma sends_ledger_parts [sends_intros]: "sends P (text_or_400 r)"
  by (simp add: text_or_400_def sends_lift)

lemma sends_fetch_invoice: "sends is_get (fetch_invoice E pl i)"
  unfolding fetch_invoice_def by (intro sends_intros) (simp add: is_get_def)

text \<open>The two writes of a payment, and what else it asks the data plane for.\<close>

definition payment_write :: "string \<Rightarrow> json \<Rightarrow> json \<Rightarrow> plane_request \<Rightarrow> bool" where
  "payment_write i parsed invoice q \<longleftrightarrow>
     (pq_method q = ''POST'' \<and> (\<exists>number. pq_body q = Some (JArr [payment_row number i parsed])))
   \<or> (pq_method q = ''PATCH'' \<and> pq_body q = Some (invoice_update (amount_of ''amount'' parsed) invoice))"

definition number_request :: "plane_request \<Rightarrow> bool" where
  "number_request q \<longleftrightarrow> pq_method q = ''POST'' \<and> pq_body q = Some (JObj [(''p_org_id'', JStr GREENBOOKS_DEFAULT_ORG_ID)])"

lemma sends_number: "sends number_request (next_payment_number E pl)"
proof -
  have "sends number_request (\<lambda>tr. (Ok (f tr) :: (response, string) result, tr))" for f by (simp add: sends_def)
  then show ?thesis unfolding next_payment_number_def
    by (intro sends_bind sends_lib_post) (simp_all add: number_request_def)
qed

lemma sends_weaker: "sends P m \<Longrightarrow> (\<And>q. P q \<Longrightarrow> Q q) \<Longrightarrow> sends Q m"
  unfolding sends_def by meson

lemma sends_payment: "sends (\<lambda>q. number_request q \<or> payment_write i parsed invoice q) (record_payment E pl i parsed invoice)"
  unfolding record_payment_def patch_invoice_row_def
  by (intro sends_bind [OF sends_weaker [OF sends_number]] sends_intros) (auto simp: payment_write_def)

lemma payment_allowed_Ok:
  "payment_allowed X amount invoice = Ok u \<longleftrightarrow> unwrap_or [] (get_str ''status'' invoice) \<notin> {''void'', ''draft''}
     \<and> 0 < amount_of ''balance_due'' invoice \<and> amount \<le> amount_of ''balance_due'' invoice"
  by (auto simp: payment_allowed_def Let_def not_le not_less)

text \<open>
  C16: A payment is recorded, and an invoice changed by one, only for a caller with a session, for a positive
  amount that is at most the balance due of the invoice the data plane returned for that id, which is
  neither void nor a draft; and what is recorded is that amount, that invoice, and the new totals computed from it.
\<close>

theorem payment_within_balance:
  assumes "q \<in> set (drop (length tr) (snd (greenbooks_create_invoice_payment E i rq tr)))"
    and "pq_method q \<noteq> ''GET''" "\<not> number_request q"
  shows "\<exists>p pl parsed invoice tr1. rq_principal rq = Some p \<and> lib_supabase_env (mx_vars E) = Ok pl
    \<and> fetch_invoice E pl i tr = (Ok invoice, tr1)
    \<and> unwrap_or [] (get_str ''status'' invoice) \<notin> {''void'', ''draft''}
    \<and> 0 < amount_of ''amount'' parsed \<and> amount_of ''amount'' parsed \<le> amount_of ''balance_due'' invoice
    \<and> payment_write i parsed invoice q"
proof -
  let ?rest = "\<lambda>pl parsed invoice. dz_bind (dz_lift (payment_allowed (mx_ext E) (amount_of ''amount'' parsed) invoice)) (\<lambda>_.
      record_payment E pl i parsed invoice)"
  from assms(1) obtain p parsed pl u where p: "rq_principal rq = Some p" "lib_supabase_env (mx_vars E) = Ok pl"
    and a: "payment_input parsed = Ok u"
    and q: "q \<in> set (drop (length tr) (snd (dz_bind (fetch_invoice E pl i) (?rest pl parsed) tr)))"
    unfolding greenbooks_create_invoice_payment_def require_session_def json_body_or_400_def lib_plane_def snd_dz_run
    by (auto simp: ok_or_def simp del: dz_bind_lift dest!: new_lift split: option.splits)
  have e: "extends_trace (?rest pl parsed v)" for v
    by (rule sends_weaken, rule sends_bind_lift, rule sends_payment)
  have "q \<notin> set (drop (length tr) (snd (fetch_invoice E pl i tr)))"
    using sends_new [OF sends_fetch_invoice, of q tr E pl i] assms(2) unfolding is_get_def by blast
  with new_bind [OF q sends_weaken [OF sends_fetch_invoice] e] obtain invoice tr1
    where f: "fetch_invoice E pl i tr = (Ok invoice, tr1)"
    and q1: "q \<in> set (drop (length tr1) (snd (?rest pl parsed invoice tr1)))" by blast
  from new_lift [OF q1] obtain v where ok: "payment_allowed (mx_ext E) (amount_of ''amount'' parsed) invoice = Ok v"
    and q2: "q \<in> set (drop (length tr1) (snd (record_payment E pl i parsed invoice tr1)))" by blast
  have "payment_write i parsed invoice q" using sends_new [OF sends_payment q2] assms(3) by blast
  moreover have "0 < amount_of ''amount'' parsed" using a by (auto simp: payment_input_def split: if_splits)
  ultimately show ?thesis using p f ok unfolding payment_allowed_Ok by blast
qed

section \<open>The books after a payment\<close>

lemma milli_bounds: "0 < b64_round (1 / 1000) \<and> b64_round (1 / 1000) < 1"
  by code_simp

lemma f64_milli: "\<exists>x. f64_of_rat (1 / 1000) = Finite x \<and> 0 < x \<and> x < 1"
proof -
  have "\<not> (1::rat) / 1000 < 1 / 2 ^ 1022"
  proof -
    have "(2::rat) ^ 10 \<le> 2 ^ 1022" by (rule power_increasing) simp_all
    then show ?thesis by (simp add: field_simps)
  qed
  moreover have "\<not> (2::rat) ^ 1024 \<le> \<bar>b64_round (1 / 1000)\<bar>"
  proof -
    have "\<bar>b64_round (1 / 1000)\<bar> < 1" using milli_bounds by simp
    moreover have "(1::rat) \<le> 2 ^ 1024" by (rule one_le_power) simp
    ultimately show ?thesis by linarith
  qed
  ultimately have "f64_of_rat (1 / 1000) = Finite (b64_round (1 / 1000))" by (simp add: f64_of_rat_def)
  then show ?thesis using milli_bounds by blast
qed

text \<open>
  C17: For amounts in whole units up to \<open>2 ^ 53\<close>, a payment keeps the books balanced: what is paid
  and what is due still add up to the total, and the status becomes paid exactly if nothing is due any more.
\<close>

theorem payment_keeps_total:
  assumes "amount_of ''total'' invoice = of_int t" "amount_of ''amount_paid'' invoice = of_int p"
    and "0 \<le> p" "0 \<le> a" "p + a \<le> t" "t \<le> 2 ^ 53"
  shows "new_amount_paid (of_int a) invoice = Finite (of_int (p + a))
    \<and> new_balance_due (of_int a) invoice = Finite (of_int (t - (p + a)))
    \<and> (new_status (of_int a) invoice = ''paid'' \<longleftrightarrow> p + a = t)"
proof -
  have paid: "new_amount_paid (of_int a) invoice = Finite (of_int (p + a))"
    unfolding new_amount_paid_def assms(2) by (rule f64_add_int) (use assms in simp)
  have "f64_sub (Finite (of_int t)) (Finite (of_int (p + a))) = Finite (of_int (t - (p + a)))"
    using f64_add_int [of t "- (p + a)"] assms by (simp add: f64_sub_def f64_neg_def)
  then have due: "new_balance_due (of_int a) invoice = Finite (of_int (t - (p + a)))"
    using assms(1,5) unfolding new_balance_due_def paid by (simp add: f64_max_def max_def)
  obtain x where x: "f64_of_rat (1 / 1000) = Finite x" "0 < x" "x < 1" using f64_milli by blast
  have "of_int (t - (p + a)) \<le> x \<longleftrightarrow> p + a = t"
  proof
    assume "of_int (t - (p + a)) \<le> x"
    then have "of_int (t - (p + a)) < (1 :: rat)" using x(3) by linarith
    then show "p + a = t" using assms(5) by simp
  qed (use x(2) in simp)
  then have "new_status (of_int a) invoice = ''paid'' \<longleftrightarrow> p + a = t"
    unfolding new_status_def due x(1) f64_le_def by (simp add: not_less)
  with paid due show ?thesis by blast
qed

section \<open>A posted invoice is not posted again\<close>

lemma sends_rpc_post: "sends (\<lambda>q. pq_method q = ''POST'') (lib_post E pl t None v)"
  by (intro sends_lib_post) simp

text \<open>
  When the posting procedure is not available, an invoice is marked as sent only for a caller with a session,
  and only if the row the data plane returned for it is not linked to a journal entry.
\<close>

theorem posting_not_repeated:
  assumes "q \<in> set (drop (length tr) (snd (greenbooks_post_invoice_to_gl E i rq tr)))" "pq_method q = ''PATCH''"
  shows "\<exists>p pl r tr1 invoice tr2. rq_principal rq = Some p \<and> lib_supabase_env (mx_vars E) = Ok pl
    \<and> lib_post E pl ''rpc/gb_post_invoice_to_gl'' None
        (JObj [(''p_invoice_id'', JStr i), (''p_org_id'', JStr GREENBOOKS_DEFAULT_ORG_ID)]) tr = (Ok r, tr1)
    \<and> rpc_object E r = None \<and> fetch_invoice E pl i tr1 = (Ok invoice, tr2) \<and> \<not> already_posted invoice
    \<and> pq_body q = Some (JObj [(''status'', JStr ''sent'')])"
proof -
  let ?rpc = "\<lambda>pl. lib_post E pl ''rpc/gb_post_invoice_to_gl'' None
        (JObj [(''p_invoice_id'', JStr i), (''p_org_id'', JStr GREENBOOKS_DEFAULT_ORG_ID)])"
  let ?mark = "\<lambda>pl invoice. (if already_posted invoice then respond (legacy_error_response 400 ''Invoice already posted to GL'')
      else dz_bind (patch_invoice_row E pl i (JObj [(''status'', JStr ''sent'')])) (\<lambda>txt.
        respond (json_ok (unwrap_or invoice (last_row (mx_ext E) txt)))))"
  let ?rest = "\<lambda>pl r. (case rpc_object E r of Some v \<Rightarrow> respond (json_ok v) | None \<Rightarrow> dz_bind (fetch_invoice E pl i) (?mark pl))"
  from assms(1) obtain p pl where p: "rq_principal rq = Some p" "lib_supabase_env (mx_vars E) = Ok pl"
    and q: "q \<in> set (drop (length tr) (snd (dz_bind (?rpc pl) (?rest pl) tr)))"
    unfolding greenbooks_post_invoice_to_gl_def require_session_def lib_plane_def snd_dz_run
    by (auto simp: ok_or_def simp del: dz_bind_lift dest!: new_lift split: option.splits)
  have m: "sends (\<lambda>q. pq_body q = Some (JObj [(''status'', JStr ''sent'')])) (?mark pl v)" for v
    unfolding patch_invoice_row_def by (intro sends_intros) simp
  have g: "extends_trace (dz_bind (fetch_invoice E pl i) (?mark pl))"
    by (rule extends_trace_bind, rule sends_weaken, rule sends_fetch_invoice, rule sends_weaken, rule m)
  have e: "extends_trace (?rest pl r)" for r
    using g by (auto simp: extends_trace_def sends_intros split: option.splits)
  have "q \<notin> set (drop (length tr) (snd (?rpc pl tr)))"
    using sends_new [OF sends_rpc_post] assms(2) by fastforce
  with new_bind [OF q sends_weaken [OF sends_rpc_post] e] obtain r tr1
    where r: "?rpc pl tr = (Ok r, tr1)" and q1: "q \<in> set (drop (length tr1) (snd (?rest pl r tr1)))" by blast
  then have n: "rpc_object E r = None" and q2: "q \<in> set (drop (length tr1) (snd (dz_bind (fetch_invoice E pl i) (?mark pl) tr1)))"
    by (auto simp: respond_def split: option.splits)
  have "q \<notin> set (drop (length tr1) (snd (fetch_invoice E pl i tr1)))"
    using sends_new [OF sends_fetch_invoice, of q tr1 E pl i] assms(2) unfolding is_get_def by fastforce
  with new_bind [OF q2 sends_weaken [OF sends_fetch_invoice] sends_weaken [OF m]] obtain invoice tr2
    where f: "fetch_invoice E pl i tr1 = (Ok invoice, tr2)" and q3: "q \<in> set (drop (length tr2) (snd (?mark pl invoice tr2)))"
    by blast
  have "\<not> already_posted invoice" using q3 by (auto simp: respond_def split: if_splits)
  with p r n f sends_new [OF m q3] show ?thesis by blast
qed

section \<open>Every operation needs a session\<close>

text \<open>The routes of \<^verbatim>\<open>app\<close> on payments and bank accounts; the typed query of the first is already parsed.\<close>

datatype ledger_op =
    ListPayments "int option"
  | InvoicePayments string
  | PostInvoice string
  | PayInvoice string
  | ReconcileHistory string
  | ReconcilePost string
  | ReconcilePatch
  | BankTransfer

fun ledger_run :: "lib_env \<Rightarrow> ledger_op \<Rightarrow> request \<Rightarrow> handler_run" where
  "ledger_run E (ListPayments limit) rq = greenbooks_list_payments E limit rq"
| "ledger_run E (InvoicePayments i) rq = greenbooks_list_invoice_payments E i rq"
| "ledger_run E (PostInvoice i) rq = greenbooks_post_invoice_to_gl E i rq"
| "ledger_run E (PayInvoice i) rq = greenbooks_create_invoice_payment E i rq"
| "ledger_run E (ReconcileHistory i) rq = greenbooks_reconcile_history E i rq"
| "ledger_run E (ReconcilePost i) rq = greenbooks_reconcile_post E i rq"
| "ledger_run E ReconcilePatch rq = greenbooks_reconcile_patch E rq"
| "ledger_run E BankTransfer rq = greenbooks_bank_transfer E rq"

definition LEDGER_TABLES :: "string list" where
  "LEDGER_TABLES = [''gb_payments'', ''gb_invoices'', ''gb_reconciliations'', ''gb_reconciliation_items'',
     ''rpc/gb_post_invoice_to_gl'', ''rpc/gb_next_payment_number'', ''rpc/gb_complete_reconciliation'', ''rpc/gb_bank_transfer'']"

definition ledger_request :: "lib_env \<Rightarrow> plane_request \<Rightarrow> bool" where
  "ledger_request E q \<longleftrightarrow>
     (\<exists>pl. lib_supabase_env (mx_vars E) = Ok pl \<and> list_ex (\<lambda>t. plane_target E pl t q) LEDGER_TABLES)
     \<and> pq_method q \<in> {''GET'', ''POST'', ''PATCH''}"

lemma ledger_requestI:
  "lib_supabase_env (mx_vars E) = Ok pl \<Longrightarrow> t \<in> set LEDGER_TABLES \<Longrightarrow> pq_method q \<in> {''GET'', ''POST'', ''PATCH''} \<Longrightarrow>
   plane_target E pl t q \<Longrightarrow> ledger_request E q"
  unfolding ledger_request_def list_ex_iff by blast

lemma ledger_call:
  assumes "lib_supabase_env (mx_vars E) = Ok pl" "t \<in> set LEDGER_TABLES" "m \<in> {''GET'', ''POST'', ''PATCH''}"
    and "url_parse (mx_ext E) (fst pl @ ''/rest/v1/'' @ t) = Ok u"
  shows "ledger_request E (lib_request E (snd pl) m (with_pairs pairs u) prefer b)"
    and "ledger_request E (lib_request E (snd pl) m u prefer b)"
  using assms(3) by (auto intro!: ledger_requestI [OF assms(1,2)] plane_target_call [OF assms(4)] simp del: insert_iff)

lemma ledger_get: "t \<in> set LEDGER_TABLES \<Longrightarrow> sends (ledger_request E) (gb_get E t pairs f)"
  unfolding gb_get_def by (intro sends_plane_bind sends_intros ledger_call(1)) simp_all

lemma ledger_parts:
  assumes "lib_supabase_env (mx_vars E) = Ok pl"
  shows "sends (ledger_request E) (fetch_invoice E pl i)" "sends (ledger_request E) (patch_invoice_row E pl i v)"
    and "sends (ledger_request E) (next_payment_number E pl)"
proof -
  show "sends (ledger_request E) (fetch_invoice E pl i)"
    unfolding fetch_invoice_def by (intro sends_intros ledger_call(1) [OF assms]) (simp_all add: LEDGER_TABLES_def)
  show "sends (ledger_request E) (patch_invoice_row E pl i v)"
    unfolding patch_invoice_row_def by (intro sends_intros ledger_call(1) [OF assms]) (simp_all add: LEDGER_TABLES_def)
  have "sends (ledger_request E) (\<lambda>tr. (Ok (f tr) :: (response, string) result, tr))" for f by (simp add: sends_def)
  then show "sends (ledger_request E) (next_payment_number E pl)"
    unfolding next_payment_number_def
    by (intro sends_bind sends_lib_post ledger_call(2) [OF assms]) (simp_all add: LEDGER_TABLES_def)
qed

lemma ledger_confined_ops: "\<exists>qs. snd (ledger_run E op rq tr) = tr @ qs \<and> (\<forall>q\<in>set qs. ledger_request E q)"
proof (cases op)
  case (PostInvoice i)
  then show ?thesis unfolding PostInvoice ledger_run.simps greenbooks_post_invoice_to_gl_def
    by (intro sends_run sends_plane_bind ledger_parts sends_intros ledger_call; simp add: LEDGER_TABLES_def)
next
  case (PayInvoice i)
  then show ?thesis unfolding PayInvoice ledger_run.simps greenbooks_create_invoice_payment_def record_payment_def
    by (intro sends_run sends_plane_bind ledger_parts sends_intros ledger_call; simp add: LEDGER_TABLES_def)
next
  case (ReconcileHistory i)
  then show ?thesis unfolding ReconcileHistory ledger_run.simps greenbooks_reconcile_history_def
    by (intro sends_run sends_plane_bind sends_intros ledger_call; simp add: LEDGER_TABLES_def)
next
  case (ReconcilePost i)
  then show ?thesis unfolding ReconcilePost ledger_run.simps greenbooks_reconcile_post_def Let_def
    by (intro sends_run sends_plane_bind sends_intros ledger_call; simp add: LEDGER_TABLES_def)
next
  case ReconcilePatch
  then show ?thesis unfolding ReconcilePatch ledger_run.simps greenbooks_reconcile_patch_def Let_def
    by (intro sends_run sends_plane_bind sends_intros ledger_call; simp add: LEDGER_TABLES_def)
next
  case BankTransfer
  then show ?thesis unfolding BankTransfer ledger_run.simps greenbooks_bank_transfer_def
    by (intro sends_run sends_plane_bind sends_intros ledger_call; simp add: LEDGER_TABLES_def)
qed (simp only: ledger_run.simps greenbooks_list_payments_def greenbooks_list_invoice_payments_def,
    intro sends_run sends_bind sends_simple ledger_get, simp add: LEDGER_TABLES_def)+

interpretation gl: session_api UNIV "ledger_run E" "ledger_request E" for E
proof
  fix a rq tr
  show "\<exists>qs. snd (ledger_run E a rq tr) = tr @ qs \<and> (\<forall>q\<in>set qs. ledger_request E q)" by (rule ledger_confined_ops)
  assume p: "rq_principal rq = None"
  show "ledger_run E a rq tr = (standard_error_response 401 ''Unauthorized'', tr)"
    by (cases a) (simp_all only: ledger_run.simps greenbooks_list_payments_def greenbooks_list_invoice_payments_def
        greenbooks_post_invoice_to_gl_def greenbooks_create_invoice_payment_def greenbooks_reconcile_history_def
        greenbooks_reconcile_post_def greenbooks_reconcile_patch_def greenbooks_bank_transfer_def Let_def p no_session)
qed

text \<open>
  No request without a session has any effect on payments, postings, reconciliations or transfers: of any sequence of
  requests to these routes the data plane sees what the requests with a session cause, the others are
  answered 401, and nothing is ever deleted.
\<close>

theorem ledger_needs_session:
  "snd (serve (ledger_run E) rs tr) = snd (serve (ledger_run E) (filter has_session rs) tr)
   \<and> (\<forall>q\<in>set (drop (length tr) (snd (serve (ledger_run E) rs tr))). ledger_request E q)
   \<and> (rq_principal rq = None \<longrightarrow> ledger_run E op rq tr = (standard_error_response 401 ''Unauthorized'', tr))"
  using gl.serve_without_session [of rs E tr] gl.serve_confined [of rs E tr] gl.refuses [of op rq E tr]
  by auto

section \<open>Observations\<close>

text \<open>A transfer is answered as created even when the procedure that makes it cannot be reached or refuses.\<close>

lemma transfer_always_created:
  assumes "rq_principal rq = Some p" "body_within MIB rq = Some b" "json_from_str (mx_ext E) b = Ok parsed" "transfer_ok parsed"
    and "lib_supabase_env (mx_vars E) = Ok pl"
  shows "rs_status (fst (greenbooks_bank_transfer E rq tr)) = 201"
proof -
  obtain r tr1 where "lib_post E pl ''rpc/gb_bank_transfer'' None (transfer_rpc parsed) tr = (Ok r, tr1)"
    using lib_post_returns by blast
  then show ?thesis using assms
    by (simp add: greenbooks_bank_transfer_def require_session_def json_body_or_400_def lib_plane_def ok_or_def dz_run_def
        dz_bind_def respond_def json_response_def)
qed

text \<open>The invoice is changed although the payment was refused: the status of its insertion is not looked at.\<close>

lemma refused_payment_counts: "text_or_400 (Ok (st, txt)) tr = (Ok txt, tr)"
  by (simp add: text_or_400_def)

section \<open>Witnesses\<close>

definition wit_invoice :: json where
  "wit_invoice = JObj [(''amount'', jrat 5), (''payment_date'', JStr ''2024-01-01''), (''status'', JStr ''sent''), (''balance_due'', jrat 8),
     (''total'', jrat 10), (''amount_paid'', jrat 2)]"

lemma wit_number: "next_payment_number (wit_json_lib v) (''k'', ''k'') tr = (Ok (trim_quotes ''x''),
  tr @ [lib_request (wit_json_lib v) ''k'' ''POST'' (wit_url_of ''k/rest/v1/rpc/gb_next_payment_number'') None
    (Some (JObj [(''p_org_id'', JStr GREENBOOKS_DEFAULT_ORG_ID)]))])"
  by (simp add: next_payment_number_def wit_json_calls dz_bind_def plane_ok_def)

lemma wit_invoice_rows: "json_rows (mx_ext (wit_json_lib v)) ''x'' = [v]"
  by (simp add: json_rows_def wit_json_lib_def)

lemma wit_fetch: "fetch_invoice (wit_json_lib v) (''k'', ''k'') i tr = (Ok v, tr @ [lib_request (wit_json_lib v) ''k'' ''GET''
    (with_pairs [(''select'', GREENBOOKS_INVOICE_SELECT), (''id'', eq_str i), (''limit'', ''1'')] (wit_url_of ''k/rest/v1/gb_invoices''))
    None None])"
  by (simp add: fetch_invoice_def wit_json_calls dz_bind_def text_or_400_def ok_or_def parse_one_def wit_invoice_rows)

lemma wit_amounts:
  "amount_of ''amount'' wit_invoice = 5" "amount_of ''balance_due'' wit_invoice = 8" "get_str ''status'' wit_invoice = Some ''sent''"
  "amount_of ''total'' wit_invoice = 10" "amount_of ''amount_paid'' wit_invoice = 2"
  "get_str ''payment_date'' wit_invoice = Some ''2024-01-01''" "jget ''journal_entry_id'' wit_invoice = None"
  by (simp_all add: wit_invoice_def amount_of_def get_f64_def get_str_def jrat_def as_f64_def)

definition wit_paid :: "plane_request list" where
  "wit_paid = snd (greenbooks_create_invoice_payment (wit_json_lib wit_invoice) ''i'' wit_post [])"

lemma wit_paid_last: "length wit_paid = 4 \<and> pq_method (last wit_paid) = ''PATCH''"
proof -
  have "trim ''2024-01-01'' \<noteq> []" by code_simp
  then have i: "payment_input wit_invoice = Ok ()" by (simp add: payment_input_def wit_amounts)
  have a: "payment_allowed X 5 wit_invoice = Ok ()" for X by (simp add: payment_allowed_def wit_amounts)
  have s: "rq_principal wit_post \<noteq> None" "rq_body wit_post = Some []" by (simp_all add: wit_post_def wit_daisy_request_def)
  then show ?thesis
    by (auto simp: wit_paid_def greenbooks_create_invoice_payment_def record_payment_def patch_invoice_row_def dz_bind_def
        require_session_def ok_or_def lib_plane_def wit_json_env wit_json_body wit_json_calls wit_fetch wit_number text_or_400_def
        respond_def wit_amounts a i)
qed

theorem payment_within_balance_witness:
  "\<exists>parsed invoice. 0 < amount_of ''amount'' parsed \<and> amount_of ''amount'' parsed \<le> amount_of ''balance_due'' invoice
     \<and> payment_write ''i'' parsed invoice (last wit_paid)"
proof -
  have q: "last wit_paid \<in> set wit_paid" "pq_method (last wit_paid) = ''PATCH''"
    using wit_paid_last by (auto intro!: last_in_set)
  have n: "pq_method (last wit_paid) \<noteq> ''GET''" "\<not> number_request (last wit_paid)"
    using q(2) by (simp_all add: number_request_def)
  have "last wit_paid \<in> set (drop (length []) (snd (greenbooks_create_invoice_payment (wit_json_lib wit_invoice) ''i'' wit_post [])))"
    using q(1) by (simp add: wit_paid_def)
  from payment_within_balance [OF this n] show ?thesis by blast
qed

theorem payment_keeps_total_witness:
  "new_balance_due 5 wit_invoice = Finite 3 \<and> new_status 5 wit_invoice \<noteq> ''paid''"
  using payment_keeps_total [of wit_invoice 10 2 5] by (simp add: wit_amounts)

theorem posting_not_repeated_witness:
  "\<exists>E rq q. pq_method q = ''PATCH'' \<and> pq_body q = Some (JObj [(''status'', JStr ''sent'')])
     \<and> q \<in> set (snd (greenbooks_post_invoice_to_gl E ''i'' rq []))"
proof -
  let ?E = "wit_json_lib wit_invoice\<lparr>mx_reply := (\<lambda>tr q. Ok (if tr = [] then 500 else 200, ''x''))\<rparr>"
  let ?tr = "snd (greenbooks_post_invoice_to_gl ?E ''i'' wit_post [])"
  have env: "lib_supabase_env (mx_vars ?E) = Ok (''k'', ''k'')" using wit_json_env by simp
  have url: "url_parse (mx_ext ?E) s = Ok (wit_url_of s)" for s
    by (simp add: wit_json_lib_def wit_lib_def wit_daisy_def wit_url_of_def)
  have rows: "json_rows (mx_ext ?E) ''x'' = [wit_invoice]" using wit_invoice_rows by simp
  have s: "rq_principal wit_post \<noteq> None" by (simp add: wit_post_def wit_daisy_request_def)
  then have l: "length ?tr = 3 \<and> pq_method (last ?tr) = ''PATCH''"
    using env url rows
    by (auto simp: greenbooks_post_invoice_to_gl_def require_session_def ok_or_def lib_plane_def lib_post_def lib_send_def
        rpc_object_def plane_ok_def fetch_invoice_def lib_call_def parse_upstream_url_or_500_def text_or_400_def parse_one_def
        already_posted_def wit_amounts patch_invoice_row_def respond_def dz_bind_def)
  then have q: "last ?tr \<in> set (drop (length []) ?tr)" "pq_method (last ?tr) = ''PATCH''" by (auto intro!: last_in_set)
  then show ?thesis using posting_not_repeated [OF q] by (metis drop0 list.size(3))
qed

theorem ledger_needs_session_witness:
  "ledger_run wit_lib BankTransfer (wit_request ''POST'' no_headers) [] = (standard_error_response 401 ''Unauthorized'', [])"
  using ledger_needs_session [of wit_lib "[]" "[]" "wit_request ''POST'' no_headers" BankTransfer] by (simp add: wit_request_def)

end
