(* ===== verification/Proxy.thy ===== *)
theory Proxy
  imports Lib_Plane Egress
begin

text \<open>
  The handlers of \<^verbatim>\<open>lib.rs\<close> that hand a request on to the tools application behind the gateway, through the
  plain HTTP client or through the egress client, and what they hand back.
\<close>

section \<open>What is sent and what comes back\<close>

record proxy_request =
  px_method :: string
  px_url :: string
  px_headers :: "(string \<times> string) list"
  px_body :: "string option"

text \<open>
  From outside: the third-party functions, the upstream (a body that cannot be read is empty), the
  milliseconds a request took, and the text of the failure to read a request's body.
\<close>

record proxy_env =
  pe_ext :: ext
  pe_base :: string
  pe_send :: "proxy_request \<Rightarrow> (http_error, egress_response) result"
  pe_millis :: "proxy_request \<Rightarrow> nat"
  pe_body_error :: "request \<Rightarrow> string"

definition GATEWAY_MARK :: string where
  "GATEWAY_MARK = ''__gateway_internal=1''"

definition PROXY_BODY_LIMIT :: nat where
  "PROXY_BODY_LIMIT = 10 * 1024 * 1024"

definition FORWARDED_HEADERS :: "string list" where
  "FORWARDED_HEADERS = [''cookie'', ''authorization'', ''content-type'', ''accept'', ''x-csrf-token'']"

definition RETURNED_HEADERS :: "string list" where
  "RETURNED_HEADERS = [''content-type'', ''cache-control'', ''etag'', ''location'', ''set-cookie'']"

definition marked_url :: "string \<Rightarrow> string \<Rightarrow> string" where
  "marked_url base query = (if query = [] then base @ ''?'' @ GATEWAY_MARK else base @ ''?'' @ query @ ''&'' @ GATEWAY_MARK)"

definition gateway_headers :: "ext \<Rightarrow> request \<Rightarrow> (string \<times> string) list" where
  "gateway_headers X rq = [(''x-gateway-internal'', ''1''), (''user-agent'', ''lua-resty-http''),
     (''x-request-id'', request_id_from_extension X rq)]"

definition forwarded :: "string list \<Rightarrow> request \<Rightarrow> (string \<times> string) list" where
  "forwarded names rq = filter_map (\<lambda>h. map_option (\<lambda>v. (h, v)) (hm_get (rq_headers rq) h)) names"

text \<open>\<^verbatim>\<open>StatusCode::from_u16(status).unwrap_or(StatusCode::BAD_GATEWAY)\<close>, and the milliseconds as \<^verbatim>\<open>u64\<close>.\<close>

definition status_from :: "nat \<Rightarrow> nat" where
  "status_from n = (if 100 \<le> n \<and> n \<le> 999 then n else 502)"

definition upstream_answered :: "nat \<Rightarrow> nat \<Rightarrow> upstream_trace" where
  "upstream_answered status ms = \<lparr>ut_status = Some status, ut_latency_ms = Some (ms mod 2 ^ 64), ut_timeout_hit = False, ut_error_kind = None\<rparr>"

definition upstream_unavailable :: "string \<Rightarrow> string \<Rightarrow> bool \<Rightarrow> nat \<Rightarrow> response" where
  "upstream_unavailable intro err timeout_hit ms =
     (json_response 502 (JObj [(''error'', JObj [(''code'', jnat 502), (''kind'', JStr ''upstream_unavailable''),
        (''message'', JStr (intro @ err))])]))
     \<lparr>rs_upstream := Some \<lparr>ut_status = None, ut_latency_ms = Some (ms mod 2 ^ 64), ut_timeout_hit = timeout_hit,
        ut_error_kind = Some ''upstream_unavailable''\<rparr>\<rparr>"

text \<open>The copy of the response headers: the loop over the names, and for each over its values.\<close>

definition returned_headers :: "header_map \<Rightarrow> header_map" where
  "returned_headers up = fold (\<lambda>h out. fold (\<lambda>v. hm_append h v) (up h) out) RETURNED_HEADERS no_headers"

definition returned :: "egress_response \<Rightarrow> nat \<Rightarrow> response" where
  "returned up ms = \<lparr>rs_status = status_from (er_status up), rs_headers = returned_headers (er_headers up), rs_body = Raw (er_body up),
     rs_actor = None, rs_upstream = Some (upstream_answered (er_status up) ms)\<rparr>"

section \<open>Handlers\<close>

text \<open>A handler answers, and sends at most the requests it lists.\<close>

type_synonym proxy_run = "response \<times> proxy_request list"

definition proxy_my_tasks :: "proxy_env \<Rightarrow> request \<Rightarrow> proxy_run" where
  "proxy_my_tasks P rq =
     (let q = \<lparr>px_method = ''GET'', px_url = marked_url (pe_base P @ ''/api/my-tasks'') (unwrap_or [] (rq_query rq)),
            px_headers = gateway_headers (pe_ext P) rq @ forwarded [''cookie'', ''authorization''] rq, px_body = None\<rparr>
      in ((case pe_send P q of
             Inr up \<Rightarrow> \<lparr>rs_status = status_from (er_status up),
                 rs_headers = hm_insert ''content-type'' (unwrap_or ''application/json'' (hm_get (er_headers up) ''content-type'')) no_headers,
                 rs_body = Raw (er_body up), rs_actor = None, rs_upstream = Some (upstream_answered (er_status up) (pe_millis P q))\<rparr>
           | Inl e \<Rightarrow> upstream_unavailable ''failed to reach tools API: '' (he_text e) (he_timeout e) (pe_millis P q)), [q]))"

definition loop_detected :: "string \<Rightarrow> response" where
  "loop_detected upstream_path = json_response 508 (JObj [(''error'', JObj [(''code'', jnat 508), (''kind'', JStr ''proxy_loop_detected''),
     (''message'', JStr ''gateway detected recursive internal proxy request''), (''upstream_path'', JStr upstream_path)])])"

definition unreadable_body :: "string \<Rightarrow> response" where
  "unreadable_body e = json_response 400 (JObj [(''error'', JObj [(''code'', jnat 400), (''kind'', JStr ''invalid_request_body''),
     (''message'', JStr (''failed to read request body: '' @ e))])])"

definition proxied :: "proxy_env \<Rightarrow> string \<Rightarrow> request \<Rightarrow> (response, proxy_request) result" where
  "proxied P upstream_path rq =
     (let query = unwrap_or [] (rq_query rq)
      in if str_contains GATEWAY_MARK query then Err (loop_detected upstream_path)
         else try_result (ok_or (unreadable_body (pe_body_error P rq)) (body_within PROXY_BODY_LIMIT rq)) (\<lambda>body.
           Ok \<lparr>px_method = rq_method rq, px_url = marked_url (pe_base P @ upstream_path) query,
             px_headers = gateway_headers (pe_ext P) rq @ forwarded FORWARDED_HEADERS rq, px_body = Some body\<rparr>))"

definition proxy_api_path :: "proxy_env \<Rightarrow> string \<Rightarrow> request \<Rightarrow> proxy_run" where
  "proxy_api_path P upstream_path rq = (case proxied P upstream_path rq of
     Inl resp \<Rightarrow> (resp, [])
   | Inr q \<Rightarrow> ((case pe_send P q of
         Inr up \<Rightarrow> returned up (pe_millis P q)
       | Inl e \<Rightarrow> upstream_unavailable ''failed to reach tools upstream API: '' (he_text e) (he_timeout e) (pe_millis P q)), [q]))"

definition proxy_greenbooks :: "proxy_env \<Rightarrow> string \<Rightarrow> request \<Rightarrow> proxy_run" where
  "proxy_greenbooks P path rq = proxy_api_path P (''/api/greenbooks/'' @ path) rq"

definition proxy_greenspot :: "proxy_env \<Rightarrow> string \<Rightarrow> request \<Rightarrow> proxy_run" where
  "proxy_greenspot P path rq = proxy_api_path P (''/api/greenspot/'' @ path) rq"

definition proxy_greenbooks_direct :: "proxy_env \<Rightarrow> request \<Rightarrow> proxy_run" where
  "proxy_greenbooks_direct P rq = proxy_api_path P (rq_path rq) rq"

definition proxy_users :: "proxy_env \<Rightarrow> request \<Rightarrow> proxy_run" where
  "proxy_users P rq = proxy_api_path P ''/api/users'' rq"

text \<open>The same through the egress client, which has its own allowlist and limits.\<close>

definition egress_headers :: "ext \<Rightarrow> request \<Rightarrow> header_map" where
  "egress_headers X rq =
     (let h0 = hm_insert ''user-agent'' ''lua-resty-http'' no_headers;
          h1 = (case hv_from_str X (request_id_from_extension X rq) of None \<Rightarrow> h0 | Some v \<Rightarrow> hm_insert ''x-request-id'' v h0)
      in fold (\<lambda>(h, v). hm_insert h v) (forwarded FORWARDED_HEADERS rq) h1)"

definition egress_proxy_api_path ::
  "proxy_env \<Rightarrow> resolver \<Rightarrow> sender \<Rightarrow> egress_config \<Rightarrow> nat \<Rightarrow> string \<Rightarrow> request \<Rightarrow> response" where
  "egress_proxy_api_path P dns send cfg ms upstream_path rq = (case body_within PROXY_BODY_LIMIT rq of
     None \<Rightarrow> unreadable_body (pe_body_error P rq)
   | Some bytes \<Rightarrow>
       (case request_with_headers (pe_ext P) dns send cfg (rq_method rq)
          (marked_url (pe_base P @ upstream_path) (unwrap_or [] (rq_query rq)))
          (if bytes = [] then None else Some bytes) (Some (egress_headers (pe_ext P) rq)) of
        Inr up \<Rightarrow> returned up ms
      | Inl err \<Rightarrow> upstream_unavailable ''failed to reach tools upstream API: '' (egress_display err)
          (case err of HttpError e \<Rightarrow> he_timeout e | _ \<Rightarrow> False) ms))"

section \<open>Loops\<close>

text \<open>
  The request the upstream receives, and how often a request is handed on when every upstream is again a gateway:
  \<open>as\<close> are the handlers it meets one after the other.
\<close>

definition hop :: "proxy_request \<Rightarrow> request \<Rightarrow> request" where
  "hop q rq = rq\<lparr>rq_method := px_method q, rq_query := map_option snd (split_once (CHR ''?'') (px_url q)),
     rq_headers := (\<lambda>k. map snd (filter (\<lambda>(h, _). h = k) (px_headers q))), rq_body := Some (unwrap_or [] (px_body q))\<rparr>"

fun travel :: "('a \<Rightarrow> request \<Rightarrow> proxy_run) \<Rightarrow> 'a list \<Rightarrow> request \<Rightarrow> nat" where
  "travel run [] rq = 0"
| "travel run (a # as) rq = (case snd (run a rq) of [] \<Rightarrow> 0 | q # _ \<Rightarrow> Suc (travel run as (hop q rq)))"

locale hop_guard =
  fixes run :: "'a \<Rightarrow> request \<Rightarrow> proxy_run" and marked :: "request \<Rightarrow> bool"
  assumes marks: "q \<in> set (snd (run a rq)) \<Longrightarrow> marked (hop q rq')"
    and refuses: "marked rq \<Longrightarrow> snd (run a rq) = []"
begin

lemma travels_once: "travel run as rq \<le> 1"
proof (cases as)
  case (Cons a as')
  then show ?thesis
  proof (cases "snd (run a rq)")
    case (Cons q qs)
    then have "snd (run b (hop q rq)) = []" for b using marks [of q a rq rq] by (intro refuses) simp
    then have "travel run as' (hop q rq) = 0" by (cases as') simp_all
    then show ?thesis using \<open>as = a # as'\<close> Cons by simp
  qed simp
qed simp

end

datatype proxy_op = GreenbooksPath string | GreenspotPath string | GreenbooksDirect | Users

fun proxy_serve :: "(proxy_env \<times> proxy_op) \<Rightarrow> request \<Rightarrow> proxy_run" where
  "proxy_serve (P, GreenbooksPath path) rq = proxy_greenbooks P path rq"
| "proxy_serve (P, GreenspotPath path) rq = proxy_greenspot P path rq"
| "proxy_serve (P, GreenbooksDirect) rq = proxy_greenbooks_direct P rq"
| "proxy_serve (P, Users) rq = proxy_users P rq"

lemma proxy_serve_path: "\<exists>path. \<forall>rq. proxy_serve a rq = proxy_api_path (fst a) (path rq) rq"
proof -
  obtain P op where a: "a = (P, op)" by (cases a)
  show ?thesis unfolding a
  proof (cases op)
    case (GreenbooksPath x) then show "\<exists>path. \<forall>rq. proxy_serve (P, op) rq = proxy_api_path (fst (P, op)) (path rq) rq"
      by (intro exI [of _ "\<lambda>_. ''/api/greenbooks/'' @ x"]) (simp add: proxy_greenbooks_def)
  next
    case (GreenspotPath x) then show "\<exists>path. \<forall>rq. proxy_serve (P, op) rq = proxy_api_path (fst (P, op)) (path rq) rq"
      by (intro exI [of _ "\<lambda>_. ''/api/greenspot/'' @ x"]) (simp add: proxy_greenspot_def)
  next
    case GreenbooksDirect then show "\<exists>path. \<forall>rq. proxy_serve (P, op) rq = proxy_api_path (fst (P, op)) (path rq) rq"
      by (intro exI [of _ rq_path]) (simp add: proxy_greenbooks_direct_def)
  next
    case Users then show "\<exists>path. \<forall>rq. proxy_serve (P, op) rq = proxy_api_path (fst (P, op)) (path rq) rq"
      by (intro exI [of _ "\<lambda>_. ''/api/users''"]) (simp add: proxy_users_def)
  qed
qed

lemma str_contains_suffix: "str_contains p (s @ p)"
  by (induction s; cases p) (auto simp: starts_with_def)

lemma marked_url_ends: "\<exists>b x. marked_url base query = b @ CHR ''?'' # x @ GATEWAY_MARK"
  unfolding marked_url_def by (rule exI [of _ base], cases "query = []") (auto intro: exI [of _ "[]"] exI [of _ "query @ ''&''"])

lemma marked_url_query: "\<exists>x. map_option snd (split_once (CHR ''?'') (marked_url base query)) = Some (x @ GATEWAY_MARK)"
proof -
  obtain b x where m: "marked_url base query = b @ CHR ''?'' # x @ GATEWAY_MARK" using marked_url_ends by blast
  then obtain p r where s: "split_once (CHR ''?'') (marked_url base query) = Some (p, r)" by (simp add: split_once_def)
  then have pr: "marked_url base query = p @ CHR ''?'' # r" "CHR ''?'' \<notin> set p" using split_once_parts by blast+
  then have "\<exists>y. r = y @ x @ GATEWAY_MARK" using m by (auto simp: append_eq_append_conv2 Cons_eq_append_conv append_eq_Cons_conv)
  then show ?thesis using s by (metis append.assoc option.simps(9) snd_conv)
qed

lemma proxied_url: "proxied P path rq = Ok q \<Longrightarrow> \<exists>x. map_option snd (split_once (CHR ''?'') (px_url q)) = Some (x @ GATEWAY_MARK)"
  using marked_url_query by (auto simp: proxied_def Let_def try_result_Ok split: if_splits)

interpretation guard: hop_guard proxy_serve "\<lambda>rq. str_contains GATEWAY_MARK (unwrap_or [] (rq_query rq))"
proof
  fix q a rq rq'
  obtain path where path: "\<And>rq. proxy_serve a rq = proxy_api_path (fst a) (path rq) rq" using proxy_serve_path by blast
  show "snd (proxy_serve a rq) = []" if "str_contains GATEWAY_MARK (unwrap_or [] (rq_query rq))"
    using that by (simp add: path proxy_api_path_def proxied_def)
  assume "q \<in> set (snd (proxy_serve a rq))"
  then have "proxied (fst a) (path rq) rq = Ok q" by (auto simp: path proxy_api_path_def split: sum.splits)
  from proxied_url [OF this] show "str_contains GATEWAY_MARK (unwrap_or [] (rq_query (hop q rq')))"
    by (auto simp: hop_def str_contains_suffix)
qed


text \<open>
  The handler of \<^verbatim>\<open>/api/my-tasks\<close> does not look at the mark: configured with itself as its upstream, it hands
  a request on as often as there is a next gateway.
\<close>

lemma my_tasks_unguarded: "travel (\<lambda>P. proxy_my_tasks P) Ps rq = length Ps"
  by (induction Ps arbitrary: rq) (simp_all add: proxy_my_tasks_def Let_def)

section \<open>What passes through\<close>

lemma returned_headers_exact: "returned_headers up = (\<lambda>k. if k \<in> set RETURNED_HEADERS then up k else [])"
proof -
  have v: "fold (\<lambda>v. hm_append h v) vs out = out(h := out h @ vs)" for h vs and out :: header_map
    by (induction vs arbitrary: out) (auto simp: hm_append_def)
  have f: "fold (\<lambda>h out. fold (\<lambda>v. hm_append h v) (up h) out) hs out = (\<lambda>k. out k @ (if k \<in> set hs then up k else []))"
    if "distinct hs" for hs out using that by (induction hs arbitrary: out) (auto simp: v)
  have "distinct RETURNED_HEADERS" by (simp add: RETURNED_HEADERS_def)
  from f [OF this] show ?thesis by (simp add: returned_headers_def)
qed

text \<open>
  C22: What a proxy handler hands on is one request with the method and the body of the request it got, a body of at most ten
  mebibytes, to the path it stands for at the configured upstream; of the client's headers it carries the five that are
  listed and no other. What comes back to the client is the status, the body and the five listed headers of the
  upstream's answer, every value of them in order and nothing else, or a 502.
\<close>

theorem proxy_faithful:
  assumes "q \<in> set (snd (proxy_api_path P path rq))"
  shows "snd (proxy_api_path P path rq) = [q] \<and> px_method q = rq_method rq \<and> px_body q = rq_body rq
    \<and> length (the (px_body q)) \<le> 10485760
    \<and> (\<exists>query. px_url q = pe_base P @ path @ ''?'' @ query)
    \<and> (\<exists>fs. px_headers q = gateway_headers (pe_ext P) rq @ fs
         \<and> (\<forall>h v. (h, v) \<in> set fs \<longleftrightarrow> h \<in> set FORWARDED_HEADERS \<and> hm_get (rq_headers rq) h = Some v))
    \<and> (case pe_send P q of
         Inl _ \<Rightarrow> rs_status (fst (proxy_api_path P path rq)) = 502
       | Inr up \<Rightarrow> rs_body (fst (proxy_api_path P path rq)) = Raw (er_body up)
           \<and> rs_status (fst (proxy_api_path P path rq)) = status_from (er_status up)
           \<and> rs_headers (fst (proxy_api_path P path rq)) = (\<lambda>k. if k \<in> set RETURNED_HEADERS then er_headers up k else []))"
proof -
  from assms have q: "proxied P path rq = Ok q" by (auto simp: proxy_api_path_def split: sum.splits)
  then obtain body where b: "rq_body rq = Some body" "length body \<le> 10485760"
    and q': "q = \<lparr>px_method = rq_method rq, px_url = marked_url (pe_base P @ path) (unwrap_or [] (rq_query rq)),
             px_headers = gateway_headers (pe_ext P) rq @ forwarded FORWARDED_HEADERS rq, px_body = Some body\<rparr>"
    by (auto simp: proxied_def Let_def try_result_Ok body_within_def ok_or_def PROXY_BODY_LIMIT_def split: if_splits option.splits)
  have f: "(h, v) \<in> set (forwarded FORWARDED_HEADERS rq) \<longleftrightarrow> h \<in> set FORWARDED_HEADERS \<and> hm_get (rq_headers rq) h = Some v" for h v
    by (auto simp: forwarded_def)
  have u: "\<exists>query. px_url q = pe_base P @ path @ ''?'' @ query" by (simp add: q' marked_url_def)
  have a: "case pe_send P q of
      Inl _ \<Rightarrow> rs_status (fst (proxy_api_path P path rq)) = 502
    | Inr up \<Rightarrow> rs_body (fst (proxy_api_path P path rq)) = Raw (er_body up)
        \<and> rs_status (fst (proxy_api_path P path rq)) = status_from (er_status up)
        \<and> rs_headers (fst (proxy_api_path P path rq)) = (\<lambda>k. if k \<in> set RETURNED_HEADERS then er_headers up k else [])"
    using q by (simp add: proxy_api_path_def returned_def returned_headers_exact upstream_unavailable_def json_response_def split: sum.splits)
  have "snd (proxy_api_path P path rq) = [q]" using q by (simp add: proxy_api_path_def)
  then show ?thesis using b f u a by (simp add: q')
qed

definition wit_proxy :: proxy_env where
  "wit_proxy = \<lparr>pe_ext = wit_ext, pe_base = ''h'', pe_send = (\<lambda>_. Err \<lparr>he_timeout = True, he_text = []\<rparr>), pe_millis = (\<lambda>_. 0),
     pe_body_error = (\<lambda>_. [])\<rparr>"

theorem proxy_faithful_witness:
  "\<exists>q. snd (proxy_api_path wit_proxy ''/p'' (wit_request ''PUT'' no_headers)) = [q] \<and> px_method q = ''PUT''
     \<and> rs_status (fst (proxy_api_path wit_proxy ''/p'' (wit_request ''PUT'' no_headers))) = 502"
proof -
  let ?rq = "wit_request ''PUT'' no_headers"
  obtain q where q: "q \<in> set (snd (proxy_api_path wit_proxy ''/p'' ?rq))"
    by (auto simp: proxy_api_path_def proxied_def wit_request_def GATEWAY_MARK_def body_within_def ok_or_def split: sum.splits)
  show ?thesis using proxy_faithful [OF q] by (simp add: wit_request_def wit_proxy_def)
qed

end
