(* ===== verification/Rich_Text.thy ===== *)
theory Rich_Text
  imports Json_Value
begin

text \<open>
  \<^verbatim>\<open>rich_text.rs\<close>: the cleaning of the HTML that users write in descriptions and comments. The
  cleaner itself is the \<^verbatim>\<open>ammonia\<close> crate, a function of the builder the gateway sets up.
\<close>

record html_builder =
  hb_tags :: "string list"
  hb_tag_attributes :: "(string \<times> string list) list"
  hb_url_schemes :: "string list"
  hb_link_rel :: "string option"

type_synonym cleaner = "html_builder \<Rightarrow> string \<Rightarrow> string"

definition rich_html_builder :: html_builder where
  "rich_html_builder =
     \<lparr>hb_tags = [''p'', ''br'', ''strong'', ''em'', ''u'', ''s'', ''ul'', ''ol'', ''li'', ''blockquote'', ''code'', ''pre'',
        ''h1'', ''h2'', ''h3'', ''h4'', ''a'', ''span''],
      hb_tag_attributes = [(''a'', [''href'', ''title'', ''target'']), (''span'', [''class''])],
      hb_url_schemes = [''http'', ''https'', ''mailto''],
      hb_link_rel = Some ''noopener noreferrer nofollow''\<rparr>"

definition sanitize_rich_html :: "cleaner \<Rightarrow> string \<Rightarrow> string" where
  "sanitize_rich_html clean input = clean rich_html_builder input"

definition sanitize_description_value :: "cleaner \<Rightarrow> json \<Rightarrow> json" where
  "sanitize_description_value clean v = (case v of JStr s \<Rightarrow> JStr (sanitize_rich_html clean s) | _ \<Rightarrow> JNull)"

text \<open>What a stored description may be.\<close>

definition clean_description :: "cleaner \<Rightarrow> json \<Rightarrow> bool" where
  "clean_description clean v \<longleftrightarrow> v = JNull \<or> (\<exists>s. v = JStr (sanitize_rich_html clean s))"

lemma sanitized_clean [simp, intro]: "clean_description clean (sanitize_description_value clean v)"
  by (auto simp: clean_description_def sanitize_description_value_def split: json.splits)

end
