(* ===== verification/Exponential_Tasks.thy ===== *)
theory Exponential_Tasks
  imports Lib_Plane Access_Middleware Rich_Text
begin

text \<open>
  The project-tracking API of \<^verbatim>\<open>lib.rs\<close>, first part: tasks with their comments, sprints, labels and the
  saved views of a user. What the extractors of the framework make of a request before a handler runs
  (path segments, the typed query, the JSON body) are the arguments of the handler.
\<close>

section \<open>Calls\<close>

text \<open>
  Handlers that return \<^verbatim>\<open>Result<Response, AppError>\<close> turn a failure to reach the data plane into an
  internal error, the others into a 502; a reply without success is handed on, status and text.
\<close>

definition accepted :: "nat \<times> string \<Rightarrow> string daisy" where
  "accepted r = (case r of (st, txt) \<Rightarrow> dz_lift (if plane_ok st then Ok txt else Err (raw_response st txt)))"

definition app_call :: "lib_env \<Rightarrow> string \<times> string \<Rightarrow> string \<Rightarrow> string \<Rightarrow> (string \<times> string) list
     \<Rightarrow> string option \<Rightarrow> json option \<Rightarrow> (nat \<times> string) daisy" where
  "app_call E pl method table pairs prefer body = plane_query E (fst pl) (snd pl) method table pairs prefer body"

definition app_insert :: "lib_env \<Rightarrow> string \<times> string \<Rightarrow> string \<Rightarrow> string \<Rightarrow> json \<Rightarrow> string daisy" where
  "app_insert E pl table prefer row =
     dz_bind (lib_post E pl table (Some prefer) (JArr [row])) (\<lambda>r.
     dz_bind (dz_lift (map_err internal r)) accepted)"

definition gateway_call :: "lib_env \<Rightarrow> string \<times> string \<Rightarrow> string \<Rightarrow> string \<Rightarrow> (string \<times> string) list
     \<Rightarrow> string option \<Rightarrow> json option \<Rightarrow> string daisy" where
  "gateway_call E pl method table pairs prefer body =
     dz_bind (lib_call E pl method table pairs prefer body) (\<lambda>r.
     dz_bind (dz_lift (map_err (legacy_error_response 502) r)) accepted)"

definition gateway_insert :: "lib_env \<Rightarrow> string \<times> string \<Rightarrow> string \<Rightarrow> json \<Rightarrow> string daisy" where
  "gateway_insert E pl table row =
     dz_bind (lib_post E pl table (Some ''return=representation'') (JArr [row])) (\<lambda>r.
     dz_bind (dz_lift (map_err (legacy_error_response 502) r)) accepted)"

definition org_pair :: "string \<times> string" where
  "org_pair = (''org_id'', eq_str EXPONENTIAL_ORG_ID)"

text \<open>\<^verbatim>\<open>rows.first().cloned().unwrap_or_else(|| json!({}))\<close>, and a reply under one name.\<close>

definition first_or_empty :: "lib_env \<Rightarrow> string \<Rightarrow> json" where
  "first_or_empty E txt = unwrap_or (JObj []) (parse_one (mx_ext E) txt)"

definition named_list :: "lib_env \<Rightarrow> string \<Rightarrow> string \<Rightarrow> json" where
  "named_list E k txt = JObj [(k, json_or (mx_ext E) (JArr []) txt)]"

definition created :: "string \<Rightarrow> json \<Rightarrow> response" where
  "created k v = json_response 201 (JObj [(k, v)])"

definition success_true :: response where
  "success_true = json_ok (JObj [(''success'', JBool True)])"

definition bad_input :: "string \<Rightarrow> response daisy" where
  "bad_input m = respond (legacy_error_response 400 m)"

text \<open>\<^verbatim>\<open>v.get(k).and_then(|v| v.as_str()).unwrap_or("")\<close>, and with \<^verbatim>\<open>.trim()\<close>.\<close>

definition str_field :: "string \<Rightarrow> json \<Rightarrow> string" where
  "str_field k v = unwrap_or [] (get_str k v)"

definition trim_field :: "string \<Rightarrow> json \<Rightarrow> string" where
  "trim_field k v = trim (str_field k v)"

text \<open>The members of the body that an update hands on.\<close>

definition picked :: "string list \<Rightarrow> json \<Rightarrow> (string \<times> json) list" where
  "picked ks v = filter_map (\<lambda>k. map_option (\<lambda>x. (k, x)) (jget k v)) ks"

section \<open>Labels\<close>

definition get_exponential_labels :: "lib_env \<Rightarrow> request \<Rightarrow> handler_run" where
  "get_exponential_labels E rq = dz_run (
     dz_bind (require_session (rq_principal rq)) (\<lambda>_.
     dz_bind (lib_plane E) (\<lambda>pl.
     dz_bind (gateway_call E pl ''GET'' ''labels'' [(''select'', ''*''), org_pair, (''order'', ''name.asc'')] None None) (\<lambda>txt.
       respond (json_ok (named_list E ''labels'' txt))))))"

definition create_exponential_label :: "lib_env \<Rightarrow> request \<Rightarrow> handler_run" where
  "create_exponential_label E rq = dz_run (
     dz_bind (require_session (rq_principal rq)) (\<lambda>_.
     dz_bind (lib_plane E) (\<lambda>pl.
     dz_bind (json_body_or_400 E MIB rq) (\<lambda>parsed.
       let name = trim_field ''name'' parsed; color = str_field ''color'' parsed
       in if name = [] then bad_input ''Label name is required''
          else if color = [] then bad_input ''Label color is required''
          else dz_bind (gateway_insert E pl ''labels''
                 (JObj [(''org_id'', JStr EXPONENTIAL_ORG_ID), (''name'', JStr name), (''color'', JStr color)])) (\<lambda>txt.
               respond (created ''label'' (first_or_empty E txt)))))))"

definition delete_exponential_label :: "lib_env \<Rightarrow> string option \<Rightarrow> request \<Rightarrow> handler_run" where
  "delete_exponential_label E i rq = dz_run (
     dz_bind (require_session (rq_principal rq)) (\<lambda>_.
       case opt_filter (\<lambda>v. v \<noteq> []) i of
         None \<Rightarrow> bad_input ''Label id is required''
       | Some v \<Rightarrow>
           dz_bind (lib_plane E) (\<lambda>pl.
           dz_bind (gateway_call E pl ''DELETE'' ''labels'' [(''id'', eq_str v)] None None) (\<lambda>_.
             respond success_true))))"

section \<open>Saved views\<close>

definition get_exponential_views :: "lib_env \<Rightarrow> request \<Rightarrow> handler_run" where
  "get_exponential_views E rq = dz_run (
     dz_bind (require_session (rq_principal rq)) (\<lambda>p.
     dz_bind (lib_plane E) (\<lambda>pl.
     dz_bind (gateway_call E pl ''GET'' ''exponential_saved_views''
        [(''select'', ''*''), org_pair, (''user_id'', eq_str (user_id p)), (''order'', ''updated_at.desc'')] None None) (\<lambda>txt.
       respond (json_ok (named_list E ''views'' txt))))))"

definition view_row :: "principal \<Rightarrow> json \<Rightarrow> json" where
  "view_row p parsed = JObj [(''org_id'', JStr EXPONENTIAL_ORG_ID), (''user_id'', JStr (user_id p)),
     (''name'', JStr (trim_field ''name'' parsed)), (''filters'', jget_or (JObj []) ''filters'' parsed),
     (''sort_field'', JStr (unwrap_or ''updated_at'' (get_str ''sort_field'' parsed))),
     (''sort_dir'', JStr (unwrap_or ''desc'' (get_str ''sort_dir'' parsed)))]"

definition create_exponential_view :: "lib_env \<Rightarrow> request \<Rightarrow> handler_run" where
  "create_exponential_view E rq = dz_run (
     dz_bind (require_session (rq_principal rq)) (\<lambda>p.
     dz_bind (lib_plane E) (\<lambda>pl.
     dz_bind (json_body_or_400 E MIB rq) (\<lambda>parsed.
       if trim_field ''name'' parsed = [] then bad_input ''name is required''
       else dz_bind (gateway_call E pl ''POST'' ''exponential_saved_views'' [(''on_conflict'', ''org_id,user_id,name'')]
               (Some ''resolution=merge-duplicates,return=representation'') (Some (JArr [view_row p parsed]))) (\<lambda>txt.
            respond (created ''view'' (first_or_empty E txt)))))))"

definition delete_exponential_view :: "lib_env \<Rightarrow> string \<Rightarrow> request \<Rightarrow> handler_run" where
  "delete_exponential_view E view_id rq = dz_run (
     dz_bind (require_session (rq_principal rq)) (\<lambda>p.
     dz_bind (lib_plane E) (\<lambda>pl.
     dz_bind (gateway_call E pl ''DELETE'' ''exponential_saved_views''
        [(''id'', eq_str view_id), (''user_id'', eq_str (user_id p))] None None) (\<lambda>_.
       respond success_true))))"

section \<open>Tasks\<close>

record list_tasks_query =
  tq_project_id :: "string option"
  tq_assignee_id :: "string option"
  tq_status :: "string option"
  tq_sprint_id :: "string option"
  tq_team_id :: "string option"
  tq_search :: "string option"
  tq_include_archived :: "bool option"
  tq_view :: "string option"
  tq_limit :: "nat option"

definition task_select :: "string option \<Rightarrow> string" where
  "task_select view =
     (if view = Some ''nav'' then ''id,project_id,title,position,milestone,archived_at''
      else if view = Some ''summary''
      then ''id,project_id,org_id,identifier,title,status,priority,assignee_id,sprint_id,due_at,labels,milestone,position,''
        @ ''created_at,updated_at,archived_at,project_name,project_color,project_icon,team_id,team_name,team_slug,team_color,sprint_name''
      else ''*'')"

definition archived_pairs :: "bool option \<Rightarrow> (string \<times> string) list" where
  "archived_pairs include_archived = (if unwrap_or False include_archived then [] else [(''archived_at'', ''is.null'')])"

definition task_limit :: "nat option \<Rightarrow> string" where
  "task_limit limit = dec_str (min 150 (unwrap_or 50 limit))"

definition task_pairs :: "list_tasks_query \<Rightarrow> (string \<times> string) list" where
  "task_pairs query =
     [(''select'', task_select (tq_view query)), org_pair]
     @ archived_pairs (tq_include_archived query)
     @ opt_pair ''project_id'' eq_str (tq_project_id query)
     @ opt_pair ''assignee_id'' eq_str (tq_assignee_id query)
     @ opt_pair ''status'' eq_str (tq_status query)
     @ opt_pair ''sprint_id'' eq_str (tq_sprint_id query)
     @ opt_pair ''team_id'' eq_str (tq_team_id query)
     @ opt_pair ''or'' (\<lambda>v. ''title.ilike.*'' @ v @ ''*,identifier.ilike.*'' @ v @ ''*'') (tq_search query)
     @ [(''order'', ''updated_at.desc''), (''order'', ''id.desc''), (''limit'', task_limit (tq_limit query))]"

definition tasks_page :: "lib_env \<Rightarrow> string \<Rightarrow> response" where
  "tasks_page E txt = json_ok (JObj [(''tasks'', json_or (mx_ext E) (JArr []) txt), (''nextCursor'', JNull)])"

definition list_exponential_tasks :: "lib_env \<Rightarrow> list_tasks_query \<Rightarrow> request \<Rightarrow> handler_run" where
  "list_exponential_tasks E query rq = dz_run (
     dz_bind (require_session (rq_principal rq)) (\<lambda>_.
     dz_bind (lib_plane E) (\<lambda>pl.
     dz_bind (app_call E pl ''GET'' ''tasks_view'' (task_pairs query) None None) (\<lambda>r.
     dz_bind (accepted r) (\<lambda>txt. respond (tasks_page E txt))))))"

definition body_object :: "json \<Rightarrow> json" where
  "body_object body = JObj (unwrap_or [] (as_object body))"

definition task_row :: "cleaner \<Rightarrow> json \<Rightarrow> json" where
  "task_row clean body = JObj [(''org_id'', JStr EXPONENTIAL_ORG_ID), (''project_id'', JStr (str_field ''project_id'' body)),
     (''title'', JStr (trim_field ''title'' body)),
     (''description'', sanitize_description_value clean (jget_or JNull ''description'' body)),
     (''status'', jget_or (JStr ''todo'') ''status'' body), (''priority'', jget_or (jnat 0) ''priority'' body),
     (''assignee_id'', jget_or JNull ''assignee_id'' body), (''sprint_id'', jget_or JNull ''sprint_id'' body),
     (''due_at'', jget_or JNull ''due_at'' body), (''labels'', jget_or (JArr []) ''labels'' body),
     (''milestone'', jget_or JNull ''milestone'' body), (''position'', jget_or (jnat 1000) ''position'' body)]"

definition create_exponential_task :: "lib_env \<Rightarrow> cleaner \<Rightarrow> json \<Rightarrow> request \<Rightarrow> handler_run" where
  "create_exponential_task E clean value rq = dz_run (
     dz_bind (require_session (rq_principal rq)) (\<lambda>_.
       let body = body_object value
       in if str_field ''project_id'' body = [] then bad_input ''project_id is required''
          else if trim_field ''title'' body = [] then bad_input ''Task title is required''
          else dz_bind (lib_plane E) (\<lambda>pl.
               dz_bind (app_insert E pl ''tasks'' ''return=representation'' (task_row clean body)) (\<lambda>txt.
                 respond (created ''task'' (first_or_empty E txt))))))"

definition get_exponential_task :: "lib_env \<Rightarrow> string \<Rightarrow> bool option \<Rightarrow> bool option \<Rightarrow> request \<Rightarrow> handler_run" where
  "get_exponential_task E task_id include_activity include_relations rq = dz_run (
     dz_bind (require_session (rq_principal rq)) (\<lambda>_.
     dz_bind (lib_plane E) (\<lambda>pl.
     dz_bind (app_call E pl ''GET'' ''tasks_view'' [(''select'', ''*''), (''id'', eq_str task_id), (''limit'', ''1'')] None None) (\<lambda>r.
     dz_bind (accepted r) (\<lambda>txt.
       case parse_one (mx_ext E) txt of
         None \<Rightarrow> respond (legacy_error_response 404 ''Task not found'')
       | Some task \<Rightarrow> respond (json_ok (JObj ([(''task'', task)]
           @ (if unwrap_or True include_relations then [(''relations'', JArr [])] else [])
           @ (if unwrap_or True include_activity then [(''activity'', JArr [])] else [])))))))))"

definition TASK_FIELDS :: "string list" where
  "TASK_FIELDS = [''title'', ''description'', ''status'', ''priority'', ''assignee_id'', ''sprint_id'', ''due_at'', ''labels'',
     ''milestone'', ''position'', ''project_id'']"

definition task_updates :: "cleaner \<Rightarrow> json \<Rightarrow> (string \<times> json) list" where
  "task_updates clean body =
     (let updates = map (\<lambda>(f, v). (f, if f = ''description'' then sanitize_description_value clean v else v)) (picked TASK_FIELDS body)
      in case get_str ''action'' body of
           None \<Rightarrow> updates
         | Some action \<Rightarrow>
             if action = ''archive'' then alist_set ''archived_at'' (JStr ''now'') updates
             else if action = ''unarchive'' then alist_set ''archived_at'' JNull updates
             else updates)"

definition update_exponential_task :: "lib_env \<Rightarrow> cleaner \<Rightarrow> string \<Rightarrow> json \<Rightarrow> request \<Rightarrow> handler_run" where
  "update_exponential_task E clean task_id body rq = dz_run (
     dz_bind (require_session (rq_principal rq)) (\<lambda>_.
     dz_bind (lib_plane E) (\<lambda>pl.
       if task_updates clean body = [] then bad_input ''No fields to update''
       else dz_bind (app_call E pl ''PATCH'' ''tasks'' [(''id'', eq_str task_id)] (Some ''return=representation'')
                (Some (JObj (task_updates clean body)))) (\<lambda>r.
            dz_bind (accepted r) (\<lambda>txt. respond (json_ok (JObj [(''task'', first_or_empty E txt)])))))))"

definition delete_exponential_task :: "lib_env \<Rightarrow> string \<Rightarrow> request \<Rightarrow> handler_run" where
  "delete_exponential_task E task_id rq = dz_run (
     dz_bind (require_session (rq_principal rq)) (\<lambda>_.
     dz_bind (lib_plane E) (\<lambda>pl.
     dz_bind (app_call E pl ''DELETE'' ''tasks'' [(''id'', eq_str task_id)] None None) (\<lambda>r.
     dz_bind (accepted r) (\<lambda>_. respond success_true)))))"

section \<open>Comments\<close>

definition task_org_pairs :: "string \<Rightarrow> (string \<times> string) list" where
  "task_org_pairs task_id = [(''select'', ''org_id''), (''id'', eq_str task_id), (''limit'', ''1'')]"

definition org_of_task :: "lib_env \<Rightarrow> string \<Rightarrow> string" where
  "org_of_task E txt = unwrap_or EXPONENTIAL_ORG_ID (Option.bind (parse_one (mx_ext E) txt) (get_str ''org_id''))"

definition get_exponential_task_comments :: "lib_env \<Rightarrow> string \<Rightarrow> request \<Rightarrow> handler_run" where
  "get_exponential_task_comments E task_id rq = dz_run (
     dz_bind (require_session (rq_principal rq)) (\<lambda>_.
     dz_bind (lib_plane E) (\<lambda>pl.
     dz_bind (app_call E pl ''GET'' ''tasks'' (task_org_pairs task_id) None None) (\<lambda>t.
     dz_bind (accepted t) (\<lambda>ttxt.
     dz_bind (app_call E pl ''GET'' ''task_comments''
        [(''select'', ''id,body,created_at,updated_at,author_id,author:users(id,first_name,last_name,email,avatar_url)''),
         (''task_id'', eq_str task_id), (''org_id'', eq_str (org_of_task E ttxt)), (''order'', ''created_at.asc'')] None None) (\<lambda>r.
     dz_bind (accepted r) (\<lambda>txt. respond (json_ok (named_list E ''comments'' txt)))))))))"

definition comment_text :: "cleaner \<Rightarrow> json \<Rightarrow> string" where
  "comment_text clean body = trim (sanitize_rich_html clean (str_field ''body'' body))"

definition comment_row :: "cleaner \<Rightarrow> principal \<Rightarrow> string \<Rightarrow> string \<Rightarrow> json \<Rightarrow> json" where
  "comment_row clean p org task_id body = JObj [(''org_id'', JStr org), (''task_id'', JStr task_id),
     (''author_id'', JStr (user_id p)), (''body'', JStr (comment_text clean body))]"

definition create_exponential_task_comment :: "lib_env \<Rightarrow> cleaner \<Rightarrow> string \<Rightarrow> json \<Rightarrow> request \<Rightarrow> handler_run" where
  "create_exponential_task_comment E clean task_id body rq = dz_run (
     dz_bind (require_session (rq_principal rq)) (\<lambda>p.
       if comment_text clean body = [] then bad_input ''Comment body is required''
       else dz_bind (lib_plane E) (\<lambda>pl.
            dz_bind (gateway_call E pl ''GET'' ''tasks'' (task_org_pairs task_id) None None) (\<lambda>ttxt.
            dz_bind (gateway_insert E pl ''task_comments'' (comment_row clean p (org_of_task E ttxt) task_id body)) (\<lambda>txt.
              respond (created ''comment'' (first_or_empty E txt)))))))"

section \<open>Sprints\<close>

definition list_exponential_sprints :: "lib_env \<Rightarrow> string option \<Rightarrow> string option \<Rightarrow> request \<Rightarrow> handler_run" where
  "list_exponential_sprints E project_id state rq = dz_run (
     dz_bind (require_session (rq_principal rq)) (\<lambda>_.
     dz_bind (lib_plane E) (\<lambda>pl.
     dz_bind (app_call E pl ''GET'' ''sprints'' ([(''select'', ''*''), org_pair] @ opt_pair ''project_id'' eq_str project_id
        @ opt_pair ''state'' eq_str state @ [(''order'', ''number.asc'')]) None None) (\<lambda>r.
     dz_bind (accepted r) (\<lambda>txt. respond (json_ok (named_list E ''sprints'' txt)))))))"

text \<open>\<^verbatim>\<open>unwrap_or(0) + 1\<close> at \<^verbatim>\<open>i64\<close>, wrapping as the release build does.\<close>

definition next_num :: "int option \<Rightarrow> int" where
  "next_num n = (unwrap_or 0 n + 1 + 2 ^ 63) mod 2 ^ 64 - 2 ^ 63"

definition sprint_number :: "lib_env \<Rightarrow> string \<Rightarrow> int" where
  "sprint_number E txt = next_num (Option.bind (parse_one (mx_ext E) txt) (get_i64 ''number''))"

definition sprint_row :: "string \<Rightarrow> int \<Rightarrow> json \<Rightarrow> json" where
  "sprint_row project_id n body = JObj [(''project_id'', JStr project_id), (''org_id'', JStr EXPONENTIAL_ORG_ID),
     (''name'', JStr (unwrap_or (''Sprint '' @ int_str n) (get_str ''name'' body))), (''number'', jint n),
     (''start_date'', jget_or JNull ''start_date'' body), (''end_date'', jget_or JNull ''end_date'' body),
     (''state'', jget_or (JStr ''planned'') ''state'' body)]"

text \<open>\<^verbatim>\<open>body.get(a).or_else(|| body.get(b)).and_then(|v| v.as_str())\<close>.\<close>

definition either_str :: "string \<Rightarrow> string \<Rightarrow> json \<Rightarrow> string" where
  "either_str a b body = unwrap_or [] (Option.bind (opt_or (jget a body) (jget b body)) as_str)"

definition create_exponential_sprint :: "lib_env \<Rightarrow> json \<Rightarrow> request \<Rightarrow> handler_run" where
  "create_exponential_sprint E body rq = dz_run (
     dz_bind (require_session (rq_principal rq)) (\<lambda>_.
       let project_id = either_str ''project_id'' ''projectId'' body
       in if project_id = [] then bad_input ''project_id is required''
          else dz_bind (lib_plane E) (\<lambda>pl.
               dz_bind (app_call E pl ''GET'' ''sprints''
                  [(''select'', ''number''), (''project_id'', eq_str project_id), (''order'', ''number.desc''), (''limit'', ''1'')]
                  None None) (\<lambda>(_, ntxt).
               dz_bind (app_insert E pl ''sprints'' ''return=representation'' (sprint_row project_id (sprint_number E ntxt) body)) (\<lambda>txt.
                 respond (created ''sprint'' (first_or_empty E txt)))))))"

definition get_exponential_sprint :: "lib_env \<Rightarrow> string \<Rightarrow> request \<Rightarrow> handler_run" where
  "get_exponential_sprint E sprint_id rq = dz_run (
     dz_bind (require_session (rq_principal rq)) (\<lambda>_.
     dz_bind (lib_plane E) (\<lambda>pl.
     dz_bind (app_call E pl ''GET'' ''sprints'' [(''select'', ''*''), (''id'', eq_str sprint_id), (''limit'', ''1'')] None None) (\<lambda>r.
     dz_bind (accepted r) (\<lambda>txt.
       case parse_one (mx_ext E) txt of
         None \<Rightarrow> respond (legacy_error_response 404 ''Sprint not found'')
       | Some sprint \<Rightarrow>
           dz_bind (app_call E pl ''GET'' ''tasks_view'' [(''select'', ''*''), (''sprint_id'', eq_str sprint_id),
              (''archived_at'', ''is.null''), (''order'', ''position.asc'')] None None) (\<lambda>(_, ttxt).
             respond (json_ok (JObj [(''sprint'', sprint), (''tasks'', json_or (mx_ext E) (JArr []) ttxt)]))))))))"

definition SPRINT_FIELDS :: "string list" where
  "SPRINT_FIELDS = [''name'', ''start_date'', ''end_date'', ''state'']"

definition update_exponential_sprint :: "lib_env \<Rightarrow> string \<Rightarrow> json \<Rightarrow> request \<Rightarrow> handler_run" where
  "update_exponential_sprint E sprint_id body rq = dz_run (
     dz_bind (require_session (rq_principal rq)) (\<lambda>_.
     dz_bind (lib_plane E) (\<lambda>pl.
       if picked SPRINT_FIELDS body = [] then bad_input ''No fields to update''
       else dz_bind (gateway_call E pl ''PATCH'' ''sprints'' [(''id'', eq_str sprint_id)] (Some ''return=representation'')
                (Some (JObj (picked SPRINT_FIELDS body)))) (\<lambda>txt.
            respond (json_ok (JObj [(''sprint'', first_or_empty E txt)]))))))"

definition delete_exponential_sprint :: "lib_env \<Rightarrow> string \<Rightarrow> request \<Rightarrow> handler_run" where
  "delete_exponential_sprint E sprint_id rq = dz_run (
     dz_bind (require_session (rq_principal rq)) (\<lambda>_.
     dz_bind (lib_plane E) (\<lambda>pl.
     dz_bind (gateway_call E pl ''DELETE'' ''sprints'' [(''id'', eq_str sprint_id)] None None) (\<lambda>_.
       respond success_true))))"

section \<open>What the calls send\<close>

lemma sends_app_call [sends_intros]:
  assumes "\<And>u. url_parse (mx_ext E) (fst pl @ ''/rest/v1/'' @ table) = Ok u \<Longrightarrow>
     P (lib_request E (snd pl) m (if pairs = [] then u else with_pairs pairs u) prefer b)"
  shows "sends P (app_call E pl m table pairs prefer b)"
  unfolding app_call_def
  by (rule sends_plane, use assms in \<open>auto simp: plane_url_def lib_request_def try_result_Ok map_err_eq\<close>)

lemma sends_accepted [sends_intros]: "sends P (accepted r)"
  by (simp add: accepted_def sends_lift split: prod.splits)

lemma sends_app_insert [sends_intros]:
  assumes "\<And>u. url_parse (mx_ext E) (fst pl @ ''/rest/v1/'' @ table) = Ok u \<Longrightarrow>
     P (lib_request E (snd pl) ''POST'' u (Some prefer) (Some (JArr [row])))"
  shows "sends P (app_insert E pl table prefer row)"
  unfolding app_insert_def by (intro sends_intros assms)

lemma sends_gateway_insert [sends_intros]:
  assumes "\<And>u. url_parse (mx_ext E) (fst pl @ ''/rest/v1/'' @ table) = Ok u \<Longrightarrow>
     P (lib_request E (snd pl) ''POST'' u (Some ''return=representation'') (Some (JArr [row])))"
  shows "sends P (gateway_insert E pl table row)"
  unfolding gateway_insert_def by (intro sends_intros assms)

lemma sends_gateway_call [sends_intros]:
  assumes "\<And>u. url_parse (mx_ext E) (fst pl @ ''/rest/v1/'' @ table) = Ok u \<Longrightarrow>
     P (lib_request E (snd pl) m (with_pairs pairs u) prefer b)"
  shows "sends P (gateway_call E pl m table pairs prefer b)"
  unfolding gateway_call_def by (intro sends_intros assms)

lemma sends_bad_input [sends_intros]: "sends P (bad_input m)"
  by (simp add: bad_input_def sends_simple)

text \<open>What follows the check of the session.\<close>

lemma sends_session:
  "(\<And>p. s = Some p \<Longrightarrow> sends P (f p)) \<Longrightarrow> sends P (dz_bind (require_session s) f)"
  unfolding require_session_def by (rule sends_bind_lift) (simp add: ok_or_def split: option.splits)

lemma run_new: "sends P m \<Longrightarrow> q \<in> set (drop (length tr) (snd (dz_run m tr))) \<Longrightarrow> P q"
  using sends_run [of P m tr] by auto

section \<open>Saved views belong to their user\<close>

text \<open>A request about the views of one user: it selects that user's rows, or writes one.\<close>

definition own_view :: "lib_env \<Rightarrow> string \<Rightarrow> plane_request \<Rightarrow> bool" where
  "own_view E uid q \<longleftrightarrow> (\<exists>pl. lib_supabase_env (mx_vars E) = Ok pl \<and> plane_target E pl ''exponential_saved_views'' q)
     \<and> (if pq_method q = ''POST''
        then \<exists>row. pq_body q = Some (JArr [row]) \<and> get_str ''user_id'' row = Some uid
        else \<exists>u pairs. pq_url q = with_pairs pairs u \<and> (''user_id'', eq_str uid) \<in> set pairs)"

datatype view_op = GetViews | CreateView | DeleteView string

fun view_run :: "lib_env \<Rightarrow> view_op \<Rightarrow> request \<Rightarrow> handler_run" where
  "view_run E GetViews = get_exponential_views E"
| "view_run E CreateView = create_exponential_view E"
| "view_run E (DeleteView i) = delete_exponential_view E i"

lemma own_view_select:
  "lib_supabase_env (mx_vars E) = Ok pl \<Longrightarrow> url_parse (mx_ext E) (fst pl @ ''/rest/v1/exponential_saved_views'') = Ok u \<Longrightarrow>
   m \<noteq> ''POST'' \<Longrightarrow> (''user_id'', eq_str uid) \<in> set pairs \<Longrightarrow> own_view E uid (lib_request E (snd pl) m (with_pairs pairs u) prefer b)"
  unfolding own_view_def plane_target_def by auto

lemma own_view_write:
  "lib_supabase_env (mx_vars E) = Ok pl \<Longrightarrow> url_parse (mx_ext E) (fst pl @ ''/rest/v1/exponential_saved_views'') = Ok u \<Longrightarrow>
   get_str ''user_id'' row = Some uid \<Longrightarrow> own_view E uid (lib_request E (snd pl) ''POST'' (with_pairs pairs u) prefer (Some (JArr [row])))"
  unfolding own_view_def plane_target_def by auto

text \<open>
  C19: Whatever a caller does with saved views, every request it causes at the data plane is about the saved views of
  that caller's own user id: it reads or deletes rows filtered by it, or stores a row that carries it, whatever the body
  of the request says. A caller without a session causes none.
\<close>

theorem views_of_caller:
  assumes "q \<in> set (drop (length tr) (snd (view_run E op rq tr)))"
  shows "\<exists>p. rq_principal rq = Some p \<and> own_view E (user_id p) q"
proof (cases op)
  case GetViews
  show ?thesis
    by (rule run_new, use assms in \<open>simp_all add: GetViews get_exponential_views_def\<close>)
       (intro sends_session sends_plane_bind sends_intros; auto intro: own_view_select)
next
  case CreateView
  show ?thesis
    by (rule run_new, use assms in \<open>simp_all add: CreateView create_exponential_view_def\<close>)
       (intro sends_session sends_plane_bind sends_intros; auto simp: view_row_def get_str_def intro!: own_view_write)
next
  case (DeleteView i)
  show ?thesis
    by (rule run_new, use assms in \<open>simp_all add: DeleteView delete_exponential_view_def\<close>)
       (intro sends_session sends_plane_bind sends_intros; auto intro: own_view_select)
qed

section \<open>Comments and task updates\<close>

text \<open>
  A comment is stored only for a caller with a session, under that caller's own id as its author and for the task of
  the route, and its text is what the cleaner made of the text sent, trimmed and not empty.
\<close>

theorem comment_by_caller:
  assumes "q \<in> set (drop (length tr) (snd (create_exponential_task_comment E clean task_id body rq tr)))" "pq_method q \<noteq> ''GET''"
  shows "\<exists>p org. rq_principal rq = Some p \<and> comment_text clean body \<noteq> []
    \<and> pq_method q = ''POST'' \<and> pq_body q = Some (JArr [comment_row clean p org task_id body])"
proof -
  let ?P = "\<lambda>q. is_get q \<or> (\<exists>p org. rq_principal rq = Some p \<and> comment_text clean body \<noteq> []
    \<and> pq_method q = ''POST'' \<and> pq_body q = Some (JArr [comment_row clean p org task_id body]))"
  have "?P q"
    by (rule run_new [of ?P], use assms in \<open>simp_all add: create_exponential_task_comment_def\<close>)
       (intro sends_session sends_plane_bind sends_intros; auto simp: is_get_def)
  then show ?thesis using assms(2) by (simp add: is_get_def)
qed

lemma keys_picked: "fst ` set (picked ks v) \<subseteq> set ks"
  by (auto simp: picked_def)

lemma task_updates_keys: "fst ` set (task_updates clean body) \<subseteq> insert ''archived_at'' (set TASK_FIELDS)"
proof -
  let ?u = "map (\<lambda>(f, v). (f, if f = ''description'' then sanitize_description_value clean v else v)) (picked TASK_FIELDS body)"
  have "fst ` set ?u \<subseteq> set TASK_FIELDS" using keys_picked by (force simp: image_image)
  then show ?thesis
    using keys_alist_set [of "''archived_at''" "JStr ''now''" ?u] keys_alist_set [of "''archived_at''" JNull ?u]
    unfolding task_updates_def Let_def set_map by (auto split: option.splits)
qed

lemma task_updates_description: "(''description'', v) \<in> set (task_updates clean body) \<Longrightarrow> clean_description clean v"
  unfolding task_updates_def Let_def by (auto split: option.splits if_splits dest!: alist_set_mem)

text \<open>
  C20: An update of a task sends at most one request: a caller with a session patches the task of the route, with
  members of the list the API allows and the archive mark only, at least one of them, and a description it sends
  has been through the cleaner. Nothing else in the body reaches the data plane.
\<close>

theorem task_update_confined:
  assumes "q \<in> set (drop (length tr) (snd (update_exponential_task E clean task_id body rq tr)))"
  shows "rq_principal rq \<noteq> None
    \<and> (\<exists>pl u. lib_supabase_env (mx_vars E) = Ok pl \<and> url_parse (mx_ext E) (fst pl @ ''/rest/v1/tasks'') = Ok u
         \<and> pq_url q = with_pairs [(''id'', eq_str task_id)] u)
    \<and> (\<exists>ms. pq_body q = Some (JObj ms) \<and> ms \<noteq> [] \<and> fst ` set ms \<subseteq> insert ''archived_at'' (set TASK_FIELDS)
         \<and> (\<forall>v. (''description'', v) \<in> set ms \<longrightarrow> clean_description clean v))"
  by (rule run_new, use assms in \<open>simp_all only: update_exponential_task_def\<close>)
     (intro sends_session sends_plane_bind sends_intros;
      use task_updates_keys [of clean body] task_updates_description [of _ clean body] in auto)

text \<open>
  A page of tasks is asked for with exactly one limit, at most 150, whatever the client asked for, and only
  tasks of the organisation are asked for.
\<close>

theorem task_list_bounded:
  "\<exists>n. filter (\<lambda>(k, v). k = ''limit'') (task_pairs query) = [(''limit'', dec_str n)]
     \<and> n \<le> 150 \<and> n \<le> unwrap_or 50 (tq_limit query)
     \<and> filter (\<lambda>(k, v). k = ''org_id'') (task_pairs query) = [(''org_id'', eq_str EXPONENTIAL_ORG_ID)]"
  by (cases query) (auto simp: task_pairs_def task_limit_def archived_pairs_def opt_pair_def org_pair_def split: option.splits)

section \<open>Sprint numbers\<close>

lemma next_num_succ: "- (2 ^ 63) \<le> unwrap_or 0 n \<Longrightarrow> unwrap_or 0 n < 2 ^ 63 - 1 \<Longrightarrow> next_num n = unwrap_or 0 n + 1"
  by (simp add: next_num_def)

text \<open>The number of a sprint follows the largest one of its project, until 64 bits are used up; then it is negative.\<close>

lemma next_num_wraps: "next_num (Some (2 ^ 63 - 1)) = - (2 ^ 63)"
  by (simp add: next_num_def)

section \<open>Witnesses\<close>

definition wit_keep :: cleaner where
  "wit_keep b s = s"

definition wit_task_body :: json where
  "wit_task_body = JObj [(''title'', JStr ''k''), (''body'', JStr ''k''), (''org_id'', JStr ''v'')]"

lemma wit_task_trace:
  "snd (update_exponential_task wit_lib wit_keep ''n'' wit_task_body wit_post []) \<noteq> []"
  using wit_lib_env
  by (simp add: wit_post_simps wit_session update_exponential_task_def lib_plane_def task_updates_def picked_def
      TASK_FIELDS_def wit_task_body_def get_str_def app_call_def plane_query_def plane_send_def plane_url_def dz_bind_def
      wit_lib_def wit_daisy_def accepted_def plane_ok_def respond_def)

theorem task_update_confined_witness:
  "\<exists>(q :: plane_request) ms. pq_body q = Some (JObj ms) \<and> ms \<noteq> [] \<and> ''org_id'' \<notin> fst ` set ms"
proof -
  let ?tr = "snd (update_exponential_task wit_lib wit_keep ''n'' wit_task_body wit_post [])"
  have "last ?tr \<in> set (drop (length []) ?tr)" using wit_task_trace by simp
  from task_update_confined [OF this] obtain ms where "pq_body (last ?tr) = Some (JObj ms)" "ms \<noteq> []"
    "fst ` set ms \<subseteq> insert ''archived_at'' (set TASK_FIELDS)" by blast
  then show ?thesis by (intro exI [of _ "last ?tr"] exI [of _ ms]) (auto simp: TASK_FIELDS_def)
qed

lemma wit_view_trace: "snd (view_run wit_lib (DeleteView ''n'') wit_post []) \<noteq> []"
  by (simp add: wit_post_simps wit_session delete_exponential_view_def gateway_call_def lib_plane_def wit_lib_env wit_lib_call dz_bind_def accepted_def
      plane_ok_def respond_def)

theorem views_of_caller_witness:
  "\<exists>q p. rq_principal wit_post = Some p \<and> own_view wit_lib (user_id p) q"
proof -
  let ?tr = "snd (view_run wit_lib (DeleteView ''n'') wit_post [])"
  have "last ?tr \<in> set (drop (length []) ?tr)" using wit_view_trace by simp
  from views_of_caller [OF this] show ?thesis by blast
qed

lemma wit_comment_trace:
  "pq_method (last (snd (create_exponential_task_comment (wit_json_lib JNull) wit_keep ''n'' wit_task_body wit_post []))) = ''POST''
   \<and> snd (create_exponential_task_comment (wit_json_lib JNull) wit_keep ''n'' wit_task_body wit_post []) \<noteq> []"
  by (simp add: wit_post_simps wit_session create_exponential_task_comment_def gateway_call_def gateway_insert_def lib_plane_def
      wit_json_env wit_json_calls accepted_def plane_ok_def comment_text_def sanitize_rich_html_def wit_keep_def str_field_def
      wit_task_body_def get_str_def dz_bind_def respond_def)

theorem comment_by_caller_witness:
  "\<exists>(q :: plane_request) p org. rq_principal wit_post = Some p \<and> pq_body q = Some (JArr [comment_row wit_keep p org ''n'' wit_task_body])"
proof -
  let ?tr = "snd (create_exponential_task_comment (wit_json_lib JNull) wit_keep ''n'' wit_task_body wit_post [])"
  have "last ?tr \<in> set (drop (length []) ?tr)" "pq_method (last ?tr) \<noteq> ''GET''" using wit_comment_trace by simp_all
  from comment_by_caller [OF this] show ?thesis by blast
qed

end
