(* ===== verification/Exponential_Projects.thy ===== *)
theory Exponential_Projects
  imports Exponential_Tasks
begin

text \<open>
  The project-tracking API of \<^verbatim>\<open>lib.rs\<close>, second part: projects and teams with their counts, their members
  and assignees, and the routes of the whole API. The requests that count rows also carry the header
  \<^verbatim>\<open>Range: 0-0\<close>; the number itself comes back in \<^verbatim>\<open>content-range\<close>.
\<close>

section \<open>Counting\<close>

definition parse_count :: "string option \<Rightarrow> int" where
  "parse_count content_range =
     unwrap_or 0 (parse_i64 (last (split_on (CHR ''/'') (unwrap_or ''*/0'' content_range))))"

definition count_call :: "lib_env \<Rightarrow> string \<times> string \<Rightarrow> (string \<times> string) list \<Rightarrow> int daisy" where
  "count_call E pl pairs =
     dz_bind (dz_lift (plane_url E (fst pl) ''tasks_view'' pairs)) (\<lambda>u tr.
       let q = lib_request E (snd pl) ''GET'' u (Some ''count=exact'') None
       in (map_err internal (case mx_reply E tr q of Inl e \<Rightarrow> Err e | Inr _ \<Rightarrow> Ok (parse_count (mx_range E tr q))), tr @ [q]))"

text \<open>A hash map of counters, incremented once for every key.\<close>

definition tally :: "string list \<Rightarrow> string \<Rightarrow> nat" where
  "tally ks = fold (\<lambda>k m. m(k := m k + 1)) ks (\<lambda>_. 0)"

section \<open>Projects\<close>

definition project_counts :: "lib_env \<Rightarrow> string \<times> string \<Rightarrow> json \<Rightarrow> json daisy" where
  "project_counts E pl p = (case get_str ''id'' p of
     None \<Rightarrow> dz_lift (Ok p)
   | Some pid \<Rightarrow>
       let open_tasks = [(''select'', ''id''), (''project_id'', eq_str pid), (''archived_at'', ''is.null'')]
       in dz_bind (count_call E pl open_tasks) (\<lambda>task_count.
          dz_bind (count_call E pl (open_tasks @ [(''status'', ''eq.done'')])) (\<lambda>completed_count.
            dz_lift (Ok (jset ''completed_count'' (jint completed_count) (jset ''task_count'' (jint task_count) p))))))"

fun count_projects :: "lib_env \<Rightarrow> string \<times> string \<Rightarrow> json list \<Rightarrow> json list daisy" where
  "count_projects E pl [] = dz_lift (Ok [])"
| "count_projects E pl (p # ps) =
     dz_bind (project_counts E pl p) (\<lambda>p'. dz_bind (count_projects E pl ps) (\<lambda>ps'. dz_lift (Ok (p' # ps'))))"

definition list_exponential_projects ::
  "lib_env \<Rightarrow> string option \<Rightarrow> bool option \<Rightarrow> string option \<Rightarrow> request \<Rightarrow> handler_run" where
  "list_exponential_projects E team_id include_archived view rq = dz_run (
     dz_bind (require_session (rq_principal rq)) (\<lambda>_.
     dz_bind (lib_plane E) (\<lambda>pl.
       let is_sidebar_view = (view = Some ''sidebar'');
           project_select = (if is_sidebar_view then ''id,team_id,name,color,archived_at'' else ''*,team:teams(id,name,slug,color)'')
       in dz_bind (app_call E pl ''GET'' ''projects'' ([(''select'', project_select), org_pair, (''order'', ''name.asc'')]
            @ archived_pairs include_archived @ opt_pair ''team_id'' eq_str team_id) None None) (\<lambda>r.
          dz_bind (accepted r) (\<lambda>txt.
          dz_bind (dz_when (\<not> is_sidebar_view) (json_rows (mx_ext E) txt) (count_projects E pl (json_rows (mx_ext E) txt))) (\<lambda>ps.
            respond (json_ok (JObj [(''projects'', JArr ps)]))))))))"

definition pick_value :: "string list \<Rightarrow> json \<Rightarrow> json option" where
  "pick_value ks m = find_map (\<lambda>k. jget k m) ks"

text \<open>A text member that is stored trimmed, when something is left of it.\<close>

definition opt_text :: "string \<Rightarrow> json option \<Rightarrow> (string \<times> json) list" where
  "opt_text k v = (case trimmed (Option.bind v as_str) of None \<Rightarrow> [] | Some s \<Rightarrow> [(k, JStr s)])"

definition project_row :: "cleaner \<Rightarrow> json \<Rightarrow> json" where
  "project_row clean body = JObj (
     [(''org_id'', JStr EXPONENTIAL_ORG_ID),
      (''team_id'', JStr (trim (unwrap_or [] (Option.bind (pick_value [''team_id'', ''teamId''] body) as_str)))),
      (''name'', JStr (trim_field ''name'' body))]
     @ (case jget ''description'' body of None \<Rightarrow> [] | Some v \<Rightarrow> [(''description'', sanitize_description_value clean v)])
     @ opt_text ''color'' (jget ''color'' body)
     @ opt_text ''icon'' (jget ''icon'' body)
     @ (case Option.bind (pick_value [''sprint_duration_days'', ''sprintDurationDays''] body) as_i64 of
          None \<Rightarrow> [] | Some v \<Rightarrow> [(''sprint_duration_days'', jint v)])
     @ opt_text ''start_date'' (pick_value [''start_date'', ''startDate''] body))"

definition create_exponential_project :: "lib_env \<Rightarrow> cleaner \<Rightarrow> json \<Rightarrow> request \<Rightarrow> handler_run" where
  "create_exponential_project E clean value rq = dz_run (
     dz_bind (require_session (rq_principal rq)) (\<lambda>_.
       let body = body_object value
       in if trim (unwrap_or [] (Option.bind (pick_value [''team_id'', ''teamId''] body) as_str)) = []
          then bad_input ''team_id is required''
          else if trim_field ''name'' body = [] then bad_input ''Project name is required''
          else dz_bind (lib_plane E) (\<lambda>pl.
               dz_bind (app_insert E pl ''projects'' ''return=representation'' (project_row clean body)) (\<lambda>txt.
                 respond (created ''project'' (first_or_empty E txt))))))"

text \<open>The role of a user in a project: the first membership row with the user's id decides.\<close>

definition member_role :: "string \<Rightarrow> json \<Rightarrow> string" where
  "member_role uid members = unwrap_or ''viewer''
     (find_map (\<lambda>m. if get_str ''user_id'' m = Some uid then Some (unwrap_or ''viewer'' (get_str ''role'' m)) else None)
       (unwrap_or [] (as_array members)))"

definition project_answer :: "string \<Rightarrow> json \<Rightarrow> json \<Rightarrow> json \<Rightarrow> json" where
  "project_answer uid project sprints members =
     (let role = member_role uid members;
          can_manage = (role = ''lead''); can_contrib = (role = ''lead'' \<or> role = ''contributor'')
      in JObj [(''project'', project), (''tasks'', JArr []), (''sprints'', sprints), (''members'', members), (''user_role'', JStr role),
           (''permissions'', JObj [(''can_manage'', JBool can_manage), (''can_create_tasks'', JBool can_contrib),
              (''can_edit_tasks'', JBool can_contrib), (''can_manage_members'', JBool can_manage)])])"

definition get_exponential_project :: "lib_env \<Rightarrow> string \<Rightarrow> request \<Rightarrow> handler_run" where
  "get_exponential_project E project_id rq = dz_run (
     dz_bind (require_session (rq_principal rq)) (\<lambda>p.
     dz_bind (lib_plane E) (\<lambda>pl.
     dz_bind (app_call E pl ''GET'' ''projects''
        [(''select'', ''*,team:teams(id,name,slug,color)''), (''id'', eq_str project_id), (''limit'', ''1'')] None None) (\<lambda>r.
     dz_bind (accepted r) (\<lambda>txt.
       case parse_one (mx_ext E) txt of
         None \<Rightarrow> respond (legacy_error_response 404 ''Project not found'')
       | Some project \<Rightarrow>
           dz_bind (app_call E pl ''GET'' ''sprints''
              [(''select'', ''*''), (''project_id'', eq_str project_id), (''order'', ''number.asc'')] None None) (\<lambda>(_, stxt).
           dz_bind (app_call E pl ''GET'' ''project_members''
              [(''select'', ''*,user:users(id,first_name,last_name,email,avatar_url)''), (''project_id'', eq_str project_id)]
              None None) (\<lambda>(_, mtxt).
             respond (json_ok (project_answer (user_id p) project
               (json_or (mx_ext E) (JArr []) stxt) (json_or (mx_ext E) (JArr []) mtxt))))))))))"

definition get_exponential_project_tasks ::
  "lib_env \<Rightarrow> string \<Rightarrow> nat option \<Rightarrow> bool option \<Rightarrow> request \<Rightarrow> handler_run" where
  "get_exponential_project_tasks E project_id limit include_archived rq = dz_run (
     dz_bind (require_session (rq_principal rq)) (\<lambda>_.
     dz_bind (lib_plane E) (\<lambda>pl.
     dz_bind (app_call E pl ''GET'' ''tasks_view''
        ([(''select'', ''id,project_id,org_id,identifier,title,status,priority,assignee_id,sprint_id,sprint_name,due_at,labels,''
            @ ''milestone,position,created_at,updated_at''), (''project_id'', eq_str project_id)]
         @ archived_pairs include_archived
         @ [(''order'', ''updated_at.desc''), (''order'', ''id.desc''), (''limit'', task_limit limit)]) None None) (\<lambda>r.
     dz_bind (accepted r) (\<lambda>txt. respond (tasks_page E txt))))))"

section \<open>Teams\<close>

text \<open>The number of projects of each team that is not archived.\<close>

definition attach_project_counts :: "json list \<Rightarrow> json list \<Rightarrow> json list" where
  "attach_project_counts projects teams =
     (let counts = tally (filter_map (get_str ''team_id'') projects)
      in map (\<lambda>team. case get_str ''id'' team of
           None \<Rightarrow> team
         | Some team_id \<Rightarrow> jset ''project_count'' (jnat (counts team_id)) team) teams)"

definition list_exponential_teams :: "lib_env \<Rightarrow> string option \<Rightarrow> request \<Rightarrow> handler_run" where
  "list_exponential_teams E view rq = dz_run (
     dz_bind (require_session (rq_principal rq)) (\<lambda>_.
     dz_bind (lib_plane E) (\<lambda>pl.
     dz_bind (app_call E pl ''GET'' ''teams''
        [(''select'', if view = Some ''sidebar'' then ''id,name,slug,color'' else ''*''), org_pair, (''order'', ''name.asc'')] None None) (\<lambda>r.
     dz_bind (accepted r) (\<lambda>txt.
       let teams = json_rows (mx_ext E) txt
       in dz_bind (dz_when (view \<noteq> Some ''sidebar'') teams
            (dz_bind (app_call E pl ''GET'' ''projects''
               [(''select'', ''team_id''), org_pair, (''archived_at'', ''is.null'')] None None) (\<lambda>(st, ptxt).
             dz_lift (Ok (if plane_ok st then attach_project_counts (json_rows (mx_ext E) ptxt) teams else teams))))) (\<lambda>ts.
          respond (json_ok (JObj [(''teams'', JArr ts)]))))))))"

definition team_row :: "json \<Rightarrow> json" where
  "team_row body = JObj [(''org_id'', JStr EXPONENTIAL_ORG_ID), (''name'', JStr (trim_field ''name'' body)),
     (''slug'', JStr (trim_field ''slug'' body)),
     (''color'', JStr (unwrap_or ''#ef4444'' (opt_filter (\<lambda>v. trim v \<noteq> []) (get_str ''color'' body))))]"

definition create_exponential_team :: "lib_env \<Rightarrow> json \<Rightarrow> request \<Rightarrow> handler_run" where
  "create_exponential_team E value rq = dz_run (
     dz_bind (require_session (rq_principal rq)) (\<lambda>_.
       let body = body_object value
       in if trim_field ''name'' body = [] \<or> trim_field ''slug'' body = [] then bad_input ''name and slug are required''
          else dz_bind (lib_plane E) (\<lambda>pl.
               dz_bind (app_insert E pl ''teams'' ''return=representation'' (team_row body)) (\<lambda>txt.
                 respond (created ''team'' (first_or_empty E txt))))))"

definition attach_task_counts :: "json list \<Rightarrow> json list \<Rightarrow> json list" where
  "attach_task_counts tasks projects =
     (let total_counts = tally (filter_map (get_str ''project_id'') tasks);
          done_counts = tally (filter_map (\<lambda>t. opt_filter (\<lambda>_. get_str ''status'' t = Some ''done'') (get_str ''project_id'' t)) tasks)
      in map (\<lambda>p. case get_str ''id'' p of
           None \<Rightarrow> p
         | Some pid \<Rightarrow> jset ''completed_count'' (jnat (done_counts pid)) (jset ''task_count'' (jnat (total_counts pid)) p)) projects)"

definition team_projects :: "lib_env \<Rightarrow> string \<times> string \<Rightarrow> json list \<Rightarrow> json list daisy" where
  "team_projects E pl projects =
     (let project_ids = filter_map (get_str ''id'') projects
      in dz_when (project_ids \<noteq> []) projects
           (dz_bind (app_call E pl ''GET'' ''tasks'' [(''select'', ''project_id,status''),
               (''project_id'', ''in.('' @ str_join '','' project_ids @ '')''), (''archived_at'', ''is.null'')] None None) (\<lambda>(st, ttxt).
            dz_lift (Ok (if plane_ok st then attach_task_counts (json_rows (mx_ext E) ttxt) projects else projects)))))"

definition get_exponential_team :: "lib_env \<Rightarrow> string \<Rightarrow> request \<Rightarrow> handler_run" where
  "get_exponential_team E team_id rq = dz_run (
     dz_bind (require_session (rq_principal rq)) (\<lambda>_.
     dz_bind (lib_plane E) (\<lambda>pl.
     dz_bind (app_call E pl ''GET'' ''teams'' [(''select'', ''*''), (''id'', eq_str team_id), (''limit'', ''1'')] None None) (\<lambda>r.
     dz_bind (accepted r) (\<lambda>txt.
       case parse_one (mx_ext E) txt of
         None \<Rightarrow> respond (legacy_error_response 404 ''Team not found'')
       | Some team \<Rightarrow>
           dz_bind (app_call E pl ''GET'' ''projects'' [(''select'', ''*''), (''team_id'', eq_str team_id),
              (''order'', ''archived_at.asc.nullslast''), (''order'', ''name.asc'')] None None) (\<lambda>(_, ptxt).
           dz_bind (team_projects E pl (json_rows (mx_ext E) ptxt)) (\<lambda>ps.
             respond (json_ok (JObj [(''team'', team), (''projects'', JArr ps)])))))))))"

section \<open>Members and assignees\<close>

definition member_row :: "string \<Rightarrow> string \<Rightarrow> string \<Rightarrow> json \<Rightarrow> json" where
  "member_row k i role body = JObj [(k, JStr i), (''user_id'', JStr (trim (either_str ''user_id'' ''userId'' body))),
     (''role'', JStr (trim (unwrap_or role (get_str ''role'' body))))]"

definition create_exponential_project_member :: "lib_env \<Rightarrow> string \<Rightarrow> json \<Rightarrow> request \<Rightarrow> handler_run" where
  "create_exponential_project_member E project_id body rq = dz_run (
     dz_bind (require_session (rq_principal rq)) (\<lambda>_.
       if trim (either_str ''user_id'' ''userId'' body) = [] then bad_input ''user_id is required''
       else dz_bind (lib_plane E) (\<lambda>pl.
            dz_bind (app_insert E pl ''project_members?on_conflict=project_id,user_id''
               ''resolution=merge-duplicates,return=representation'' (member_row ''project_id'' project_id ''contributor'' body)) (\<lambda>txt.
              respond (raw_response 201 txt)))))"

definition create_exponential_team_member :: "lib_env \<Rightarrow> string \<Rightarrow> json \<Rightarrow> request \<Rightarrow> handler_run" where
  "create_exponential_team_member E team_id body rq = dz_run (
     dz_bind (require_session (rq_principal rq)) (\<lambda>_.
       if trim (either_str ''user_id'' ''userId'' body) = [] then bad_input ''user_id is required''
       else dz_bind (lib_plane E) (\<lambda>pl.
            dz_bind (app_insert E pl ''team_members?on_conflict=team_id,user_id''
               ''resolution=merge-duplicates,return=representation'' (member_row ''team_id'' team_id ''member'' body)) (\<lambda>txt.
              respond (raw_response 201 txt)))))"

definition assignee_id :: "json \<Rightarrow> string" where
  "assignee_id row = str_field ''user_id'' row"

text \<open>The loop over the rows: a row is kept when it has an id that no row before it had.\<close>

fun dedup_assignees :: "string set \<Rightarrow> json list \<Rightarrow> json list" where
  "dedup_assignees seen [] = []"
| "dedup_assignees seen (row # rows) =
     (if assignee_id row \<noteq> [] \<and> assignee_id row \<notin> seen
      then row # dedup_assignees (insert (assignee_id row) seen) rows
      else dedup_assignees seen rows)"

definition get_exponential_project_assignees :: "lib_env \<Rightarrow> string \<Rightarrow> request \<Rightarrow> handler_run" where
  "get_exponential_project_assignees E project_id rq = dz_run (
     dz_bind (require_session (rq_principal rq)) (\<lambda>_.
     dz_bind (lib_plane E) (\<lambda>pl.
     dz_bind (gateway_call E pl ''GET'' ''project_assignees_view''
        [(''select'', ''user_id,first_name,last_name,email,avatar_url,project_role,display_name''),
         (''project_id'', eq_str project_id), (''order'', ''display_name.asc'')] None None) (\<lambda>txt.
       let dedup = dedup_assignees {} (json_rows (mx_ext E) txt)
       in respond (json_ok (JObj [(''assignees'', JArr dedup), (''count'', jnat (length dedup))]))))))"

section \<open>The routes\<close>

text \<open>
  The operations of \<^verbatim>\<open>/api/exponential\<close> that reach the data plane themselves, with what the extractors hand to
  their handlers; the members and permissions of projects and teams are read through the tool router.
\<close>

datatype exponential_op =
    GetLabels | CreateLabel | DeleteLabel "string option"
  | SavedViews view_op
  | Assignees string
  | ListTasks list_tasks_query | CreateTask json | GetTask string "bool option" "bool option" | UpdateTask string json | DeleteTask string
  | TaskComments string | CreateComment string json
  | ListSprints "string option" "string option" | CreateSprint json | GetSprint string | UpdateSprint string json | DeleteSprint string
  | ListProjects "string option" "bool option" "string option" | CreateProject json | GetProject string
  | ProjectTasks string "nat option" "bool option" | AddProjectMember string json
  | ListTeams "string option" | CreateTeam json | GetTeam string | AddTeamMember string json

fun exponential_run :: "lib_env \<Rightarrow> cleaner \<Rightarrow> exponential_op \<Rightarrow> request \<Rightarrow> handler_run" where
  "exponential_run E clean GetLabels = get_exponential_labels E"
| "exponential_run E clean CreateLabel = create_exponential_label E"
| "exponential_run E clean (DeleteLabel i) = delete_exponential_label E i"
| "exponential_run E clean (SavedViews op) = view_run E op"
| "exponential_run E clean (Assignees i) = get_exponential_project_assignees E i"
| "exponential_run E clean (ListTasks q) = list_exponential_tasks E q"
| "exponential_run E clean (CreateTask b) = create_exponential_task E clean b"
| "exponential_run E clean (GetTask i a r) = get_exponential_task E i a r"
| "exponential_run E clean (UpdateTask i b) = update_exponential_task E clean i b"
| "exponential_run E clean (DeleteTask i) = delete_exponential_task E i"
| "exponential_run E clean (TaskComments i) = get_exponential_task_comments E i"
| "exponential_run E clean (CreateComment i b) = create_exponential_task_comment E clean i b"
| "exponential_run E clean (ListSprints p s) = list_exponential_sprints E p s"
| "exponential_run E clean (CreateSprint b) = create_exponential_sprint E b"
| "exponential_run E clean (GetSprint i) = get_exponential_sprint E i"
| "exponential_run E clean (UpdateSprint i b) = update_exponential_sprint E i b"
| "exponential_run E clean (DeleteSprint i) = delete_exponential_sprint E i"
| "exponential_run E clean (ListProjects t a v) = list_exponential_projects E t a v"
| "exponential_run E clean (CreateProject b) = create_exponential_project E clean b"
| "exponential_run E clean (GetProject i) = get_exponential_project E i"
| "exponential_run E clean (ProjectTasks i l a) = get_exponential_project_tasks E i l a"
| "exponential_run E clean (AddProjectMember i b) = create_exponential_project_member E i b"
| "exponential_run E clean (ListTeams v) = list_exponential_teams E v"
| "exponential_run E clean (CreateTeam b) = create_exponential_team E b"
| "exponential_run E clean (GetTeam i) = get_exponential_team E i"
| "exponential_run E clean (AddTeamMember i b) = create_exponential_team_member E i b"

definition EXPONENTIAL_TABLES :: "string list" where
  "EXPONENTIAL_TABLES = [''labels'', ''exponential_saved_views'', ''project_assignees_view'', ''tasks'', ''tasks_view'', ''task_comments'',
     ''sprints'', ''projects'', ''project_members'', ''teams'', ''project_members?on_conflict=project_id,user_id'',
     ''team_members?on_conflict=team_id,user_id'']"

definition exponential_request :: "lib_env \<Rightarrow> plane_request \<Rightarrow> bool" where
  "exponential_request E q \<longleftrightarrow> (\<exists>pl table. lib_supabase_env (mx_vars E) = Ok pl \<and> table \<in> set EXPONENTIAL_TABLES \<and> plane_target E pl table q)"

lemma exponential_request_intro:
  "lib_supabase_env (mx_vars E) = Ok pl \<Longrightarrow> table \<in> set EXPONENTIAL_TABLES \<Longrightarrow>
   url_parse (mx_ext E) (fst pl @ ''/rest/v1/'' @ table) = Ok u \<Longrightarrow>
   exponential_request E (lib_request E (snd pl) m (with_pairs pairs u) prefer b)"
  "lib_supabase_env (mx_vars E) = Ok pl \<Longrightarrow> table \<in> set EXPONENTIAL_TABLES \<Longrightarrow>
   url_parse (mx_ext E) (fst pl @ ''/rest/v1/'' @ table) = Ok u \<Longrightarrow>
   exponential_request E (lib_request E (snd pl) m u prefer b)"
  unfolding exponential_request_def by (blast intro: plane_target_call)+

text \<open>Each of the four calls, on a table of the list.\<close>

lemma exponential_calls:
  assumes pl: "lib_supabase_env (mx_vars E) = Ok pl"
  shows "table \<in> set EXPONENTIAL_TABLES \<Longrightarrow> sends (exponential_request E) (app_call E pl m table pairs prefer b)"
    and "table \<in> set EXPONENTIAL_TABLES \<Longrightarrow> sends (exponential_request E) (app_insert E pl table rep row)"
    and "table \<in> set EXPONENTIAL_TABLES \<Longrightarrow> sends (exponential_request E) (gateway_call E pl m table pairs prefer b)"
    and "table \<in> set EXPONENTIAL_TABLES \<Longrightarrow> sends (exponential_request E) (gateway_insert E pl table row)"
proof -
  note r = exponential_request_intro [OF pl]
  show "sends (exponential_request E) (app_call E pl m table pairs prefer b)" if "table \<in> set EXPONENTIAL_TABLES"
    by (rule sends_app_call) (cases "pairs = []"; simp only: if_True if_False simp_thms; rule r [OF that])
  show "sends (exponential_request E) (app_insert E pl table rep row)" if "table \<in> set EXPONENTIAL_TABLES"
    by (rule sends_app_insert) (rule r [OF that])
  show "sends (exponential_request E) (gateway_call E pl m table pairs prefer b)" if "table \<in> set EXPONENTIAL_TABLES"
    by (rule sends_gateway_call) (rule r [OF that])
  show "sends (exponential_request E) (gateway_insert E pl table row)" if "table \<in> set EXPONENTIAL_TABLES"
    by (rule sends_gateway_insert) (rule r [OF that])
qed

lemma exponential_count:
  assumes pl: "lib_supabase_env (mx_vars E) = Ok pl"
  shows "sends (exponential_request E) (count_call E pl pairs)"
proof -
  have "exponential_request E (lib_request E (snd pl) ''GET'' u (Some ''count=exact'') None)"
    if "plane_url E (fst pl) ''tasks_view'' pairs = Ok u" for u
    using that exponential_request_intro [OF pl, of "''tasks_view''"]
    by (auto simp: plane_url_def try_result_Ok map_err_eq EXPONENTIAL_TABLES_def)
  then have "sends (exponential_request E)
      (\<lambda>tr. let q = lib_request E (snd pl) ''GET'' u (Some ''count=exact'') None in (r tr q, tr @ [q]))"
    if "plane_url E (fst pl) ''tasks_view'' pairs = Ok u" for u and r :: "_ \<Rightarrow> _ \<Rightarrow> (response, int) result"
    using that by (simp add: sends_def Let_def)
  then show ?thesis unfolding count_call_def by (rule sends_bind_lift)
qed

lemma exponential_count_projects:
  assumes "lib_supabase_env (mx_vars E) = Ok pl"
  shows "sends (exponential_request E) (count_projects E pl ps)"
proof (induction ps)
  case (Cons p ps)
  then show ?case unfolding count_projects.simps project_counts_def Let_def
    by (intro sends_bind sends_cases sends_lift exponential_count [OF assms])
qed (simp only: count_projects.simps sends_lift)

lemmas exponential_handlers = get_exponential_labels_def create_exponential_label_def delete_exponential_label_def
  get_exponential_views_def create_exponential_view_def delete_exponential_view_def get_exponential_project_assignees_def
  list_exponential_tasks_def create_exponential_task_def get_exponential_task_def update_exponential_task_def
  delete_exponential_task_def get_exponential_task_comments_def create_exponential_task_comment_def list_exponential_sprints_def
  create_exponential_sprint_def get_exponential_sprint_def update_exponential_sprint_def delete_exponential_sprint_def
  list_exponential_projects_def create_exponential_project_def get_exponential_project_def get_exponential_project_tasks_def
  create_exponential_project_member_def list_exponential_teams_def create_exponential_team_def get_exponential_team_def
  create_exponential_team_member_def

lemma view_confined: "\<exists>qs. snd (view_run E op rq tr) = tr @ qs \<and> (\<forall>q\<in>set qs. exponential_request E q)"
  by (cases op) (simp_all only: view_run.simps exponential_handlers, (intro sends_run sends_plane_bind exponential_calls sends_bind
     sends_simple sends_bad_input sends_cases; simp add: EXPONENTIAL_TABLES_def)+)

lemma exponential_confined_ops:
  "\<exists>qs. snd (exponential_run E clean op rq tr) = tr @ qs \<and> (\<forall>q\<in>set qs. exponential_request E q)"
  by (cases op) (simp_all only: exponential_run.simps exponential_handlers view_confined Let_def team_projects_def,
    (intro sends_run sends_plane_bind exponential_calls exponential_count_projects sends_bind sends_when sends_lift sends_accepted
     sends_simple sends_bad_input sends_cases; simp add: EXPONENTIAL_TABLES_def)+)

interpretation ex: session_api UNIV "exponential_run E clean" "exponential_request E" for E clean
proof
  fix op rq tr
  show "\<exists>qs. snd (exponential_run E clean op rq tr) = tr @ qs \<and> (\<forall>q\<in>set qs. exponential_request E q)"
    by (rule exponential_confined_ops)
  assume p: "rq_principal rq = None"
  have v: "view_run E o' rq tr = (standard_error_response 401 ''Unauthorized'', tr)" for o'
    by (cases o') (simp_all only: view_run.simps exponential_handlers p no_session)
  show "exponential_run E clean op rq tr = (standard_error_response 401 ''Unauthorized'', tr)"
    by (cases op) (simp_all only: exponential_run.simps exponential_handlers p no_session v)
qed

text \<open>
  C18: Of any sequence of calls of the project-tracking API, the data plane sees exactly what the calls with a session
  cause, in the same order and with the same answers to them; and all it sees goes to the tables of the tracker.
\<close>

theorem exponential_needs_session:
  "\<exists>qs. snd (serve (exponential_run E clean) rs tr) = tr @ qs \<and> list_all (exponential_request E) qs
     \<and> serve (exponential_run E clean) (filter has_session rs) tr =
         (map snd (filter (\<lambda>(r, resp). has_session r) (zip rs (fst (serve (exponential_run E clean) rs tr)))), tr @ qs)"
  using ex.serve_confined [of rs E clean tr] ex.serve_without_session [of rs E clean tr] by (auto simp: list_all_iff)

section \<open>Assignees, roles and counts\<close>

lemma dedup_ids:
  "distinct (map assignee_id (dedup_assignees seen rows)) \<and>
   set (map assignee_id (dedup_assignees seen rows)) = set (map assignee_id rows) - insert [] seen"
  by (induction seen rows rule: dedup_assignees.induct) auto

lemma dedup_subseq: "subseq (dedup_assignees seen rows) rows"
  by (induction seen rows rule: dedup_assignees.induct) auto

lemma dedup_first: "row \<in> set (dedup_assignees seen rows) \<Longrightarrow>
  \<exists>before after. rows = before @ row # after \<and> assignee_id row \<notin> assignee_id ` set before \<union> insert [] seen"
proof (induction seen rows rule: dedup_assignees.induct)
  case (2 seen r rows)
  show ?case
  proof (cases "assignee_id r \<noteq> [] \<and> assignee_id r \<notin> seen")
    case True
    then consider "row = r" | "row \<in> set (dedup_assignees (insert (assignee_id r) seen) rows)" using 2 by auto
    then show ?thesis
    proof cases
      case 2
      then obtain before after where "rows = before @ row # after"
        "assignee_id row \<notin> assignee_id ` set before \<union> insert [] (insert (assignee_id r) seen)" using "2.IH"(1) True by blast
      then show ?thesis by (intro exI [of _ "r # before"] exI [of _ after]) auto
    next
      case 1
      then show ?thesis using True by (intro exI [of _ "[]"] exI [of _ rows]) auto
    qed
  next
    case False
    then obtain before after where b: "rows = before @ row # after" "assignee_id row \<notin> assignee_id ` set before \<union> insert [] seen"
      using 2 by auto
    then show ?thesis using False by (intro exI [of _ "r # before"] exI [of _ after]) auto
  qed
qed simp

text \<open>
  The assignees a project answers with are the rows of the data plane in their order, each user once: the first row of
  every user id that is not empty, and no other row.
\<close>

theorem assignees_once:
  "distinct (map assignee_id (dedup_assignees {} rows)) \<and> subseq (dedup_assignees {} rows) rows
   \<and> (\<forall>row. row \<in> set (dedup_assignees {} rows) \<longleftrightarrow>
        (\<exists>before after. rows = before @ row # after \<and> assignee_id row \<notin> assignee_id ` set before \<and> assignee_id row \<noteq> []))"
proof -
  have "row \<in> set (dedup_assignees seen rows)"
    if "rows = before @ row # after" "assignee_id row \<notin> assignee_id ` set before" "assignee_id row \<noteq> []" "assignee_id row \<notin> seen"
    for row before after seen
    using that by (induction before arbitrary: rows seen) auto
  then have m: "row \<in> set (dedup_assignees {} rows)"
    if "\<exists>before after. rows = before @ row # after \<and> assignee_id row \<notin> assignee_id ` set before \<and> assignee_id row \<noteq> []" for row
    using that by (metis empty_iff)
  have f: "\<exists>before after. rows = before @ row # after \<and> assignee_id row \<notin> assignee_id ` set before \<and> assignee_id row \<noteq> []"
    if "row \<in> set (dedup_assignees {} rows)" for row
    using dedup_first [OF that] by (metis UnI1 UnI2 insertI1)
  have "row \<in> set (dedup_assignees {} rows) \<longleftrightarrow>
      (\<exists>before after. rows = before @ row # after \<and> assignee_id row \<notin> assignee_id ` set before \<and> assignee_id row \<noteq> [])" for row
    by (rule iffI, erule f, erule m)
  then show ?thesis using dedup_ids [of "{}" rows] dedup_subseq [of "{}" rows] by simp
qed

lemma tally_count: "tally ks k = count_list ks k"
proof -
  have "fold (\<lambda>k m. m(k := m k + 1)) ks f k = f k + count_list ks k" for f :: "string \<Rightarrow> nat"
    by (induction ks arbitrary: f) simp_all
  then show ?thesis by (simp add: tally_def)
qed

lemma count_filter_map: "count_list (filter_map f xs) y = length (filter (\<lambda>x. f x = Some y) xs)"
  by (induction xs) (auto split: option.splits)

lemma jset_fields: "get_str i v = Some s \<Longrightarrow> get_u64 k (jset k (jnat n) v) = Some n"
  "get_str i v = Some s \<Longrightarrow> j \<noteq> k \<Longrightarrow> get_u64 k (jset j x v) = get_u64 k v"
  "get_str i v = Some s \<Longrightarrow> i \<noteq> j \<Longrightarrow> get_str i (jset j x v) = Some s"
  by (cases v; simp add: get_str_def get_u64_def jset_def as_u64_def jnat_def)+

text \<open>
  The counts shown with the projects of a team are those of the tasks the data plane returned: a project with an id
  gets the number of tasks of that project and the number of those that are done, so never more done than there are,
  and nothing else of it changes.
\<close>

theorem task_counts_exact:
  assumes "p \<in> set projects" "get_str ''id'' p = Some pid"
  shows "\<exists>p'\<in>set (attach_task_counts tasks projects).
      get_u64 ''task_count'' p' = Some (length (filter (\<lambda>t. get_str ''project_id'' t = Some pid) tasks))
    \<and> get_u64 ''completed_count'' p' = Some (length (filter (\<lambda>t. get_str ''status'' t = Some ''done'')
        (filter (\<lambda>t. get_str ''project_id'' t = Some pid) tasks)))
    \<and> (\<forall>k. k \<noteq> ''task_count'' \<longrightarrow> k \<noteq> ''completed_count'' \<longrightarrow> jget k p' = jget k p)"
proof -
  let ?total = "tally (filter_map (get_str ''project_id'') tasks)"
    and ?done = "tally (filter_map (\<lambda>t. opt_filter (\<lambda>_. get_str ''status'' t = Some ''done'') (get_str ''project_id'' t)) tasks)"
  let ?p = "jset ''completed_count'' (jnat (?done pid)) (jset ''task_count'' (jnat (?total pid)) p)"
  have s: "get_str ''id'' (jset ''task_count'' x p) = Some pid" for x using assms(2) by (simp add: jset_fields)
  have "?p \<in> set (attach_task_counts tasks projects)" using assms unfolding attach_task_counts_def Let_def set_map
    by (intro image_eqI [OF _ assms(1)]) simp
  moreover have "get_u64 ''task_count'' ?p = Some (?total pid)" "get_u64 ''completed_count'' ?p = Some (?done pid)"
    using jset_fields [OF assms(2)] jset_fields [OF s] by simp_all
  moreover have "jget k ?p = jget k p" if "k \<noteq> ''task_count''" "k \<noteq> ''completed_count''" for k
    using that by (cases p) (simp_all add: jset_def)
  ultimately show ?thesis
    by (intro bexI [of _ ?p]) (auto simp: tally_count count_filter_map filter_filter conj_commute)
qed

text \<open>The membership of a user, and one of the permissions of the answer.\<close>

definition membership :: "string \<Rightarrow> json \<Rightarrow> json option" where
  "membership uid members = head_opt (filter (\<lambda>m. get_str ''user_id'' m = Some uid) (unwrap_or [] (as_array members)))"

definition permission :: "string \<Rightarrow> json \<Rightarrow> bool option" where
  "permission k answer = Option.bind (jget ''permissions'' answer) (get_bool k)"

text \<open>
  A user may manage a project exactly when the first membership row with that user's id has the role of a lead, and
  create and edit its tasks exactly when that role is lead or contributor; without a row the user is a viewer.
\<close>

theorem project_permissions_exact:
  "permission ''can_manage'' (project_answer uid project sprints members)
     = Some (Option.bind (membership uid members) (get_str ''role'') = Some ''lead'')
   \<and> permission ''can_manage_members'' (project_answer uid project sprints members)
     = Some (Option.bind (membership uid members) (get_str ''role'') = Some ''lead'')
   \<and> permission ''can_edit_tasks'' (project_answer uid project sprints members)
     = Some (Option.bind (membership uid members) (get_str ''role'') \<in> {Some ''lead'', Some ''contributor''})
   \<and> permission ''can_create_tasks'' (project_answer uid project sprints members)
     = Some (Option.bind (membership uid members) (get_str ''role'') \<in> {Some ''lead'', Some ''contributor''})"
proof -
  have f: "find_map (\<lambda>m. if get_str ''user_id'' m = Some uid then Some (unwrap_or ''viewer'' (get_str ''role'' m)) else None) ms
      = map_option (\<lambda>m. unwrap_or ''viewer'' (get_str ''role'' m)) (head_opt (filter (\<lambda>m. get_str ''user_id'' m = Some uid) ms))" for ms
    by (induction ms) auto
  have r: "member_role uid members = unwrap_or ''viewer'' (Option.bind (membership uid members) (get_str ''role''))"
    unfolding member_role_def f membership_def [symmetric] by (cases "membership uid members") simp_all
  show ?thesis unfolding permission_def project_answer_def Let_def r
    by (cases "Option.bind (membership uid members) (get_str ''role'')") (simp_all add: get_bool_def as_bool_def)
qed

theorem task_counts_exact_witness:
  "\<exists>p'\<in>set (attach_task_counts [JObj [(''project_id'', JStr ''p''), (''status'', JStr ''done'')], JObj [(''project_id'', JStr ''p'')]]
      [JObj [(''id'', JStr ''p'')]]). get_u64 ''task_count'' p' = Some 2 \<and> get_u64 ''completed_count'' p' = Some 1"
proof -
  let ?ts = "[JObj [(''project_id'', JStr ''p''), (''status'', JStr ''done'')], JObj [(''project_id'', JStr ''p'')]]"
  have n: "length (filter (\<lambda>t. get_str ''project_id'' t = Some ''p'') ?ts) = 2"
    "length (filter (\<lambda>t. get_str ''status'' t = Some ''done'') (filter (\<lambda>t. get_str ''project_id'' t = Some ''p'') ?ts)) = 1"
    by (simp_all add: get_str_def)
  have "JObj [(''id'', JStr ''p'')] \<in> set [JObj [(''id'', JStr ''p'')]]" "get_str ''id'' (JObj [(''id'', JStr ''p'')]) = Some ''p''"
    by (simp_all add: get_str_def)
  from task_counts_exact [OF this, of ?ts] show ?thesis unfolding n by blast
qed

end
