(* ===== verification/Tool_Api.thy ===== *)
theory Tool_Api
  imports Tool_Runtime Exponential_Projects Access_Middleware
begin

text \<open>
  The HTTP side of the tools in \<^verbatim>\<open>lib.rs\<close>: the tool routes, the routes of the project tracker that go through the tool
  router, the tools the application enables at start-up, and the dashboard over the audit log.
\<close>

section \<open>The context of a call\<close>

definition lib_source_ip :: "ext \<Rightarrow> header_map \<Rightarrow> string" where
  "lib_source_ip X h =
     unwrap_or ''unknown''
       (opt_or (opt_filter (\<lambda>t. t \<noteq> []) (map_option (\<lambda>v. trim (hd (split_on (CHR '','') v))) (header_str X h ''x-forwarded-for'')))
               (opt_filter (\<lambda>t. t \<noteq> []) (map_option trim (header_str X h ''x-real-ip''))))"

definition lib_user_agent :: "ext \<Rightarrow> header_map \<Rightarrow> string option" where
  "lib_user_agent X h = header_str X h ''user-agent''"

definition build_tool_audit_ctx :: "ext \<Rightarrow> request \<Rightarrow> tool_audit_ctx" where
  "build_tool_audit_ctx X rq =
     \<lparr>ctx_request_id = request_id_from_extension X rq, ctx_source_ip = lib_source_ip X (rq_headers rq),
      ctx_user_agent = lib_user_agent X (rq_headers rq), ctx_actor = map_option actor_from_principal (rq_principal rq),
      ctx_upstream_authorization = header_str X (rq_headers rq) ''authorization'',
      ctx_upstream_cookie = header_str X (rq_headers rq) ''cookie''\<rparr>"

definition exponential_upstream_base :: "environment \<Rightarrow> string" where
  "exponential_upstream_base env = unwrap_or ''https://tools.greenhatsec.com''
     (opt_filter (\<lambda>s. s \<noteq> []) (map_option (\<lambda>s. trim_end_matches (CHR ''/'') (trim s)) (env ''EXPONENTIAL_API_BASE_URL'')))"

section \<open>Executing a call\<close>

text \<open>
  \<^verbatim>\<open>execute\<close> when the permits are free, the tool ends in time and the clock stands still: the run of the router's
  steps for this one call.
\<close>

definition started_call :: "tool_request \<Rightarrow> resolved_tool \<times> validated_args \<times> tool_audit_ctx \<Rightarrow> nat \<Rightarrow> phase \<Rightarrow> tool_call" where
  "started_call req a t ph = (case a of (resolved, args, ctx) \<Rightarrow>
     \<lparr>cl_req = req, cl_ctx = ctx, cl_resolved = resolved, cl_args = args, cl_since = t, cl_phase = ph\<rparr>)"

definition execute :: "tool_router \<Rightarrow> tool_request \<Rightarrow> tool_audit_ctx \<Rightarrow> ('v, 's) world \<Rightarrow> tool_result \<times> ('v, 's) world" where
  "execute R req ctx w = (case admit R req ctx w of
     (Inl res, w1) \<Rightarrow> (res, w1)
   | (Inr a, w1) \<Rightarrow>
       let c = started_call req a (w_now w1) Running
       in conclude R c (dispatch_outcome R c)
            (emit_start (tx_audit R) req (cl_ctx c) (hash_args (tx_ext R) (tr_params req)) (rs_timeout_ms (cl_resolved c)) 0 w1))"

section \<open>Handlers\<close>

definition list_tools :: response where
  "list_tools = json_ok (JObj [(''tools'', JArr (map JStr supported_tool_names))])"

definition result_json :: "tool_result \<Rightarrow> json" where
  "result_json r = JObj ([(''success'', JBool (tres_success r))]
     @ (case tres_status r of None \<Rightarrow> [] | Some s \<Rightarrow> [(''status'', jnat s)]) @ [(''data'', JStr (tres_data r))])"

definition call_tool :: "tool_router \<Rightarrow> tool_request \<Rightarrow> ('v, 's) handler" where
  "call_tool R req rq w = (case execute R req (build_tool_audit_ctx (tx_ext R) rq) w of (res, w') \<Rightarrow> (json_ok (result_json res), w'))"

definition body_to_object :: "string \<Rightarrow> json \<Rightarrow> (app_error, (string \<times> json) list) result" where
  "body_to_object rid body =
     ok_or (with_request_id rid (app_err (BadRequest ''request body must be a JSON object''))) (as_object body)"

definition param_from :: "json \<Rightarrow> string \<Rightarrow> string list \<Rightarrow> (string \<times> json) list" where
  "param_from body k ks = (case pick_value ks body of None \<Rightarrow> [] | Some v \<Rightarrow> [(k, v)])"

definition project_params_from_body :: "json \<Rightarrow> (string \<times> json) list" where
  "project_params_from_body body =
     param_from body ''teamId'' [''teamId'', ''team_id''] @ param_from body ''name'' [''name'']
     @ param_from body ''description'' [''description''] @ param_from body ''color'' [''color'']
     @ param_from body ''icon'' [''icon'']
     @ param_from body ''sprintDurationDays'' [''sprintDurationDays'', ''sprint_duration_days'']
     @ param_from body ''startDate'' [''startDate'', ''start_date'']"

definition tool_result_response :: "tool_result \<Rightarrow> string \<Rightarrow> response" where
  "tool_result_response r rid =
     (if tres_success r
      then \<lparr>rs_status = (let s = unwrap_or 200 (tres_status r) in if 100 \<le> s \<and> s \<le> 999 then s else 500),
            rs_headers = hm_insert ''content-type'' ''application/json'' no_headers, rs_body = Raw (tres_data r),
            rs_actor = None, rs_upstream = None\<rparr>
      else json_response 502 (JObj [(''error'', JObj [(''code'', jnat 502), (''kind'', JStr ''upstream_error''),
             (''message'', JStr (tres_data r)), (''request_id'', JStr rid)])]))"

definition execute_exponential_tool ::
  "tool_router \<Rightarrow> tool_audit_ctx \<Rightarrow> string \<Rightarrow> json \<Rightarrow> ('v, 's) world \<Rightarrow> response \<times> ('v, 's) world" where
  "execute_exponential_tool R ctx tool params w =
     (case execute R \<lparr>tr_tool = tool, tr_params = params\<rparr> ctx w of (res, w') \<Rightarrow> (tool_result_response res (ctx_request_id ctx), w'))"

definition get_exponential_project_members :: "tool_router \<Rightarrow> string \<Rightarrow> ('v, 's) handler" where
  "get_exponential_project_members R project_id rq =
     execute_exponential_tool R (build_tool_audit_ctx (tx_ext R) rq) ''get_project_members'' (JObj [(''projectId'', JStr project_id)])"

definition get_exponential_team_members :: "tool_router \<Rightarrow> string \<Rightarrow> ('v, 's) handler" where
  "get_exponential_team_members R team_id rq =
     execute_exponential_tool R (build_tool_audit_ctx (tx_ext R) rq) ''get_team_members'' (JObj [(''teamId'', JStr team_id)])"

definition action_required :: response where
  "action_required = into_response (app_err (BadRequest ''action query parameter is required''))"

definition get_exponential_project_permissions :: "tool_router \<Rightarrow> string \<Rightarrow> string option \<Rightarrow> ('v, 's) handler" where
  "get_exponential_project_permissions R project_id action rq w = (case action of
     None \<Rightarrow> (action_required, w)
   | Some a \<Rightarrow> execute_exponential_tool R (build_tool_audit_ctx (tx_ext R) rq) ''get_project_permissions''
       (JObj [(''projectId'', JStr project_id), (''action'', JStr a)]) w)"

definition get_exponential_team_permissions :: "tool_router \<Rightarrow> string \<Rightarrow> string option \<Rightarrow> ('v, 's) handler" where
  "get_exponential_team_permissions R team_id action rq w = (case action of
     None \<Rightarrow> (action_required, w)
   | Some a \<Rightarrow> execute_exponential_tool R (build_tool_audit_ctx (tx_ext R) rq) ''get_team_permissions''
       (JObj [(''teamId'', JStr team_id), (''action'', JStr a)]) w)"

section \<open>The tools the application enables\<close>

definition SEEDED_TOOLS :: "string list" where
  "SEEDED_TOOLS = [''list_tasks'', ''create_task'', ''get_task'', ''update_task'', ''delete_task'', ''get_task_comments'', ''list_sprints'',
     ''create_sprint'', ''get_sprint'', ''list_projects'', ''create_project'', ''get_project'', ''get_project_tasks'',
     ''get_project_members'', ''get_project_permissions'', ''list_teams'', ''get_team'', ''get_team_members'', ''get_team_permissions'']"

definition seeded_tool :: tool_runtime_tool_config where
  "seeded_tool = \<lparr>tc_enabled = True, tc_timeout_ms = 30000, tc_max_concurrent = 16\<rparr>"

definition app_tool_config :: "policy option \<Rightarrow> tool_runtime_config" where
  "app_tool_config policy =
     (let cfg = unwrap_or builtins (Option.bind policy from_rbac_policy)
      in cfg\<lparr>rc_tools := fold (\<lambda>t tools. if tools t = None then tools(t \<mapsto> seeded_tool) else tools) SEEDED_TOOLS (rc_tools cfg)\<rparr>)"

section \<open>One call is a run of the router\<close>

lemma admitted_permit:
  assumes "admit R req ctx w = (Ok (resolved, args, ctx'), w1)"
  shows "\<exists>n. sm_tool (runtime_new (tx_cfg R)) (rs_semaphore resolved) = Some (Suc n)"
proof -
  have s: "is_supported_tool (tr_tool req)" "rs_semaphore resolved = tr_tool req"
    using assms by (auto simp: admit_def resolve_tool_def Let_def split: sum.splits if_splits option.splits default_tool_policy.splits)
  then have "map_of (map (\<lambda>tool. (tool, tool_permits (tx_cfg R) tool)) supported_tool_names) (tr_tool req)
      = Some (tool_permits (tx_cfg R) (tr_tool req))"
    by (simp add: is_supported_tool_def list_ex_iff map_of_map_restrict)
  moreover have "0 < tool_permits (tx_cfg R) (tr_tool req)" by (simp add: tool_permits_def)
  ultimately show ?thesis using s(2) gr0_implies_Suc [of "tool_permits (tx_cfg R) (tr_tool req)"]
    by (simp add: runtime_new_def)
qed

text \<open>A call alone in the queue goes through its three phases.\<close>

definition running_call :: "tool_call \<Rightarrow> ('v, 's) world \<Rightarrow> tool_call" where
  "running_call c w = c\<lparr>cl_phase := Running, cl_since := w_now w\<rparr>"

definition start_event :: "tool_router \<Rightarrow> tool_call \<Rightarrow> ('v, 's) world \<Rightarrow> ('v, 's) world" where
  "start_event R c w = emit_start (tx_audit R) (cl_req c) (cl_ctx c) (hash_args (tx_ext R) (tr_params (cl_req c)))
     (rs_timeout_ms (cl_resolved c)) (elapsed_ms (cl_since c) w) w"

lemma lone_call_runs:
  assumes st: "tool_reachable R w st" "ro_calls st = [c]" "cl_phase c = WaitGlobal" "0 < sm_global (ro_sem st)"
    and n: "sm_tool (ro_sem st) (rs_semaphore (cl_resolved c)) = Some (Suc n)"
    and out: "conclude R (running_call c (ro_world st)) (dispatch_outcome R (running_call c (ro_world st))) (start_event R c (ro_world st)) = (res, w')"
  shows "\<exists>st'. tool_reachable R w st' \<and> ro_done st' = ro_done st @ [(cl_req c, res)] \<and> ro_world st' = w'
    \<and> ro_calls st' = [] \<and> ro_sem st' = (ro_sem st)\<lparr>sm_queue := Suc (sm_queue (ro_sem st))\<rparr>"
proof -
  let ?st2 = "acquire_global [] c [] st" and ?c2 = "c\<lparr>cl_phase := WaitTool\<rparr>"
  have "call_step R st ?st2" by (rule AcquireGlobal) (use st in simp_all)
  with st(1) have r2: "tool_reachable R w ?st2" by (auto intro: tool_reachable.Step tool_step.Call)
  let ?st3 = "start_tool R [] ?c2 [] ?st2" and ?c3 = "running_call c (ro_world st)"
  have "call_step R ?st2 ?st3" by (rule StartTool [where n = n]) (use n in \<open>simp_all add: acquire_global_def\<close>)
  with r2 have r3: "tool_reachable R w ?st3" by (auto intro: tool_reachable.Step tool_step.Call)
  have c3: "ro_calls ?st3 = [] @ ?c3 # []" "cl_phase ?c3 = Running" "ro_world ?st3 = start_event R c (ro_world st)"
    by (simp_all add: start_tool_def acquire_global_def running_call_def start_event_def Let_def)
  let ?st4 = "end_run R [] ?c3 [] (dispatch_outcome R ?c3) ?st3"
  have "call_step R ?st3 ?st4" by (rule Finish) (rule c3)+
  with r3 have r4: "tool_reachable R w ?st4" by (auto intro: tool_reachable.Step tool_step.Call)
  have sem: "release ?c3 (ro_sem ?st3) = (ro_sem st)\<lparr>sm_queue := Suc (sm_queue (ro_sem st))\<rparr>"
    using n st(4) by (cases "ro_sem st") (simp add: release_def running_call_def start_tool_def acquire_global_def add_permit_def
        take_permit_def fun_upd_idem Let_def)
  have "?st4 = leave [] ?c3 [] res w' ?st3" unfolding end_run_def c3(3) out by simp
  then have "ro_done ?st4 = ro_done st @ [(cl_req c, res)]" "ro_world ?st4 = w'" "ro_calls ?st4 = []"
    "ro_sem ?st4 = (ro_sem st)\<lparr>sm_queue := Suc (sm_queue (ro_sem st))\<rparr>"
    by (simp_all add: leave_def finish_with_def sem) (simp_all add: start_tool_def acquire_global_def running_call_def Let_def)
  with r4 show ?thesis by blast
qed

text \<open>
  C24: Executing a call on an idle router is one of the router's runs: submission, the two permits, the tool and the release
  of the permits lead from the initial state to one in which the call is answered with the result of \<open>execute\<close>, its
  events are in the log, nothing is in flight and every permit is back.
\<close>

theorem execute_is_a_run:
  assumes "0 < rc_max_queue (tx_cfg R)" "0 < rc_max_concurrent_global (tx_cfg R)"
  shows "\<exists>st. tool_reachable R w st \<and> ro_done st = [(req, fst (execute R req ctx w))] \<and> ro_world st = snd (execute R req ctx w)
    \<and> ro_calls st = [] \<and> ro_sem st = runtime_new (tx_cfg R)"
proof -
  let ?st0 = "router_init R w"
  let ?st1 = "submit R req ctx ?st0"
  have r1: "tool_reachable R w ?st1" by (rule tool_reachable.Step [OF tool_reachable.Start tool_step.Submit])
  obtain a w1 where ad: "admit R req ctx w = (a, w1)" by (cases "admit R req ctx w")
  show ?thesis
  proof (cases a)
    case (Inl res)
    then have "?st1 = finish_with req res w1 ?st0" "execute R req ctx w = (res, w1)"
      using ad by (simp_all add: submit_def router_init_def execute_def)
    then show ?thesis using r1 by (intro exI [of _ ?st1]) (simp add: finish_with_def router_init_def)
  next
    case (Inr b)
    then obtain resolved args ctx' where b: "a = Ok (resolved, args, ctx')" by (cases b) auto
    let ?c = "started_call req (resolved, args, ctx') (w_now w1) WaitGlobal"
    let ?s = "runtime_new (tx_cfg R)"
    obtain n where n: "sm_tool ?s (rs_semaphore resolved) = Some (Suc n)"
      using admitted_permit [of R req ctx w resolved args ctx' w1] ad b by auto
    have st1: "?st1 = \<lparr>ro_sem = ?s\<lparr>sm_queue := sm_queue ?s - 1\<rparr>, ro_calls = [?c], ro_done = [], ro_world = w1\<rparr>"
      using ad b assms(1) by (simp add: submit_def router_init_def started_call_def runtime_new_def)
    have q: "sm_queue ?s \<noteq> 0" "0 < sm_global ?s" using assms by (simp_all add: runtime_new_def)
    have "execute R req ctx w = conclude R (running_call ?c w1) (dispatch_outcome R (running_call ?c w1)) (start_event R ?c w1)"
      using ad b by (simp add: execute_def started_call_def running_call_def start_event_def elapsed_ms_def Let_def)
    then have out: "conclude R (running_call ?c (ro_world ?st1)) (dispatch_outcome R (running_call ?c (ro_world ?st1)))
        (start_event R ?c (ro_world ?st1)) = (fst (execute R req ctx w), snd (execute R req ctx w))" by (simp add: st1)
    have "ro_calls ?st1 = [?c]" "cl_phase ?c = WaitGlobal" "0 < sm_global (ro_sem ?st1)"
      "sm_tool (ro_sem ?st1) (rs_semaphore (cl_resolved ?c)) = Some (Suc n)"
      using q n by (simp_all add: st1 started_call_def)
    from lone_call_runs [OF r1 this out] show ?thesis using q by (simp add: st1 started_call_def)
  qed
qed

section \<open>Who sees the members\<close>

lemma member_gate_status:
  assumes "member_gate X env net res i ctx = Ok (Some ans)"
  shows "\<exists>s. to_status ans = Some s \<and> s \<noteq> 200"
  using assms
  by (auto simp: member_gate_def json_error_def result_simps Tool_Router.is_success_def split: if_splits)

lemma execute_members:
  assumes "map_of tool_arms tool = Some (members_arm res k)" "get_str k params = Some i"
    and "supabase_base (tx_env R) \<noteq> []" "supabase_key (tx_env R) \<noteq> []"
    and "rs_status (fst (execute_exponential_tool R ctx tool params w)) = 200"
  shows "actor_is_admin ctx \<or> is_member_row R res i ctx"
proof -
  let ?req = "\<lparr>tr_tool = tool, tr_params = params\<rparr>"
  let ?g = "member_gate (tx_ext R) (tx_env R) (tx_net R) res i ctx"
  have v: "validate_args (tx_ext R) (tx_env R) tool params (tx_egress R) = Ok (ExponentialMembers res i)"
    using assms(1,2) by (simp add: validate_args_def members_arm_def required_def)
  have ok: "tres_success (fst (execute R ?req ctx w))" "unwrap_or 200 (tres_status (fst (execute R ?req ctx w))) = 200"
    using assms(5) by (auto simp: execute_exponential_tool_def tool_result_response_def json_response_def Let_def split: prod.splits if_splits)
  have "\<exists>resolved. resolve_tool (tx_cfg R) tool = Ok resolved"
    using ok(1) by (cases "resolve_tool (tx_cfg R) tool") (simp_all add: execute_def admit_def failed_def)
  then obtain resolved where r: "resolve_tool (tx_cfg R) tool = Ok resolved" by blast
  let ?c = "started_call ?req (resolved, ExponentialMembers res i, ctx) (w_now w) Running"
  have e: "\<exists>w2. execute R ?req ctx w = conclude R ?c (dispatch_outcome R ?c) w2"
    using r v by (simp add: execute_def admit_def needs_bearer_def Let_def started_call_def) blast
  have d: "dispatch_outcome R ?c = (case dispatch_members (tx_ext R) (tx_env R) (tx_egress R) (tx_net R) res i ctx of
      Inr ok \<Rightarrow> OutOk ok | Inl e \<Rightarrow> OutEgressErr e)" by (simp add: dispatch_outcome_def dispatch_def started_call_def)
  have "?g = Ok None"
  proof (cases ?g)
    case (Inl err)
    then have "dispatch_outcome R ?c = OutEgressErr err" using d assms(3,4) by (simp add: dispatch_members_def)
    then show ?thesis using e ok(1) by (cases "classify_egress_error err") (auto simp: conclude_def failed_def Let_def)
  next
    case (Inr x)
    show ?thesis
    proof (cases x)
      case (Some ans)
      then obtain s where s: "to_status ans = Some s" "s \<noteq> 200" using member_gate_status Inr by blast
      have "dispatch_outcome R ?c = OutOk ans" using d Inr Some assms(3,4) by (simp add: dispatch_members_def)
      then show ?thesis using e ok(2) s by (auto simp: conclude_def Let_def)
    qed (use Inr in simp)
  qed
  from member_gate_None [OF this] show ?thesis by (auto simp: is_member_row_def)
qed

text \<open>
  C23: The members of a project or of a team are shown over HTTP, with the data plane configured, only to a caller whose
  principal is an administrator or for whom the data plane returned a membership of that very project or team; every other
  caller gets another status than 200.
\<close>

theorem members_answer_guarded:
  assumes "supabase_base (tx_env R) \<noteq> []" "supabase_key (tx_env R) \<noteq> []"
    and "(res = ''project'' \<and> rs_status (fst (get_exponential_project_members R i rq w)) = 200)
       \<or> (res = ''team'' \<and> rs_status (fst (get_exponential_team_members R i rq w)) = 200)"
  shows "actor_is_admin (build_tool_audit_ctx (tx_ext R) rq) \<or> is_member_row R res i (build_tool_audit_ctx (tx_ext R) rq)"
proof -
  have "map_of tool_arms ''get_project_members'' = Some (members_arm ''project'' ''projectId'')"
    "map_of tool_arms ''get_team_members'' = Some (members_arm ''team'' ''teamId'')"
    by (simp_all add: tool_arms_def arm_group_defs)
  note m = execute_members [OF this(1) _ assms(1,2)] execute_members [OF this(2) _ assms(1,2)]
  show ?thesis using assms(3)
  proof
    assume "res = ''project'' \<and> rs_status (fst (get_exponential_project_members R i rq w)) = 200"
    then show ?thesis using m(1) [of "JObj [(''projectId'', JStr i)]" i]
      by (auto simp: get_exponential_project_members_def get_str_def)
  next
    assume "res = ''team'' \<and> rs_status (fst (get_exponential_team_members R i rq w)) = 200"
    then show ?thesis using m(2) [of "JObj [(''teamId'', JStr i)]" i]
      by (auto simp: get_exponential_team_members_def get_str_def)
  qed
qed

section \<open>The tools that are enabled\<close>

lemma seed_fold:
  "fold (\<lambda>t tools. if tools t = None then tools(t \<mapsto> v) else tools) ts m k = (case m k of Some e \<Rightarrow> Some e | None \<Rightarrow> if k \<in> set ts then Some v else None)"
  by (induction ts arbitrary: m) (auto split: option.splits)

text \<open>
  The application's tool configuration is that of the policy, or the built-in one, with the tools of the tracker added:
  an entry of the policy always stands, also one that disables a tool, and of the tools without an entry the nineteen
  of the tracker are enabled, whatever the default policy is, and only they.
\<close>

theorem app_tools_seeded:
  "rc_tools (app_tool_config policy) t =
     (case rc_tools (unwrap_or builtins (Option.bind policy from_rbac_policy)) t of
        Some e \<Rightarrow> Some e
      | None \<Rightarrow> if t \<in> set SEEDED_TOOLS then Some seeded_tool else None)
   \<and> rc_default_policy (app_tool_config policy) = rc_default_policy (unwrap_or builtins (Option.bind policy from_rbac_policy))
   \<and> list_all is_supported_tool SEEDED_TOOLS \<and> length SEEDED_TOOLS = 19 \<and> distinct SEEDED_TOOLS"
proof -
  have "list_all is_supported_tool SEEDED_TOOLS"
    by (simp add: SEEDED_TOOLS_def is_supported_tool_def supported_tool_names_def)
  then show ?thesis by (simp add: app_tool_config_def Let_def seed_fold) (simp add: SEEDED_TOOLS_def)
qed

section \<open>Witnesses\<close>

theorem execute_is_a_run_witness:
  "\<exists>st. tool_reachable wit_router wit_world st \<and> ro_done st = [(wit_call, fst (execute wit_router wit_call wit_ctx wit_world))]"
  using execute_is_a_run [of wit_router wit_world wit_call wit_ctx] by (auto simp: wit_router_def builtins_def)

definition wit_api_router :: tool_router where
  "wit_api_router = wit_member_router\<lparr>tx_cfg := app_tool_config None\<rparr>"

theorem members_answer_guarded_witness:
  "is_member_row wit_api_router ''project'' ''p'' (build_tool_audit_ctx (tx_ext wit_api_router) wit_daisy_request)"
proof -
  let ?R = wit_api_router and ?ctx = "build_tool_audit_ctx (tx_ext wit_api_router) wit_daisy_request"
  let ?p = "JObj [(''projectId'', JStr ''p'')]"
  let ?req = "\<lparr>tr_tool = ''get_project_members'', tr_params = ?p\<rparr>"
  have s: "supabase_base (tx_env ?R) = ''k''" "supabase_key (tx_env ?R) = ''k''"
    by (simp_all add: supabase_base_def supabase_key_def wit_api_router_def wit_member_router_def trim_graphic trim_end_matches_def)
  have a: "actor_user_id ?ctx = ''u''" "\<not> actor_is_admin ?ctx"
    by (simp_all add: build_tool_audit_ctx_def actor_user_id_def actor_is_admin_def actor_from_principal_def wit_daisy_request_def)
  have t: "resolve_tool (tx_cfg ?R) ''get_project_members'' = Ok \<lparr>rs_timeout_ms = 30000, rs_max_concurrent_tool = 16,
      rs_semaphore = ''get_project_members''\<rparr>"
  proof -
    have "''get_project_members'' \<in> set SEEDED_TOOLS" by (simp add: SEEDED_TOOLS_def)
    then have "rc_tools (app_tool_config None) ''get_project_members'' = Some seeded_tool"
      by (simp add: app_tool_config_def Let_def seed_fold) (simp add: builtins_def)
    moreover have "is_supported_tool ''get_project_members''" by (simp add: is_supported_tool_def supported_tool_names_def)
    ultimately show ?thesis by (simp add: resolve_tool_def wit_api_router_def seeded_tool_def)
  qed
  have m: "map_of tool_arms ''get_project_members'' = Some (members_arm ''project'' ''projectId'')"
    by (simp add: tool_arms_def arm_group_defs)
  then have v: "validate_args (tx_ext ?R) (tx_env ?R) ''get_project_members'' ?p (tx_egress ?R) = Ok (ExponentialMembers ''project'' ''p'')"
    by (simp add: validate_args_def members_arm_def required_def get_str_def)
  have d: "dispatch_members (tx_ext ?R) (tx_env ?R) (tx_egress ?R) (tx_net ?R) ''project'' ''p'' ?ctx = Ok \<lparr>to_status = Some 200, to_data = ''{}''\<rparr>"
    using s a by (simp add: dispatch_members_def member_gate_def rest_get_def rest_url_def reply_json_def)
      (simp add: wit_api_router_def wit_member_router_def wit_router_def wit_any_url_def wit_net_def Tool_Router.is_success_def
        as_array_def text_or_default_def wit_ext_def reply_json_def)
  have "rs_status (fst (get_exponential_project_members ?R ''p'' wit_daisy_request wit_world)) = 200"
    using t v d by (simp add: get_exponential_project_members_def execute_exponential_tool_def execute_def admit_def needs_bearer_def
        started_call_def dispatch_outcome_def dispatch_def conclude_def tool_result_response_def Let_def)
  with members_answer_guarded [of ?R "''project''" "''p''" wit_daisy_request wit_world] s a show ?thesis by simp
qed

end
