(* ===== verification/Dashboard.thy ===== *)
theory Dashboard
  imports Tool_Router Daisy
begin

text \<open>
  The tool dashboard of \<^verbatim>\<open>lib.rs\<close>: it reads the end of the audit log, keeps the events of tool calls, and adds them up
  by session.
\<close>

section \<open>Data\<close>

record risk_flags =
  rf_read_private_data :: bool
  rf_write_operation :: bool
  rf_external_communication :: bool

record dashboard_log =
  dl_id :: string
  dl_timestamp :: string
  dl_session_id :: string
  dl_event_type :: string
  dl_tool_name :: string
  dl_params :: json
  dl_result :: string
  dl_error :: "string option"
  dl_duration_ms :: nat
  dl_acl_level :: string
  dl_risk_flags :: risk_flags

record session_metrics =
  sn_session_id :: string
  sn_start_time :: string
  sn_tool_calls :: nat
  sn_errors :: nat
  sn_blocked :: nat
  sn_max_acl_level :: string
  sn_lethal_trifecta :: bool

record firewall_config =
  fw_enabled :: bool
  fw_default_policy :: string
  fw_tools_configured :: nat
  fw_blocked_sessions :: nat
  fw_data_leak_prevention :: bool
  fw_lethal_trifecta_protection :: bool

record dashboard_response =
  dr_session :: session_metrics
  dr_recent_logs :: "dashboard_log list"
  dr_risk_level :: string
  dr_alerts :: "string list"
  dr_firewall :: firewall_config
  dr_all_sessions :: "session_metrics list"

section \<open>Reading the log\<close>

definition event_result :: "string \<Rightarrow> string" where
  "event_result et =
     (if et = ''tool.invoke_success'' then ''success''
      else if et = ''tool.invoke_rejected'' \<or> et = ''gateway.egress_blocked'' then ''blocked''
      else if et = ''tool.invoke_failure'' then ''error'' else ''success'')"

definition is_write_tool :: "string \<Rightarrow> bool" where
  "is_write_tool tool_name = list_ex (\<lambda>p. str_contains p tool_name) [''create'', ''update'', ''delete'', ''write'', ''patch'']"

definition event_session :: "json \<Rightarrow> string" where
  "event_session evt = unwrap_or (unwrap_or ''unknown'' (get_str ''request_id'' evt))
     (Option.bind (jget ''actor'' evt) (get_str ''user_id''))"

text \<open>One line of the window, with its position: an event of a tool call, or nothing.\<close>

definition dashboard_line :: "ext \<Rightarrow> nat \<times> string \<Rightarrow> dashboard_log option" where
  "dashboard_line X x = (case x of (idx, line) \<Rightarrow>
     Option.bind (result_ok (json_from_str X line)) (\<lambda>evt.
       let event_type = unwrap_or ''unknown'' (get_str ''event_type'' evt);
           payload = unwrap_or (JObj []) (jget ''payload'' evt);
           tool_name = unwrap_or ''unknown_tool'' (get_str ''tool_name'' payload);
           session_id = event_session evt
       in if \<not> starts_with ''tool.invoke_'' event_type then None
          else Some \<lparr>dl_id = unwrap_or (session_id @ ''-'' @ dec_str idx) (get_str ''event_id'' evt),
             dl_timestamp = unwrap_or ''1970-01-01T00:00:00Z'' (get_str ''timestamp'' evt), dl_session_id = session_id,
             dl_event_type = event_type, dl_tool_name = tool_name, dl_params = payload, dl_result = event_result event_type,
             dl_error = opt_or (get_str ''error_message'' payload) (get_str ''reason'' payload),
             dl_duration_ms = unwrap_or 0 (get_u64 ''duration_ms'' payload), dl_acl_level = ''PUBLIC'',
             dl_risk_flags = \<lparr>rf_read_private_data = False, rf_write_operation = is_write_tool tool_name,
               rf_external_communication = starts_with ''gateway.egress'' event_type\<rparr>\<rparr>))"

definition dashboard_limit :: "nat option \<Rightarrow> nat" where
  "dashboard_limit limit = max 1 (min 500 (unwrap_or 100 limit))"

definition scan_window :: "nat \<Rightarrow> nat" where
  "scan_window limit = max 200 (min 5000 (saturating_mul limit 20))"

definition log_window :: "nat \<Rightarrow> string \<Rightarrow> string list" where
  "log_window limit txt = (let lines = str_lines txt in drop (length lines - scan_window limit) lines)"

definition read_logs :: "ext \<Rightarrow> nat \<Rightarrow> string \<Rightarrow> dashboard_log list" where
  "read_logs X limit txt = filter_map (dashboard_line X) (enumerate 0 (log_window limit txt))"

text \<open>What is read, with the alerts raised so far.\<close>

definition load_logs :: "ext \<Rightarrow> environment \<Rightarrow> (string \<Rightarrow> (string, string) result) \<Rightarrow> nat \<Rightarrow> dashboard_log list \<times> string list" where
  "load_logs X env file limit =
     (let audit_path = trim (unwrap_or [] (env ''AUDIT_LOG_FILE''))
      in if audit_path = [] then ([], [''AUDIT_LOG_FILE is not configured; showing live empty state''])
         else (case file audit_path of
           Inr txt \<Rightarrow> (read_logs X limit txt, [])
         | Inl err \<Rightarrow> ([], [''audit log unavailable: '' @ err])))"

section \<open>Sessions\<close>

definition fresh_session :: "string \<Rightarrow> string \<Rightarrow> session_metrics" where
  "fresh_session sid start_time = \<lparr>sn_session_id = sid, sn_start_time = start_time, sn_tool_calls = 0, sn_errors = 0,
     sn_blocked = 0, sn_max_acl_level = ''PUBLIC'', sn_lethal_trifecta = False\<rparr>"

definition count_log :: "dashboard_log \<Rightarrow> session_metrics \<Rightarrow> session_metrics" where
  "count_log l s = s\<lparr>sn_tool_calls := sn_tool_calls s + 1,
     sn_errors := sn_errors s + (if dl_result l = ''error'' then 1 else 0),
     sn_blocked := sn_blocked s + (if dl_result l = ''blocked'' then 1 else 0),
     sn_start_time := (if dl_timestamp l < sn_start_time s then dl_timestamp l else sn_start_time s),
     sn_lethal_trifecta := (sn_lethal_trifecta s \<or> (rf_read_private_data (dl_risk_flags l) \<and> rf_write_operation (dl_risk_flags l)
        \<and> rf_external_communication (dl_risk_flags l)))\<rparr>"

definition add_log :: "dashboard_log \<Rightarrow> (string \<times> session_metrics) list \<Rightarrow> (string \<times> session_metrics) list" where
  "add_log l m = alist_set (dl_session_id l)
     (count_log l (unwrap_or (fresh_session (dl_session_id l) (dl_timestamp l)) (map_of m (dl_session_id l)))) m"

definition sessions_of :: "dashboard_log list \<Rightarrow> (string \<times> session_metrics) list" where
  "sessions_of logs = fold add_log logs []"

definition dashboard_risk :: "nat \<Rightarrow> nat \<Rightarrow> string" where
  "dashboard_risk total_blocked total_errors =
     (if total_blocked > 10 \<or> total_errors > 15 then ''high'' else if total_blocked > 0 \<or> total_errors > 0 then ''medium'' else ''low'')"

text \<open>The values of the hash map come in an order of its own.\<close>

definition dashboard_of :: "(string list \<Rightarrow> string list) \<Rightarrow> nat \<Rightarrow> dashboard_log list \<Rightarrow> string list \<Rightarrow> dashboard_response" where
  "dashboard_of order limit logs alerts =
     (let sessions = sessions_of logs;
          all_sessions = sort_desc sn_start_time (filter_map (map_of sessions) (order (map fst sessions)))
      in \<lparr>dr_session = unwrap_or (fresh_session ''none'' ''1970-01-01T00:00:00Z'') (head_opt all_sessions),
          dr_recent_logs = take limit (rev logs),
          dr_risk_level = dashboard_risk (sum_list (map sn_blocked all_sessions)) (sum_list (map sn_errors all_sessions)),
          dr_alerts = alerts @ (if logs = [] then [''No recent audit events found in configured log''] else []),
          dr_firewall = \<lparr>fw_enabled = True, fw_default_policy = ''deny'', fw_tools_configured = length supported_tool_names,
            fw_blocked_sessions = length (filter (\<lambda>s. sn_blocked s > 0) all_sessions), fw_data_leak_prevention = True,
            fw_lethal_trifecta_protection = True\<rparr>,
          dr_all_sessions = all_sessions\<rparr>)"

definition mcp_dashboard :: "ext \<Rightarrow> environment \<Rightarrow> (string \<Rightarrow> (string, string) result) \<Rightarrow> (string list \<Rightarrow> string list) \<Rightarrow> nat option \<Rightarrow> dashboard_response" where
  "mcp_dashboard X env file order query_limit =
     (let limit = dashboard_limit query_limit
      in case load_logs X env file limit of (logs, alerts) \<Rightarrow> dashboard_of order limit logs alerts)"

section \<open>What the dashboard adds up\<close>

lemma distinct_sessions: "distinct (map fst (sessions_of logs))"
proof -
  have "distinct (map fst m) \<Longrightarrow> distinct (map fst (fold add_log logs m))" for m
    by (induction logs arbitrary: m) (simp_all add: add_log_def distinct_alist_set)
  then show ?thesis by (simp add: sessions_of_def)
qed

text \<open>Each session holds the counts of its own log entries.\<close>

definition session_exact :: "dashboard_log list \<Rightarrow> string \<times> session_metrics \<Rightarrow> bool" where
  "session_exact logs kv = (case kv of (k, s) \<Rightarrow>
     (let mine = filter (\<lambda>l. dl_session_id l = k) logs
      in sn_session_id s = k \<and> mine \<noteq> [] \<and> sn_tool_calls s = length mine
         \<and> sn_errors s = length (filter (\<lambda>l. dl_result l = ''error'') mine)
         \<and> sn_blocked s = length (filter (\<lambda>l. dl_result l = ''blocked'') mine)
         \<and> sn_start_time s = Min (set (map dl_timestamp mine))))"

lemma Min_snoc: "xs \<noteq> [] \<Longrightarrow> Min (set (xs @ [x])) = (if x < Min (set xs) then x else Min (set xs))"
  for x :: "'a::linorder"
proof -
  assume "xs \<noteq> []"
  then have "Min (set (xs @ [x])) = min x (Min (set xs))" by simp
  then show ?thesis by (auto simp: min_def)
qed

lemma sessions_snoc: "sessions_of (logs @ [l]) = add_log l (sessions_of logs)"
  by (simp add: sessions_of_def)

lemma sessions_exact:
  "(map_of (sessions_of logs) k = None \<longleftrightarrow> k \<notin> dl_session_id ` set logs)
   \<and> (\<forall>s. map_of (sessions_of logs) k = Some s \<longrightarrow> session_exact logs (k, s))"
proof (induction logs rule: rev_induct)
  case Nil
  then show ?case by (simp add: sessions_of_def)
next
  case (snoc l logs)
  show ?case
  proof (cases "dl_session_id l = k")
    case False
    then have "session_exact (logs @ [l]) (k, s) = session_exact logs (k, s)" for s by (simp add: session_exact_def Let_def)
    moreover have "map_of (sessions_of (logs @ [l])) k = map_of (sessions_of logs) k" using False by (auto simp: sessions_snoc add_log_def)
    ultimately show ?thesis using snoc False by auto
  next
    case True
    then show ?thesis
    proof (cases "map_of (sessions_of logs) k")
      case None
      then have "filter (\<lambda>l. dl_session_id l = k) logs = []" using snoc by (auto simp: filter_empty_conv)
      then have "session_exact (logs @ [l]) (k, count_log l (fresh_session k (dl_timestamp l)))" using True
        unfolding session_exact_def count_log_def fresh_session_def Let_def prod.case filter_append by simp
      then show ?thesis using None True by (simp add: sessions_snoc add_log_def)
    next
      case (Some s)
      then have e: "session_exact logs (k, s)" using snoc by blast
      let ?m = "filter (\<lambda>l. dl_session_id l = k) logs"
      have "Min (set (map dl_timestamp (?m @ [l]))) = (if dl_timestamp l < Min (set (map dl_timestamp ?m)) then dl_timestamp l else Min (set (map dl_timestamp ?m)))"
        using e Min_snoc [of "map dl_timestamp ?m" "dl_timestamp l"] by (simp add: session_exact_def Let_def)
      then have "session_exact (logs @ [l]) (k, count_log l s)" using e True
        unfolding session_exact_def count_log_def Let_def prod.case filter_append by simp
      then show ?thesis using Some True by (simp add: sessions_snoc add_log_def)
    qed
  qed
qed

lemma sum_by_session:
  assumes "distinct ks" "\<forall>l\<in>set logs. f l \<in> set ks"
  shows "sum_list (map (\<lambda>k. length (filter (\<lambda>l. f l = k) logs)) ks) = length logs"
  using assms
proof (induction logs)
  case (Cons l logs)
  have "sum_list (map (\<lambda>k. length (filter (\<lambda>x. f x = k) (l # logs))) ks)
      = sum_list (map (\<lambda>k. if f l = k then 1 else 0) ks) + sum_list (map (\<lambda>k. length (filter (\<lambda>x. f x = k) logs)) ks)"
    by (subst sum_list_addf [symmetric]) (auto intro!: arg_cong [of _ _ sum_list])
  moreover have "sum_list (map (\<lambda>k. if f l = k then 1 else 0) ks) = (1 :: nat)"
    using Cons.prems by (simp add: sum_list_distinct_conv_sum_set)
  ultimately show ?case using Cons by simp
qed simp

text \<open>The sessions in the order of the hash map.\<close>

lemma ordered_sessions:
  assumes "mset (order (map fst (sessions_of logs))) = mset (map fst (sessions_of logs))"
  shows "\<exists>g. filter_map (map_of (sessions_of logs)) (order (map fst (sessions_of logs))) = map g (order (map fst (sessions_of logs)))
    \<and> (\<forall>k\<in>set (order (map fst (sessions_of logs))). session_exact logs (k, g k))"
proof -
  let ?ks = "order (map fst (sessions_of logs))" and ?m = "map_of (sessions_of logs)"
  have s: "set ?ks = set (map fst (sessions_of logs))" using assms by (metis mset_eq_setD)
  then have d: "?m k \<noteq> None" if "k \<in> set ?ks" for k using that by (simp add: map_of_eq_None_iff)
  have "filter_map ?m ks = map (\<lambda>k. the (?m k)) ks" if "set ks \<subseteq> set ?ks" for ks
    using that by (induction ks) (use d in \<open>auto split: option.splits\<close>)
  moreover have "session_exact logs (k, the (?m k))" if "k \<in> set ?ks" for k using d [OF that] sessions_exact [of logs k] by auto
  ultimately show ?thesis by blast
qed

lemma session_keys: "set (map fst (sessions_of logs)) = dl_session_id ` set logs"
proof -
  have "k \<in> set (map fst (sessions_of logs)) \<longleftrightarrow> k \<in> dl_session_id ` set logs" for k
    using sessions_exact [of logs k] by (simp add: map_of_eq_None_iff)
  then show ?thesis by blast
qed

text \<open>
  C27: Whatever order the hash map yields its entries in, the sessions of the dashboard partition the events it read: each
  session is shown once, the newest first, with exactly its own calls, errors and refusals and the earliest time of
  its events; their calls sum up to all events, and the risk level is that of the totals over all events.
\<close>

theorem dashboard_adds_up:
  assumes "mset (order (map fst (sessions_of logs))) = mset (map fst (sessions_of logs))"
  shows "list_all (\<lambda>s. session_exact logs (sn_session_id s, s)) (dr_all_sessions (dashboard_of order limit logs alerts))
    \<and> distinct (map sn_session_id (dr_all_sessions (dashboard_of order limit logs alerts)))
    \<and> sorted_wrt (\<lambda>a b. sn_start_time b \<le> sn_start_time a) (dr_all_sessions (dashboard_of order limit logs alerts))
    \<and> sum_list (map sn_tool_calls (dr_all_sessions (dashboard_of order limit logs alerts))) = length logs
    \<and> dr_risk_level (dashboard_of order limit logs alerts) =
        dashboard_risk (length (filter (\<lambda>l. dl_result l = ''blocked'') logs)) (length (filter (\<lambda>l. dl_result l = ''error'') logs))"
proof -
  let ?ks = "order (map fst (sessions_of logs))"
  obtain g where g: "filter_map (map_of (sessions_of logs)) ?ks = map g ?ks" "\<forall>k\<in>set ?ks. session_exact logs (k, g k)"
    using ordered_sessions [of order logs] assms by blast
  have ks: "distinct ?ks" "set ?ks = dl_session_id ` set logs"
    using assms distinct_sessions [of logs] session_keys [of logs] by (metis mset_eq_imp_distinct_iff, metis mset_eq_setD)
  let ?ss = "sort_desc sn_start_time (map g ?ks)"
  have m: "mset ?ss = mset (map g ?ks)" by (simp add: sort_desc_def)
  have sum: "sum_list (map f ?ss) = sum_list (map f (map g ?ks))" for f :: "session_metrics \<Rightarrow> nat"
    using m by (metis mset_map sum_mset_sum_list)
  have c: "sum_list (map (\<lambda>k. length (filter (\<lambda>l. dl_session_id l = k) ls)) ?ks) = length ls" if "set ls \<subseteq> set logs" for ls
    using that ks by (intro sum_by_session) auto
  have p: "sum_list (map (\<lambda>k. length (filter P (filter (\<lambda>l. dl_session_id l = k) logs))) ?ks) = length (filter P logs)" for P
    using c [OF filter_is_subset, of P] by (simp add: filter_filter conj_commute)
  have e: "map sn_session_id (map g ?ks) = ?ks"
    "map sn_tool_calls (map g ?ks) = map (\<lambda>k. length (filter (\<lambda>l. dl_session_id l = k) logs)) ?ks"
    "map sn_errors (map g ?ks) = map (\<lambda>k. length (filter (\<lambda>l. dl_result l = ''error'') (filter (\<lambda>l. dl_session_id l = k) logs))) ?ks"
    "map sn_blocked (map g ?ks) = map (\<lambda>k. length (filter (\<lambda>l. dl_result l = ''blocked'') (filter (\<lambda>l. dl_session_id l = k) logs))) ?ks"
    using g(2) by (auto simp: session_exact_def Let_def intro!: map_idI)
  have d: "distinct (map sn_session_id ?ss)" using ks(1) e(1) m by (metis mset_eq_imp_distinct_iff mset_map)
  have "\<forall>s\<in>set ?ss. session_exact logs (sn_session_id s, s)" using g(2) by (auto simp: session_exact_def Let_def)
  moreover have "sum_list (map sn_tool_calls ?ss) = length logs"
    "sum_list (map sn_errors ?ss) = length (filter (\<lambda>l. dl_result l = ''error'') logs)"
    "sum_list (map sn_blocked ?ss) = length (filter (\<lambda>l. dl_result l = ''blocked'') logs)"
    by (simp_all only: sum e p c subset_refl)
  ultimately show ?thesis
    using d sort_desc_sorted [of sn_start_time "map g ?ks"] by (simp add: dashboard_of_def Let_def g(1) list_all_iff)
qed

text \<open>
  What the dashboard lists is bounded and only about tool calls: it looks at no more than the last five thousand lines
  of the log, shows at most five hundred events and at most as many as asked for (at least one), the newest line first,
  and every event shown is a tool call of that window.
\<close>

theorem dashboard_bounded:
  "length (log_window (dashboard_limit l) txt) \<le> 5000
   \<and> length (dr_recent_logs (mcp_dashboard X env file order l)) \<le> min 500 (max 1 (unwrap_or 100 l))
   \<and> list_all (\<lambda>x. starts_with ''tool.invoke_'' (dl_event_type x)) (dr_recent_logs (mcp_dashboard X env file order l))"
proof -
  have w: "length (log_window n txt) \<le> 5000" for n
    by (simp add: log_window_def Let_def scan_window_def)
  have t: "starts_with ''tool.invoke_'' (dl_event_type x)" if "x \<in> set (read_logs X n src)" for x n src
    using that by (auto simp: read_logs_def dashboard_line_def Let_def bind_eq_Some_conv split: prod.splits if_splits)
  obtain logs alerts where ld: "load_logs X env file (dashboard_limit l) = (logs, alerts)" by (cases "load_logs X env file (dashboard_limit l)")
  then have "\<forall>x\<in>set logs. starts_with ''tool.invoke_'' (dl_event_type x)"
    using t by (auto simp: load_logs_def Let_def split: if_splits sum.splits)
  then have "\<forall>x\<in>set (take n (rev logs)). starts_with ''tool.invoke_'' (dl_event_type x)" for n
    by (auto dest: in_set_takeD)
  moreover have r: "dr_recent_logs (mcp_dashboard X env file order l) = take (dashboard_limit l) (rev logs)"
    by (simp add: mcp_dashboard_def ld dashboard_of_def Let_def)
  moreover have "dashboard_limit l = min 500 (max 1 (unwrap_or 100 l))" by (simp add: dashboard_limit_def)
  ultimately show ?thesis using w [of "dashboard_limit l"]
    by (simp add: list_all_iff del: min.bounded_iff)
qed

text \<open>
  The dashboard never reports the combination it calls the lethal trifecta: of the events it keeps none is marked as
  external communication, and none as a read of private data.
\<close>

lemma trifecta_never:
  "s \<in> set (dr_all_sessions (mcp_dashboard X env file order l)) \<Longrightarrow> \<not> sn_lethal_trifecta s"
proof -
  obtain logs alerts where ld: "load_logs X env file (dashboard_limit l) = (logs, alerts)" by (cases "load_logs X env file (dashboard_limit l)")
  have "\<not> rf_read_private_data (dl_risk_flags x)" if "x \<in> set logs" for x
    using that ld by (auto simp: load_logs_def read_logs_def dashboard_line_def Let_def bind_eq_Some_conv split: if_splits sum.splits prod.splits)
  then have "(\<forall>s\<in>snd ` set m. \<not> sn_lethal_trifecta s) \<Longrightarrow> \<forall>s\<in>snd ` set (fold add_log logs m). \<not> sn_lethal_trifecta s" for m
  proof (induction logs arbitrary: m)
    case (Cons x xs)
    have "\<forall>s\<in>snd ` set (add_log x m). \<not> sn_lethal_trifecta s"
    proof
      fix s assume "s \<in> snd ` set (add_log x m)"
      then have "s \<in> snd ` set m \<or> s = count_log x (unwrap_or (fresh_session (dl_session_id x) (dl_timestamp x)) (map_of m (dl_session_id x)))"
        by (auto simp: add_log_def dest!: alist_set_mem)
      then show "\<not> sn_lethal_trifecta s" using Cons.prems
        by (elim disjE, blast, cases "map_of m (dl_session_id x)")
           (simp_all add: count_log_def fresh_session_def, metis map_of_SomeD snd_conv)
    qed
    with Cons.IH [of "add_log x m"] Cons.prems(2) show ?case unfolding fold_simps by (meson list.set_intros(2))
  qed (simp only: fold_simps)
  from this [of "[]"] have "\<forall>s\<in>snd ` set (sessions_of logs). \<not> sn_lethal_trifecta s" by (simp add: sessions_of_def)
  then show "s \<in> set (dr_all_sessions (mcp_dashboard X env file order l)) \<Longrightarrow> \<not> sn_lethal_trifecta s"
    by (force simp: mcp_dashboard_def ld dashboard_of_def Let_def dest: map_of_SomeD)
qed

definition wit_log :: "string \<Rightarrow> dashboard_log" where
  "wit_log k = \<lparr>dl_id = k, dl_timestamp = k, dl_session_id = k, dl_event_type = ''tool.invoke_failure'', dl_tool_name = k, dl_params = JNull,
     dl_result = ''error'', dl_error = None, dl_duration_ms = 0, dl_acl_level = ''PUBLIC'',
     dl_risk_flags = \<lparr>rf_read_private_data = False, rf_write_operation = False, rf_external_communication = False\<rparr>\<rparr>"

theorem dashboard_adds_up_witness:
  "sum_list (map sn_tool_calls (dr_all_sessions (dashboard_of rev 3 [wit_log ''a'', wit_log ''b'', wit_log ''a''] []))) = 3
   \<and> dr_risk_level (dashboard_of rev 3 [wit_log ''a'', wit_log ''b'', wit_log ''a''] []) = ''medium''"
  using dashboard_adds_up [of rev "[wit_log ''a'', wit_log ''b'', wit_log ''a'']" 3 "[]"]
  by (simp add: wit_log_def dashboard_risk_def)

end
