(* ===== verification/Router.thy ===== *)
theory Router
  imports Config Greenspot Greenbooks
begin

text \<open>
  The routes of \<^verbatim>\<open>app\<close> in \<^verbatim>\<open>lib.rs\<close> and the service \<^verbatim>\<open>main.rs\<close> puts around them: every path pattern with its method
  and the name of its handler, the dispatch behind the layers of the gateway, the metrics endpoint beside them,
  the request metrics of \<^verbatim>\<open>metrics.rs\<close>, and the start of the process. Path matching is the crate
  \<^verbatim>\<open>matchit\<close>, a parameter.
\<close>

section \<open>The route table\<close>

text \<open>A path pattern (in the groups below without the prefix they share), a method (\<open>ANY\<close> for \<^verbatim>\<open>routing::any\<close>) and the handler, in the order of registration.\<close>

type_synonym route = "string \<times> string \<times> string"

definition below :: "string \<Rightarrow> route list \<Rightarrow> route list" where
  "below pre = map (\<lambda>(p, m, h). (pre @ p, m, h))"

definition probe_routes :: "route list" where
  "probe_routes = [
     (''/health'', ''GET'', ''health''),
     (''/version'', ''GET'', ''version''),
     (''/api/my-tasks'', ''GET'', ''proxy_my_tasks'')]"

definition exponential_routes :: "route list" where
  "exponential_routes = [
     (''/tasks'', ''GET'', ''list_exponential_tasks''),
     (''/tasks'', ''POST'', ''create_exponential_task''),
     (''/tasks/{task_id}'', ''GET'', ''get_exponential_task''),
     (''/tasks/{task_id}'', ''PATCH'', ''update_exponential_task''),
     (''/tasks/{task_id}'', ''DELETE'', ''delete_exponential_task''),
     (''/tasks/{task_id}/comments'', ''GET'', ''get_exponential_task_comments''),
     (''/tasks/{task_id}/comments'', ''POST'', ''create_exponential_task_comment''),
     (''/sprints'', ''GET'', ''list_exponential_sprints''),
     (''/sprints'', ''POST'', ''create_exponential_sprint''),
     (''/sprints/{sprint_id}'', ''GET'', ''get_exponential_sprint''),
     (''/sprints/{sprint_id}'', ''PATCH'', ''update_exponential_sprint''),
     (''/sprints/{sprint_id}'', ''DELETE'', ''delete_exponential_sprint''),
     (''/projects'', ''GET'', ''list_exponential_projects''),
     (''/projects'', ''POST'', ''create_exponential_project''),
     (''/projects/{project_id}'', ''GET'', ''get_exponential_project''),
     (''/projects/{project_id}/tasks'', ''GET'', ''get_exponential_project_tasks''),
     (''/projects/{project_id}/members'', ''GET'', ''get_exponential_project_members''),
     (''/projects/{project_id}/members'', ''POST'', ''create_exponential_project_member''),
     (''/projects/{project_id}/permissions'', ''GET'', ''get_exponential_project_permissions''),
     (''/teams'', ''GET'', ''list_exponential_teams''),
     (''/teams'', ''POST'', ''create_exponential_team''),
     (''/teams/{team_id}'', ''GET'', ''get_exponential_team''),
     (''/teams/{team_id}/members'', ''GET'', ''get_exponential_team_members''),
     (''/teams/{team_id}/members'', ''POST'', ''create_exponential_team_member''),
     (''/teams/{team_id}/permissions'', ''GET'', ''get_exponential_team_permissions''),
     (''/labels'', ''GET'', ''get_exponential_labels''),
     (''/labels'', ''POST'', ''create_exponential_label''),
     (''/labels'', ''DELETE'', ''delete_exponential_label''),
     (''/views'', ''GET'', ''get_exponential_views''),
     (''/views'', ''POST'', ''create_exponential_view''),
     (''/views/{view_id}'', ''DELETE'', ''delete_exponential_view''),
     (''/projects/{project_id}/assignees'', ''GET'', ''get_exponential_project_assignees'')]"

definition books_routes :: "route list" where
  "books_routes = [
     (''/accounts'', ''GET'', ''greenbooks_list_accounts''),
     (''/accounts/{id}'', ''GET'', ''greenbooks_get_account''),
     (''/accounts/{id}'', ''PATCH'', ''greenbooks_patch_account''),
     (''/accounts/{id}/ledger'', ''GET'', ''greenbooks_get_account_ledger''),
     (''/journal-entries'', ''GET'', ''greenbooks_list_journal_entries''),
     (''/tax-codes'', ''GET'', ''greenbooks_list_tax_codes''),
     (''/tax-codes'', ''POST'', ''greenbooks_create_tax_code''),
     (''/tax-codes/{id}'', ''PATCH'', ''greenbooks_patch_tax_code''),
     (''/tax-codes/{id}'', ''DELETE'', ''greenbooks_delete_tax_code''),
     (''/settings'', ''GET'', ''greenbooks_get_settings''),
     (''/settings'', ''PUT'', ''greenbooks_put_settings''),
     (''/vendors'', ''GET'', ''greenbooks_list_vendors''),
     (''/vendors'', ''POST'', ''greenbooks_create_vendor''),
     (''/vendors/{id}'', ''PATCH'', ''greenbooks_patch_vendor''),
     (''/vendors/{id}'', ''DELETE'', ''greenbooks_delete_vendor''),
     (''/fiscal-periods'', ''GET'', ''greenbooks_list_fiscal_periods''),
     (''/fx-rates'', ''GET'', ''greenbooks_list_fx_rates''),
     (''/audit'', ''GET'', ''greenbooks_list_audit''),
     (''/bank-accounts'', ''GET'', ''greenbooks_list_bank_accounts''),
     (''/currencies'', ''GET'', ''greenbooks_list_currencies''),
     (''/bills'', ''GET'', ''greenbooks_list_bills''),
     (''/customers'', ''GET'', ''greenbooks_list_customers''),
     (''/customers'', ''POST'', ''greenbooks_create_customer''),
     (''/customers/{id}'', ''GET'', ''greenbooks_get_customer''),
     (''/customers/{id}'', ''PATCH'', ''greenbooks_patch_customer''),
     (''/invoices'', ''GET'', ''greenbooks_list_invoices''),
     (''/invoices/{id}'', ''GET'', ''greenbooks_get_invoice''),
     (''/invoices/{id}'', ''PATCH'', ''greenbooks_patch_invoice''),
     (''/payments'', ''GET'', ''greenbooks_list_payments''),
     (''/invoices/{id}/payments'', ''GET'', ''greenbooks_list_invoice_payments''),
     (''/invoices/{id}/payments'', ''POST'', ''greenbooks_create_invoice_payment''),
     (''/invoices/{id}/post'', ''POST'', ''greenbooks_post_invoice_to_gl''),
     (''/invoices/{id}/post-gl'', ''POST'', ''greenbooks_post_invoice_to_gl''),
     (''/bank-accounts/{id}/reconcile'', ''GET'', ''greenbooks_reconcile_history''),
     (''/bank-accounts/{id}/reconcile'', ''POST'', ''greenbooks_reconcile_post''),
     (''/bank-accounts/{id}/reconcile'', ''PATCH'', ''greenbooks_reconcile_patch''),
     (''/bank-accounts/transfer'', ''POST'', ''greenbooks_bank_transfer'')]"

definition books_more_routes :: "route list" where
  "books_more_routes = [
     (''/reports'', ''GET'', ''greenbooks_reports''),
     (''/import/quickbooks'', ''POST'', ''greenbooks_import_quickbooks''),
     (''/accounts/export'', ''ANY'', ''proxy_greenbooks_direct''),
     (''/accounts/import'', ''ANY'', ''proxy_greenbooks_direct''),
     (''/accounts'', ''POST'', ''proxy_greenbooks_direct''),
     (''/journal-entries'', ''POST'', ''proxy_greenbooks_direct''),
     (''/journal-entries/{id}'', ''GET'', ''proxy_greenbooks_direct''),
     (''/journal-entries/{id}'', ''PATCH'', ''proxy_greenbooks_direct''),
     (''/invoices'', ''POST'', ''proxy_greenbooks_direct''),
     (''/items'', ''GET'', ''greenbooks_list_items''),
     (''/items'', ''POST'', ''greenbooks_create_item''),
     (''/items'', ''PATCH'', ''greenbooks_patch_item''),
     (''/bank-accounts'', ''POST'', ''proxy_greenbooks_direct''),
     (''/bank-accounts/{id}/transactions'', ''ANY'', ''proxy_greenbooks_direct''),
     (''/bills'', ''POST'', ''proxy_greenbooks_direct''),
     (''/bills/{id}'', ''ANY'', ''proxy_greenbooks_direct''),
     (''/bills/{id}/post-gl'', ''POST'', ''proxy_greenbooks_direct''),
     (''/bills/{id}/payments'', ''POST'', ''proxy_greenbooks_direct''),
     (''/customers/{id}'', ''DELETE'', ''proxy_greenbooks_direct''),
     (''/customers/{id}/hub'', ''GET'', ''greenbooks_get_customer_hub''),
     (''/customers/{id}/statement'', ''GET'', ''greenbooks_get_customer_statement''),
     (''/fiscal-periods'', ''POST'', ''proxy_greenbooks_direct''),
     (''/fiscal-periods/{id}'', ''PATCH'', ''proxy_greenbooks_direct''),
     (''/fiscal-periods/{id}'', ''DELETE'', ''proxy_greenbooks_direct''),
     (''/fx-rates'', ''POST'', ''proxy_greenbooks_direct''),
     (''/fx-rates/{id}'', ''DELETE'', ''proxy_greenbooks_direct''),
     (''/fx-rates/convert'', ''GET'', ''greenbooks_convert_fx'')]"

definition crm_routes :: "route list" where
  "crm_routes = [
     (''/dashboard'', ''GET'', ''greenspot_dashboard''),
     (''/companies'', ''GET'', ''greenspot_companies_get''),
     (''/companies'', ''POST'', ''greenspot_companies_post''),
     (''/companies/{id}'', ''GET'', ''greenspot_company_get''),
     (''/companies/{id}'', ''PATCH'', ''greenspot_company_patch''),
     (''/contacts'', ''GET'', ''greenspot_contacts_get''),
     (''/contacts'', ''POST'', ''greenspot_contacts_post''),
     (''/contacts/{id}'', ''GET'', ''greenspot_contact_get''),
     (''/contacts/{id}'', ''PATCH'', ''greenspot_contact_patch''),
     (''/contacts/{id}'', ''DELETE'', ''greenspot_contact_delete''),
     (''/deals'', ''GET'', ''greenspot_deals_get''),
     (''/deals'', ''POST'', ''greenspot_deals_post''),
     (''/deals/{id}'', ''GET'', ''greenspot_deal_get''),
     (''/deals/{id}'', ''PATCH'', ''greenspot_deal_patch''),
     (''/tasks'', ''GET'', ''greenspot_tasks_get''),
     (''/tasks'', ''POST'', ''greenspot_tasks_post''),
     (''/tasks/{id}'', ''GET'', ''greenspot_task_get''),
     (''/tasks/{id}'', ''PATCH'', ''greenspot_task_patch''),
     (''/activities'', ''GET'', ''greenspot_activities_get''),
     (''/activities'', ''POST'', ''greenspot_activities_post''),
     (''/activities/{id}'', ''GET'', ''greenspot_activity_get''),
     (''/activities/{id}'', ''PATCH'', ''greenspot_activity_patch''),
     (''/deal-stages'', ''GET'', ''greenspot_deal_stages_get''),
     (''/deal-stages'', ''POST'', ''greenspot_deal_stages_post''),
     (''/deal-stages/{key}'', ''PATCH'', ''greenspot_deal_stage_patch''),
     (''/pipelines'', ''GET'', ''greenspot_pipelines_get''),
     (''/pipelines'', ''POST'', ''greenspot_pipelines_post''),
     (''/pipelines'', ''PUT'', ''greenspot_pipelines_post''),
     (''/audit-events'', ''GET'', ''greenspot_audit_events''),
     (''/customization/{entity_id}'', ''GET'', ''greenspot_customization_get_route''),
     (''/customization/{entity_id}'', ''PATCH'', ''greenspot_customization_patch_route''),
     (''/customization/{entity_id}'', ''PUT'', ''greenspot_customization_patch_route'')]"

definition service_routes :: "route list" where
  "service_routes = [
     (''/api/daisy-notes/notes'', ''GET'', ''list_notes''),
     (''/api/daisy-notes/notes/{note_id}'', ''GET'', ''get_note_by_id''),
     (''/api/daisy-notes/notes/{note_id}/share'', ''GET'', ''list_note_shares''),
     (''/api/daisy-notes/notes/{note_id}/share'', ''POST'', ''upsert_note_share''),
     (''/api/daisy-notes/notes/{note_id}/share'', ''DELETE'', ''remove_note_share''),
     (''/api/users'', ''ANY'', ''proxy_users''),
     (''/api/mcp/dashboard'', ''GET'', ''mcp_dashboard''),
     (''/api/me/module-access'', ''GET'', ''get_my_module_access''),
     (''/api/admin/module-access/users'', ''GET'', ''list_admin_module_access_users''),
     (''/api/admin/module-access/invite'', ''POST'', ''invite_admin_module_access_user''),
     (''/api/admin/module-access/{user_id}'', ''GET'', ''get_admin_module_access_for_user''),
     (''/api/admin/module-access/{user_id}'', ''PUT'', ''set_admin_module_access_for_user''),
     (''/v1/tools'', ''GET'', ''list_tools''),
     (''/v1/tools/call'', ''POST'', ''call_tool'')]"

definition app_routes :: "route list" where
  "app_routes = probe_routes @ below ''/api/exponential'' exponential_routes
     @ below ''/api/greenbooks'' (books_routes @ books_more_routes) @ below ''/api/greenspot'' crm_routes @ service_routes"

lemmas app_routes_defs = app_routes_def below_def probe_routes_def exponential_routes_def books_routes_def books_more_routes_def
  crm_routes_def service_routes_def

section \<open>Dispatch\<close>

text \<open>
  What a pattern matches, as \<^verbatim>\<open>matchit\<close> documents it: a parameter in braces stands for one segment that is not
  empty, everything else for itself. The result is the list of the parameters.
\<close>

function pattern_match :: "string \<Rightarrow> string \<Rightarrow> string list option" where
  "pattern_match [] s = (if s = [] then Some [] else None)"
| "pattern_match (c # p) s =
     (if c = CHR ''{'' then
        (case takeWhile (\<lambda>d. d \<noteq> CHR ''/'') s of
           [] \<Rightarrow> None
         | v \<Rightarrow> map_option (Cons v)
             (pattern_match (drop 1 (dropWhile (\<lambda>d. d \<noteq> CHR ''}'') p)) (dropWhile (\<lambda>d. d \<noteq> CHR ''/'') s)))
      else case s of [] \<Rightarrow> None | d # s' \<Rightarrow> if c = d then pattern_match p s' else None)"
  by pat_completeness auto
termination
  by (relation "measure (length \<circ> fst)") (auto simp: less_Suc_eq_le intro: le_trans [OF diff_le_self length_dropWhile_le])

text \<open>
  What the router relies on: the pattern that is chosen is a registered one that matches, some pattern is chosen
  when one matches, and a pattern without parameters goes first.
\<close>

type_synonym path_matcher = "string list \<Rightarrow> string \<Rightarrow> (string \<times> string list) option"

definition matches_paths :: "path_matcher \<Rightarrow> bool" where
  "matches_paths M \<longleftrightarrow>
     (\<forall>ps path p args. M ps path = Some (p, args) \<longrightarrow> p \<in> set ps \<and> pattern_match p path = Some args)
     \<and> (\<forall>ps path. M ps path = None \<longrightarrow> (\<forall>p\<in>set ps. pattern_match p path = None))
     \<and> (\<forall>ps path. path \<in> set ps \<longrightarrow> CHR ''{'' \<notin> set path \<longrightarrow> M ps path = Some (path, []))"

definition METRICS_PATH :: string where
  "METRICS_PATH = ''/metrics''"

definition app_paths :: "string list" where
  "app_paths = map fst app_routes @ [METRICS_PATH]"

text \<open>The handler of a path for a method: its own, that of GET for HEAD, or that of all methods.\<close>

definition route_named :: "string \<Rightarrow> string \<Rightarrow> string option" where
  "route_named p m = map_option (\<lambda>(_, _, h). h) (find (\<lambda>(q, k, _). q = p \<and> k = m) app_routes)"

definition method_handler :: "string \<Rightarrow> string \<Rightarrow> string option" where
  "method_handler p m =
     opt_or (route_named p m) (opt_or (if m = ''HEAD'' then route_named p ''GET'' else None) (route_named p ''ANY''))"

text \<open>
  The handlers by name, with the parameters of the path; the answer to a method a path does not have. That the
  server sends no body to HEAD is not part of the handlers.
\<close>

record ('v, 's) web =
  wb_match :: path_matcher
  wb_handler :: "string \<Rightarrow> string list \<Rightarrow> ('v, 's) handler"
  wb_not_allowed :: response

definition health :: response where
  "health = json_response 200 (JObj [(''status'', JStr ''ok'')])"

definition version :: "string \<Rightarrow> response" where
  "version VERSION = json_response 200 (JObj [(''service'', JStr SERVICE_NAME), (''version'', JStr VERSION)])"

definition app_dispatch :: "ext \<Rightarrow> ('v, 's) web \<Rightarrow> ('v, 's) handler" where
  "app_dispatch X W rq w = (case wb_match W app_paths (rq_path rq) of
     None \<Rightarrow> fallback_handler X rq w
   | Some (p, args) \<Rightarrow> (case method_handler p (rq_method rq) of
        Some h \<Rightarrow> wb_handler W h args rq w
      | None \<Rightarrow> (wb_not_allowed W, w)))"

section \<open>Request metrics\<close>

text \<open>
  The three instruments: the gauge, the counter by method, path and status, and the durations in nanoseconds by
  method and path. The gauge goes up and down by one, which binary64 counts exactly up to two to the 53.
\<close>

record metrics =
  mt_in_flight :: int
  mt_total :: "string \<times> string \<times> string \<Rightarrow> nat"
  mt_duration :: "string \<times> string \<Rightarrow> nat list"

definition metrics_started :: "metrics \<Rightarrow> metrics" where
  "metrics_started mt = mt\<lparr>mt_in_flight := mt_in_flight mt + 1\<rparr>"

definition metrics_finished :: "string \<Rightarrow> string \<Rightarrow> nat \<Rightarrow> nat \<Rightarrow> metrics \<Rightarrow> metrics" where
  "metrics_finished m path status ns mt =
     \<lparr>mt_in_flight = mt_in_flight mt - 1,
      mt_total = (mt_total mt)((m, path, dec_str status) := mt_total mt (m, path, dec_str status) + 1),
      mt_duration = (mt_duration mt)((m, path) := mt_duration mt (m, path) @ [ns])\<rparr>"

type_synonym ('v, 's) metered = "request \<Rightarrow> metrics \<times> ('v, 's) world \<Rightarrow> response \<times> metrics \<times> ('v, 's) world"

definition track_metrics :: "('v, 's) metered \<Rightarrow> ('v, 's) metered" where
  "track_metrics next rq = (\<lambda>(mt, w).
     (case next rq (metrics_started mt, w) of (r, mt', w') \<Rightarrow>
        (r, metrics_finished (rq_method rq) (rq_path rq) (rs_status r) (w_now w' - w_now w) mt', w')))"

text \<open>The scrape endpoint; \<open>render\<close> is the text of the exporter.\<close>

definition metrics_handler :: "(metrics \<Rightarrow> string) \<Rightarrow> metrics \<Rightarrow> response" where
  "metrics_handler render mt =
     \<lparr>rs_status = 200, rs_headers = no_headers, rs_body = Raw (render mt), rs_actor = None, rs_upstream = None\<rparr>"

text \<open>The metrics endpoint is added after the layers, so they do not apply to it.\<close>

definition routed :: "ext \<Rightarrow> ('v, 's) gateway \<Rightarrow> ('v, 's) web \<Rightarrow> (metrics \<Rightarrow> string) \<Rightarrow> ('v, 's) metered" where
  "routed X g W render rq = (\<lambda>(mt, w).
     if map_option fst (wb_match W app_paths (rq_path rq)) = Some METRICS_PATH then
       (if rq_method rq \<in> {''GET'', ''HEAD''} then metrics_handler render mt else wb_not_allowed W, mt, w)
     else (case app X g (app_dispatch X W) rq w of (r, w') \<Rightarrow> (r, mt, w')))"

definition service :: "ext \<Rightarrow> ('v, 's) gateway \<Rightarrow> ('v, 's) web \<Rightarrow> (metrics \<Rightarrow> string) \<Rightarrow> ('v, 's) metered" where
  "service X g W render = track_metrics (routed X g W render)"

section \<open>Modules and routes\<close>

text \<open>A path a pattern matches has what the pattern has before its first parameter.\<close>

abbreviation static_part :: "string \<Rightarrow> string" where
  "static_part \<equiv> takeWhile (\<lambda>c. c \<noteq> CHR ''{'')"

lemma pattern_match_static_part: "pattern_match p s = Some args \<Longrightarrow> \<exists>x. s = static_part p @ x"
  by (induction p s arbitrary: args rule: pattern_match.induct) (auto split: if_splits list.splits)

lemma pattern_match_static:
  "CHR ''{'' \<notin> set p \<Longrightarrow> pattern_match p s = (if s = p then Some [] else None)"
proof (induction p arbitrary: s)
  case (Cons c p)
  then show ?case by (cases s) auto
qed simp

text \<open>The module of a route can be read off its pattern.\<close>

definition fixed_module :: "string \<Rightarrow> bool" where
  "fixed_module p \<longleftrightarrow> CHR ''{'' \<notin> set p \<or> (\<forall>x. module_key_for_path (static_part p @ x) = module_key_for_path p)"

lemma module_prefixes:
  "module_key_for_path (''/api/exponential'' @ x) = Some ''exponential''"
  "module_key_for_path (''/api/greenbooks'' @ x) = Some ''greenbooks''"
  "module_key_for_path (''/api/greenspot'' @ x) = Some ''greenspot''"
  by (simp_all add: module_key_for_path_def starts_with_def)

lemma fixed_module_below:
  assumes "\<And>x. module_key_for_path (pre @ x) = Some k" "CHR ''{'' \<notin> set pre"
  shows "fixed_module (pre @ p)"
proof -
  have "static_part (pre @ p) = pre @ static_part p" using assms(2) by (simp add: takeWhile_append)
  then show ?thesis using assms(1) by (simp add: fixed_module_def)
qed

lemma fixed_module_ends: "list_all (\<lambda>(p, _). fixed_module p) (probe_routes @ service_routes)"
  by (simp add: probe_routes_def service_routes_def fixed_module_def module_key_for_path_def starts_with_def)

lemma fixed_module_group:
  assumes "\<And>x. module_key_for_path (pre @ x) = Some k" "CHR ''{'' \<notin> set pre"
  shows "list_all (\<lambda>(p, _). fixed_module p) (below pre rs)"
  using fixed_module_below [OF assms] by (simp add: list_all_iff below_def split_beta)

lemma fixed_module_app:
  assumes "p \<in> set app_paths" shows "fixed_module p"
proof -
  have "fixed_module METRICS_PATH" by (simp add: fixed_module_def METRICS_PATH_def)
  moreover have "list_all (\<lambda>(p, _). fixed_module p) (below ''/api/exponential'' rs)"
      "list_all (\<lambda>(p, _). fixed_module p) (below ''/api/greenbooks'' rs)"
      "list_all (\<lambda>(p, _). fixed_module p) (below ''/api/greenspot'' rs)" for rs
    by (rule fixed_module_group, rule module_prefixes, simp)+
  then have "list_all (\<lambda>(p, _). fixed_module p) app_routes"
    using fixed_module_ends by (simp only: app_routes_def list_all_append simp_thms)
  ultimately show ?thesis
    using assms by (auto simp: app_paths_def list_all_iff)
qed

lemma matched_module:
  assumes "matches_paths M" "M app_paths path = Some (p, args)"
  shows "module_key_for_path path = module_key_for_path p"
proof -
  have m: "p \<in> set app_paths" "pattern_match p path = Some args" using assms by (auto simp: matches_paths_def)
  from fixed_module_app [OF m(1)] show ?thesis
    using pattern_match_static_part [OF m(2)] m(2) by (auto simp: fixed_module_def pattern_match_static split: if_splits)
qed

lemma module_path_not_exempt:
  assumes "module_key_for_path path = Some k"
  shows "path \<notin> set (PROBE_PATHS @ [''/api/me/module-access''])"
proof
  assume "path \<in> set (PROBE_PATHS @ [''/api/me/module-access''])"
  then have "module_key_for_path path = None"
    by (auto simp: PROBE_PATHS_def module_key_for_path_def starts_with_def)
  with assms show False by simp
qed

lemma ungranted_unhandled:
  assumes "g_auth g = Some st" "rq_method rq \<noteq> ''OPTIONS''" "as_exempt_paths st = PROBE_PATHS"
    and "module_key_for_path (rq_path rq) = Some k"
    and "auth_principal X st (hardened rq) w = Some (u, t, v)"
    and "load_module_access_for_principal X (g_data_plane g) u (w_app w) = Ok (Some granted)" "k \<notin> set granted"
  shows "handler_request X g rq w = None"
proof -
  let ?rq = "authenticated X u (hardened rq)"
  have e: "\<not> auth_exempt st (hardened rq)"
    using assms(2,3) module_path_not_exempt [OF assms(4)] by (simp add: auth_exempt_def hardened_def)
  have "rq_path ?rq = rq_path rq" "rq_principal ?rq = Some u"
    by (simp_all add: authenticated_def Let_def hardened_def)
  then have "module_refused X (g_data_plane g) ?rq w"
    using module_path_not_exempt [OF assms(4)] assms(4,6,7) by (auto simp: module_refused_def)
  then show ?thesis using assms(1,5) e by (simp add: handler_request_def inner_request_def Let_def)
qed


text \<open>A matcher: the path itself if it is a pattern without parameters, otherwise the first pattern that matches.\<close>

definition first_match :: path_matcher where
  "first_match ps path = (if path \<in> set ps \<and> CHR ''{'' \<notin> set path then Some (path, [])
     else Option.bind (find (\<lambda>p. pattern_match p path \<noteq> None) ps) (\<lambda>p. map_option (Pair p) (pattern_match p path)))"

lemma first_match_matches: "matches_paths first_match"
  unfolding matches_paths_def first_match_def
  by (auto simp: pattern_match_static find_None_iff find_Some_iff split: if_splits bind_splits)

definition wit_export :: request where
  "wit_export = wit_bearer\<lparr>rq_path := ''/api/greenbooks/accounts/export''\<rparr>"

text \<open>A user whose only grant is GreenSpot, and a data plane that says so.\<close>

definition wit_grant_ext :: ext where
  "wit_grant_ext = wit_url_ext\<lparr>json_from_str := (\<lambda>_. Ok (JArr [JObj [(''module_key'', JStr ''greenspot'')]]))\<rparr>"

definition wit_grant_gateway :: "(unit, nat) gateway" where
  "wit_grant_gateway = wit_gateway\<lparr>g_data_plane := \<lparr>dp_env = Some (''https://db'', ''k''), dp_get = (\<lambda>u s. Ok (200, [])),
     dp_status_display = dec_str\<rparr>\<rparr>"

definition wit_web :: "(unit, nat) web" where
  "wit_web = \<lparr>wb_match = first_match, wb_handler = (\<lambda>_ _. wit_handler), wb_not_allowed = json_response 405 JNull\<rparr>"

definition wit_metrics :: metrics where
  "wit_metrics = \<lparr>mt_in_flight = 0, mt_total = (\<lambda>_. 0), mt_duration = (\<lambda>_. [])\<rparr>"

lemma wit_export_principal:
  "auth_principal wit_grant_ext (with_audit (auth_state_with_cookie_name noop_validator ''sid'')) (hardened wit_export) wit_world
     = Some (wit_principal [] \<lparr>user_id := ''test-user'', session_id := ''test-session''\<rparr>, 0, ())"
proof -
  have h: "header_str wit_grant_ext (rq_headers (hardened wit_export)) ''authorization'' = Some ''Bearer tok''"
    by (simp add: hardened_header SPOOFABLE_REQUEST_HEADERS_def)
       (simp add: wit_export_def wit_bearer_def wit_request_def header_str_def hm_get_def wit_ext_def wit_grant_ext_def
         wit_url_ext_def)
  have b: "bearer_token ''Bearer tok'' = Some ''tok''" by code_simp
  have "extract_credential wit_grant_ext (rq_headers (hardened wit_export)) ''sid'' = Some (BearerCred ''tok'')"
    by (simp add: extract_credential_def h b)
  then show ?thesis
    by (simp add: auth_principal_def with_audit_def auth_state_with_cookie_name_def noop_validator_def cred_method_def
        wit_principal_def wit_world_def)
qed


section \<open>What is dispatched where\<close>

lemma find_SomeD: "find P xs = Some x \<Longrightarrow> x \<in> set xs \<and> P x"
  by (induction xs) (auto split: if_splits)

lemma route_named_mem: "route_named p m = Some h \<Longrightarrow> (p, m, h) \<in> set app_routes"
  by (auto simp: route_named_def dest!: find_SomeD)

lemma route_named_None: "route_named p m = None \<longleftrightarrow> (\<forall>h. (p, m, h) \<notin> set app_routes)"
  by (auto simp: route_named_def find_None_iff)

text \<open>
  Every answer behind the layers is one of three: of the handler of a route whose pattern matches and whose method
  is that of the request, GET for HEAD, or any; of the fallback, and then no pattern matches; or that the method is
  not allowed, and then the chosen pattern has no route for it.
\<close>

theorem app_dispatch_exact:
  assumes "matches_paths (wb_match W)"
  shows "(\<exists>p m h args. (p, m, h) \<in> set app_routes \<and> pattern_match p (rq_path rq) = Some args
       \<and> (m = rq_method rq \<or> m = ''ANY'' \<or> (rq_method rq = ''HEAD'' \<and> m = ''GET''))
       \<and> app_dispatch X W rq w = wb_handler W h args rq w)
    \<or> ((\<forall>p\<in>set app_paths. pattern_match p (rq_path rq) = None) \<and> app_dispatch X W rq w = fallback_handler X rq w)
    \<or> (\<exists>p\<in>set app_paths. pattern_match p (rq_path rq) \<noteq> None \<and> (\<forall>h. (p, rq_method rq, h) \<notin> set app_routes)
       \<and> app_dispatch X W rq w = (wb_not_allowed W, w))"
proof (cases "wb_match W app_paths (rq_path rq)")
  case None
  then show ?thesis using assms by (auto simp: matches_paths_def app_dispatch_def)
next
  case (Some a)
  obtain p args where a: "a = (p, args)" by (cases a)
  have m: "p \<in> set app_paths" "pattern_match p (rq_path rq) = Some args"
    using assms Some a by (auto simp: matches_paths_def)
  show ?thesis
  proof (cases "method_handler p (rq_method rq)")
    case None
    then have "route_named p (rq_method rq) = None" by (simp add: method_handler_def opt_or_def split: option.splits)
    then show ?thesis using m None Some a by (auto simp: route_named_None app_dispatch_def)
  next
    case (Some h)
    then have "\<exists>k. (p, k, h) \<in> set app_routes \<and> (k = rq_method rq \<or> k = ''ANY'' \<or> (rq_method rq = ''HEAD'' \<and> k = ''GET''))"
      by (auto simp: method_handler_def opt_or_def dest: route_named_mem split: option.splits if_splits)
    then show ?thesis using m Some \<open>wb_match W app_paths (rq_path rq) = Some a\<close> a by (auto simp: app_dispatch_def)
  qed
qed

text \<open>The handlers of the CRM and of the books as their own theories list them are the ones of this table.\<close>

lemma crm_routes_agree: "map (\<lambda>(p, m, _). (p, m)) greenspot_routes = map (\<lambda>(p, m, _). (p, m)) crm_routes"
  by (simp add: greenspot_routes_def crm_routes_def)

lemma books_routes_agree:
  "list_all (\<lambda>(p, m, _). list_ex (\<lambda>(q, k, h). q = p \<and> k = m \<and> h \<noteq> ''proxy_greenbooks_direct'') (books_routes @ books_more_routes)) greenbooks_routes"
  by (simp add: greenbooks_routes_def books_routes_def books_more_routes_def)

section \<open>Requests in flight\<close>

text \<open>
  The service runs requests concurrently. A request starts, and then finishes or is dropped with its connection,
  where nothing after the call of the inner service runs. The state: the metrics, the requests in flight, the
  labels of the finished ones in order, and how many were dropped.
\<close>

record flights =
  fl_metrics :: metrics
  fl_active :: "(string \<times> string) list"
  fl_finished :: "(string \<times> string \<times> string) list"
  fl_dropped :: nat

inductive flight_step :: "flights \<Rightarrow> flights \<Rightarrow> bool" where
  started: "flight_step s (s\<lparr>fl_metrics := metrics_started (fl_metrics s), fl_active := (m, path) # fl_active s\<rparr>)"
| finished: "fl_active s = as @ (m, path) # bs \<Longrightarrow>
    flight_step s (s\<lparr>fl_metrics := metrics_finished m path status ns (fl_metrics s), fl_active := as @ bs,
      fl_finished := (m, path, dec_str status) # fl_finished s\<rparr>)"
| dropped: "fl_active s = as @ a # bs \<Longrightarrow> flight_step s (s\<lparr>fl_active := as @ bs, fl_dropped := Suc (fl_dropped s)\<rparr>)"

inductive flights_from :: "flights \<Rightarrow> flights \<Rightarrow> bool" for s0 where
  start: "flights_from s0 s0"
| step: "flights_from s0 s \<Longrightarrow> flight_step s s' \<Longrightarrow> flights_from s0 s'"

inductive_cases flight_stepE: "flight_step s s'"

definition metrics_new :: metrics where
  "metrics_new = \<lparr>mt_in_flight = 0, mt_total = (\<lambda>_. 0), mt_duration = (\<lambda>_. [])\<rparr>"

definition flights_new :: flights where
  "flights_new = \<lparr>fl_metrics = metrics_new, fl_active = [], fl_finished = [], fl_dropped = 0\<rparr>"

definition flights_ok :: "flights \<Rightarrow> bool" where
  "flights_ok s \<longleftrightarrow> mt_in_flight (fl_metrics s) = int (length (fl_active s)) + int (fl_dropped s)
     \<and> (\<forall>k. mt_total (fl_metrics s) k = count_list (fl_finished s) k)"

lemma flight_step_ok: "flight_step s s' \<Longrightarrow> flights_ok s \<Longrightarrow> flights_ok s'"
  by (erule flight_stepE) (auto simp: flights_ok_def metrics_started_def metrics_finished_def)

text \<open>
  Whatever requests start, finish and are dropped in whatever order, the counter of a method, path and status is
  the number of finished requests with these labels, and the gauge is the number of requests in flight plus the
  number of dropped ones: it never comes down for a request whose client went away.
\<close>

theorem flights_counted:
  assumes "flights_from flights_new s"
  shows "mt_in_flight (fl_metrics s) = int (length (fl_active s)) + int (fl_dropped s)
    \<and> (\<forall>k. mt_total (fl_metrics s) k = count_list (fl_finished s) k)"
proof -
  from assms have "flights_ok s"
    by induction (auto simp: flights_ok_def flights_new_def metrics_new_def dest: flight_step_ok [unfolded flights_ok_def])
  then show ?thesis by (simp add: flights_ok_def)
qed

text \<open>A dropped request stays in the gauge.\<close>

lemma dropped_request_stays:
  "\<exists>s. flights_from flights_new s \<and> fl_active s = [] \<and> mt_in_flight (fl_metrics s) = 1"
proof -
  let ?s = "flights_new\<lparr>fl_metrics := metrics_started metrics_new, fl_active := [(''GET'', ''/health'')]\<rparr>"
  have "flight_step flights_new ?s" using started [of flights_new "''GET''" "''/health''"] by (simp add: flights_new_def)
  moreover have "flight_step ?s (?s\<lparr>fl_active := [], fl_dropped := 1\<rparr>)"
    using dropped [of ?s "[]" _ "[]"] by (simp add: flights_new_def)
  ultimately have "flights_from flights_new (?s\<lparr>fl_active := [], fl_dropped := 1\<rparr>)"
    by (blast intro: start step)
  then show ?thesis by (intro exI [of _ "?s\<lparr>fl_active := [], fl_dropped := 1\<rparr>"]) (simp add: metrics_started_def metrics_new_def)
qed

text \<open>Run alone, a request leaves the gauge as it was.\<close>

lemma tracked_alone:
  assumes "track_metrics next rq (mt, w) = (r, mt', w')" "\<And>m v. fst (snd (next rq (m, v))) = m"
  shows "mt_in_flight mt' = mt_in_flight mt"
  using assms(1) assms(2) [of "metrics_started mt" w]
  by (auto simp: track_metrics_def metrics_started_def metrics_finished_def split: prod.splits)

section \<open>The validator of the application\<close>

text \<open>
  BetterAuth for everything, or, when the token checks are configured and their HTTP client (\<open>client\<close>, by its
  timeout) can be built, BetterAuth for cookies and local checks for bearer tokens. The state is a pair in both
  cases; BetterAuth alone does not use the keys.
\<close>

definition beside :: "'a validator \<Rightarrow> ('a \<times> 'b) validator" where
  "beside v = \<lparr>supports_cookie = supports_cookie v, supports_bearer = supports_bearer v,
     validate_session = (\<lambda>cred now (sa, sb). case validate_session v cred now sa of (r, sa') \<Rightarrow> (r, (sa', sb)))\<rparr>"

definition app_validator ::
  "ba_env \<Rightarrow> 'k jwt_env \<Rightarrow> (nat \<Rightarrow> bool) \<Rightarrow> environment \<Rightarrow> gateway_config \<Rightarrow> (session_cache \<times> 'k key_map) validator" where
  "app_validator B E client env c =
     (let ba = ba_validator B (fst (ba_new (gc_betterauth_base_url c) (gc_betterauth_cookie_name c)))
      in case jwt_config_from_env env of
           None \<Rightarrow> beside ba
         | Some jc \<Rightarrow> if client (jc_http_timeout_ms jc) then split_validator ba (jwt_validator E jc (jwt_store E env jc))
                     else beside ba)"

interpretation app_auth: session_validator "app_validator B E client env c" "\<lambda>(sa, _). cache_typed sa"
  for B :: ba_env and E :: "'k jwt_env" and client env c
proof
  let ?ba = "fst (ba_new (gc_betterauth_base_url c) (gc_betterauth_cookie_name c))"
  fix s :: "session_cache \<times> 'k key_map" and cred now p
  assume s: "case s of (sa, _) \<Rightarrow> cache_typed sa"
  then have t: "case s of (sc, sb) \<Rightarrow> cache_typed sc \<and> True" by auto
  show "case snd (validate_session (app_validator B E client env c) cred now s) of (sa, _) \<Rightarrow> cache_typed sa"
    using s betterauth.validate_inv [of "fst s" B ?ba cred now] gateway_auth.split_inv [OF t, of B ?ba]
    by (auto simp: app_validator_def Let_def beside_def split_beta split: option.splits)
  assume "fst (fst (validate_session (app_validator B E client env c) cred now s)) = Inr p"
  then show "auth_method p = cred_method cred"
    using s betterauth.validate_method [of "fst s" B ?ba cred now p] gateway_auth.split_method [OF t, of B ?ba]
    by (auto simp: app_validator_def Let_def beside_def split_beta split: option.splits if_splits)
qed

section \<open>The start of the process\<close>

text \<open>
  What \<^verbatim>\<open>main\<close> comes to: the configuration is refused (exit code 1), building the router panics, the port cannot be
  bound, or the service runs with a gateway. The policy file, the socket and the parts of the gateway that
  come from other crates are parameters; \<open>V\<close> is the validator, \<open>app_validator\<close> for the application.
\<close>

datatype ('v, 's) start_up =
    ExitFailure "config_validation_error list" | PolicyPanic string policy_load_error | OriginPanic | NotBound
  | Serving gateway_config "('v, 's) gateway"

definition allowed_origins :: "ext \<Rightarrow> gateway_config \<Rightarrow> string list option" where
  "allowed_origins X c = those (map (hv_from_str X) (gc_cors_allow_origins c))"

definition load_policy :: "(string \<Rightarrow> (policy_load_error, policy) result) \<Rightarrow> gateway_config \<Rightarrow> (policy_load_error, policy option) result" where
  "load_policy load c = (case gc_policy_file c of None \<Rightarrow> Ok None | Some path \<Rightarrow> try_result (load path) (\<lambda>p. Ok (Some p)))"

definition main ::
  "ext \<Rightarrow> file_system \<Rightarrow> environment \<Rightarrow> (string \<Rightarrow> (policy_load_error, policy) result) \<Rightarrow> (nat \<Rightarrow> bool)
     \<Rightarrow> (gateway_config \<Rightarrow> 'v validator) \<Rightarrow> 's data_plane \<Rightarrow> ('v, 's) start_up" where
  "main X F env load bind V D = (case from_env_validated X F env of
     Inl errors \<Rightarrow> ExitFailure errors
   | Inr c \<Rightarrow> (case load_policy load c of
       Inl e \<Rightarrow> PolicyPanic (unwrap_or [] (gc_policy_file c)) e
     | Inr pol \<Rightarrow> (case allowed_origins X c of
         None \<Rightarrow> OriginPanic
       | Some _ \<Rightarrow> if bind (gc_port c) then Serving c (gateway_of c (V c) D pol) else NotBound)))"

text \<open>
  The process serves only a configuration that passed every check, and then with the policy of the file it names,
  or with no policy when it names none.
\<close>

theorem serves_validated:
  assumes "main X F env load bind (app_validator B E client env) D = Serving c g"
  shows "config_ok X F c \<and> c = config_from_env env \<and> bind (gc_port c)
    \<and> (case gc_policy_file c of None \<Rightarrow> g_policy g = None | Some path \<Rightarrow> \<exists>pol. load path = Ok pol \<and> g_policy g = Some pol)
    \<and> g_auth g = (if gc_auth_enabled c then Some (with_audit (auth_state_with_cookie_name (app_validator B E client env c)
          (gc_betterauth_cookie_name c))) else None)"
  using assms
  by (auto simp: main_def from_env_validated_def config_validate_def Let_def config_errors_Nil result_simps load_policy_def
      gateway_of_def split: if_splits sum.splits option.splits)

text \<open>
  The comment at the CORS layer says that validation makes every origin a header value. Validation asks for a URL
  only, and a URL may hold line breaks, which its parser removes: origins separated by a line break in place of a
  comma pass as one origin, which is no header value, and the process panics.
\<close>

definition header_bytes :: "string \<Rightarrow> bool" where
  "header_bytes s \<longleftrightarrow> list_all (\<lambda>c. c = CHR 0x09 \<or> (32 \<le> (of_char c :: nat) \<and> of_char c \<noteq> (127 :: nat))) s"

definition wit_strict_ext :: ext where
  "wit_strict_ext = wit_url_ext\<lparr>hv_from_str := (\<lambda>s. if header_bytes s then Some s else None)\<rparr>"

definition wit_two_origins :: environment where
  "wit_two_origins = (\<lambda>_. None)(''CORS_ALLOW_ORIGINS'' := Some (''https://a.de'' @ [CHR 0x0A] @ ''https://b.de''))"

lemma valid_origin_panics: "main wit_strict_ext wit_fs wit_two_origins load bind V D = OriginPanic"
proof -
  let ?o = "''https://a.de'' @ [CHR 0x0A] @ ''https://b.de''" and ?c = "config_from_env wit_two_origins"
  have t: "trim ''http://localhost:3000'' \<noteq> []" "trim ?o = ?o" "trim ''csrf_token'' \<noteq> []"
      "trim ''better-auth.session_token'' \<noteq> []" "split_on (CHR '','') ?o = [?o]" "\<not> header_bytes ?o"
    by code_simp+
  have o: "gc_cors_allow_origins ?c = [?o]"
    using t(2,5) by (simp add: config_from_env_def wit_two_origins_def parse_cors_allow_origins_def Let_def)
  have "config_ok wit_strict_ext wit_fs ?c"
    using t(2) unfolding config_ok_def o
    by (simp add: config_from_env_def wit_two_origins_def parse_env_def nonempty_trimmed_def wit_strict_ext_def
        wit_url_ext_def t(1,3,4))
  then have "from_env_validated wit_strict_ext wit_fs wit_two_origins = Ok ?c"
    by (simp add: from_env_validated_def config_validate_def Let_def config_errors_Nil)
  moreover have "gc_policy_file ?c = None"
    by (simp add: config_from_env_def wit_two_origins_def nonempty_trimmed_def)
  moreover have "allowed_origins wit_strict_ext ?c = None"
    using t(6) by (simp add: allowed_origins_def o wit_strict_ext_def)
  ultimately show ?thesis by (simp add: main_def load_policy_def)
qed

end
