(* ===== verification/Cache.thy ===== *)
theory Cache
  imports Prelude Rust_Str
begin

text \<open>
  The optional cache of \<^verbatim>\<open>cache.rs\<close>, a handle on a pool of Redis connections: each operation takes a connection,
  sends one command and reads its reply. The pool and the server are parameters.
\<close>

datatype cache_error = PoolError string | RedisError string

definition cache_error_text :: "cache_error \<Rightarrow> string" where
  "cache_error_text e = (case e of PoolError m \<Rightarrow> ''cache pool error: '' @ m | RedisError m \<Rightarrow> ''redis error: '' @ m)"

text \<open>
  A command is its words. The pool and the typed replies of the server may depend on all commands so far, the
  current one last.
\<close>

type_synonym commands = "string list list"

record redis =
  rd_connect :: "commands \<Rightarrow> (string, unit) result"
  rd_string :: "commands \<Rightarrow> (string, string option) result"
  rd_nat :: "commands \<Rightarrow> (string, nat) result"
  rd_bool :: "commands \<Rightarrow> (string, bool) result"
  rd_int :: "commands \<Rightarrow> (string, int) result"
  rd_unit :: "commands \<Rightarrow> (string, unit) result"

text \<open>The handle from the environment, if the URL is there and \<open>create\<close> can make a pool of it.\<close>

definition rc_new :: "(string \<Rightarrow> (string, 'p) result) \<Rightarrow> string \<Rightarrow> (cache_error, 'p) result" where
  "rc_new create url = map_err RedisError (create url)"

definition rc_from_env :: "(string \<Rightarrow> (string, 'p) result) \<Rightarrow> environment \<Rightarrow> 'p option" where
  "rc_from_env create env = (case env ''REDIS_URL'' of
     Some u \<Rightarrow> if u \<noteq> [] then result_ok (rc_new create u) else None
   | None \<Rightarrow> None)"

definition rc_conn :: "redis \<Rightarrow> commands \<Rightarrow> (cache_error, unit) result" where
  "rc_conn R tr = map_err PoolError (rd_connect R tr)"

text \<open>A connection, a command, and its reply.\<close>

definition command ::
  "redis \<Rightarrow> string list \<Rightarrow> (commands \<Rightarrow> (string, 'a) result) \<Rightarrow> ('a \<Rightarrow> 'b) \<Rightarrow> commands \<Rightarrow> (cache_error, 'b) result \<times> commands" where
  "command R c reply f tr = (case rc_conn R tr of
     Inl e \<Rightarrow> (Err e, tr)
   | Inr _ \<Rightarrow> (try_result (map_err RedisError (reply (tr @ [c]))) (\<lambda>v. Ok (f v)), tr @ [c]))"

definition rc_get :: "redis \<Rightarrow> string \<Rightarrow> commands \<Rightarrow> (cache_error, string option) result \<times> commands" where
  "rc_get R key = command R [''GET'', key] (rd_string R) (\<lambda>v. v)"

text \<open>\<^verbatim>\<open>Duration::as_secs\<close> drops what is below a second.\<close>

definition rc_set :: "redis \<Rightarrow> string \<Rightarrow> string \<Rightarrow> nat \<Rightarrow> commands \<Rightarrow> (cache_error, unit) result \<times> commands" where
  "rc_set R key v ttl_ms = command R [''SET'', key, v, ''EX'', dec_str (ttl_ms div 1000)] (rd_unit R) (\<lambda>v. v)"

definition rc_del :: "redis \<Rightarrow> string \<Rightarrow> commands \<Rightarrow> (cache_error, nat) result \<times> commands" where
  "rc_del R key = command R [''DEL'', key] (rd_nat R) (\<lambda>v. v)"

definition rc_exists :: "redis \<Rightarrow> string \<Rightarrow> commands \<Rightarrow> (cache_error, bool) result \<times> commands" where
  "rc_exists R key = command R [''EXISTS'', key] (rd_bool R) (\<lambda>v. v)"

definition rc_ttl :: "redis \<Rightarrow> string \<Rightarrow> commands \<Rightarrow> (cache_error, int option) result \<times> commands" where
  "rc_ttl R key = command R [''TTL'', key] (rd_int R) (\<lambda>secs. if 0 \<le> secs then Some secs else None)"

definition rc_ping :: "redis \<Rightarrow> commands \<Rightarrow> (cache_error, unit) result \<times> commands" where
  "rc_ping R = command R [''PING''] (rd_unit R) (\<lambda>v. v)"

section \<open>One command at most\<close>

lemma command_cases:
  "command R c reply f tr = (case rd_connect R tr of
     Inl m \<Rightarrow> (Err (PoolError m), tr)
   | Inr _ \<Rightarrow> (case reply (tr @ [c]) of Inl m \<Rightarrow> (Err (RedisError m), tr @ [c]) | Inr v \<Rightarrow> (Ok (f v), tr @ [c])))"
  by (auto simp: command_def rc_conn_def map_err_def try_result_def split: sum.splits)

text \<open>
  An operation that gets no connection sends nothing and fails as the pool did; with a connection it sends its one
  command, whatever comes back.
\<close>

lemma command_sent:
  "snd (command R c reply f tr) = (if is_ok (rd_connect R tr) then tr @ [c] else tr)"
  by (auto simp: command_cases split: sum.splits)

lemma rc_ttl_nonneg: "fst (rc_ttl R key tr) = Ok (Some n) \<Longrightarrow> 0 \<le> n"
  by (auto simp: rc_ttl_def command_cases split: sum.splits if_splits)

lemmas rc_defs = rc_get_def rc_set_def rc_del_def rc_exists_def rc_ttl_def rc_ping_def

lemma rc_sends:
  "snd (rc_get R key tr) = (if is_ok (rd_connect R tr) then tr @ [[''GET'', key]] else tr)"
  "snd (rc_del R key tr) = (if is_ok (rd_connect R tr) then tr @ [[''DEL'', key]] else tr)"
  "snd (rc_exists R key tr) = (if is_ok (rd_connect R tr) then tr @ [[''EXISTS'', key]] else tr)"
  "snd (rc_ttl R key tr) = (if is_ok (rd_connect R tr) then tr @ [[''TTL'', key]] else tr)"
  "snd (rc_ping R tr) = (if is_ok (rd_connect R tr) then tr @ [[''PING'']] else tr)"
  by (simp_all add: rc_defs command_sent)

text \<open>
  A lifetime below one second is sent as zero seconds, which Redis refuses: such a value is never stored.
\<close>

lemma short_ttl_sent_as_zero:
  assumes "is_ok (rd_connect R tr)" "ttl_ms < 1000"
  shows "snd (rc_set R key v ttl_ms tr) = tr @ [[''SET'', key, v, ''EX'', ''0'']]"
proof -
  have "dec_str 0 = ''0''" by code_simp
  then show ?thesis using assms by (simp add: rc_set_def command_sent)
qed

end
