(* ===== verification/Spec2Isabelle.thy ===== *)
theory Spec2Isabelle
  imports Config Tool_Runtime Quickbooks_Import Module_Admin Greenspot Greenbooks_Ledger
    Proxy Tool_Api Dashboard Router Cache
begin

text \<open>
  \<^bold>\<open>The Green Hat gateway.\<close> The repository is an HTTP gateway in Rust
  (\<^verbatim>\<open>src/gateway\<close>): a stack of middleware (rate limit, request validation, CSRF,
  request log, authentication, module access, role-based access) around handlers
  that call other services: a tool router with an allowlist and three levels of
  semaphores, APIs for notes, a CRM (GreenSpot), bookkeeping (GreenBooks), project tracking
  (Exponential) and administration over a REST data plane, an importer of QuickBooks
  exports, proxies to the application behind the gateway and a dashboard over its audit log.
  This development models these parts and proves what makes them correct. The root theory
  holds this overview; every definition and theorem is in the theory of its component.

  \<^bold>\<open>Base.\<close>
  \<^item> \<^verbatim>\<open>Prelude\<close>: results, options, association lists, the collections of facts.
  \<^item> \<^verbatim>\<open>Rust_Str\<close>: the string library on UTF-8 bytes (trimming, splitting, ASCII case,
    numbers as text) and the process environment.
  \<^item> \<^verbatim>\<open>Json_Value\<close>: JSON values as \<^verbatim>\<open>serde_json::Value\<close> has them.
  \<^item> \<^verbatim>\<open>F64\<close>, \<^verbatim>\<open>F64_Value\<close>: binary64 rounding, and values with infinities and the
    not-a-number, their text and the operations on amounts. The locale
    \<open>f64_rounding\<close> is what the limiter relies on; it holds of the code's rounding and of
    exact arithmetic.
  \<^item> \<^verbatim>\<open>Http\<close>: requests, responses, the principal (\<^verbatim>\<open>auth/principal.rs\<close>), structured errors
    (\<^verbatim>\<open>error.rs\<close>), and the record \<open>ext\<close> of the functions of other crates the sources call.

  \<^bold>\<open>Components.\<close>
  \<^item> \<^verbatim>\<open>Rate_Limiter\<close> (\<^verbatim>\<open>middleware/rate_limit.rs\<close>): token buckets. At one instant at most
    the burst is admitted; over a window at most the burst plus the rate; an earned
    token is honoured.
  \<^item> \<^verbatim>\<open>Calendar\<close>, \<^verbatim>\<open>Audit_Log\<close> (\<^verbatim>\<open>audit/\<close>): timestamps, events, redaction and sinks. The date
    algorithm is the Gregorian calendar; emitted bytes are never changed.
  \<^item> \<^verbatim>\<open>Rbac\<close> (\<^verbatim>\<open>rbac/\<close>): policies and the decision engine, characterised exactly.
  \<^item> \<^verbatim>\<open>World\<close>: the state of the request path and the locale \<open>gate\<close>, the contract of a guarding
    middleware, which every layer meets by an interpretation.
  \<^item> \<^verbatim>\<open>Edge_Middleware\<close> (\<^verbatim>\<open>middleware/headers.rs\<close>, \<^verbatim>\<open>validate.rs\<close>, \<^verbatim>\<open>csrf.rs\<close>, the rate-limit
    layer and \<^verbatim>\<open>observability.rs\<close>), \<^verbatim>\<open>Session\<close> (\<^verbatim>\<open>auth/session.rs\<close>), \<^verbatim>\<open>Jwt\<close>
    (\<^verbatim>\<open>auth/jwt.rs\<close>), \<^verbatim>\<open>Access_Middleware\<close> (\<^verbatim>\<open>middleware/auth.rs\<close>, \<^verbatim>\<open>middleware/rbac.rs\<close>, the
    module layer of \<^verbatim>\<open>lib.rs\<close>): each refuses exactly what it should, and a credential is
    accepted only with a justification by the issuer.
  \<^item> \<^verbatim>\<open>Gateway\<close> (\<^verbatim>\<open>lib.rs\<close>, \<^verbatim>\<open>app\<close>): the layers in their order. No handler runs behind a closed
    gate, and a request that every gate admits is served once.
  \<^item> \<^verbatim>\<open>Config\<close> (\<^verbatim>\<open>config.rs\<close>): reading and validating the environment, down to the state the
    request path starts in.
  \<^item> \<^verbatim>\<open>Egress\<close> (\<^verbatim>\<open>egress.rs\<close>): checks before a request leaves, address filters on words, and
    the cap on bodies.
  \<^item> \<^verbatim>\<open>Tool_Args\<close>, \<^verbatim>\<open>Tool_Router\<close>, \<^verbatim>\<open>Tool_Runtime\<close> (\<^verbatim>\<open>tool_router.rs\<close>): the 114 tools, the
    dispatch, and the runtime as a step relation over calls in flight. The locale
    \<open>permit_counter\<close> is interpreted for the queue, the global and the per-tool semaphore; the
    runtime refines counters that never pass their limits, every call ends, and the
    audit trail balances.
  \<^item> \<^verbatim>\<open>Daisy\<close> (\<^verbatim>\<open>daisy.rs\<close>): the notes API as computations over the requests to the data
    plane. Only owners change shares, and a note is shown only to those entitled.
  \<^item> \<^verbatim>\<open>Module_Admin\<close> (\<^verbatim>\<open>lib.rs\<close>, module-access administration): who may grant modules, and
    that what is granted is what the module layer enforces.
  \<^item> \<^verbatim>\<open>Quickbooks_Parse\<close>, \<^verbatim>\<open>Quickbooks_Import\<close> (\<^verbatim>\<open>quickbooks_import.rs\<close>): reading an export and
    writing it to the data plane. A dry run only reads, only balanced entries are posted,
    reports add up, the purge keeps its order, and an import ends. The locale
    \<open>import_relation\<close> carries what a computation does to requests and report, \<open>counted_loop\<close>
    the loops that account for each item; both are interpreted on the importer.

  \<^item> \<^verbatim>\<open>Lib_Plane\<close> (\<^verbatim>\<open>lib.rs\<close>, helpers of the handlers): requests to the data plane with their
    errors, and the locales \<open>confined_api\<close> (every request an API sends is of a given kind) and
    \<open>session_api\<close> (and without a session it sends none); what they give for sequences of
    calls is proved once and interpreted for the four APIs below (\<open>gs\<close>, \<open>gb\<close>, \<open>gl\<close>, \<open>ex\<close>).
  \<^item> \<^verbatim>\<open>Greenspot\<close> (the CRM): all its routes need a session and stay on its tables, and
    pipelines that are written are read back.
  \<^item> \<^verbatim>\<open>Greenbooks\<close>, \<^verbatim>\<open>Greenbooks_Ledger\<close> (bookkeeping): lists, records and reports stay within the
    organisation; a payment is within the balance due and keeps paid and due adding up to the total.
  \<^item> \<^verbatim>\<open>Rich_Text\<close> (\<^verbatim>\<open>rich_text.rs\<close>), \<^verbatim>\<open>Exponential_Tasks\<close>, \<^verbatim>\<open>Exponential_Projects\<close> (project tracking):
    views are those of the caller, an update changes allowed members of one task only, lists
    are bounded, and counts, assignees and permissions are exact.
  \<^item> \<^verbatim>\<open>Proxy\<close>: what is handed on and back; a request is handed on at most once, by the locale
    \<open>hop_guard\<close>, interpreted for the proxies as \<open>guard\<close>.
  \<^item> \<^verbatim>\<open>Tool_Api\<close>: the handlers over the tool router. The synchronous execution of a call is a run of
    the step relation of \<^verbatim>\<open>Tool_Runtime\<close> without contention.
  \<^item> \<^verbatim>\<open>Dashboard\<close>: the sessions it shows partition the events of the audit log.
  \<^item> \<^verbatim>\<open>Router\<close> (\<^verbatim>\<open>lib.rs\<close>, \<^verbatim>\<open>main.rs\<close>, \<^verbatim>\<open>metrics.rs\<close>): the table of all routes, dispatch behind the
    layers, request metrics, the choice of the session validator and the start of the process. No path
    reaches a handler of a module around its gate; only a validated configuration is served.
  \<^item> \<^verbatim>\<open>Cache\<close> (\<^verbatim>\<open>cache.rs\<close>): the Redis handle and the command each operation sends.

  \<^bold>\<open>Parameters and hypotheses.\<close> Code of other crates and services is an argument:
  header, URL and JSON conversions, hashing and hash order, RSA, JWKS, Redis,
  BetterAuth, DNS, the HTTP transport, the data plane, the readers of archives and
  spreadsheets, clocks and fresh identifiers. Replies may depend on everything sent
  before. Where a theorem needs documented behaviour of such a part, it is a named
  hypothesis (\<open>order_sets\<close>: a hash set yields its elements; \<open>grant_plane\<close>: the table of
  grants keeps what is inserted; \<open>plane_answers\<close>: the data plane answers; \<open>matches_paths\<close>: the path
  matcher chooses a registered pattern that matches) and a witness shows that it can hold. The
  HTML cleaner, the exporter of metrics and the pool of Redis connections are parameters too. What
  the framework extracts for a handler (path, typed query, typed body) is an argument of its
  definition.

  \<^bold>\<open>Bounds and termination.\<close> No fuel is used: loops over data are structural recursion
  or recursion with a measure, and the tool runtime is a step relation whose steps are shown to end. Integers keep
  their widths where they matter (words of 8, 32 and 128 bits, parsing with overflow,
  saturating casts).

  \<^bold>\<open>Observations.\<close> Each theory ends with lemmas on behaviour that looks unintended,
  among them: a lower-case bearer scheme avoids the CSRF check of a cookie request; a
  rejected session returns while BetterAuth is down; IPv4-mapped loopback addresses pass
  the egress filter; taking all modules from a user gives them all; a single workbook is
  never imported; amounts that are not numbers count as balanced; a refused payment still
  changes the invoice; an upstream that leads back makes the my-tasks proxy loop; the gauge of
  requests in flight keeps dropped requests; a valid CORS origin can stop the start.

  \<^bold>\<open>Not modelled.\<close> The CORS, tracing and request-id layers of tower and the
  text of log lines, which other crates produce from what is modelled; \<^verbatim>\<open>telemetry.rs\<close>, calls of
  the tracing crates only; the JSON rendering that serde derives for the dashboard and the
  import report; the header \<^verbatim>\<open>Range: 0-0\<close> of counting requests beside the preference that
  makes the data plane count; branches under \<^verbatim>\<open>cfg(test)\<close>; and the
  demonstration \<^verbatim>\<open>mcp-spike\<close>, a program of its own around another SDK.
\<close>

end
